(* ===== verification/Tgpio_Prelude.thy ===== *)
theory Tgpio_Prelude
  imports Main "HOL-Library.Word" "HOL-Library.State_Monad" "HOL-Library.Monad_Syntax"
    "HOL-Library.Signed_Division"
begin

text \<open>
  Shared ground of the development: the C integer types as machine words, the exact
  conditions under which their operations do not wrap (stated over \<open>int\<close>, through
  \<open>uint\<close> for unsigned and \<open>sint\<close> for signed readings), C's truncating signed division,
  the state monad in which stateful C code is written, and a weakest-precondition calculus
  and a frame calculus for it.
\<close>

unbundle bit_operations_syntax

section \<open>C integer types\<close>

type_synonym u32 = "32 word"
type_synonym u64 = "64 word"
type_synonym s64 = "64 word"

abbreviation S64_MAX :: u64 where "S64_MAX \<equiv> 0x7FFFFFFFFFFFFFFF"
abbreviation S64_MIN :: s64 where "S64_MIN \<equiv> 0x8000000000000000"
abbreviation U64_MAX :: u64 where "U64_MAX \<equiv> 0xFFFFFFFFFFFFFFFF"

abbreviation NSEC_PER_SEC :: u64 where "NSEC_PER_SEC \<equiv> 1000000000"
abbreviation NSEC_PER_MSEC :: u64 where "NSEC_PER_MSEC \<equiv> 1000000"

text \<open>C's signed division and remainder round towards zero.\<close>

definition s64_div :: "s64 \<Rightarrow> s64 \<Rightarrow> s64" where
  "s64_div a b = word_of_int (sint a sdiv sint b)"

definition s64_rem :: "s64 \<Rightarrow> s64 \<Rightarrow> s64" where
  "s64_rem a b = word_of_int (sint a smod sint b)"

text \<open>\<open>max_t(s64, a, b)\<close> and the kernel's \<open>DIV_ROUND_CLOSEST_ULL\<close>.\<close>

definition s64_max :: "s64 \<Rightarrow> s64 \<Rightarrow> s64" where
  "s64_max a b = (if b <s a then a else b)"

definition div_round_closest :: "u64 \<Rightarrow> u64 \<Rightarrow> u64" where
  "div_round_closest x d = (x + d div 2) div d"

definition upper_32_bits :: "u64 \<Rightarrow> u32" where
  "upper_32_bits v = ucast (drop_bit 32 v)"

definition lower_32_bits :: "u64 \<Rightarrow> u32" where
  "lower_32_bits v = ucast v"

definition combine_32 :: "u32 \<Rightarrow> u32 \<Rightarrow> u64" where
  "combine_32 hi lo = push_bit 32 (ucast hi) OR ucast lo"

lemma combine_split [simp]: "combine_32 (upper_32_bits v) (lower_32_bits v) = v"
  by (rule bit_word_eqI)
    (auto simp: combine_32_def upper_32_bits_def lower_32_bits_def bit_simps)

lemma upper_combine [simp]: "upper_32_bits (combine_32 hi lo) = hi"
  by (rule bit_word_eqI)
    (auto simp: combine_32_def upper_32_bits_def bit_simps dest: bit_imp_le_length)

lemma lower_combine [simp]: "lower_32_bits (combine_32 hi lo) = lo"
  by (rule bit_word_eqI) (auto simp: combine_32_def lower_32_bits_def bit_simps)

section \<open>When machine arithmetic is exact\<close>

text \<open>
  The collection \<open>exact\<close> gathers the conditional rewrite rules that turn a machine
  operation into the operation on \<open>int\<close>; a component proof adds it to the simplifier
  and is left with the overflow side conditions.
\<close>

named_theorems exact \<open>machine operations that do not wrap, over int\<close>

lemma uint_lt64: "uint (w :: u64) < 18446744073709551616"
  using uint_lt2p [of w] by simp

lemma sint_ge64: "- 9223372036854775808 \<le> sint (w :: s64)"
  using sint_ge [of w] by simp

lemma sint_lt64: "sint (w :: s64) < 9223372036854775808"
  using sint_lt [of w] by simp

lemma uint_add64 [exact]:
  "uint a + uint b < 18446744073709551616 \<Longrightarrow> uint (a + b :: u64) = uint a + uint b"
  using uint_add_lem [of a b] by simp

lemma uint_mult64 [exact]:
  "uint a * uint b < 18446744073709551616 \<Longrightarrow> uint (a * b :: u64) = uint a * uint b"
  using uint_mult_lem [of a b] by simp

lemma uint_sub64 [exact]: "b \<le> a \<Longrightarrow> uint (a - b :: u64) = uint a - uint b"
  using uint_sub_lem [of b a] by (simp add: word_le_def)

lemma s64_wrap_id:
  "- 9223372036854775808 \<le> i \<Longrightarrow> i < 9223372036854775808 \<Longrightarrow> signed_take_bit 63 i = (i :: int)"
  by (rule signed_take_bit_int_eq_self) simp_all

lemma sint_of_int64 [exact]:
  "- 9223372036854775808 \<le> i \<Longrightarrow> i < 9223372036854775808 \<Longrightarrow> sint (word_of_int i :: s64) = i"
  by (simp add: signed_of_int s64_wrap_id)

lemma sint_add64 [exact]:
  "- 9223372036854775808 \<le> sint a + sint b \<Longrightarrow> sint a + sint b < 9223372036854775808
    \<Longrightarrow> sint (a + b :: s64) = sint a + sint b"
  by (simp add: sint_word_add s64_wrap_id)

lemma sint_sub64 [exact]:
  "- 9223372036854775808 \<le> sint a - sint b \<Longrightarrow> sint a - sint b < 9223372036854775808
    \<Longrightarrow> sint (a - b :: s64) = sint a - sint b"
  by (simp add: sint_word_diff s64_wrap_id)

lemma sint_minus64 [exact]:
  "sint a \<noteq> - 9223372036854775808 \<Longrightarrow> sint (- a :: s64) = - sint a"
  using sint_ge64 [of a] sint_lt64 [of a] by (simp add: sint_word_minus s64_wrap_id)

lemma add_overflow64: "(a + b < (a :: u64)) = (18446744073709551616 \<le> uint a + uint b)"
  using uint_lt64 [of b] uint_lt64 [of a] by (auto simp: word_less_def uint_plus_if' not_less)

text \<open>Reading the same 64 bits as signed and as unsigned.\<close>

lemma sint_eq_uint64: "uint (w :: u64) < 9223372036854775808 \<Longrightarrow> sint w = uint w"
  using order_trans [of "- 9223372036854775808" 0 "uint w"]
  by (simp add: sint_uint s64_wrap_id)

lemma uint_eq_sint64: "0 \<le> sint (w :: u64) \<Longrightarrow> uint w = sint w"
proof -
  assume "0 \<le> sint w"
  have "uint w = take_bit 64 (sint w)"
    by (simp add: uint_sint)
  with \<open>0 \<le> sint w\<close> show ?thesis
    using sint_lt64 [of w] by (simp add: take_bit_int_eq_self)
qed

lemma uint_neg_sint64: "sint (w :: u64) < 0 \<Longrightarrow> uint w = sint w + 18446744073709551616"
proof -
  assume neg: "sint w < 0"
  have "uint w = take_bit 64 (sint w)"
    by (simp add: uint_sint)
  also have "\<dots> = (sint w + 18446744073709551616) mod 18446744073709551616"
    by (simp add: take_bit_eq_mod del: mod_add_self2)
      (metis mod_add_self2)
  finally show ?thesis
    using neg sint_ge64 [of w] by (subst (asm) mod_pos_pos_trivial) simp_all
qed

lemma sint_uint_cases64:
  "uint (w :: u64) = (if 0 \<le> sint w then sint w else sint w + 18446744073709551616)"
  by (simp add: uint_eq_sint64 uint_neg_sint64)

lemma le_S64_MAX: "w \<le> S64_MAX \<longleftrightarrow> 0 \<le> sint w"
  using sint_uint_cases64 [of w] sint_ge64 [of w] sint_lt64 [of w]
  by (auto simp: word_le_def split: if_splits)

lemma s64_div_nonneg: "0 \<le> sint a \<Longrightarrow> 0 < sint b \<Longrightarrow> sint (s64_div a b) = sint a div sint b"
proof -
  assume a: "0 \<le> sint a" and b: "0 < sint b"
  have "sint a div sint b \<le> sint a"
    using a b zdiv_mono2 [of "sint a" 1 "sint b"] by simp
  moreover have "0 \<le> sint a div sint b"
    using a b by (simp add: pos_imp_zdiv_nonneg_iff)
  ultimately show ?thesis
    using a b sint_lt64 [of a]
    by (simp add: s64_div_def signed_divide_int_def exact sgn_if)
qed

section \<open>Stateful code: the state monad\<close>

text \<open>
  A C function that reads or writes the driver's state is a value of
  \<open>('s, 'a) state\<close> (HOL-Library's state monad) written in \<open>do\<close> notation.
\<close>

abbreviation ret :: "'a \<Rightarrow> ('s, 'a) state" where "ret \<equiv> State_Monad.return"

definition gets :: "('s \<Rightarrow> 'a) \<Rightarrow> ('s, 'a) state" where
  "gets f = State (\<lambda>s. (f s, s))"

definition modify :: "('s \<Rightarrow> 's) \<Rightarrow> ('s, unit) state" where
  "modify f = State (\<lambda>s. ((), f s))"

definition when_m :: "bool \<Rightarrow> ('s, unit) state \<Rightarrow> ('s, unit) state" where
  "when_m b m = (if b then m else ret ())"

primrec for_each :: "'i list \<Rightarrow> ('i \<Rightarrow> ('s, unit) state) \<Rightarrow> ('s, unit) state" where
  "for_each [] f = ret ()"
| "for_each (i # is) f = do { f i; for_each is f }"

text \<open>
  A loop over an array whose body may return early with an error code: \<open>0\<close> continues.
\<close>

primrec for_each_int :: "'i list \<Rightarrow> ('i \<Rightarrow> ('s, int) state) \<Rightarrow> ('s, int) state" where
  "for_each_int [] f = ret 0"
| "for_each_int (i # is) f = do { r \<leftarrow> f i; if r \<noteq> 0 then ret r else for_each_int is f }"

lemma run_gets [simp]: "run_state (gets f) s = (f s, s)"
  by (simp add: gets_def)

lemma run_modify [simp]: "run_state (modify f) s = ((), f s)"
  by (simp add: modify_def)

lemma run_when_m [simp]: "run_state (when_m b m) s = (if b then run_state m s else ((), s))"
  by (simp add: when_m_def)

abbreviation exec_m :: "('s, 'a) state \<Rightarrow> 's \<Rightarrow> 's" where
  "exec_m m s \<equiv> snd (run_state m s)"

abbreviation result_of :: "('s, 'a) state \<Rightarrow> 's \<Rightarrow> 'a" where
  "result_of m s \<equiv> fst (run_state m s)"

section \<open>Weakest preconditions\<close>

definition wp :: "('s, 'a) state \<Rightarrow> ('a \<Rightarrow> 's \<Rightarrow> bool) \<Rightarrow> 's \<Rightarrow> bool" where
  "wp m Q s = (case run_state m s of (a, s') \<Rightarrow> Q a s')"

named_theorems wp_simps \<open>equations that compute weakest preconditions\<close>

lemma wp_return [wp_simps]: "wp (State_Monad.return a) Q s = Q a s"
  by (simp add: wp_def)

lemma wp_bind [wp_simps]: "wp (State_Monad.bind m f) Q s = wp m (\<lambda>a. wp (f a) Q) s"
  by (simp add: wp_def split: prod.splits)

lemma wp_gets [wp_simps]: "wp (gets f) Q s = Q (f s) s"
  by (simp add: wp_def)

lemma wp_modify [wp_simps]: "wp (modify f) Q s = Q () (f s)"
  by (simp add: wp_def)

lemma wp_when_m [wp_simps]: "wp (when_m b m) Q s = (if b then wp m Q s else Q () s)"
  by (simp add: wp_def)

lemma wp_if [wp_simps]: "wp (if b then m else n) Q s = (if b then wp m Q s else wp n Q s)"
  by simp

lemma wp_case_sum [wp_simps]:
  "wp (case r of Inl e \<Rightarrow> f e | Inr v \<Rightarrow> g v) Q s =
    (case r of Inl e \<Rightarrow> wp (f e) Q s | Inr v \<Rightarrow> wp (g v) Q s)"
  by (simp split: sum.splits)

lemma wp_case_option [wp_simps]:
  "wp (case r of None \<Rightarrow> f | Some v \<Rightarrow> g v) Q s =
    (case r of None \<Rightarrow> wp f Q s | Some v \<Rightarrow> wp (g v) Q s)"
  by (simp split: option.splits)

lemma wp_Let [wp_simps]: "wp (Let a f) Q s = wp (f a) Q s"
  by (simp add: Let_def)

lemma wp_conj: "wp m (\<lambda>r s. P r s \<and> Q r s) s = (wp m P s \<and> wp m Q s)"
  by (simp add: wp_def split: prod.splits)

lemma wp_mono: "wp m P s \<Longrightarrow> (\<And>r t. P r t \<Longrightarrow> Q r t) \<Longrightarrow> wp m Q s"
  by (simp add: wp_def split: prod.splits)

lemma wp_and: "wp m P s \<Longrightarrow> wp m P' s \<Longrightarrow> (\<And>r t. P r t \<Longrightarrow> P' r t \<Longrightarrow> Q r t) \<Longrightarrow> wp m Q s"
  by (simp add: wp_def split: prod.splits)

lemma wpI: "wp m (\<lambda>r t. run_state m s = (r, t) \<longrightarrow> Q r t) s \<Longrightarrow> wp m Q s"
  by (simp add: wp_def split: prod.splits)

lemma wp_run: "wp m Q s \<Longrightarrow> run_state m s = (r, t) \<Longrightarrow> Q r t"
  by (simp add: wp_def)

lemma wp_exec: "wp m (\<lambda>_. Q) s \<Longrightarrow> Q (exec_m m s)"
  by (simp add: wp_def split: prod.splits)

lemma exec_wp: "Q (exec_m m s) \<Longrightarrow> wp m (\<lambda>_. Q) s"
  by (cases "run_state m s") (simp add: wp_def)

lemma wp_trivial [wp_simps]: "wp m (\<lambda>_ _. True) s"
  by (simp add: wp_def split: prod.splits)

lemma wp_any: "(\<And>a t. Q a t) \<Longrightarrow> wp m Q s"
  by (simp add: wp_def split_beta)

lemma wp_trivial_fun [wp_simps]: "wp m (\<lambda>_ _. True) = (\<lambda>_. True)"
  by (simp add: fun_eq_iff wp_trivial)

lemma wp_return_fun: "wp (State_Monad.return a) Q = Q a"
  by (simp add: fun_eq_iff wp_return)

lemma wp_weak_cong: "m = n \<Longrightarrow> s = t \<Longrightarrow> wp m Q s = wp n Q t"
  by simp

lemma wp_unfold: "m = n \<Longrightarrow> wp m Q s = wp n Q s"
  by simp

lemma wp_State: "wp (State f) Q s = (case f s of (a, t) \<Rightarrow> Q a t)"
  by (simp add: wp_def)

section \<open>Frames: parts of the state an operation leaves alone\<close>

definition keeps :: "('s \<Rightarrow> 'b) \<Rightarrow> ('s, 'a) state \<Rightarrow> bool" where
  "keeps f m \<longleftrightarrow> (\<forall>s. f (exec_m m s) = f s)"

named_theorems frame \<open>operations that keep a part of the state\<close>

lemma keepsD: "keeps f m \<Longrightarrow> f (exec_m m s) = f s"
  by (simp add: keeps_def)

lemma keeps_run: "keeps f m \<Longrightarrow> run_state m s = (r, t) \<Longrightarrow> f t = f s"
  by (metis keeps_def snd_conv)

lemma keeps_wp: "keeps f m \<Longrightarrow> P (f s) \<Longrightarrow> wp m (\<lambda>_ t. P (f t)) s"
  by (simp add: keeps_def wp_def split: prod.splits) (metis snd_conv)

lemma wp_keeps: "keeps f m \<Longrightarrow> (\<And>r t. f t = f s \<Longrightarrow> Q r t) \<Longrightarrow> wp m Q s"
  by (simp add: keeps_def wp_def split_beta)

lemma wp_keeps_result: "keeps f m \<Longrightarrow> (\<And>t. f t = f s \<Longrightarrow> Q (result_of m s) t) \<Longrightarrow> wp m Q s"
  by (simp add: keeps_def wp_def split_beta)

lemma keeps_return [frame]: "keeps f (State_Monad.return a)"
  by (simp add: keeps_def)

lemma keeps_bind [frame]:
  "keeps f m \<Longrightarrow> (\<And>a. keeps f (g a)) \<Longrightarrow> keeps f (State_Monad.bind m g)"
  by (auto simp: keeps_def split: prod.splits) (metis snd_conv)

lemma keeps_gets [frame]: "keeps f (gets g)"
  by (simp add: keeps_def)

lemma keeps_modify [frame]: "(\<And>s. f (g s) = f s) \<Longrightarrow> keeps f (modify g)"
  by (simp add: keeps_def)

lemma keeps_when_m [frame]: "keeps f m \<Longrightarrow> keeps f (when_m b m)"
  by (simp add: keeps_def)

lemma keeps_if [frame]: "keeps f m \<Longrightarrow> keeps f n \<Longrightarrow> keeps f (if b then m else n)"
  by simp

lemma keeps_case_sum [frame]:
  "(\<And>e. keeps f (g e)) \<Longrightarrow> (\<And>v. keeps f (h v))
    \<Longrightarrow> keeps f (case r of Inl e \<Rightarrow> g e | Inr v \<Rightarrow> h v)"
  by (simp split: sum.splits)

lemma keeps_case_option [frame]:
  "keeps f g \<Longrightarrow> (\<And>v. keeps f (h v))
    \<Longrightarrow> keeps f (case r of None \<Rightarrow> g | Some v \<Rightarrow> h v)"
  by (simp split: option.splits)

lemma keeps_Let [frame]: "(\<And>a. keeps f (g a)) \<Longrightarrow> keeps f (Let b g)"
  by (simp add: Let_def)

lemma keeps_for_each [frame]: "(\<And>i. keeps f (g i)) \<Longrightarrow> keeps f (for_each is g)"
  by (induction "is") (auto intro!: frame)

lemma keeps_for_each_int [frame]: "(\<And>i. keeps f (g i)) \<Longrightarrow> keeps f (for_each_int is g)"
  by (induction "is") (auto intro!: frame)

end
