(* ===== verification/Tgpio_Types.thy ===== *)
theory Tgpio_Types
  imports Tgpio_Prelude
begin

text \<open>
  The value types of the Linux driver \<open>src/src/tgpio-ptp-input.c\<close>: its enums as
  datatypes with the source's constructors, the status code ordered by its errno value, the
  register map and control bits, the string parsers of the module parameters, and the pure
  helpers on control words, edges and duty times.
\<close>

section \<open>Register map and constants\<close>

abbreviation TGPIOCTL :: u32 where "TGPIOCTL \<equiv> 0x00"
abbreviation TGPIOCOMPV31_0 :: u32 where "TGPIOCOMPV31_0 \<equiv> 0x10"
abbreviation TGPIOCOMPV63_32 :: u32 where "TGPIOCOMPV63_32 \<equiv> 0x14"
abbreviation TGPIOPIV31_0 :: u32 where "TGPIOPIV31_0 \<equiv> 0x18"
abbreviation TGPIOPIV63_32 :: u32 where "TGPIOPIV63_32 \<equiv> 0x1c"
abbreviation TGPIOTCV31_0 :: u32 where "TGPIOTCV31_0 \<equiv> 0x20"
abbreviation TGPIOTCV63_32 :: u32 where "TGPIOTCV63_32 \<equiv> 0x24"
abbreviation TGPIOECCV31_0 :: u32 where "TGPIOECCV31_0 \<equiv> 0x28"
abbreviation TGPIOECCV63_32 :: u32 where "TGPIOECCV63_32 \<equiv> 0x2c"

abbreviation TGPIOCTL_EN :: u32 where "TGPIOCTL_EN \<equiv> 1"
abbreviation TGPIOCTL_DIR :: u32 where "TGPIOCTL_DIR \<equiv> 2"
abbreviation TGPIOCTL_EP :: u32 where "TGPIOCTL_EP \<equiv> 12"
abbreviation TGPIOCTL_EP_RISING :: u32 where "TGPIOCTL_EP_RISING \<equiv> 0"
abbreviation TGPIOCTL_EP_FALLING :: u32 where "TGPIOCTL_EP_FALLING \<equiv> 4"
abbreviation TGPIOCTL_EP_TOGGLE :: u32 where "TGPIOCTL_EP_TOGGLE \<equiv> 8"
abbreviation TGPIOCTL_PM :: u32 where "TGPIOCTL_PM \<equiv> 16"

abbreviation TGPIO_ART_HW_DELAY_CYCLES :: u64 where "TGPIO_ART_HW_DELAY_CYCLES \<equiv> 2"
abbreviation TGPIO_OUTPUT_SAFE_TIME_NS :: u64 where "TGPIO_OUTPUT_SAFE_TIME_NS \<equiv> 20000000"
abbreviation TGPIO_HW_DUTY_MIN_HALF_NS :: u64 where "TGPIO_HW_DUTY_MIN_HALF_NS \<equiv> 50000000"
abbreviation TGPIO_HW_DUTY_SERVICE_DELAY_NS :: u64 where
  "TGPIO_HW_DUTY_SERVICE_DELAY_NS \<equiv> 10000000"
abbreviation TGPIO_PHC_MAX_ADJ_PPB :: s64 where "TGPIO_PHC_MAX_ADJ_PPB \<equiv> 100000000"
abbreviation TGPIO_MIN_POLL_MS :: u32 where "TGPIO_MIN_POLL_MS \<equiv> 1"
abbreviation TGPIO_MIN_MMIO_SIZE :: u32 where "TGPIO_MIN_MMIO_SIZE \<equiv> 0x38"
abbreviation TGPIO_INPUT_DESIRED_ON :: u32 where "TGPIO_INPUT_DESIRED_ON \<equiv> 2"

abbreviation PTP_ENABLE_FEATURE :: u32 where "PTP_ENABLE_FEATURE \<equiv> 1"
abbreviation PTP_RISING_EDGE :: u32 where "PTP_RISING_EDGE \<equiv> 2"
abbreviation PTP_FALLING_EDGE :: u32 where "PTP_FALLING_EDGE \<equiv> 4"
abbreviation PTP_STRICT_FLAGS :: u32 where "PTP_STRICT_FLAGS \<equiv> 8"
abbreviation PTP_PEROUT_DUTY_CYCLE :: u32 where "PTP_PEROUT_DUTY_CYCLE \<equiv> 2"

text \<open>Linux error numbers.\<close>

abbreviation ENOMEM :: int where "ENOMEM \<equiv> 12"
abbreviation EBUSY :: int where "EBUSY \<equiv> 16"
abbreviation ENODEV :: int where "ENODEV \<equiv> 19"
abbreviation EINVAL :: int where "EINVAL \<equiv> 22"
abbreviation ERANGE :: int where "ERANGE \<equiv> 34"
abbreviation EOVERFLOW :: int where "EOVERFLOW \<equiv> 75"
abbreviation EOPNOTSUPP :: int where "EOPNOTSUPP \<equiv> 95"

section \<open>Enumerations\<close>

datatype tgpio_mode = TGPIO_MODE_OFF | TGPIO_MODE_INPUT | TGPIO_MODE_OUTPUT
datatype tgpio_timestamp_mode = TGPIO_TIMESTAMP_REALTIME | TGPIO_TIMESTAMP_ART
datatype tgpio_clock_mode = TGPIO_CLOCK_REALTIME | TGPIO_CLOCK_PHC | TGPIO_CLOCK_ART
datatype tgpio_output_phase =
    TGPIO_OUTPUT_ARM_PERIODIC
  | TGPIO_OUTPUT_HARDWARE_PERIODIC
  | TGPIO_OUTPUT_HW_DUTY
  | TGPIO_OUTPUT_FIRST_RISING
  | TGPIO_OUTPUT_TOGGLE
datatype tgpio_output_polarity = TGPIO_OUTPUT_NORMAL | TGPIO_OUTPUT_INVERTED
datatype tgpio_capture_state = TGPIO_CAPTURE_OFF | TGPIO_CAPTURE_ON
datatype tgpio_output_run = TGPIO_OUTPUT_STOPPED | TGPIO_OUTPUT_RUNNING
datatype tgpio_logical_edge = TGPIO_EDGE_FALL | TGPIO_EDGE_RISE
datatype tgpio_support = TGPIO_UNSUPPORTED | TGPIO_SUPPORTED
datatype tgpio_requirement = TGPIO_NOT_REQUIRED | TGPIO_REQUIRED
datatype tgpio_output_mode = TGPIO_OUTPUT_SOFTWARE | TGPIO_OUTPUT_HARDWARE
datatype ptp_pin_function = PTP_PF_NONE | PTP_PF_EXTTS | PTP_PF_PEROUT | PTP_PF_PHYSYNC

datatype tgpio_status =
  TGPIO_OK | TGPIO_FALLBACK | TGPIO_E_INVAL | TGPIO_E_RANGE | TGPIO_E_NODEV

text \<open>The value of a status is the errno itself: negative for an error.\<close>

primrec status_code :: "tgpio_status \<Rightarrow> int" where
  "status_code TGPIO_OK = 0"
| "status_code TGPIO_FALLBACK = 1"
| "status_code TGPIO_E_INVAL = - EINVAL"
| "status_code TGPIO_E_RANGE = - ERANGE"
| "status_code TGPIO_E_NODEV = - ENODEV"

lemma status_code_inj: "status_code a = status_code b \<Longrightarrow> a = b"
  by (cases a; cases b) simp_all

instantiation tgpio_status :: linorder
begin

definition less_eq_tgpio_status :: "tgpio_status \<Rightarrow> tgpio_status \<Rightarrow> bool" where
  "less_eq_tgpio_status a b \<longleftrightarrow> status_code a \<le> status_code b"

definition less_tgpio_status :: "tgpio_status \<Rightarrow> tgpio_status \<Rightarrow> bool" where
  "less_tgpio_status a b \<longleftrightarrow> status_code a < status_code b"

instance
  by standard
    (auto simp: less_eq_tgpio_status_def less_tgpio_status_def intro: status_code_inj)

end

text \<open>
  The result structs \<open>tgpio_s64_result\<close>, \<open>tgpio_u64_result\<close> and \<open>tgpio_ns_result\<close>: a
  status and a value that is meaningful when the status is \<open>TGPIO_OK\<close> and 0 otherwise. No
  code constructs a usable result with another status, so a result is an error status or a
  value.
\<close>

type_synonym 'a tgpio_result = "tgpio_status + 'a"

abbreviation tgpio_ok :: "'a \<Rightarrow> 'a tgpio_result" where "tgpio_ok \<equiv> Inr"
abbreviation tgpio_err :: "tgpio_status \<Rightarrow> 'a tgpio_result" where "tgpio_err \<equiv> Inl"

section \<open>Names and parsers of the module parameters\<close>

text \<open>The kernel's \<open>sysfs_streq\<close>: equality up to one trailing newline on either side.\<close>

definition sysfs_streq :: "string \<Rightarrow> string \<Rightarrow> bool" where
  "sysfs_streq s t \<longleftrightarrow> s = t \<or> t = s @ [CHR 10] \<or> s = t @ [CHR 10]"

primrec tgpio_mode_name :: "tgpio_mode \<Rightarrow> string" where
  "tgpio_mode_name TGPIO_MODE_INPUT = ''input''"
| "tgpio_mode_name TGPIO_MODE_OUTPUT = ''output''"
| "tgpio_mode_name TGPIO_MODE_OFF = ''off''"

definition tgpio_edge_bits_name :: "u32 \<Rightarrow> string" where
  "tgpio_edge_bits_name edge_bits =
    (let ep = edge_bits AND TGPIOCTL_EP in
     if ep = TGPIOCTL_EP_RISING then ''rising''
     else if ep = TGPIOCTL_EP_FALLING then ''falling''
     else if ep = TGPIOCTL_EP_TOGGLE then ''both''
     else ''unknown'')"

definition tgpio_parse_mode :: "string \<Rightarrow> tgpio_mode tgpio_result" where
  "tgpio_parse_mode value =
    (if sysfs_streq value ''input'' \<or> sysfs_streq value ''in'' then tgpio_ok TGPIO_MODE_INPUT
     else if sysfs_streq value ''output'' \<or> sysfs_streq value ''out'' \<or> sysfs_streq value ''pps''
       then tgpio_ok TGPIO_MODE_OUTPUT
     else if sysfs_streq value ''off'' \<or> sysfs_streq value ''none'' \<or>
         sysfs_streq value ''disable'' \<or> sysfs_streq value ''disabled''
       then tgpio_ok TGPIO_MODE_OFF
     else tgpio_err TGPIO_E_INVAL)"

definition tgpio_parse_edge :: "string \<Rightarrow> u32 tgpio_result" where
  "tgpio_parse_edge value =
    (if sysfs_streq value ''rising'' \<or> sysfs_streq value ''rise'' then tgpio_ok TGPIOCTL_EP_RISING
     else if sysfs_streq value ''falling'' \<or> sysfs_streq value ''fall''
       then tgpio_ok TGPIOCTL_EP_FALLING
     else if sysfs_streq value ''both'' \<or> sysfs_streq value ''toggle'' \<or> sysfs_streq value ''all''
       then tgpio_ok TGPIOCTL_EP_TOGGLE
     else tgpio_err TGPIO_E_INVAL)"

primrec tgpio_clock_mode_name :: "tgpio_clock_mode \<Rightarrow> string" where
  "tgpio_clock_mode_name TGPIO_CLOCK_REALTIME = ''realtime''"
| "tgpio_clock_mode_name TGPIO_CLOCK_PHC = ''phc''"
| "tgpio_clock_mode_name TGPIO_CLOCK_ART = ''art''"

definition tgpio_parse_clock_mode :: "string \<Rightarrow> tgpio_clock_mode tgpio_result" where
  "tgpio_parse_clock_mode value =
    (if sysfs_streq value ''realtime'' \<or> sysfs_streq value ''clock_realtime'' \<or>
        sysfs_streq value ''real'' then tgpio_ok TGPIO_CLOCK_REALTIME
     else if sysfs_streq value ''phc'' \<or> sysfs_streq value ''adjustable'' \<or>
        sysfs_streq value ''adjusted'' then tgpio_ok TGPIO_CLOCK_PHC
     else if sysfs_streq value ''art'' \<or> sysfs_streq value ''raw'' \<or>
        sysfs_streq value ''monotonic_raw'' then tgpio_ok TGPIO_CLOCK_ART
     else tgpio_err TGPIO_E_INVAL)"

primrec tgpio_timestamp_mode_name :: "tgpio_timestamp_mode \<Rightarrow> string" where
  "tgpio_timestamp_mode_name TGPIO_TIMESTAMP_REALTIME = ''realtime''"
| "tgpio_timestamp_mode_name TGPIO_TIMESTAMP_ART = ''art''"

definition tgpio_parse_timestamp_mode :: "string \<Rightarrow> tgpio_timestamp_mode tgpio_result" where
  "tgpio_parse_timestamp_mode value =
    (if sysfs_streq value ''realtime'' \<or> sysfs_streq value ''clock_realtime'' \<or>
        sysfs_streq value ''real'' then tgpio_ok TGPIO_TIMESTAMP_REALTIME
     else if sysfs_streq value ''art'' \<or> sysfs_streq value ''raw''
       then tgpio_ok TGPIO_TIMESTAMP_ART
     else tgpio_err TGPIO_E_INVAL)"

primrec tgpio_output_polarity_name :: "tgpio_output_polarity \<Rightarrow> string" where
  "tgpio_output_polarity_name TGPIO_OUTPUT_NORMAL = ''normal''"
| "tgpio_output_polarity_name TGPIO_OUTPUT_INVERTED = ''inverted''"

definition tgpio_parse_output_polarity :: "string \<Rightarrow> tgpio_output_polarity tgpio_result" where
  "tgpio_parse_output_polarity value =
    (if sysfs_streq value ''normal'' \<or> sysfs_streq value ''active_high''
       then tgpio_ok TGPIO_OUTPUT_NORMAL
     else if sysfs_streq value ''inverted'' \<or> sysfs_streq value ''invert'' \<or>
        sysfs_streq value ''active_low'' then tgpio_ok TGPIO_OUTPUT_INVERTED
     else tgpio_err TGPIO_E_INVAL)"

primrec tgpio_output_mode_name :: "tgpio_output_mode \<Rightarrow> string" where
  "tgpio_output_mode_name TGPIO_OUTPUT_SOFTWARE = ''software''"
| "tgpio_output_mode_name TGPIO_OUTPUT_HARDWARE = ''hardware''"

section \<open>Control words and edges\<close>

definition tgpio_output_edge_bits :: "tgpio_output_polarity \<Rightarrow> tgpio_logical_edge \<Rightarrow> u32" where
  "tgpio_output_edge_bits output_polarity edge =
    (let inverted = (if edge = TGPIO_EDGE_RISE then TGPIO_EDGE_FALL else TGPIO_EDGE_RISE);
         program = (if output_polarity = TGPIO_OUTPUT_INVERTED then edge else inverted)
     in if program = TGPIO_EDGE_RISE then TGPIOCTL_EP_RISING else TGPIOCTL_EP_FALLING)"

definition tgpio_ctl_with :: "u32 \<Rightarrow> u32 \<Rightarrow> u32" where
  "tgpio_ctl_with ctrl bits = ctrl OR bits"

definition tgpio_ctl_without :: "u32 \<Rightarrow> u32 \<Rightarrow> u32" where
  "tgpio_ctl_without ctrl bits = ctrl AND NOT bits"

definition tgpio_ctl_with_edge :: "u32 \<Rightarrow> u32 \<Rightarrow> u32" where
  "tgpio_ctl_with_edge ctrl edge_bits = (ctrl AND NOT TGPIOCTL_EP) OR edge_bits"

text \<open>\<open>default_bits\<close> is the block's \<open>input_edge_bits\<close>, from the module parameter.\<close>

definition tgpio_input_edge_bits :: "u32 \<Rightarrow> u32 \<Rightarrow> u32" where
  "tgpio_input_edge_bits default_bits flags =
    (let rising = flags AND PTP_RISING_EDGE; falling = flags AND PTP_FALLING_EDGE in
     if rising = 0 \<and> falling = 0 then default_bits
     else if rising \<noteq> 0 \<and> falling = 0 then TGPIOCTL_EP_RISING
     else if rising = 0 \<and> falling \<noteq> 0 then TGPIOCTL_EP_FALLING
     else TGPIOCTL_EP_TOGGLE)"

definition tgpio_output_opposite_edge :: "tgpio_logical_edge \<Rightarrow> tgpio_logical_edge" where
  "tgpio_output_opposite_edge edge =
    (if edge = TGPIO_EDGE_RISE then TGPIO_EDGE_FALL else TGPIO_EDGE_RISE)"

text \<open>The packed input configuration: the ON bit and the edge bits share one word.\<close>

definition tgpio_input_desired :: "tgpio_capture_state \<Rightarrow> u32 \<Rightarrow> u32" where
  "tgpio_input_desired state edge_bits =
    (if state = TGPIO_CAPTURE_ON then TGPIO_INPUT_DESIRED_ON else 0) OR edge_bits"

definition tgpio_input_desired_state :: "u32 \<Rightarrow> tgpio_capture_state" where
  "tgpio_input_desired_state desired =
    (if desired AND TGPIO_INPUT_DESIRED_ON \<noteq> 0 then TGPIO_CAPTURE_ON else TGPIO_CAPTURE_OFF)"

definition tgpio_input_desired_edge :: "u32 \<Rightarrow> u32" where
  "tgpio_input_desired_edge desired = desired AND TGPIOCTL_EP"

section \<open>Duty times\<close>

record tgpio_output_times =
  tm_period_ns :: u64
  tm_high_time_ns :: u64
  tm_low_time_ns :: u64

definition tgpio_output_times_get :: "u64 \<Rightarrow> u64 \<Rightarrow> bool \<Rightarrow> tgpio_output_times tgpio_result" where
  "tgpio_output_times_get period_ns duty_ns duty_valid =
    (if period_ns = 0 then tgpio_err TGPIO_E_INVAL
     else if S64_MAX < period_ns then tgpio_err TGPIO_E_RANGE
     else let high_time_ns = (if duty_valid then duty_ns else period_ns div 2) in
       if high_time_ns = 0 \<or> period_ns \<le> high_time_ns then tgpio_err TGPIO_E_INVAL
       else let low_time_ns = period_ns - high_time_ns in
         if low_time_ns = 0 \<or> S64_MAX < low_time_ns then tgpio_err TGPIO_E_RANGE
         else tgpio_ok \<lparr>tm_period_ns = period_ns, tm_high_time_ns = high_time_ns,
                tm_low_time_ns = low_time_ns\<rparr>)"

definition tgpio_output_min_interval_ns :: "u64 \<Rightarrow> u64 \<Rightarrow> u64" where
  "tgpio_output_min_interval_ns high_time_ns low_time_ns = min high_time_ns low_time_ns"

definition tgpio_output_can_use_hardware :: "tgpio_output_times \<Rightarrow> bool" where
  "tgpio_output_can_use_hardware tms \<longleftrightarrow>
    tm_high_time_ns tms = tm_low_time_ns tms \<or>
    TGPIO_HW_DUTY_MIN_HALF_NS \<le> min (tm_high_time_ns tms) (tm_low_time_ns tms)"

definition tgpio_supported_perout_flags :: u32 where
  "tgpio_supported_perout_flags = 0 OR PTP_PEROUT_DUTY_CYCLE"

definition tgpio_output_lead_time_ns :: "u64 \<Rightarrow> u64" where
  "tgpio_output_lead_time_ns interval_ns =
    (let lead = min TGPIO_OUTPUT_SAFE_TIME_NS (interval_ns div 4)
     in if lead = 0 then 1 else lead)"

section \<open>Lemmas\<close>

lemma word_bit_test: "(w AND 2 ^ n \<noteq> 0) = bit (w :: 'a::len word) n"
  by (simp add: and_exp_eq_0_iff_not_bit)

lemma output_times_get_ok:
  assumes "tgpio_output_times_get p d v = Inr t"
  shows "tm_period_ns t = p \<and> uint (tm_high_time_ns t) + uint (tm_low_time_ns t) = uint p
    \<and> 0 < uint (tm_high_time_ns t) \<and> 0 < uint (tm_low_time_ns t) \<and> uint p \<le> uint S64_MAX"
proof -
  have pos: "0 < uint w" if "w \<noteq> 0" for w :: u64
    using that by (metis uint_0_iff uint_ge_0 order_le_less)
  show ?thesis
    using assms
    by (auto simp: tgpio_output_times_get_def Let_def not_less not_le exact word_le_def
        word_less_def pos split: if_splits)
qed

end
