(* ===== verification/Clock_Math.thy ===== *)
theory Clock_Math
  imports Tgpio_Types
begin

text \<open>
  The value layer of the driver: conversions between ART cycles, PHC nanoseconds and
  realtime nanoseconds, without MMIO and without state. The C functions are translated on
  64-bit words; each is then proved equal to a reference function on mathematical integers,
  which is what the later theories reason with.
\<close>

section \<open>Rescaling a count between two rates\<close>

definition tgpio_rescale_common :: "u64 \<Rightarrow> u64 \<Rightarrow> u64 \<Rightarrow> bool \<Rightarrow> u64 tgpio_result" where
  "tgpio_rescale_common count src_hz dst_hz round_nearest =
    (if src_hz = 0 \<or> dst_hz = 0 then tgpio_err TGPIO_E_NODEV
     else let seconds = count div src_hz; sub_second = count mod src_hz in
       if S64_MAX div dst_hz < seconds then tgpio_err TGPIO_E_RANGE
       else
         let result = seconds * dst_hz;
             scaled = (sub_second * dst_hz) div src_hz;
             remainder = (sub_second * dst_hz) mod src_hz;
             scaled_sub = (if round_nearest \<and> src_hz - remainder \<le> remainder
                           then scaled + 1 else scaled)
         in if S64_MAX - result < scaled_sub then tgpio_err TGPIO_E_RANGE
            else tgpio_ok (result + scaled_sub))"

definition tgpio_rescale :: "u64 \<Rightarrow> u64 \<Rightarrow> u64 \<Rightarrow> u64 tgpio_result" where
  "tgpio_rescale count src_hz dst_hz = tgpio_rescale_common count src_hz dst_hz False"

definition tgpio_rescale_nearest :: "u64 \<Rightarrow> u64 \<Rightarrow> u64 \<Rightarrow> u64 tgpio_result" where
  "tgpio_rescale_nearest count src_hz dst_hz = tgpio_rescale_common count src_hz dst_hz True"

text \<open>The argument \<open>art_frequency\<close> is the module parameter the C function reads once.\<close>

definition tgpio_cycles_to_ns :: "u64 \<Rightarrow> u64 \<Rightarrow> u64 tgpio_result" where
  "tgpio_cycles_to_ns art_frequency cycles = tgpio_rescale cycles art_frequency NSEC_PER_SEC"

definition tgpio_art_to_ns :: "u64 \<Rightarrow> u64 \<Rightarrow> u64" where
  "tgpio_art_to_ns art_frequency art =
    (case tgpio_cycles_to_ns art_frequency art of Inl e \<Rightarrow> 0 | Inr ns \<Rightarrow> ns)"

section \<open>Signed helpers\<close>

definition tgpio_abs_s64 :: "s64 \<Rightarrow> u64" where
  "tgpio_abs_s64 value = (if value <s 0 then - (value + 1) + 1 else value)"

definition tgpio_add_s64 :: "s64 \<Rightarrow> s64 \<Rightarrow> s64 tgpio_result" where
  "tgpio_add_s64 lhs rhs =
    (if 0 <s rhs \<and> S64_MAX - rhs <s lhs then tgpio_err TGPIO_E_RANGE
     else if rhs <s 0 \<and> lhs <s S64_MIN - rhs then tgpio_err TGPIO_E_RANGE
     else tgpio_ok (lhs + rhs))"

definition tgpio_cycles_delta_to_ns :: "s64 \<Rightarrow> u64 \<Rightarrow> bool \<Rightarrow> s64 tgpio_result" where
  "tgpio_cycles_delta_to_ns cycles cycles_per_sec round_nearest =
    (case (if round_nearest
           then tgpio_rescale_nearest (tgpio_abs_s64 cycles) cycles_per_sec NSEC_PER_SEC
           else tgpio_rescale (tgpio_abs_s64 cycles) cycles_per_sec NSEC_PER_SEC) of
       Inl e \<Rightarrow> tgpio_err e
     | Inr ns \<Rightarrow>
         if S64_MAX < ns then tgpio_err TGPIO_E_RANGE
         else tgpio_ok (if cycles <s 0 then - ns else ns))"

definition tgpio_ns_delta_to_cycles :: "s64 \<Rightarrow> u64 \<Rightarrow> bool \<Rightarrow> s64 tgpio_result" where
  "tgpio_ns_delta_to_cycles ns cycles_per_sec round_nearest =
    (case (if round_nearest
           then tgpio_rescale_nearest (tgpio_abs_s64 ns) NSEC_PER_SEC cycles_per_sec
           else tgpio_rescale (tgpio_abs_s64 ns) NSEC_PER_SEC cycles_per_sec) of
       Inl e \<Rightarrow> tgpio_err e
     | Inr cycles \<Rightarrow>
         if S64_MAX < cycles then tgpio_err TGPIO_E_RANGE
         else tgpio_ok (if ns <s 0 then - cycles else cycles))"

section \<open>Rate adjustment\<close>

definition tgpio_scaled_ppm_to_ppb :: "s64 \<Rightarrow> s64" where
  "tgpio_scaled_ppm_to_ppb scaled_ppm =
    (if s64_div S64_MAX 1000 <s scaled_ppm then S64_MAX
     else if scaled_ppm <s s64_div S64_MIN 1000 then S64_MIN
     else s64_div (scaled_ppm * 1000) 65536)"

definition tgpio_apply_ppb_to_ns :: "s64 \<Rightarrow> s64 \<Rightarrow> s64" where
  "tgpio_apply_ppb_to_ns ns ppb =
    (let abs_ns = tgpio_abs_s64 ns; abs_ppb = tgpio_abs_s64 ppb in
     if ns = 0 \<or> ppb = 0 then 0
     else
       let seconds = abs_ns div NSEC_PER_SEC;
           rem = abs_ns mod NSEC_PER_SEC;
           correction = seconds * abs_ppb + (rem * abs_ppb) div NSEC_PER_SEC;
           correction' = (if S64_MAX < correction then S64_MAX else correction)
       in if (ns <s 0) \<noteq> (ppb <s 0) then - correction' else correction')"

definition tgpio_phc_base_to_adjusted_delta :: "s64 \<Rightarrow> s64 \<Rightarrow> s64 tgpio_result" where
  "tgpio_phc_base_to_adjusted_delta base_ns ppb =
    tgpio_add_s64 base_ns (tgpio_apply_ppb_to_ns base_ns ppb)"

definition tgpio_phc_adjusted_to_base_delta :: "s64 \<Rightarrow> s64 \<Rightarrow> s64 tgpio_result" where
  "tgpio_phc_adjusted_to_base_delta adjusted_ns ppb =
    (let abs_adjusted = tgpio_abs_s64 adjusted_ns;
         denominator = NSEC_PER_SEC + ppb in
     if denominator \<le>s 0 then tgpio_err TGPIO_E_RANGE
     else
       let quotient = abs_adjusted div denominator; rem = abs_adjusted mod denominator in
       if S64_MAX div NSEC_PER_SEC < quotient then tgpio_err TGPIO_E_RANGE
       else
         let abs_base = quotient * NSEC_PER_SEC + (rem * NSEC_PER_SEC) div denominator in
         if S64_MAX < abs_base then tgpio_err TGPIO_E_RANGE
         else tgpio_ok (if adjusted_ns <s 0 then - abs_base else abs_base))"

section \<open>The PHC clock model\<close>

record tgpio_phc_params =
  anchor_art :: u64
  anchor_ns :: s64
  base_art_hz :: u64
  scaled_ppm :: s64

definition tgpio_phc_params_make :: "u64 \<Rightarrow> s64 \<Rightarrow> u64 \<Rightarrow> s64 \<Rightarrow> tgpio_phc_params" where
  "tgpio_phc_params_make art ns hz ppm =
    \<lparr>anchor_art = art, anchor_ns = ns, base_art_hz = hz, scaled_ppm = ppm\<rparr>"

definition tgpio_phc_art_to_ns :: "tgpio_phc_params \<Rightarrow> u64 \<Rightarrow> s64 tgpio_result" where
  "tgpio_phc_art_to_ns phc art =
    (if anchor_art phc \<le> art \<and> S64_MAX < art - anchor_art phc then tgpio_err TGPIO_E_RANGE
     else if art < anchor_art phc \<and> S64_MAX < anchor_art phc - art then tgpio_err TGPIO_E_RANGE
     else
       let cycles_delta =
             (if anchor_art phc \<le> art then art - anchor_art phc else - (anchor_art phc - art))
       in case tgpio_cycles_delta_to_ns cycles_delta (base_art_hz phc) False of
            Inl e \<Rightarrow> tgpio_err e
          | Inr base \<Rightarrow>
              (case tgpio_phc_base_to_adjusted_delta base
                      (tgpio_scaled_ppm_to_ppb (scaled_ppm phc)) of
                 Inl e \<Rightarrow> tgpio_err e
               | Inr adjusted \<Rightarrow> tgpio_add_s64 (anchor_ns phc) adjusted))"

definition tgpio_phc_ns_to_art :: "tgpio_phc_params \<Rightarrow> s64 \<Rightarrow> u64 tgpio_result" where
  "tgpio_phc_ns_to_art phc phc_ns =
    (case tgpio_add_s64 phc_ns (- anchor_ns phc) of
       Inl e \<Rightarrow> tgpio_err e
     | Inr phc_delta \<Rightarrow>
        (case tgpio_phc_adjusted_to_base_delta phc_delta
                (tgpio_scaled_ppm_to_ppb (scaled_ppm phc)) of
           Inl e \<Rightarrow> tgpio_err e
         | Inr base_delta \<Rightarrow>
            (case tgpio_ns_delta_to_cycles base_delta (base_art_hz phc) True of
               Inl e \<Rightarrow> tgpio_err e
             | Inr cycles \<Rightarrow>
                 if 0 \<le>s cycles then
                   let art = anchor_art phc + cycles in
                   if art < anchor_art phc then tgpio_err TGPIO_E_RANGE else tgpio_ok art
                 else if anchor_art phc < tgpio_abs_s64 cycles then tgpio_err TGPIO_E_RANGE
                 else tgpio_ok (anchor_art phc - tgpio_abs_s64 cycles))))"

definition tgpio_phc_delta_to_real_ns :: "tgpio_phc_params \<Rightarrow> s64 \<Rightarrow> u64 tgpio_result" where
  "tgpio_phc_delta_to_real_ns phc phc_delta_ns =
    (if phc_delta_ns \<le>s 0 then tgpio_ok 0
     else case tgpio_phc_adjusted_to_base_delta phc_delta_ns
                 (tgpio_scaled_ppm_to_ppb (scaled_ppm phc)) of
            Inl e \<Rightarrow> tgpio_err TGPIO_E_RANGE
          | Inr base \<Rightarrow> if base <s 0 then tgpio_err TGPIO_E_RANGE else tgpio_ok base)"

definition tgpio_phc_delta_to_art_cycles :: "tgpio_phc_params \<Rightarrow> s64 \<Rightarrow> u64 tgpio_result" where
  "tgpio_phc_delta_to_art_cycles phc phc_delta_ns =
    (if phc_delta_ns \<le>s 0 then tgpio_ok 0
     else case tgpio_phc_adjusted_to_base_delta phc_delta_ns
                 (tgpio_scaled_ppm_to_ppb (scaled_ppm phc)) of
            Inl e \<Rightarrow> tgpio_err TGPIO_E_RANGE
          | Inr base \<Rightarrow>
              if base <s 0 then tgpio_err TGPIO_E_RANGE
              else (case tgpio_ns_delta_to_cycles base (base_art_hz phc) True of
                      Inl e \<Rightarrow> tgpio_err e
                    | Inr cycles \<Rightarrow>
                        if cycles <s 0 then tgpio_err TGPIO_E_RANGE else tgpio_ok cycles))"

definition tgpio_phc_art_cycles_to_delta_ns ::
    "tgpio_phc_params \<Rightarrow> u64 \<Rightarrow> u64 tgpio_result" where
  "tgpio_phc_art_cycles_to_delta_ns phc cycles =
    (if S64_MAX < cycles then tgpio_err TGPIO_E_RANGE
     else case tgpio_cycles_delta_to_ns cycles (base_art_hz phc) True of
            Inl e \<Rightarrow> tgpio_err e
          | Inr base \<Rightarrow>
              (case tgpio_phc_base_to_adjusted_delta base
                      (tgpio_scaled_ppm_to_ppb (scaled_ppm phc)) of
                 Inl e \<Rightarrow> tgpio_err TGPIO_E_RANGE
               | Inr adjusted \<Rightarrow>
                   if adjusted <s 0 then tgpio_err TGPIO_E_RANGE else tgpio_ok adjusted))"

section \<open>PTP request times\<close>

text \<open>\<open>struct ptp_clock_time\<close>: signed 64-bit seconds, unsigned 32-bit nanoseconds.\<close>

record ptp_clock_time =
  pct_sec :: s64
  pct_nsec :: u32

definition tgpio_ptp_time_to_ns :: "ptp_clock_time \<Rightarrow> u64 tgpio_result" where
  "tgpio_ptp_time_to_ns time =
    (let sec = pct_sec time; nsec = ucast (pct_nsec time) :: u64 in
     if sec <s 0 \<or> NSEC_PER_SEC \<le> nsec then tgpio_err TGPIO_E_INVAL
     else if U64_MAX div NSEC_PER_SEC < sec then tgpio_err TGPIO_E_RANGE
     else tgpio_ok (sec * NSEC_PER_SEC + nsec))"

definition tgpio_ptp_time_to_s64_ns :: "ptp_clock_time \<Rightarrow> s64 tgpio_result" where
  "tgpio_ptp_time_to_s64_ns time =
    (let sec = pct_sec time; nsec = ucast (pct_nsec time) :: u64 in
     if sec <s 0 \<or> NSEC_PER_SEC \<le> nsec then tgpio_err TGPIO_E_INVAL
     else if s64_div S64_MAX NSEC_PER_SEC <s sec then tgpio_err TGPIO_E_RANGE
     else tgpio_ok (sec * NSEC_PER_SEC + nsec))"

section \<open>Aligning a stale start to its period grid\<close>

definition tgpio_output_align_first_edge :: "s64 \<Rightarrow> s64 \<Rightarrow> u64 \<Rightarrow> s64" where
  "tgpio_output_align_first_edge requested_ns min_first_ns period_ns =
    (if min_first_ns \<le>s requested_ns then requested_ns
     else if period_ns = 0 \<or> S64_MAX < period_ns \<or> requested_ns <s 0 then min_first_ns
     else
       let delta = min_first_ns - requested_ns;
           rem = delta mod period_ns;
           periods = delta div period_ns + (if rem \<noteq> 0 then 1 else 0)
       in if S64_MAX div period_ns < periods then min_first_ns
          else case tgpio_add_s64 requested_ns (periods * period_ns) of
                 Inl e \<Rightarrow> min_first_ns
               | Inr aligned \<Rightarrow> aligned)"

end
