(* ===== verification/Driver_State.thy ===== *)
theory Driver_State
  imports Clock_Math
begin

text \<open>
  The state of the Linux driver and its environment. \<open>tgpio_params\<close> holds the module
  parameters, \<open>tgpio_mmio_block\<close> and \<open>tgpio_device\<close> the structs of the source, \<open>driver\<close> all
  of them with the file-scope variables. The kernel and the hardware are the record \<open>kernel\<close>
  of operations on an abstract world \<open>'k\<close>: register accesses, timekeeping reads, sleeping.
  A function of the driver is a value of \<open>('k sys, 'a) state\<close>.

  Sections under a seqlock or an atomic variable are single steps. A delayed work is the
  option of its pending delay, \<open>output_work\<close> a pending flag, a timer the option of its expiry.
\<close>

section \<open>Kernel types\<close>

text \<open>
  \<open>struct system_time_snapshot\<close>: the clocksource ids are kept as the question the driver asks
  of them (is it \<open>CSID_X86_ART\<close>), \<open>ss_real\<close> is the field \<open>real\<close> or \<open>systime\<close>.
\<close>

record system_time_snapshot =
  ss_valid :: bool
  ss_hw_is_art :: bool
  ss_hw_cycles :: u64
  ss_is_art :: bool
  ss_cycles :: u64
  ss_real :: s64
  ss_clock_was_set_seq :: u32

record timespec64 =
  tv_sec :: s64
  tv_nsec :: s64

text \<open>The two requests the driver makes through \<open>do_adjtimex\<close>.\<close>

datatype timex_request = ADJ_FREQUENCY s64 | ADJ_SETOFFSET_NANO s64 s64

text \<open>
  The services the driver calls. \<open>k_7_2\<close> tells whether the kernel has the v7.2 API;
  \<open>k_readl b off\<close> and \<open>k_writel b off v\<close> are \<open>readl\<close> and \<open>writel\<close> at the mapping of block
  \<open>b\<close>; \<open>k_real_to_art\<close> is \<open>ktime_real_to_base_clock(_, CSID_X86_ART, _)\<close>;
  \<open>k_crosststamp\<close> is \<open>get_device_system_crosststamp\<close> with the driver's callback, which hands
  over an ART value; \<open>k_cpuid leaf\<close> is the register quadruple (eax, ebx, ecx, edx); the
  services that acquire a resource tell whether they got it; \<open>k_retries\<close> bounds the retry loop of \<open>tgpio_read_compv\<close>.
\<close>

record 'k kernel =
  k_7_2 :: bool
  k_readl :: "nat \<Rightarrow> u32 \<Rightarrow> ('k, u32) state"
  k_writel :: "nat \<Rightarrow> u32 \<Rightarrow> u32 \<Rightarrow> ('k, unit) state"
  k_get_snapshot :: "('k, system_time_snapshot) state"
  k_get_real :: "('k, s64) state"
  k_get_raw :: "('k, s64) state"
  k_real_to_art :: "s64 \<Rightarrow> ('k, u64 option) state"
  k_has_art_base :: "('k, bool) state"
  k_crosststamp :: "u64 \<Rightarrow> system_time_snapshot option \<Rightarrow> ('k, s64 option) state"
  k_msleep :: "u32 \<Rightarrow> ('k, unit) state"
  k_adjtimex :: "timex_request \<Rightarrow> ('k, int) state"
  k_settimeofday :: "timespec64 \<Rightarrow> ('k, int) state"
  k_cpuid :: "u32 \<Rightarrow> u32 \<times> u32 \<times> u32 \<times> u32"
  k_request_mem_region :: "nat \<Rightarrow> ('k, bool) state"
  k_release_mem_region :: "nat \<Rightarrow> ('k, unit) state"
  k_ioremap :: "nat \<Rightarrow> ('k, bool) state"
  k_iounmap :: "nat \<Rightarrow> ('k, unit) state"
  k_pps_register :: "nat \<Rightarrow> ('k, bool) state"
  k_pps_unregister :: "nat \<Rightarrow> ('k, unit) state"
  k_ptp_register :: "('k, int) state"
  k_ptp_unregister :: "('k, unit) state"
  k_resolve_adjtimex :: "('k, bool) state"
  k_debugfs_create_dir :: "('k, bool) state"
  k_debugfs_remove :: "('k, unit) state"
  k_kobject_create_and_add :: "('k, bool) state"
  k_sysfs_create_groups :: "string list \<Rightarrow> ('k, int) state"
  k_kobject_put :: "('k, unit) state"
  k_alloc :: "('k, bool) state"
  k_retries :: nat

section \<open>Module parameters\<close>

record tgpio_params =
  addr :: "nat \<Rightarrow> u64"
  mmio_size :: u32
  use_second :: bool
  tgpio_param :: "nat \<Rightarrow> string"
  edge_param :: "nat \<Rightarrow> string"
  clock_mode_param :: string
  timestamp_mode_param :: string
  output_polarity_param :: string
  poll_ms :: u32
  art_frequency :: u64
  tsc_art_numerator :: u32
  tsc_art_denominator :: u32
  clock_mode :: tgpio_clock_mode
  timestamp_mode :: tgpio_timestamp_mode
  output_polarity :: tgpio_output_polarity
  hardware_timestamps :: bool
  hardware_periodic_output :: bool
  software_rearm_toggle :: bool
  experimental_instantaneous_realtime_projection :: bool
  activity_log :: bool
  verbose_rounding :: bool
  verbose :: bool
  tdc :: bool
  tdc_start :: u32
  auto_polarity :: bool
  input_enable :: "nat \<Rightarrow> bool"
  input_channel :: "nat \<Rightarrow> u32"
  output_channel :: "nat \<Rightarrow> u32"
  output_period_ns :: "nat \<Rightarrow> u64"
  output_duty_ns :: "nat \<Rightarrow> u64"
  output_start_delay_ns :: u64
  output_phase_offset_ns :: s64
  output_phase_tolerance_ns :: u64
  art_calibration_param :: string
  rate_trim_ppb :: s64
  have_do_adjtimex :: bool

text \<open>
  The parameters of one block, \<open>tgpio_persistent_*\<close>; each pair of variables is one function of
  the block here.
\<close>

definition tgpio_persistent_input_enabled :: "tgpio_params \<Rightarrow> nat \<Rightarrow> bool" where
  "tgpio_persistent_input_enabled p i = input_enable p (if i = 0 then 0 else 1)"

definition tgpio_persistent_input_channel :: "tgpio_params \<Rightarrow> nat \<Rightarrow> u32" where
  "tgpio_persistent_input_channel p i = input_channel p (if i = 0 then 0 else 1)"

definition tgpio_persistent_output_period_ns :: "tgpio_params \<Rightarrow> nat \<Rightarrow> u64" where
  "tgpio_persistent_output_period_ns p i = output_period_ns p (if i = 0 then 0 else 1)"

definition tgpio_persistent_output_duty_ns :: "tgpio_params \<Rightarrow> nat \<Rightarrow> u64" where
  "tgpio_persistent_output_duty_ns p i = output_duty_ns p (if i = 0 then 0 else 1)"

definition tgpio_persistent_output_channel :: "tgpio_params \<Rightarrow> nat \<Rightarrow> u32" where
  "tgpio_persistent_output_channel p i = output_channel p (if i = 0 then 0 else 1)"

text \<open>
  A write to the parameters at run time: those with mode 0644 take the values of \<open>q\<close>, those with
  mode 0444 stay.
\<close>

definition tgpio_param_write :: "tgpio_params \<Rightarrow> tgpio_params \<Rightarrow> tgpio_params" where
  "tgpio_param_write q p = p\<lparr>poll_ms := poll_ms q, hardware_timestamps := hardware_timestamps q,
     activity_log := activity_log q, verbose_rounding := verbose_rounding q, verbose := verbose q,
     tdc := tdc q, tdc_start := tdc_start q, auto_polarity := auto_polarity q,
     output_phase_offset_ns := output_phase_offset_ns q,
     output_phase_tolerance_ns := output_phase_tolerance_ns q, rate_trim_ppb := rate_trim_ppb q\<rparr>"

section \<open>Driver structs\<close>

record tgpio_output_desired =
  des_flip_gen :: u32
  des_gen :: u32
  des_freq_gen :: u32
  des_run :: tgpio_output_run
  des_mode :: tgpio_output_mode
  des_period_ns :: u64
  des_high_time_ns :: u64
  des_low_time_ns :: u64
  des_first_edge_ns :: s64

text \<open>
  \<open>struct tgpio_mmio_block\<close>. The fields \<open>crosststamp_snapshot\<close> and its state flag are one
  option; \<open>regs\<close>, \<open>mem_region\<close> and \<open>pps\<close> are pointers the driver only tests for \<open>NULL\<close>.
\<close>

record tgpio_mmio_block =
  mmio_phys :: u64
  blk_mode :: tgpio_mode
  regs :: bool
  mem_region :: bool
  input_edge_bits :: u32
  input_desired :: u32
  input_applied :: u32
  last_event_count :: u64
  input_prev_art :: u64
  input_have_prev :: bool
  input_phase_ns :: s64
  interval_count :: u64
  interval_last_ns :: s64
  interval_min_ns :: s64
  interval_max_ns :: s64
  interval_sum_ns :: s64
  wd_last_compv :: u64
  wd_stalls :: u32
  pps :: bool
  oneshot_stop_work :: "u64 option"
  crosststamp_snapshot :: "system_time_snapshot option"
  output_timer :: "s64 option"
  output_work_pending :: bool
  output_desired :: tgpio_output_desired
  output_applied_gen :: u32
  output_applied_freq_gen :: u32
  output_applied_flip_gen :: u32
  output_phase :: tgpio_output_phase
  output_hw_first_art :: u64
  output_hw_piv :: u64
  output_hw_ckpt_compv :: u64
  output_hw_flop_high :: bool
  output_high_time_ns :: u64
  output_low_time_ns :: u64
  output_next_edge_type :: tgpio_logical_edge
  output_next_edge :: s64
  output_wake_at_time :: s64

record ptp_pin_desc =
  pin_func :: ptp_pin_function
  pin_chan :: u32

record ptp_clock_event =
  ev_index :: u32
  ev_timestamp :: s64

text \<open>The events of \<open>tgpio-trace.h\<close>, with the block they are about or the times of a step.\<close>

datatype trace_event =
    TGPIO_TIMESTAMP_FALLBACK nat u64
  | TGPIO_PHC_STEP s64 s64
  | TGPIO_BASE_CLOCK_LOST nat

text \<open>\<open>struct tgpio_device\<close>. \<open>ptp_events\<close>, \<open>pps_events\<close> and \<open>traces\<close> record what was handed to
  \<open>ptp_clock_event\<close>, \<open>pps_event\<close> and the tracepoints, oldest first.\<close>

record tgpio_device =
  ptp_clock :: bool
  pin_config :: "nat \<Rightarrow> ptp_pin_desc"
  phc :: tgpio_phc_params
  stats_events :: u64
  stats_fallbacks :: u64
  poll_work :: "u64 option"
  art_refine_work :: "u64 option"
  watchdog_work :: "u64 option"
  autopol_streak :: u32
  autopol_cooldown :: u32
  tdc_pending :: bool
  tdc_pending_block :: nat
  tdc_pending_art :: u64
  tdc_count :: u64
  tdc_lost :: u64
  tdc_last_cycles :: u64
  tdc_last_ns :: s64
  tdc_min_ns :: s64
  tdc_max_ns :: s64
  tdc_sum_ns :: s64
  n_ptp_pins :: u32
  ptp_events :: "ptp_clock_event list"
  pps_events :: "(nat \<times> u64) list"
  traces :: "trace_event list"

text \<open>The file-scope calibration variables; the rings are indexed by slot.\<close>

record tgpio_calibration =
  realtime_rate_art_cycles :: u64
  realtime_rate_real_ns :: u64
  art_cal_anchor_art :: u64
  art_cal_anchor_raw :: s64
  art_cal_anchor_real :: s64
  art_cal_base :: u64
  art_cal_ema_mppb :: s64
  art_cal_ring :: "(u64 \<times> s64) list"
  art_cal_ring_head :: nat
  art_cal_ring_count :: nat
  realtime_rate_ring :: "(u64 \<times> s64 \<times> u32) list"
  realtime_rate_ring_head :: nat
  realtime_rate_ring_count :: nat

text \<open>\<open>allocated\<close> tells whether the pointer \<open>tgpio\<close> refers to a live device.\<close>

record driver =
  allocated :: bool
  par :: tgpio_params
  dev :: tgpio_device
  blocks :: "nat \<Rightarrow> tgpio_mmio_block"
  cal :: tgpio_calibration
  tgpio_debugfs_dir :: "(string \<times> nat) list option"
  tgpio_sysfs_kobj :: "string list option"

text \<open>
  A driver's memory and the world it runs in; \<open>hung\<close> is set when a retry loop used up its
  bound. The Windows driver runs in the same kind of machine with its own memory.
\<close>

record ('d, 'k) machine =
  drv :: 'd
  kst :: 'k
  hung :: bool

type_synonym 'k sys = "(driver, 'k) machine"

end
