(* ===== verification/Driver_Monad.thy ===== *)
theory Driver_Monad
  imports Driver_State
begin

text \<open>
  Access to the driver state, the kernel services lifted to it, and the register accessors of
  the hardware layer (\<open>tgpio_readl\<close> up to \<open>tgpio_read_capture\<close>).
\<close>

section \<open>Reading and updating the state\<close>

definition param :: "(tgpio_params \<Rightarrow> 'a) \<Rightarrow> ('k sys, 'a) state" where
  "param f = gets (\<lambda>s. f (par (drv s)))"

definition get_dev :: "(tgpio_device \<Rightarrow> 'a) \<Rightarrow> ('k sys, 'a) state" where
  "get_dev f = gets (\<lambda>s. f (dev (drv s)))"

definition get_blk :: "nat \<Rightarrow> (tgpio_mmio_block \<Rightarrow> 'a) \<Rightarrow> ('k sys, 'a) state" where
  "get_blk b f = gets (\<lambda>s. f (blocks (drv s) b))"

definition get_cal :: "(tgpio_calibration \<Rightarrow> 'a) \<Rightarrow> ('k sys, 'a) state" where
  "get_cal f = gets (\<lambda>s. f (cal (drv s)))"

definition upd_drv :: "('d \<Rightarrow> 'd) \<Rightarrow> (('d, 'k) machine, unit) state" where
  "upd_drv f = modify (drv_update f)"

definition upd_par :: "(tgpio_params \<Rightarrow> tgpio_params) \<Rightarrow> ('k sys, unit) state" where
  "upd_par f = upd_drv (par_update f)"

definition upd_dev :: "(tgpio_device \<Rightarrow> tgpio_device) \<Rightarrow> ('k sys, unit) state" where
  "upd_dev f = upd_drv (dev_update f)"

definition upd_blk :: "nat \<Rightarrow> (tgpio_mmio_block \<Rightarrow> tgpio_mmio_block) \<Rightarrow> ('k sys, unit) state" where
  "upd_blk b f = upd_drv (blocks_update (\<lambda>bs. bs(b := f (bs b))))"

definition upd_cal :: "(tgpio_calibration \<Rightarrow> tgpio_calibration) \<Rightarrow> ('k sys, unit) state" where
  "upd_cal f = upd_drv (cal_update f)"

text \<open>A kernel service runs on the world and leaves the driver's memory alone.\<close>

definition liftk :: "('k, 'a) state \<Rightarrow> (('d, 'k) machine, 'a) state" where
  "liftk m = State (\<lambda>s. case run_state m (kst s) of (a, k) \<Rightarrow> (a, s\<lparr>kst := k\<rparr>))"

lemma run_param [simp]: "run_state (param f) s = (f (par (drv s)), s)"
  by (simp add: param_def)

lemma run_get_dev [simp]: "run_state (get_dev f) s = (f (dev (drv s)), s)"
  by (simp add: get_dev_def)

lemma run_get_blk [simp]: "run_state (get_blk b f) s = (f (blocks (drv s) b), s)"
  by (simp add: get_blk_def)

lemma run_get_cal [simp]: "run_state (get_cal f) s = (f (cal (drv s)), s)"
  by (simp add: get_cal_def)

lemma run_upd_drv [simp]: "run_state (upd_drv f) s = ((), drv_update f s)"
  by (simp add: upd_drv_def)

lemma run_liftk: "run_state (liftk m) s =
    (fst (run_state m (kst s)), s\<lparr>kst := snd (run_state m (kst s))\<rparr>)"
  by (simp add: liftk_def split: prod.splits)

lemma wp_param [wp_simps]: "wp (param f) Q s = Q (f (par (drv s))) s"
  by (simp add: wp_def)

lemma wp_get_dev [wp_simps]: "wp (get_dev f) Q s = Q (f (dev (drv s))) s"
  by (simp add: wp_def)

lemma wp_get_blk [wp_simps]: "wp (get_blk b f) Q s = Q (f (blocks (drv s) b)) s"
  by (simp add: wp_def)

lemma wp_get_cal [wp_simps]: "wp (get_cal f) Q s = Q (f (cal (drv s))) s"
  by (simp add: wp_def)

lemma wp_upd_drv [wp_simps]: "wp (upd_drv f) Q s = Q () (s\<lparr>drv := f (drv s)\<rparr>)"
  by (cases s) (simp add: wp_def)

lemma wp_upd_par [wp_simps]:
  "wp (upd_par f) Q s = Q () (s\<lparr>drv := (drv s)\<lparr>par := f (par (drv s))\<rparr>\<rparr>)"
  by (cases "drv s") (simp add: upd_par_def wp_simps)

lemma wp_upd_dev [wp_simps]:
  "wp (upd_dev f) Q s = Q () (s\<lparr>drv := (drv s)\<lparr>dev := f (dev (drv s))\<rparr>\<rparr>)"
  by (cases "drv s") (simp add: upd_dev_def wp_simps)

lemma wp_upd_blk [wp_simps]:
  "wp (upd_blk b f) Q s =
    Q () (s\<lparr>drv := (drv s)\<lparr>blocks := (blocks (drv s))(b := f (blocks (drv s) b))\<rparr>\<rparr>)"
  by (cases "drv s") (simp add: upd_blk_def wp_simps)

lemma wp_upd_cal [wp_simps]:
  "wp (upd_cal f) Q s = Q () (s\<lparr>drv := (drv s)\<lparr>cal := f (cal (drv s))\<rparr>\<rparr>)"
  by (cases "drv s") (simp add: upd_cal_def wp_simps)

lemma wp_liftk:
  "wp (liftk m) Q s = wp m (\<lambda>a k. Q a (s\<lparr>kst := k\<rparr>)) (kst s)"
  by (simp add: wp_def liftk_def split: prod.splits)

lemma kst_drv_swap [simp]: "drv_update f (kst_update g s) = kst_update g (drv_update f s)"
  by (cases s) simp

lemma sys_eqI: "drv s = drv t \<Longrightarrow> kst s = kst t \<Longrightarrow> hung s = hung t \<Longrightarrow> (s :: ('d, 'k) machine) = t"
  by (cases s; cases t) simp

subsection \<open>Frames\<close>

lemma keeps_readers [frame]:
  "keeps g (param f1)" "keeps g (get_dev f2)" "keeps g (get_blk b f3)" "keeps g (get_cal f4)"
  by (simp_all add: keeps_def)

lemma keeps_liftk_drv [frame]: "keeps drv (liftk m)"
  by (simp add: keeps_def run_liftk)

lemma keeps_liftk_hung [frame]: "keeps hung (liftk m)"
  by (simp add: keeps_def run_liftk)

lemma keeps_upd_drv_kst [frame]:
  "keeps kst (upd_drv f)" "keeps kst (upd_par f1)" "keeps kst (upd_dev f2)"
  "keeps kst (upd_blk b f3)" "keeps kst (upd_cal f4)"
  by (simp_all add: keeps_def upd_par_def upd_dev_def upd_blk_def upd_cal_def)

lemma keeps_upd_drv_hung [frame]:
  "keeps hung (upd_drv f)" "keeps hung (upd_par f1)" "keeps hung (upd_dev f2)"
  "keeps hung (upd_blk b f3)" "keeps hung (upd_cal f4)"
  by (simp_all add: keeps_def upd_par_def upd_dev_def upd_blk_def upd_cal_def)

lemma keeps_drvD: "keeps drv m \<Longrightarrow> keeps (\<lambda>s. f (drv s)) m"
  by (simp add: keeps_def)

section \<open>Register access\<close>

definition tgpio_readl :: "'k kernel \<Rightarrow> nat \<Rightarrow> u32 \<Rightarrow> ('k sys, u32) state" where
  "tgpio_readl K b offset = liftk (k_readl K b offset)"

definition tgpio_writel :: "'k kernel \<Rightarrow> nat \<Rightarrow> u32 \<Rightarrow> u32 \<Rightarrow> ('k sys, unit) state" where
  "tgpio_writel K b offset value = liftk (k_writel K b offset value)"

definition tgpio_read_ctl :: "'k kernel \<Rightarrow> nat \<Rightarrow> ('k sys, u32) state" where
  "tgpio_read_ctl K b = tgpio_readl K b TGPIOCTL"

definition tgpio_write_ctl :: "'k kernel \<Rightarrow> nat \<Rightarrow> u32 \<Rightarrow> ('k sys, unit) state" where
  "tgpio_write_ctl K b value = tgpio_writel K b TGPIOCTL value"

definition tgpio_write_compv :: "'k kernel \<Rightarrow> nat \<Rightarrow> u64 \<Rightarrow> ('k sys, unit) state" where
  "tgpio_write_compv K b value = do {
     tgpio_writel K b TGPIOCOMPV63_32 (upper_32_bits value);
     tgpio_writel K b TGPIOCOMPV31_0 (lower_32_bits value)
   }"

definition tgpio_write_piv :: "'k kernel \<Rightarrow> nat \<Rightarrow> u64 \<Rightarrow> ('k sys, unit) state" where
  "tgpio_write_piv K b value = do {
     tgpio_writel K b TGPIOPIV63_32 (upper_32_bits value);
     tgpio_writel K b TGPIOPIV31_0 (lower_32_bits value)
   }"

text \<open>
  The retry loop of \<open>tgpio_read_compv\<close>; the first argument is the number of rounds left.
\<close>

primrec tgpio_read_compv_loop :: "nat \<Rightarrow> 'k kernel \<Rightarrow> nat \<Rightarrow> u32 \<Rightarrow> ('k sys, u64) state" where
  "tgpio_read_compv_loop 0 K b prev_hi = do { modify (hung_update (\<lambda>_. True)); ret 0 }"
| "tgpio_read_compv_loop (Suc n) K b prev_hi = do {
     lo \<leftarrow> tgpio_readl K b TGPIOCOMPV31_0;
     hi \<leftarrow> tgpio_readl K b TGPIOCOMPV63_32;
     if hi \<noteq> prev_hi then tgpio_read_compv_loop n K b hi
     else ret (combine_32 hi lo)
   }"

definition tgpio_read_compv :: "'k kernel \<Rightarrow> nat \<Rightarrow> ('k sys, u64) state" where
  "tgpio_read_compv K b = do {
     hi \<leftarrow> tgpio_readl K b TGPIOCOMPV63_32;
     tgpio_read_compv_loop (k_retries K) K b hi
   }"

definition tgpio_hw_flop_fold :: "'k kernel \<Rightarrow> nat \<Rightarrow> ('k sys, unit) state" where
  "tgpio_hw_flop_fold K b = do {
     piv \<leftarrow> get_blk b output_hw_piv;
     phase \<leftarrow> get_blk b output_phase;
     if piv = 0 then ret ()
     else if phase = TGPIO_OUTPUT_HW_DUTY then do {
       compv \<leftarrow> tgpio_read_compv K b;
       ckpt \<leftarrow> get_blk b output_hw_ckpt_compv;
       if compv \<noteq> ckpt then do {
         upd_blk b (output_hw_flop_high_update Not);
         upd_blk b (output_hw_ckpt_compv_update (\<lambda>_. compv))
       } else ret ()
     }
     else if phase \<noteq> TGPIO_OUTPUT_HARDWARE_PERIODIC then ret ()
     else do {
       compv \<leftarrow> tgpio_read_compv K b;
       ckpt \<leftarrow> get_blk b output_hw_ckpt_compv;
       if compv < ckpt then ret ()
       else do {
         events \<leftarrow> ret ((compv - ckpt) div piv);
         when_m (events AND 1 \<noteq> 0) (upd_blk b (output_hw_flop_high_update Not));
         upd_blk b (output_hw_ckpt_compv_update (\<lambda>_. compv))
       }
     }
   }"

text \<open>The tracepoints: each event goes to the trace of an observer who has enabled all of them.\<close>

definition trace_tgpio_timestamp_fallback :: "nat \<Rightarrow> u64 \<Rightarrow> ('k sys, unit) state" where
  "trace_tgpio_timestamp_fallback block_index art_cycles =
     upd_dev (traces_update (\<lambda>ts. ts @ [TGPIO_TIMESTAMP_FALLBACK block_index art_cycles]))"

definition trace_tgpio_phc_step :: "s64 \<Rightarrow> s64 \<Rightarrow> ('k sys, unit) state" where
  "trace_tgpio_phc_step old_ns new_ns = upd_dev (traces_update (\<lambda>ts. ts @ [TGPIO_PHC_STEP old_ns new_ns]))"

definition trace_tgpio_base_clock_lost :: "nat \<Rightarrow> ('k sys, unit) state" where
  "trace_tgpio_base_clock_lost block_index =
     upd_dev (traces_update (\<lambda>ts. ts @ [TGPIO_BASE_CLOCK_LOST block_index]))"

lemma wp_trace [wp_simps]:
  "wp (trace_tgpio_timestamp_fallback b art) Q s = Q () (s\<lparr>drv := (drv s)\<lparr>dev := (dev (drv s))\<lparr>traces := traces (dev (drv s)) @ [TGPIO_TIMESTAMP_FALLBACK b art]\<rparr>\<rparr>\<rparr>)"
  "wp (trace_tgpio_phc_step old new) Q s = Q () (s\<lparr>drv := (drv s)\<lparr>dev := (dev (drv s))\<lparr>traces := traces (dev (drv s)) @ [TGPIO_PHC_STEP old new]\<rparr>\<rparr>\<rparr>)"
  "wp (trace_tgpio_base_clock_lost b) Q s = Q () (s\<lparr>drv := (drv s)\<lparr>dev := (dev (drv s))\<lparr>traces := traces (dev (drv s)) @ [TGPIO_BASE_CLOCK_LOST b]\<rparr>\<rparr>\<rparr>)"
  by (cases s, cases "drv s", cases "dev (drv s)",
    simp add: trace_tgpio_timestamp_fallback_def trace_tgpio_phc_step_def trace_tgpio_base_clock_lost_def wp_upd_dev)+

lemmas trace_defs = trace_tgpio_timestamp_fallback_def trace_tgpio_phc_step_def trace_tgpio_base_clock_lost_def

record tgpio_capture =
  cap_event_count :: u64
  cap_art_cycles :: u64

text \<open>Reading the low half of TCV latches the capture, so it comes first.\<close>

definition tgpio_read_capture :: "'k kernel \<Rightarrow> nat \<Rightarrow> ('k sys, tgpio_capture) state" where
  "tgpio_read_capture K b = do {
     tcv_lo \<leftarrow> tgpio_readl K b TGPIOTCV31_0;
     count_hi \<leftarrow> tgpio_readl K b TGPIOECCV63_32;
     count_lo \<leftarrow> tgpio_readl K b TGPIOECCV31_0;
     tcv_hi \<leftarrow> tgpio_readl K b TGPIOTCV63_32;
     ret \<lparr>cap_event_count = combine_32 count_hi count_lo,
          cap_art_cycles = combine_32 tcv_hi tcv_lo\<rparr>
   }"

subsection \<open>What the accessors leave alone\<close>

lemma keeps_mmio_drv [frame]:
  "keeps drv (tgpio_readl K b off)" "keeps drv (tgpio_writel K b off v)"
  "keeps drv (tgpio_read_ctl K b)" "keeps drv (tgpio_write_ctl K b v)"
  "keeps drv (tgpio_write_compv K b w)" "keeps drv (tgpio_write_piv K b w)"
  by (auto simp: tgpio_readl_def tgpio_writel_def tgpio_read_ctl_def tgpio_write_ctl_def
      tgpio_write_compv_def tgpio_write_piv_def intro!: frame)

lemma keeps_compv_loop_drv: "keeps drv (tgpio_read_compv_loop n K b hi)"
  by (induction n arbitrary: hi) (auto intro!: frame)

lemma keeps_read_compv_drv [frame]: "keeps drv (tgpio_read_compv K b)"
  by (auto simp: tgpio_read_compv_def intro!: frame keeps_compv_loop_drv)

lemma keeps_read_capture_drv [frame]: "keeps drv (tgpio_read_capture K b)"
  by (auto simp: tgpio_read_capture_def intro!: frame)

end
