(* ===== verification/Output_Desired.thy ===== *)
theory Output_Desired
  imports Driver_Monad
begin

text \<open>
  The published output configuration \<open>output_desired\<close>: every publisher replaces it or bumps
  one of its generation counters under the seqlock and schedules \<open>output_work\<close>, which is the
  only reader that acts on it. Also the small helpers on delayed works, timers and channels
  that the other components share.
\<close>

section \<open>Works and timers\<close>

definition schedule_work :: "nat \<Rightarrow> ('k sys, unit) state" where
  "schedule_work b = upd_blk b (output_work_pending_update (\<lambda>_. True))"

text \<open>\<open>schedule_delayed_work\<close> leaves an already queued work alone; \<open>mod_delayed_work\<close> does not.\<close>

definition queue_delayed :: "u64 \<Rightarrow> u64 option \<Rightarrow> u64 option" where
  "queue_delayed delay w = (case w of None \<Rightarrow> Some delay | Some d \<Rightarrow> Some d)"

definition hrtimer_cancel :: "nat \<Rightarrow> ('k sys, unit) state" where
  "hrtimer_cancel b = upd_blk b (output_timer_update (\<lambda>_. None))"

definition tgpio_output_wake_at :: "nat \<Rightarrow> s64 \<Rightarrow> ('k sys, unit) state" where
  "tgpio_output_wake_at b when = do {
     upd_blk b (output_wake_at_time_update (\<lambda>_. when));
     upd_blk b (output_timer_update (\<lambda>_. Some when))
   }"

text \<open>The expiry of the timer: \<open>tgpio_output_timer\<close> hands over to the work.\<close>

definition tgpio_output_timer :: "nat \<Rightarrow> ('k sys, unit) state" where
  "tgpio_output_timer b = do {
     upd_blk b (output_timer_update (\<lambda>_. None));
     schedule_work b
   }"

section \<open>The desired configuration\<close>

definition tgpio_output_desired_get :: "nat \<Rightarrow> ('k sys, tgpio_output_desired) state" where
  "tgpio_output_desired_get b = get_blk b output_desired"

definition stopped_desired :: "tgpio_output_desired \<Rightarrow> tgpio_output_desired" where
  "stopped_desired d =
    \<lparr>des_flip_gen = des_flip_gen d, des_gen = des_gen d + 1, des_freq_gen = des_freq_gen d,
     des_run = TGPIO_OUTPUT_STOPPED, des_mode = TGPIO_OUTPUT_SOFTWARE, des_period_ns = 0,
     des_high_time_ns = 0, des_low_time_ns = 0, des_first_edge_ns = 0\<rparr>"

definition tgpio_disable_output :: "nat \<Rightarrow> ('k sys, unit) state" where
  "tgpio_disable_output b = do {
     upd_blk b (output_desired_update stopped_desired);
     schedule_work b
   }"

definition tgpio_output_publish ::
    "nat \<Rightarrow> tgpio_output_run \<Rightarrow> tgpio_output_mode \<Rightarrow> u64 \<Rightarrow> u64 \<Rightarrow> u64 \<Rightarrow> s64 \<Rightarrow> ('k sys, unit) state"
where
  "tgpio_output_publish b run mode period_ns high_time_ns low_time_ns first_edge_ns = do {
     upd_blk b (output_desired_update (\<lambda>d.
       \<lparr>des_flip_gen = des_flip_gen d, des_gen = des_gen d + 1, des_freq_gen = des_freq_gen d,
        des_run = run, des_mode = mode, des_period_ns = period_ns,
        des_high_time_ns = high_time_ns, des_low_time_ns = low_time_ns,
        des_first_edge_ns = first_edge_ns\<rparr>));
     schedule_work b
   }"

text \<open>Both blocks of the device, in the order of the source's loops.\<close>

abbreviation all_blocks :: "nat list" where "all_blocks \<equiv> [0, 1]"

definition tgpio_resync_outputs_after_phc_step :: "('k sys, unit) state" where
  "tgpio_resync_outputs_after_phc_step = for_each all_blocks (\<lambda>i. do {
     mode \<leftarrow> get_blk i blk_mode;
     if mode \<noteq> TGPIO_MODE_OUTPUT then ret ()
     else do {
       run \<leftarrow> get_blk i (\<lambda>m. des_run (output_desired m));
       when_m (run = TGPIO_OUTPUT_RUNNING)
         (upd_blk i (output_desired_update (des_gen_update (\<lambda>g. g + 1))));
       when_m (run = TGPIO_OUTPUT_RUNNING) (schedule_work i)
     }
   })"

definition tgpio_update_outputs_after_phc_freq :: "('k sys, unit) state" where
  "tgpio_update_outputs_after_phc_freq = for_each all_blocks (\<lambda>i. do {
     mode \<leftarrow> get_blk i blk_mode;
     if mode \<noteq> TGPIO_MODE_OUTPUT then ret ()
     else do {
       run \<leftarrow> get_blk i (\<lambda>m. des_run (output_desired m));
       when_m (run = TGPIO_OUTPUT_RUNNING)
         (upd_blk i (output_desired_update (des_freq_gen_update (\<lambda>g. g + 1))));
       when_m (run = TGPIO_OUTPUT_RUNNING) (schedule_work i)
     }
   })"

section \<open>Channels\<close>

definition tgpio_mmio_block_supports_func :: "driver \<Rightarrow> u32 \<Rightarrow> ptp_pin_function \<Rightarrow> tgpio_support" where
  "tgpio_mmio_block_supports_func d block_index func =
    (if n_ptp_pins (dev d) \<le> block_index then TGPIO_UNSUPPORTED
     else case func of
       PTP_PF_EXTTS \<Rightarrow>
         if blk_mode (blocks d (unat block_index)) = TGPIO_MODE_INPUT
         then TGPIO_SUPPORTED else TGPIO_UNSUPPORTED
     | PTP_PF_PEROUT \<Rightarrow>
         if blk_mode (blocks d (unat block_index)) = TGPIO_MODE_OUTPUT
         then TGPIO_SUPPORTED else TGPIO_UNSUPPORTED
     | _ \<Rightarrow> TGPIO_UNSUPPORTED)"

text \<open>The loop over the pins \<open>0 .. n_ptp_pins - 1\<close>: the first pin bound to the channel.\<close>

definition bound_pin :: "driver \<Rightarrow> ptp_pin_function \<Rightarrow> u32 \<Rightarrow> nat \<Rightarrow> bool" where
  "bound_pin d func channel i \<longleftrightarrow>
    tgpio_mmio_block_supports_func d (word_of_nat i) func \<noteq> TGPIO_UNSUPPORTED \<and>
    pin_func (pin_config (dev d) i) = func \<and> pin_chan (pin_config (dev d) i) = channel"

text \<open>A block index, or the negated errno.\<close>

definition tgpio_find_mmio_block_for_channel :: "driver \<Rightarrow> ptp_pin_function \<Rightarrow> u32 \<Rightarrow> int + nat" where
  "tgpio_find_mmio_block_for_channel d func channel =
    (if n_ptp_pins (dev d) \<le> channel then Inl (- EINVAL)
     else case List.find (bound_pin d func channel) [0 ..< unat (n_ptp_pins (dev d))] of
       Some i \<Rightarrow> Inr i
     | None \<Rightarrow>
         if tgpio_mmio_block_supports_func d channel func = TGPIO_SUPPORTED
         then Inr (unat channel) else Inl (- EOPNOTSUPP))"

definition tgpio_channel_for_mmio_block :: "driver \<Rightarrow> nat \<Rightarrow> ptp_pin_function \<Rightarrow> u32" where
  "tgpio_channel_for_mmio_block d block_index func =
    (if word_of_nat block_index < n_ptp_pins (dev d) \<and>
        pin_func (pin_config (dev d) block_index) = func
     then pin_chan (pin_config (dev d) block_index) else word_of_nat block_index)"

section \<open>Lemmas\<close>

named_theorems publish_defs \<open>definitions of the publishers\<close>

lemmas [publish_defs] =
  schedule_work_def hrtimer_cancel_def tgpio_output_wake_at_def tgpio_output_timer_def
  tgpio_output_desired_get_def tgpio_disable_output_def tgpio_output_publish_def
  tgpio_resync_outputs_after_phc_step_def tgpio_update_outputs_after_phc_freq_def

text \<open>No publisher touches the hardware or the kernel.\<close>

lemma keeps_publish_kst [frame]:
  "keeps kst (schedule_work b)" "keeps kst (hrtimer_cancel b)" "keeps kst (tgpio_output_wake_at b w)"
  "keeps kst (tgpio_disable_output b)" "keeps kst (tgpio_output_publish b r m p h l f)"
  "keeps kst tgpio_resync_outputs_after_phc_step" "keeps kst tgpio_update_outputs_after_phc_freq"
  by (auto simp: publish_defs intro!: frame)

lemma keeps_publish_hung [frame]:
  "keeps hung (schedule_work b)" "keeps hung (hrtimer_cancel b)" "keeps hung (tgpio_output_wake_at b w)"
  "keeps hung (tgpio_disable_output b)" "keeps hung (tgpio_output_publish b r m p h l f)"
  "keeps hung tgpio_resync_outputs_after_phc_step" "keeps hung tgpio_update_outputs_after_phc_freq"
  by (auto simp: publish_defs intro!: frame)

end
