(* ===== verification/Kernel_Clock.thy ===== *)
theory Kernel_Clock
  imports Output_Desired
begin

text \<open>
  The clock the driver exposes: ART readings through the kernel's timekeeping snapshot, the
  measured realtime rate, the conversions \<open>tgpio_clock_*\<close> that choose between the PHC model
  and the kernel's clock, the clock's initialisation and the periodic rate refinement.
\<close>

section \<open>Reading ART\<close>

definition tgpio_snapshot_art_cycles :: "'k kernel \<Rightarrow> system_time_snapshot \<Rightarrow> u64 option" where
  "tgpio_snapshot_art_cycles K snapshot =
    (if k_7_2 K then
       if \<not> ss_valid snapshot then None
       else if ss_hw_is_art snapshot then Some (ss_hw_cycles snapshot)
       else if ss_is_art snapshot then Some (ss_cycles snapshot)
       else None
     else if \<not> ss_is_art snapshot then None
     else Some (ss_cycles snapshot))"

definition tgpio_get_realtime_snapshot :: "'k kernel \<Rightarrow> ('k sys, system_time_snapshot) state" where
  "tgpio_get_realtime_snapshot K = liftk (k_get_snapshot K)"

definition ktime_get_real :: "'k kernel \<Rightarrow> ('k sys, s64) state" where
  "ktime_get_real K = liftk (k_get_real K)"

definition ktime_get_raw_ns :: "'k kernel \<Rightarrow> ('k sys, s64) state" where
  "ktime_get_raw_ns K = liftk (k_get_raw K)"

definition ktime_real_to_art :: "'k kernel \<Rightarrow> s64 \<Rightarrow> ('k sys, u64 option) state" where
  "ktime_real_to_art K t = liftk (k_real_to_art K t)"

definition tgpio_get_current_art :: "'k kernel \<Rightarrow> ('k sys, u64 tgpio_result) state" where
  "tgpio_get_current_art K = do {
     snapshot \<leftarrow> tgpio_get_realtime_snapshot K;
     (case tgpio_snapshot_art_cycles K snapshot of
        Some art \<Rightarrow> ret (tgpio_ok art)
      | None \<Rightarrow> do {
          real \<leftarrow> ktime_get_real K;
          r \<leftarrow> ktime_real_to_art K real;
          ret (case r of None \<Rightarrow> tgpio_err TGPIO_E_NODEV | Some art \<Rightarrow> tgpio_ok art)
        })
   }"

section \<open>The realtime rate\<close>

definition tgpio_output_phase_nudge_min_ns :: "('k sys, u64) state" where
  "tgpio_output_phase_nudge_min_ns = do {
     rate_art \<leftarrow> get_cal realtime_rate_art_cycles;
     rate_real \<leftarrow> get_cal realtime_rate_real_ns;
     freq \<leftarrow> param art_frequency;
     ret (if rate_art \<noteq> 0 \<and> rate_real \<noteq> 0 then max (div_round_closest rate_real rate_art) 1
          else if freq \<noteq> 0 then max (div_round_closest NSEC_PER_SEC freq) 1
          else 1)
   }"

definition tgpio_clock_uses_model :: "('k sys, bool) state" where
  "tgpio_clock_uses_model = param (\<lambda>p. clock_mode p \<noteq> TGPIO_CLOCK_REALTIME)"

definition tgpio_realtime_delta_to_art_cycles ::
    "'k kernel \<Rightarrow> u64 \<Rightarrow> ('k sys, u64 tgpio_result) state" where
  "tgpio_realtime_delta_to_art_cycles K delta_ns =
    (if delta_ns = 0 \<or> S64_MAX < delta_ns then ret (tgpio_err TGPIO_E_RANGE)
     else do {
       rate_art \<leftarrow> get_cal realtime_rate_art_cycles;
       rate_real \<leftarrow> get_cal realtime_rate_real_ns;
       projection \<leftarrow> param experimental_instantaneous_realtime_projection;
       model \<leftarrow> tgpio_clock_uses_model;
       if rate_art \<noteq> 0 \<and> rate_real \<noteq> 0 \<and> \<not> projection
       then ret (tgpio_rescale_nearest delta_ns rate_real rate_art)
       else if \<not> model \<and> \<not> projection then ret (tgpio_err TGPIO_E_NODEV)
       else do {
         start \<leftarrow> ktime_get_real K;
         if start <s 0 then ret (tgpio_err TGPIO_E_RANGE)
         else (case tgpio_add_s64 start delta_ns of
           Inl e \<Rightarrow> ret (tgpio_err e)
         | Inr end_ns \<Rightarrow> do {
             sa \<leftarrow> ktime_real_to_art K start;
             (case sa of None \<Rightarrow> ret (tgpio_err TGPIO_E_NODEV)
              | Some start_art \<Rightarrow> do {
                  ea \<leftarrow> ktime_real_to_art K end_ns;
                  ret (case ea of None \<Rightarrow> tgpio_err TGPIO_E_NODEV
                       | Some end_art \<Rightarrow>
                           if end_art \<le> start_art then tgpio_err TGPIO_E_RANGE
                           else tgpio_ok (end_art - start_art))
                })
           })
       }
     })"

definition tgpio_art_cycles_to_realtime_delta_ns ::
    "'k kernel \<Rightarrow> u64 \<Rightarrow> ('k sys, u64 tgpio_result) state" where
  "tgpio_art_cycles_to_realtime_delta_ns K cycles = do {
     cycles_per_sec \<leftarrow> tgpio_realtime_delta_to_art_cycles K NSEC_PER_SEC;
     ret (case cycles_per_sec of
            Inl e \<Rightarrow> tgpio_err e
          | Inr hz \<Rightarrow> tgpio_rescale_nearest cycles hz NSEC_PER_SEC)
   }"

section \<open>Conversions in the current clock mode\<close>

definition tgpio_phc_params_get :: "('k sys, tgpio_phc_params) state" where
  "tgpio_phc_params_get = get_dev phc"

definition tgpio_clock_phc_art_to_ns :: "u64 \<Rightarrow> ('k sys, s64 tgpio_result) state" where
  "tgpio_clock_phc_art_to_ns art = do {
     p \<leftarrow> tgpio_phc_params_get;
     ret (tgpio_phc_art_to_ns p art)
   }"

definition tgpio_clock_phc_now_ns :: "'k kernel \<Rightarrow> ('k sys, s64 tgpio_result) state" where
  "tgpio_clock_phc_now_ns K = do {
     art \<leftarrow> tgpio_get_current_art K;
     (case art of Inl e \<Rightarrow> ret (tgpio_err e) | Inr a \<Rightarrow> tgpio_clock_phc_art_to_ns a)
   }"

definition tgpio_clock_now_ns :: "'k kernel \<Rightarrow> ('k sys, s64 tgpio_result) state" where
  "tgpio_clock_now_ns K = do {
     model \<leftarrow> tgpio_clock_uses_model;
     if model then tgpio_clock_phc_now_ns K
     else do { now \<leftarrow> ktime_get_real K; ret (tgpio_ok now) }
   }"

text \<open>
  The anchor pair of the realtime conversions: ART and realtime of one instant.
\<close>

definition tgpio_realtime_anchor :: "'k kernel \<Rightarrow> ('k sys, (u64 \<times> s64) tgpio_result) state" where
  "tgpio_realtime_anchor K = do {
     snapshot \<leftarrow> tgpio_get_realtime_snapshot K;
     (case tgpio_snapshot_art_cycles K snapshot of
        Some art_now \<Rightarrow> ret (tgpio_ok (art_now, ss_real snapshot))
      | None \<Rightarrow> do {
          real \<leftarrow> ktime_get_real K;
          r \<leftarrow> ktime_real_to_art K real;
          ret (case r of None \<Rightarrow> tgpio_err TGPIO_E_NODEV
                       | Some art_now \<Rightarrow> tgpio_ok (art_now, real))
        })
   }"

definition tgpio_clock_ns_to_art :: "'k kernel \<Rightarrow> s64 \<Rightarrow> ('k sys, u64 tgpio_result) state" where
  "tgpio_clock_ns_to_art K ns = do {
     model \<leftarrow> tgpio_clock_uses_model;
     projection \<leftarrow> param experimental_instantaneous_realtime_projection;
     if model then do { p \<leftarrow> tgpio_phc_params_get; ret (tgpio_phc_ns_to_art p ns) }
     else if projection then do {
       r \<leftarrow> ktime_real_to_art K ns;
       ret (case r of None \<Rightarrow> tgpio_err TGPIO_E_NODEV | Some art_now \<Rightarrow> tgpio_ok art_now)
     }
     else do {
       anchor \<leftarrow> tgpio_realtime_anchor K;
       (case anchor of
          Inl e \<Rightarrow> ret (tgpio_err e)
        | Inr (art_now, real_now) \<Rightarrow>
            if real_now <s 0 then ret (tgpio_err TGPIO_E_RANGE)
            else do {
              delta \<leftarrow> tgpio_realtime_delta_to_art_cycles K
                         (if real_now \<le>s ns then ns - real_now else real_now - ns);
              ret (case delta of
                     Inl e \<Rightarrow> tgpio_err e
                   | Inr d \<Rightarrow>
                       if real_now \<le>s ns then
                         if U64_MAX - d < art_now then tgpio_err TGPIO_E_RANGE
                         else tgpio_ok (art_now + d)
                       else if art_now < d then tgpio_err TGPIO_E_RANGE
                       else tgpio_ok (art_now - d))
            })
     }
   }"

definition tgpio_clock_delta_to_real_ns :: "s64 \<Rightarrow> ('k sys, u64 tgpio_result) state" where
  "tgpio_clock_delta_to_real_ns clock_delta_ns = do {
     model \<leftarrow> tgpio_clock_uses_model;
     p \<leftarrow> tgpio_phc_params_get;
     ret (if model then tgpio_phc_delta_to_real_ns p clock_delta_ns
          else if clock_delta_ns \<le>s 0 then tgpio_ok 0
          else tgpio_ok clock_delta_ns)
   }"

definition tgpio_clock_delta_to_art_cycles ::
    "'k kernel \<Rightarrow> s64 \<Rightarrow> ('k sys, u64 tgpio_result) state" where
  "tgpio_clock_delta_to_art_cycles K clock_delta_ns = do {
     model \<leftarrow> tgpio_clock_uses_model;
     p \<leftarrow> tgpio_phc_params_get;
     cycles \<leftarrow>
       (if model then ret (tgpio_phc_delta_to_art_cycles p clock_delta_ns)
        else do {
          real \<leftarrow> tgpio_clock_delta_to_real_ns clock_delta_ns;
          (case real of
             Inl e \<Rightarrow> ret (tgpio_err e)
           | Inr r \<Rightarrow> if S64_MAX < r then ret (tgpio_err TGPIO_E_RANGE)
                      else tgpio_realtime_delta_to_art_cycles K r)
        });
     ret (case cycles of
            Inl e \<Rightarrow> tgpio_err e
          | Inr c \<Rightarrow> if c = 0 then tgpio_err TGPIO_E_RANGE else tgpio_ok c)
   }"

definition tgpio_clock_art_cycles_to_delta_ns ::
    "'k kernel \<Rightarrow> u64 \<Rightarrow> ('k sys, u64 tgpio_result) state" where
  "tgpio_clock_art_cycles_to_delta_ns K cycles = do {
     model \<leftarrow> tgpio_clock_uses_model;
     p \<leftarrow> tgpio_phc_params_get;
     if model then ret (tgpio_phc_art_cycles_to_delta_ns p cycles)
     else tgpio_art_cycles_to_realtime_delta_ns K cycles
   }"

definition tgpio_clock_art_to_ns :: "'k kernel \<Rightarrow> u64 \<Rightarrow> ('k sys, s64 tgpio_result) state" where
  "tgpio_clock_art_to_ns K art = do {
     model \<leftarrow> tgpio_clock_uses_model;
     if model then tgpio_clock_phc_art_to_ns art
     else do {
       anchor \<leftarrow> tgpio_realtime_anchor K;
       (case anchor of
          Inl e \<Rightarrow> ret (tgpio_err e)
        | Inr (art_now, real_now) \<Rightarrow>
            if real_now <s 0 then ret (tgpio_err TGPIO_E_RANGE)
            else do {
              delta \<leftarrow> tgpio_clock_art_cycles_to_delta_ns K
                         (if art_now \<le> art then art - art_now else art_now - art);
              ret (case delta of
                     Inl e \<Rightarrow> tgpio_err TGPIO_E_RANGE
                   | Inr d \<Rightarrow>
                       if S64_MAX < d then tgpio_err TGPIO_E_RANGE
                       else tgpio_add_s64 real_now (if art_now \<le> art then d else - d))
            })
     }
   }"

section \<open>Quantization of a period\<close>

record tgpio_output_quantization =
  q_clock_half_period_ns :: u64
  q_art_half_period_cycles :: u64
  q_actual_half_period_ns :: u64
  q_actual_period_ns :: u64
  q_half_period_error_ns :: s64
  q_period_error_ns :: s64
  q_period_split_error_ns :: s64

definition tgpio_output_quantization_get ::
    "'k kernel \<Rightarrow> u64 \<Rightarrow> u64 \<Rightarrow> ('k sys, tgpio_output_quantization tgpio_result) state" where
  "tgpio_output_quantization_get K period_ns half_period_ns = do {
     art_half \<leftarrow> tgpio_clock_delta_to_art_cycles K half_period_ns;
     (case art_half of
        Inl e \<Rightarrow> ret (tgpio_err e)
      | Inr cycles \<Rightarrow>
          if cycles = 0 then ret (tgpio_err TGPIO_E_RANGE)
          else do {
            actual_half \<leftarrow> tgpio_clock_art_cycles_to_delta_ns K cycles;
            ret (case actual_half of
                   Inl e \<Rightarrow> tgpio_err e
                 | Inr ns \<Rightarrow>
                     if S64_MAX < ns then tgpio_err TGPIO_E_RANGE
                     else
                       let split_error = (if period_ns AND 1 \<noteq> 0 then - 1 else 0);
                           half_error = ns - half_period_ns
                       in case tgpio_add_s64 half_error half_error of
                            Inl e \<Rightarrow> tgpio_err e
                          | Inr double_error \<Rightarrow>
                             (case tgpio_add_s64 double_error split_error of
                                Inl e \<Rightarrow> tgpio_err e
                              | Inr period_error \<Rightarrow> tgpio_ok
                                  \<lparr>q_clock_half_period_ns = half_period_ns,
                                   q_art_half_period_cycles = cycles,
                                   q_actual_half_period_ns = ns,
                                   q_actual_period_ns = ns * 2,
                                   q_half_period_error_ns = half_error,
                                   q_period_error_ns = period_error,
                                   q_period_split_error_ns = split_error\<rparr>))
          })
   }"

section \<open>Frames\<close>

named_theorems clock_defs \<open>definitions of the clock functions\<close>

lemmas [clock_defs] =
  tgpio_get_realtime_snapshot_def ktime_get_real_def ktime_get_raw_ns_def ktime_real_to_art_def
  tgpio_get_current_art_def tgpio_output_phase_nudge_min_ns_def tgpio_clock_uses_model_def
  tgpio_realtime_delta_to_art_cycles_def tgpio_art_cycles_to_realtime_delta_ns_def
  tgpio_phc_params_get_def tgpio_clock_phc_art_to_ns_def tgpio_clock_phc_now_ns_def
  tgpio_clock_now_ns_def tgpio_realtime_anchor_def tgpio_clock_ns_to_art_def
  tgpio_clock_delta_to_real_ns_def tgpio_clock_delta_to_art_cycles_def
  tgpio_clock_art_cycles_to_delta_ns_def tgpio_clock_art_to_ns_def
  tgpio_output_quantization_get_def

text \<open>Reading a clock never changes the driver's memory and never hangs.\<close>

lemma keeps_kernel_reads [frame]:
  "keeps drv (tgpio_get_realtime_snapshot K)" "keeps drv (ktime_get_real K)"
  "keeps drv (ktime_get_raw_ns K)" "keeps drv (ktime_real_to_art K t)"
  "keeps hung (tgpio_get_realtime_snapshot K)" "keeps hung (ktime_get_real K)"
  "keeps hung (ktime_get_raw_ns K)" "keeps hung (ktime_real_to_art K t)"
  by (auto simp: tgpio_get_realtime_snapshot_def ktime_get_real_def ktime_get_raw_ns_def
      ktime_real_to_art_def intro!: frame)

lemma keeps_case_prod [frame]:
  "(\<And>x y. keeps f (g x y)) \<Longrightarrow> keeps f (case p of (x, y) \<Rightarrow> g x y)"
  by (cases p) simp

lemma keeps_clock_pure [frame]:
  "keeps f tgpio_output_phase_nudge_min_ns" "keeps f tgpio_clock_uses_model"
  "keeps f tgpio_phc_params_get" "keeps f (tgpio_clock_phc_art_to_ns art)"
  "keeps f (tgpio_clock_delta_to_real_ns d)"
  by (auto simp: tgpio_output_phase_nudge_min_ns_def tgpio_clock_uses_model_def
      tgpio_phc_params_get_def tgpio_clock_phc_art_to_ns_def tgpio_clock_delta_to_real_ns_def
      intro!: frame)

lemma keeps_current_art [frame]:
  "keeps drv (tgpio_get_current_art K)" "keeps hung (tgpio_get_current_art K)"
  by (auto simp: tgpio_get_current_art_def intro!: frame)

lemma keeps_realtime_delta [frame]:
  "keeps drv (tgpio_realtime_delta_to_art_cycles K d)"
  "keeps hung (tgpio_realtime_delta_to_art_cycles K d)"
  by (auto simp: tgpio_realtime_delta_to_art_cycles_def intro!: frame)

lemma keeps_realtime_delta_ns [frame]:
  "keeps drv (tgpio_art_cycles_to_realtime_delta_ns K c)"
  "keeps hung (tgpio_art_cycles_to_realtime_delta_ns K c)"
  by (auto simp: tgpio_art_cycles_to_realtime_delta_ns_def intro!: frame)

lemma keeps_clock_now [frame]:
  "keeps drv (tgpio_clock_phc_now_ns K)" "keeps hung (tgpio_clock_phc_now_ns K)"
  "keeps drv (tgpio_clock_now_ns K)" "keeps hung (tgpio_clock_now_ns K)"
  "keeps drv (tgpio_realtime_anchor K)" "keeps hung (tgpio_realtime_anchor K)"
  by (auto simp: tgpio_clock_phc_now_ns_def tgpio_clock_now_ns_def tgpio_realtime_anchor_def
      intro!: frame)

lemma keeps_clock_convert [frame]:
  "keeps drv (tgpio_clock_ns_to_art K ns)" "keeps hung (tgpio_clock_ns_to_art K ns)"
  "keeps drv (tgpio_clock_delta_to_art_cycles K d)" "keeps hung (tgpio_clock_delta_to_art_cycles K d)"
  "keeps drv (tgpio_clock_art_cycles_to_delta_ns K c)"
  "keeps hung (tgpio_clock_art_cycles_to_delta_ns K c)"
  by (auto simp: tgpio_clock_ns_to_art_def tgpio_clock_delta_to_art_cycles_def
      tgpio_clock_art_cycles_to_delta_ns_def intro!: frame)

lemma keeps_clock_art_to_ns [frame]:
  "keeps drv (tgpio_clock_art_to_ns K art)" "keeps hung (tgpio_clock_art_to_ns K art)"
  "keeps drv (tgpio_output_quantization_get K p h)" "keeps hung (tgpio_output_quantization_get K p h)"
  by (auto simp: tgpio_clock_art_to_ns_def tgpio_output_quantization_get_def intro!: frame)

end
