(* ===== verification/Output_Hw.thy ===== *)
theory Output_Hw
  imports Kernel_Clock
begin

text \<open>
  Programming an output block: compare values, timing of the first edge, stopping and arming,
  and the phase of a free-running block. Only \<open>output_work\<close> (and the status file, which reads)
  calls these. Log functions that read a clock or a register on the way are kept as their
  reads; those that only print are not modelled.
\<close>

text \<open>The log switches; \<open>verbose\<close> is a superset of the other two.\<close>

definition tgpio_log_activity_on :: "('k sys, bool) state" where
  "tgpio_log_activity_on = param (\<lambda>p. activity_log p \<or> verbose p)"

definition tgpio_log_rounding_on :: "('k sys, bool) state" where
  "tgpio_log_rounding_on = param (\<lambda>p. verbose_rounding p \<or> verbose p)"

section \<open>Edges and compare values\<close>

definition tgpio_clock_ns_to_compare_art ::
    "'k kernel \<Rightarrow> s64 \<Rightarrow> ('k sys, u64 tgpio_result) state" where
  "tgpio_clock_ns_to_compare_art K edge_time_ns = do {
     offset \<leftarrow> param output_phase_offset_ns;
     (case tgpio_add_s64 edge_time_ns offset of
        Inl e \<Rightarrow> ret (tgpio_err e)
      | Inr shifted \<Rightarrow> do {
          art \<leftarrow> tgpio_clock_ns_to_art K shifted;
          ret (case art of
                 Inl e \<Rightarrow> tgpio_err e
               | Inr a \<Rightarrow> tgpio_ok (if TGPIO_ART_HW_DELAY_CYCLES < a
                                     then a - TGPIO_ART_HW_DELAY_CYCLES else a))
        })
   }"

definition tgpio_output_interval_after_edge ::
    "tgpio_mmio_block \<Rightarrow> tgpio_logical_edge \<Rightarrow> u64" where
  "tgpio_output_interval_after_edge m edge =
    (if edge = TGPIO_EDGE_RISE then output_high_time_ns m else output_low_time_ns m)"

definition tgpio_program_output_edge ::
    "'k kernel \<Rightarrow> nat \<Rightarrow> s64 \<Rightarrow> u32 \<Rightarrow> ('k sys, tgpio_status) state" where
  "tgpio_program_output_edge K b edge_time edge_bits = do {
     art \<leftarrow> tgpio_clock_ns_to_compare_art K edge_time;
     (case art of
        Inl e \<Rightarrow> ret e
      | Inr a \<Rightarrow> do {
          ctl \<leftarrow> tgpio_read_ctl K b;
          ctrl \<leftarrow> ret ((ctl AND NOT TGPIOCTL_EP) OR edge_bits);
          (if edge_bits = TGPIOCTL_EP_TOGGLE then do {
             tgpio_write_compv K b a;
             tgpio_write_ctl K b ctrl
           }
           else do {
             tgpio_write_ctl K b ctrl;
             tgpio_write_compv K b a
           });
          ret TGPIO_OK
        })
   }"

section \<open>Timing of the first edge\<close>

record tgpio_output_timing =
  tim_first_edge_ns :: s64
  tim_prime_edge_ns :: s64
  tim_timer_start :: s64

definition tgpio_prepare_output_timing ::
    "'k kernel \<Rightarrow> u64 \<Rightarrow> u64 \<Rightarrow> tgpio_output_mode \<Rightarrow> s64 \<Rightarrow>
      ('k sys, tgpio_output_timing tgpio_result) state" where
  "tgpio_prepare_output_timing K min_interval_ns period_ns mode requested_first_edge_ns = do {
     now \<leftarrow> tgpio_clock_now_ns K;
     (case now of
        Inl e \<Rightarrow> ret (tgpio_err TGPIO_E_NODEV)
      | Inr n \<Rightarrow>
          let lead_ns = (if mode = TGPIO_OUTPUT_HARDWARE then TGPIO_OUTPUT_SAFE_TIME_NS
                         else tgpio_output_lead_time_ns min_interval_ns)
          in if n <s 0 \<or> S64_MAX div 3 < lead_ns then ret (tgpio_err TGPIO_E_RANGE)
             else (case tgpio_add_s64 n (3 * lead_ns) of
               Inl e \<Rightarrow> ret (tgpio_err e)
             | Inr min_first \<Rightarrow>
                 let first_edge_ns =
                       tgpio_output_align_first_edge requested_first_edge_ns min_first period_ns
                 in (case (tgpio_add_s64 first_edge_ns (- 2 * lead_ns),
                           tgpio_add_s64 first_edge_ns (- lead_ns)) of
                   (Inr prime, Inr timer_start_ns) \<Rightarrow>
                     (case tgpio_add_s64 timer_start_ns (- n) of
                        Inl e \<Rightarrow> ret (tgpio_err TGPIO_E_RANGE)
                      | Inr timer_delay_clock \<Rightarrow> do {
                          timer_delay \<leftarrow> tgpio_clock_delta_to_real_ns timer_delay_clock;
                          (case timer_delay of
                             Inl e \<Rightarrow> ret (tgpio_err TGPIO_E_NODEV)
                           | Inr delay \<Rightarrow> do {
                               now_real \<leftarrow> ktime_get_real K;
                               timer_start \<leftarrow> ret (now_real + delay);
                               ret (tgpio_ok
                                 \<lparr>tim_first_edge_ns = first_edge_ns, tim_prime_edge_ns = prime,
                                  tim_timer_start =
                                    (if timer_start <s now_real then now_real else timer_start)\<rparr>)
                             })
                        })
                 | _ \<Rightarrow> ret (tgpio_err TGPIO_E_RANGE))))
   }"

section \<open>Stopping\<close>

definition tgpio_disable_output_hw :: "'k kernel \<Rightarrow> nat \<Rightarrow> ('k sys, unit) state" where
  "tgpio_disable_output_hw K b = do {
     ctrl \<leftarrow> tgpio_read_ctl K b;
     tgpio_write_ctl K b (tgpio_ctl_without ctrl TGPIOCTL_EN);
     tgpio_hw_flop_fold K b;
     tgpio_write_compv K b 0;
     tgpio_write_piv K b 0;
     tgpio_write_ctl K b (tgpio_ctl_without ctrl (TGPIOCTL_EN OR TGPIOCTL_PM));
     upd_blk b (\<lambda>m. m\<lparr>output_phase := TGPIO_OUTPUT_TOGGLE, output_hw_first_art := 0,
                      output_hw_piv := 0\<rparr>)
   }"

section \<open>Phase of a free-running block\<close>

record tgpio_hw_phase =
  ph_pending_ns :: s64
  ph_error_ns :: s64
  ph_nudge_safe :: bool

text \<open>
  Realtime mode recomputes the error in the ART domain; where that fails the first estimate
  stands. The result is the pending time and the error.
\<close>

definition tgpio_hw_phase_refine ::
    "'k kernel \<Rightarrow> u64 \<Rightarrow> s64 \<Rightarrow> s64 \<Rightarrow> ('k sys, s64 \<times> s64) state" where
  "tgpio_hw_phase_refine K compv pending err_ns = do {
     target \<leftarrow> tgpio_clock_ns_to_compare_art K (pending - err_ns);
     (case target of
        Inl e \<Rightarrow> ret (pending, err_ns)
      | Inr t \<Rightarrow> do {
          late \<leftarrow> ret (t \<le> compv);
          exact \<leftarrow> tgpio_clock_art_cycles_to_delta_ns K (if late then compv - t else t - compv);
          ret (case exact of
                 Inl e \<Rightarrow> (pending, err_ns)
               | Inr ns \<Rightarrow>
                   if S64_MAX < ns then (pending, err_ns)
                   else let e = (if late then ns else - ns) in (pending - err_ns + e, e))
        })
   }"

definition tgpio_hw_periodic_phase_get ::
    "'k kernel \<Rightarrow> nat \<Rightarrow> s64 \<Rightarrow> u64 \<Rightarrow> ('k sys, tgpio_hw_phase tgpio_result) state" where
  "tgpio_hw_periodic_phase_get K b grid_start_ns half_ns =
    (if half_ns = 0 \<or> S64_MAX div 4 < half_ns \<or> grid_start_ns <s 0
     then ret (tgpio_err TGPIO_E_INVAL)
     else do {
       compv \<leftarrow> tgpio_read_compv K b;
       if compv = 0 \<or> U64_MAX - TGPIO_ART_HW_DELAY_CYCLES < compv
       then ret (tgpio_err TGPIO_E_RANGE)
       else do {
         pending \<leftarrow> tgpio_clock_art_to_ns K (compv + TGPIO_ART_HW_DELAY_CYCLES);
         now \<leftarrow> tgpio_clock_now_ns K;
         offset \<leftarrow> param output_phase_offset_ns;
         (case (pending, now) of
            (Inr p, Inr n) \<Rightarrow>
              if n <s 0 then ret (tgpio_err TGPIO_E_RANGE)
              else (case tgpio_add_s64 p (- offset) of
                Inl e \<Rightarrow> ret (tgpio_err TGPIO_E_RANGE)
              | Inr pend \<Rightarrow>
                  if pend <s grid_start_ns \<or> pend <s n - half_ns \<or> 4 * half_ns <s pend - n
                  then ret (tgpio_err TGPIO_E_RANGE)
                  else do {
                    rem \<leftarrow> ret ((pend - grid_start_ns) mod half_ns);
                    err_ns \<leftarrow> ret (if half_ns - rem \<le> rem then rem - half_ns else rem);
                    model \<leftarrow> tgpio_clock_uses_model;
                    refined \<leftarrow>
                      (if model then ret (pend, err_ns)
                       else tgpio_hw_phase_refine K compv pend err_ns);
                    ret (tgpio_ok
                      \<lparr>ph_pending_ns = fst refined, ph_error_ns = snd refined,
                       ph_nudge_safe = (n + TGPIO_OUTPUT_SAFE_TIME_NS \<le>s fst refined)\<rparr>)
                  })
          | _ \<Rightarrow> ret (tgpio_err TGPIO_E_RANGE))
       }
     })"

text \<open>The reads of the arm-time quantization log, which run whether or not anything prints.\<close>

definition tgpio_log_output_quantization ::
    "'k kernel \<Rightarrow> nat \<Rightarrow> s64 \<Rightarrow> u64 \<Rightarrow> ('k sys, unit) state" where
  "tgpio_log_output_quantization K b first_edge_ns half_period_ns =
    (if half_period_ns = 0 \<or> S64_MAX div 2 < half_period_ns then ret ()
     else do {
       quant \<leftarrow> tgpio_output_quantization_get K (2 * half_period_ns) half_period_ns;
       (case quant of
          Inl e \<Rightarrow> ret ()
        | Inr q \<Rightarrow> do {
            phase \<leftarrow> tgpio_hw_periodic_phase_get K b first_edge_ns half_period_ns;
            ret ()
          })
     })"

section \<open>Arming\<close>

text \<open>
  The first compare of a hardware waveform: with the level flop high the first toggle is a
  fall, one low time before the requested rise.
\<close>

definition hw_first_slot :: "bool \<Rightarrow> u64 \<Rightarrow> u64 \<Rightarrow> u64 \<Rightarrow> u64" where
  "hw_first_slot flop_high first_art high_art low_art =
    (if flop_high then
       if low_art < first_art then first_art - low_art else first_art + high_art
     else first_art)"

text \<open>
  The late-arm guard: \<open>None\<close> when the push does not fit, otherwise the first compare, moved
  by whole periods when it lies before the deadline.
\<close>

definition hw_late_push :: "u64 \<Rightarrow> u64 \<Rightarrow> u64 \<Rightarrow> u64 option" where
  "hw_late_push first_art deadline period_cycles =
    (if first_art < deadline then
       let periods = (deadline - first_art) div period_cycles + 1 in
       if (U64_MAX - first_art) div period_cycles < periods then None
       else Some (first_art + periods * period_cycles)
     else Some first_art)"

text \<open>
  The sequence both arming functions open with: stop the events, fold the pending toggles
  into the tracked level, clear the compare and interval, leave the block an idle output.
\<close>

definition output_quiesce :: "'k kernel \<Rightarrow> nat \<Rightarrow> ('k sys, u32) state" where
  "output_quiesce K b = do {
     ctl \<leftarrow> tgpio_read_ctl K b;
     tgpio_write_ctl K b (tgpio_ctl_without ctl TGPIOCTL_EN);
     tgpio_hw_flop_fold K b;
     tgpio_write_compv K b 0;
     tgpio_write_piv K b 0;
     ctrl \<leftarrow> ret (tgpio_ctl_without (tgpio_ctl_without ctl TGPIOCTL_EN)
                    (TGPIOCTL_DIR OR TGPIOCTL_EP OR TGPIOCTL_PM));
     tgpio_write_ctl K b ctrl;
     ret ctrl
   }"

text \<open>Programming the waveform: mode, interval, compare, the mirror, and the enable last.\<close>

definition output_hw_start ::
    "'k kernel \<Rightarrow> nat \<Rightarrow> u32 \<Rightarrow> u64 \<Rightarrow> u64 \<Rightarrow> s64 \<Rightarrow> u64 \<Rightarrow> u64 \<Rightarrow> ('k sys, unit) state" where
  "output_hw_start K b ctrl0 start initial_piv first_edge_ns high_time_ns low_time_ns = do {
     ctrl \<leftarrow> ret (tgpio_ctl_with ctrl0 (TGPIOCTL_EP_TOGGLE OR TGPIOCTL_PM));
     tgpio_write_ctl K b ctrl;
     tgpio_write_piv K b initial_piv;
     tgpio_write_compv K b start;
     upd_blk b (\<lambda>m. m\<lparr>output_high_time_ns := high_time_ns,
       output_low_time_ns := low_time_ns, output_next_edge := first_edge_ns,
       output_phase := (if high_time_ns \<noteq> low_time_ns then TGPIO_OUTPUT_HW_DUTY
                        else TGPIO_OUTPUT_HARDWARE_PERIODIC),
       output_hw_first_art := start, output_hw_piv := initial_piv,
       output_hw_ckpt_compv := start\<rparr>);
     activity \<leftarrow> tgpio_log_activity_on;
     when_m activity (do { _ \<leftarrow> tgpio_clock_art_cycles_to_delta_ns K initial_piv; ret () });
     tgpio_write_ctl K b (tgpio_ctl_with ctrl TGPIOCTL_EN);
     if high_time_ns = low_time_ns
     then tgpio_log_output_quantization K b first_edge_ns high_time_ns
     else do {
       now \<leftarrow> ktime_get_real K;
       tgpio_output_wake_at b (now + TGPIO_HW_DUTY_SERVICE_DELAY_NS)
     }
   }"

text \<open>\<open>tgpio_arm_hardware_periodic\<close> once its three conversions have succeeded.\<close>

definition arm_hw_program ::
    "'k kernel \<Rightarrow> nat \<Rightarrow> u64 \<Rightarrow> u64 \<Rightarrow> u64 \<Rightarrow> s64 \<Rightarrow> u64 \<Rightarrow> u64 \<Rightarrow> ('k sys, int) state" where
  "arm_hw_program K b first high low first_edge_ns high_time_ns low_time_ns = do {
     ctrl \<leftarrow> output_quiesce K b;
     flop_high \<leftarrow> get_blk b output_hw_flop_high;
     slot \<leftarrow> ret (hw_first_slot flop_high first high low);
     now_art \<leftarrow> tgpio_get_current_art K;
     margin \<leftarrow> tgpio_clock_delta_to_art_cycles K (2 * NSEC_PER_MSEC);
     pushed \<leftarrow> ret (case (now_art, margin) of
         (Inr now, Inr mgn) \<Rightarrow>
           if now \<le> U64_MAX - mgn then hw_late_push slot (now + mgn) (high + low)
           else Some slot
       | _ \<Rightarrow> Some slot);
     (case pushed of
        None \<Rightarrow> ret (- ENODEV)
      | Some start \<Rightarrow> do {
          output_hw_start K b ctrl start (if flop_high then low else high) first_edge_ns
            high_time_ns low_time_ns;
          ret 0
        })
   }"

definition tgpio_arm_hardware_periodic ::
    "'k kernel \<Rightarrow> nat \<Rightarrow> s64 \<Rightarrow> u64 \<Rightarrow> u64 \<Rightarrow> ('k sys, int) state" where
  "tgpio_arm_hardware_periodic K b first_edge_ns high_time_ns low_time_ns = do {
     first_art \<leftarrow> tgpio_clock_ns_to_compare_art K first_edge_ns;
     high_art \<leftarrow> tgpio_clock_delta_to_art_cycles K high_time_ns;
     low_art \<leftarrow> tgpio_clock_delta_to_art_cycles K low_time_ns;
     (case (first_art, high_art, low_art) of
        (Inr first, Inr high, Inr low) \<Rightarrow>
          if high = 0 \<or> low = 0 \<or> U64_MAX div 4 < high \<or> U64_MAX div 4 < low
          then ret (- ENODEV)
          else arm_hw_program K b first high low first_edge_ns high_time_ns low_time_ns
      | _ \<Rightarrow> ret (- ENODEV))
   }"

definition tgpio_arm_output ::
    "'k kernel \<Rightarrow> nat \<Rightarrow> s64 \<Rightarrow> s64 \<Rightarrow> u64 \<Rightarrow> u64 \<Rightarrow> tgpio_output_mode \<Rightarrow> ('k sys, int) state" where
  "tgpio_arm_output K b first_edge_ns prime_edge_ns high_time_ns low_time_ns mode = do {
     ctrl \<leftarrow> output_quiesce K b;
     polarity \<leftarrow> param output_polarity;
     primed \<leftarrow> (if mode = TGPIO_OUTPUT_HARDWARE then ret TGPIO_OK
        else tgpio_program_output_edge K b prime_edge_ns
               (tgpio_output_edge_bits polarity TGPIO_EDGE_FALL));
     if primed \<noteq> TGPIO_OK then do {
       tgpio_disable_output_hw K b;
       ret (- ENODEV)
     }
     else do {
       upd_blk b (\<lambda>m. m\<lparr>output_high_time_ns := high_time_ns, output_low_time_ns := low_time_ns,
         output_next_edge := first_edge_ns, output_next_edge_type := TGPIO_EDGE_RISE,
         output_phase := (if mode = TGPIO_OUTPUT_HARDWARE then TGPIO_OUTPUT_ARM_PERIODIC
                          else TGPIO_OUTPUT_FIRST_RISING),
         output_hw_first_art := 0, output_hw_piv := 0\<rparr>);
       when_m (mode \<noteq> TGPIO_OUTPUT_HARDWARE) (do {
         ctrl \<leftarrow> tgpio_read_ctl K b;
         tgpio_write_ctl K b (tgpio_ctl_with ctrl TGPIOCTL_EN)
       });
       ret 0
     }
   }"

section \<open>Frames\<close>

lemma keeps_compare_drv [frame]: "keeps drv (tgpio_clock_ns_to_compare_art K ns)"
  "keeps hung (tgpio_clock_ns_to_compare_art K ns)"
  by (auto simp: tgpio_clock_ns_to_compare_art_def intro!: frame)

lemma keeps_activity [frame]: "keeps f tgpio_log_activity_on" "keeps f tgpio_log_rounding_on"
  by (simp_all add: tgpio_log_activity_on_def tgpio_log_rounding_on_def keeps_readers)

lemma keeps_phase_get_drv [frame]: "keeps drv (tgpio_hw_periodic_phase_get K b g h)"
  by (auto simp: tgpio_hw_periodic_phase_get_def tgpio_hw_phase_refine_def intro!: frame)

lemma keeps_quant_log_drv [frame]: "keeps drv (tgpio_log_output_quantization K b f h)"
  by (auto simp: tgpio_log_output_quantization_def intro!: frame)

end
