(* ===== verification/Output_Work.thy ===== *)
theory Output_Work
  imports Output_Hw
begin

text \<open>
  \<open>tgpio_output_work\<close>, the sole writer of the output hardware, and the operations it funnels
  into: re-arming, frequency refresh and phase nudges, polarity inversion, the asymmetric
  duty service and the drain before a stop.
\<close>

section \<open>Re-arming\<close>

definition tgpio_log_output_arm :: "'k kernel \<Rightarrow> nat \<Rightarrow> tgpio_output_desired \<Rightarrow> ('k sys, unit) state" where
  "tgpio_log_output_arm K b desired = do {
     activity \<leftarrow> tgpio_log_activity_on;
     when_m (activity \<and> des_mode desired = TGPIO_OUTPUT_HARDWARE) (do {
       _ \<leftarrow> tgpio_output_quantization_get K (des_period_ns desired) (des_high_time_ns desired);
       ret ()
     })
   }"

definition tgpio_reconcile_arm :: "'k kernel \<Rightarrow> nat \<Rightarrow> tgpio_output_desired \<Rightarrow> ('k sys, unit) state" where
  "tgpio_reconcile_arm K b desired = do {
     timing \<leftarrow> tgpio_prepare_output_timing K
       (tgpio_output_min_interval_ns (des_high_time_ns desired) (des_low_time_ns desired))
       (des_period_ns desired) (des_mode desired) (des_first_edge_ns desired);
     failed \<leftarrow>
       (case timing of
          Inl e \<Rightarrow> ret True
        | Inr t \<Rightarrow> do {
            r \<leftarrow> tgpio_arm_output K b (tim_first_edge_ns t) (tim_prime_edge_ns t)
                  (des_high_time_ns desired) (des_low_time_ns desired) (des_mode desired);
            ret (r \<noteq> 0)
          });
     (case timing of
        Inr t \<Rightarrow>
          if failed then do { hrtimer_cancel b; tgpio_disable_output_hw K b }
          else do {
            upd_blk b (\<lambda>m. m\<lparr>output_applied_gen := des_gen desired,
                             output_applied_freq_gen := des_freq_gen desired\<rparr>);
            tgpio_log_output_arm K b desired;
            tgpio_output_wake_at b (tim_timer_start t)
          }
      | Inl e \<Rightarrow> do { hrtimer_cancel b; tgpio_disable_output_hw K b })
   }"

section \<open>Following the clock\<close>

definition tgpio_hw_periodic_write_compv_paused :: "'k kernel \<Rightarrow> nat \<Rightarrow> u64 \<Rightarrow> ('k sys, unit) state" where
  "tgpio_hw_periodic_write_compv_paused K b compv = do {
     ctrl \<leftarrow> tgpio_read_ctl K b;
     tgpio_write_ctl K b (tgpio_ctl_without ctrl TGPIOCTL_PM);
     tgpio_write_compv K b compv;
     tgpio_write_ctl K b ctrl;
     upd_blk b (output_hw_ckpt_compv_update (\<lambda>_. compv))
   }"

text \<open>
  A hot PIV write is two 32-bit stores, so it happens only when the high word is unchanged.
\<close>

definition hot_piv_ok :: "u64 \<Rightarrow> u64 \<Rightarrow> bool" where
  "hot_piv_ok piv old \<longleftrightarrow> piv \<noteq> 0 \<and> piv \<noteq> old \<and> upper_32_bits piv = upper_32_bits old"

definition tgpio_log_rounding_interval :: "'k kernel \<Rightarrow> u64 \<Rightarrow> ('k sys, unit) state" where
  "tgpio_log_rounding_interval K piv_cycles = do {
     on \<leftarrow> tgpio_log_rounding_on;
     when_m on (do { _ \<leftarrow> tgpio_clock_art_cycles_to_delta_ns K piv_cycles; ret () })
   }"

definition tgpio_hw_periodic_apply_freq :: "'k kernel \<Rightarrow> nat \<Rightarrow> tgpio_output_desired \<Rightarrow> ('k sys, unit) state" where
  "tgpio_hw_periodic_apply_freq K b desired = do {
     high_time_ns \<leftarrow> get_blk b output_high_time_ns;
     piv \<leftarrow> tgpio_clock_delta_to_art_cycles K high_time_ns;
     tgpio_hw_flop_fold K b;
     old_piv \<leftarrow> get_blk b output_hw_piv;
     (case piv of
        Inl e \<Rightarrow> ret ()
      | Inr v \<Rightarrow> when_m (hot_piv_ok v old_piv) (do {
          tgpio_write_piv K b v;
          upd_blk b (output_hw_piv_update (\<lambda>_. v));
          tgpio_log_rounding_interval K v
        }));
     phase \<leftarrow> tgpio_hw_periodic_phase_get K b (des_first_edge_ns desired) (des_high_time_ns desired);
     (case phase of
        Inl e \<Rightarrow> ret ()
      | Inr ph \<Rightarrow>
          if des_high_time_ns desired div 4 < tgpio_abs_s64 (ph_error_ns ph)
          then tgpio_reconcile_arm K b desired
          else do {
            configured \<leftarrow> param output_phase_tolerance_ns;
            nudge_min \<leftarrow> tgpio_output_phase_nudge_min_ns;
            tolerance \<leftarrow> ret (s64_max configured nudge_min);
            if - tolerance <s ph_error_ns ph \<and> ph_error_ns ph <s tolerance then ret ()
            else if \<not> ph_nudge_safe ph then ret ()
            else do {
              aligned_ns \<leftarrow> ret (ph_pending_ns ph - ph_error_ns ph);
              nudged_art \<leftarrow> tgpio_clock_ns_to_compare_art K aligned_ns;
              (case nudged_art of
                 Inl e \<Rightarrow> ret ()
               | Inr a \<Rightarrow> do {
                   tgpio_hw_periodic_write_compv_paused K b a;
                   upd_blk b (output_next_edge_update (\<lambda>_. aligned_ns))
                 })
            }
          })
   }"

section \<open>Polarity\<close>

text \<open>The loops count their iterations down: 30 waits of 100 ms, 50 waits of 20 ms.\<close>

primrec drain_loop :: "nat \<Rightarrow> 'k kernel \<Rightarrow> nat \<Rightarrow> ('k sys, unit) state" where
  "drain_loop 0 K b = ret ()"
| "drain_loop (Suc n) K b = do {
     flop_high \<leftarrow> get_blk b output_hw_flop_high;
     if flop_high then do {
       liftk (k_msleep K 100);
       tgpio_hw_flop_fold K b;
       drain_loop n K b
     } else ret ()
   }"

definition tgpio_hw_periodic_drain_low :: "'k kernel \<Rightarrow> nat \<Rightarrow> ('k sys, unit) state" where
  "tgpio_hw_periodic_drain_low K b = do {
     phase \<leftarrow> get_blk b output_phase;
     piv \<leftarrow> get_blk b output_hw_piv;
     if (phase \<noteq> TGPIO_OUTPUT_HARDWARE_PERIODIC \<and> phase \<noteq> TGPIO_OUTPUT_HW_DUTY) \<or> piv = 0
     then ret ()
     else do {
       tgpio_hw_flop_fold K b;
       drain_loop 30 K b
     }
   }"

primrec invert_wait_loop :: "nat \<Rightarrow> 'k kernel \<Rightarrow> nat \<Rightarrow> ('k sys, unit) state" where
  "invert_wait_loop 0 K b = ret ()"
| "invert_wait_loop (Suc n) K b = do {
     desired \<leftarrow> tgpio_output_desired_get b;
     half_ns \<leftarrow> get_blk b output_high_time_ns;
     phase \<leftarrow> tgpio_hw_periodic_phase_get K b (des_first_edge_ns desired) half_ns;
     (case phase of
        Inl e \<Rightarrow> ret ()
      | Inr ph \<Rightarrow> if ph_nudge_safe ph then ret ()
          else do { liftk (k_msleep K 20); invert_wait_loop n K b })
   }"

definition tgpio_hw_periodic_invert :: "'k kernel \<Rightarrow> nat \<Rightarrow> ('k sys, unit) state" where
  "tgpio_hw_periodic_invert K b = do {
     upd_blk b (output_hw_flop_high_update Not);
     phase \<leftarrow> get_blk b output_phase;
     piv \<leftarrow> get_blk b output_hw_piv;
     if phase = TGPIO_OUTPUT_HW_DUTY then do {
       desired \<leftarrow> tgpio_output_desired_get b;
       when_m (des_run desired = TGPIO_OUTPUT_RUNNING) (tgpio_reconcile_arm K b desired)
     }
     else if phase \<noteq> TGPIO_OUTPUT_HARDWARE_PERIODIC \<or> piv = 0 then ret ()
     else do {
       invert_wait_loop 50 K b;
       tgpio_hw_flop_fold K b;
       compv \<leftarrow> tgpio_read_compv K b;
       piv \<leftarrow> get_blk b output_hw_piv;
       if U64_MAX - piv < compv then ret ()
       else tgpio_hw_periodic_write_compv_paused K b (compv + piv)
     }
   }"

section \<open>Asymmetric duty\<close>

definition tgpio_hw_duty_service :: "'k kernel \<Rightarrow> nat \<Rightarrow> ('k sys, unit) state" where
  "tgpio_hw_duty_service K b = do {
     tgpio_hw_flop_fold K b;
     half_ns \<leftarrow> get_blk b (\<lambda>m. if output_hw_flop_high m then output_low_time_ns m
                               else output_high_time_ns m);
     piv \<leftarrow> tgpio_clock_delta_to_art_cycles K half_ns;
     old_piv \<leftarrow> get_blk b output_hw_piv;
     (case piv of
        Inl e \<Rightarrow> ret ()
      | Inr v \<Rightarrow> when_m (hot_piv_ok v old_piv) (do {
          tgpio_write_piv K b v;
          upd_blk b (output_hw_piv_update (\<lambda>_. v))
        }));
     compv \<leftarrow> tgpio_read_compv K b;
     if U64_MAX - TGPIO_ART_HW_DELAY_CYCLES < compv then tgpio_disable_output_hw K b
     else do {
       pending \<leftarrow> tgpio_clock_phc_art_to_ns (compv + TGPIO_ART_HW_DELAY_CYCLES);
       now \<leftarrow> tgpio_clock_now_ns K;
       (case (pending, now) of
          (Inr p, Inr n) \<Rightarrow> do {
            delay_clock \<leftarrow> ret (s64_max (p - n + TGPIO_HW_DUTY_SERVICE_DELAY_NS)
                                    TGPIO_HW_DUTY_SERVICE_DELAY_NS);
            delay_real \<leftarrow> tgpio_clock_delta_to_real_ns delay_clock;
            real \<leftarrow> ktime_get_real K;
            tgpio_output_wake_at b (real +
              (case delay_real of Inl e \<Rightarrow> 100 * NSEC_PER_MSEC | Inr d \<Rightarrow> d))
          }
        | _ \<Rightarrow> do {
            real \<leftarrow> ktime_get_real K;
            tgpio_output_wake_at b (real + 100 * NSEC_PER_MSEC)
          })
     }
   }"

section \<open>The work\<close>

text \<open>One software-timed edge: program it, then advance the cadence from the previous wake.\<close>

definition tgpio_output_software_edge :: "'k kernel \<Rightarrow> nat \<Rightarrow> ('k sys, unit) state" where
  "tgpio_output_software_edge K b = do {
     edge \<leftarrow> get_blk b output_next_edge_type;
     next_edge \<leftarrow> get_blk b output_next_edge;
     polarity \<leftarrow> param output_polarity;
     toggle \<leftarrow> param software_rearm_toggle;
     edge_bits \<leftarrow> ret (if toggle then TGPIOCTL_EP_TOGGLE else tgpio_output_edge_bits polarity edge);
     next_interval_ns \<leftarrow> get_blk b (\<lambda>m. tgpio_output_interval_after_edge m edge);
     interval \<leftarrow> tgpio_clock_delta_to_real_ns next_interval_ns;
     programmed \<leftarrow> tgpio_program_output_edge K b next_edge edge_bits;
     (case interval of
        Inr real \<Rightarrow>
          if programmed \<noteq> TGPIO_OK \<or> real = 0 then do {
            hrtimer_cancel b;
            tgpio_disable_output_hw K b
          }
          else do {
            upd_blk b (\<lambda>m. m\<lparr>output_next_edge := next_edge + next_interval_ns,
              output_next_edge_type := tgpio_output_opposite_edge edge,
              output_phase := TGPIO_OUTPUT_TOGGLE\<rparr>);
            wake_at \<leftarrow> get_blk b output_wake_at_time;
            tgpio_output_wake_at b (wake_at + real)
          }
      | Inl e \<Rightarrow> do {
          hrtimer_cancel b;
          tgpio_disable_output_hw K b
        })
   }"

definition tgpio_output_work_same_gen :: "'k kernel \<Rightarrow> nat \<Rightarrow> ('k sys, unit) state" where
  "tgpio_output_work_same_gen K b = do {
     phase \<leftarrow> get_blk b output_phase;
     if phase = TGPIO_OUTPUT_ARM_PERIODIC then do {
       first_edge \<leftarrow> get_blk b output_next_edge;
       high_time_ns \<leftarrow> get_blk b output_high_time_ns;
       low_time_ns \<leftarrow> get_blk b output_low_time_ns;
       r \<leftarrow> tgpio_arm_hardware_periodic K b first_edge high_time_ns low_time_ns;
       when_m (r \<noteq> 0) (tgpio_disable_output_hw K b)
     }
     else if phase = TGPIO_OUTPUT_HW_DUTY then tgpio_hw_duty_service K b
     else if phase = TGPIO_OUTPUT_HARDWARE_PERIODIC then ret ()
     else tgpio_output_software_edge K b
   }"

definition tgpio_output_work :: "'k kernel \<Rightarrow> nat \<Rightarrow> ('k sys, unit) state" where
  "tgpio_output_work K b = do {
     desired \<leftarrow> tgpio_output_desired_get b;
     if des_run desired = TGPIO_OUTPUT_STOPPED then do {
       hrtimer_cancel b;
       tgpio_hw_periodic_drain_low K b;
       tgpio_disable_output_hw K b
     }
     else do {
       applied_flip \<leftarrow> get_blk b output_applied_flip_gen;
       when_m ((des_flip_gen desired - applied_flip) AND 1 \<noteq> 0) (tgpio_hw_periodic_invert K b);
       upd_blk b (output_applied_flip_gen_update (\<lambda>_. des_flip_gen desired));
       applied_gen \<leftarrow> get_blk b output_applied_gen;
       if des_gen desired \<noteq> applied_gen then tgpio_reconcile_arm K b desired
       else do {
         applied_freq_gen \<leftarrow> get_blk b output_applied_freq_gen;
         phase \<leftarrow> get_blk b output_phase;
         if des_freq_gen desired \<noteq> applied_freq_gen then do {
           upd_blk b (output_applied_freq_gen_update (\<lambda>_. des_freq_gen desired));
           if phase = TGPIO_OUTPUT_HARDWARE_PERIODIC
           then tgpio_hw_periodic_apply_freq K b desired
           else if phase = TGPIO_OUTPUT_HW_DUTY then ret ()
           else if phase = TGPIO_OUTPUT_ARM_PERIODIC then do {
             now \<leftarrow> ktime_get_real K;
             wake_at \<leftarrow> get_blk b output_wake_at_time;
             if now <s wake_at then ret () else tgpio_output_work_same_gen K b
           }
           else tgpio_output_work_same_gen K b
         }
         else tgpio_output_work_same_gen K b
       }
     }
   }"

text \<open>The workqueue clears the pending flag before it runs the work.\<close>

definition run_output_work :: "'k kernel \<Rightarrow> nat \<Rightarrow> ('k sys, unit) state" where
  "run_output_work K b = do {
     pending \<leftarrow> get_blk b output_work_pending;
     when_m pending (do {
       upd_blk b (output_work_pending_update (\<lambda>_. False));
       tgpio_output_work K b
     })
   }"

section \<open>What the operations leave alone\<close>

lemma keeps_upd_blk: "(\<And>m. g (f m) = g m) \<Longrightarrow> keeps (\<lambda>s. g (blocks (drv s) c)) (upd_blk b f)"
  by (simp add: keeps_def upd_blk_def)

lemmas keeps_mmio_blk = keeps_mmio_drv [THEN keeps_drvD] keeps_read_compv_drv [THEN keeps_drvD]
  keeps_read_capture_drv [THEN keeps_drvD] keeps_kernel_reads(1-4) [THEN keeps_drvD] keeps_liftk_drv [THEN keeps_drvD]

text \<open>The fold touches only the mirror.\<close>

lemma keeps_fold_blk:
  assumes "\<And>m f. g (output_hw_flop_high_update f m) = g m" "\<And>m f. g (output_hw_ckpt_compv_update f m) = g m"
  shows "keeps (\<lambda>s. g (blocks (drv s) c)) (tgpio_hw_flop_fold K b)"
  unfolding tgpio_hw_flop_fold_def
  by (auto intro!: keeps_bind keeps_if keeps_return keeps_readers keeps_when_m keeps_mmio_blk
      keeps_upd_blk simp: assms)

lemma keeps_drain_blk:
  assumes "\<And>m f. g (output_hw_flop_high_update f m) = g m" "\<And>m f. g (output_hw_ckpt_compv_update f m) = g m"
  shows "keeps (\<lambda>s. g (blocks (drv s) c)) (tgpio_hw_periodic_drain_low K b)"
proof -
  have "keeps (\<lambda>s. g (blocks (drv s) c)) (drain_loop n K b)" for n
    by (induction n) (auto intro!: keeps_bind keeps_if keeps_return keeps_readers keeps_mmio_blk
        keeps_fold_blk simp: assms)
  then show ?thesis
    by (auto simp: tgpio_hw_periodic_drain_low_def assms intro!: keeps_bind keeps_if keeps_return
        keeps_readers keeps_fold_blk)
qed

text \<open>What disabling the block leaves in its state, on any hardware.\<close>

lemma wp_disable_state:
  assumes "\<And>t. output_phase (blocks (drv t) b) = TGPIO_OUTPUT_TOGGLE \<Longrightarrow> output_hw_piv (blocks (drv t) b) = 0 \<Longrightarrow>
     output_timer (blocks (drv t) b) = output_timer (blocks (drv s) b) \<Longrightarrow>
     output_desired (blocks (drv t) b) = output_desired (blocks (drv s) b) \<Longrightarrow>
     output_applied_flip_gen (blocks (drv t) b) = output_applied_flip_gen (blocks (drv s) b) \<Longrightarrow> Q () t"
  shows "wp (tgpio_disable_output_hw K b) Q s"
proof -
  let ?g = "\<lambda>m. (output_timer m, output_desired m, output_applied_flip_gen m)"
  have k: "keeps (\<lambda>s. ?g (blocks (drv s) b)) (do {
     ctrl \<leftarrow> tgpio_read_ctl K b;
     tgpio_write_ctl K b (tgpio_ctl_without ctrl TGPIOCTL_EN);
     tgpio_hw_flop_fold K b;
     tgpio_write_compv K b 0;
     tgpio_write_piv K b 0;
     tgpio_write_ctl K b (tgpio_ctl_without ctrl (TGPIOCTL_EN OR TGPIOCTL_PM)) })"
    by (intro keeps_bind keeps_mmio_blk keeps_fold_blk) simp_all
  have eq: "tgpio_disable_output_hw K b = do {
     _ \<leftarrow> do {
     ctrl \<leftarrow> tgpio_read_ctl K b;
     tgpio_write_ctl K b (tgpio_ctl_without ctrl TGPIOCTL_EN);
     tgpio_hw_flop_fold K b;
     tgpio_write_compv K b 0;
     tgpio_write_piv K b 0;
     tgpio_write_ctl K b (tgpio_ctl_without ctrl (TGPIOCTL_EN OR TGPIOCTL_PM)) };
     upd_blk b (\<lambda>m. m\<lparr>output_phase := TGPIO_OUTPUT_TOGGLE, output_hw_first_art := 0,
                      output_hw_piv := 0\<rparr>) }"
    by (simp add: tgpio_disable_output_hw_def)
  show ?thesis unfolding eq
    by (subst wp_bind, rule wp_keeps [OF k]) (simp add: wp_upd_blk, rule assms, simp_all)
qed

text \<open>The part of a block that only the publishers and the work itself change.\<close>

abbreviation published :: "tgpio_mmio_block \<Rightarrow> tgpio_output_desired \<times> u32" where
  "published m \<equiv> (output_desired m, output_applied_flip_gen m)"

lemma keeps_prepare [frame]: "keeps drv (tgpio_prepare_output_timing K i p m f)"
  by (auto simp: tgpio_prepare_output_timing_def Let_def intro!: frame)

lemma keeps_program_edge [frame]: "keeps drv (tgpio_program_output_edge K b e bits)"
  by (auto simp: tgpio_program_output_edge_def intro!: frame)

lemma keeps_quiesce_blk: "keeps (\<lambda>s. published (blocks (drv s) c)) (output_quiesce K b)"
  by (auto simp: output_quiesce_def intro!: keeps_bind keeps_mmio_blk keeps_fold_blk keeps_return)

lemma keeps_disable_blk: "keeps (\<lambda>s. published (blocks (drv s) c)) (tgpio_disable_output_hw K b)"
  by (auto simp: tgpio_disable_output_hw_def
      intro!: keeps_bind keeps_mmio_blk keeps_fold_blk keeps_return keeps_upd_blk)

lemma keeps_arm_output_blk: "keeps (\<lambda>s. published (blocks (drv s) c)) (tgpio_arm_output K b f p h l m)"
  by (auto simp: tgpio_arm_output_def
      intro!: keeps_bind keeps_if keeps_mmio_blk keeps_quiesce_blk keeps_disable_blk keeps_return keeps_upd_blk
        keeps_when_m keeps_readers keeps_program_edge [THEN keeps_drvD])

lemma keeps_log_arm [frame]: "keeps drv (tgpio_log_output_arm K b d)"
  by (auto simp: tgpio_log_output_arm_def intro!: frame)

lemma wp_reconcile:
  assumes ok: "\<And>t w. output_applied_gen (blocks (drv t) b) = des_gen d \<Longrightarrow>
      output_applied_freq_gen (blocks (drv t) b) = des_freq_gen d \<Longrightarrow>
      output_timer (blocks (drv t) b) = Some w \<Longrightarrow>
      published (blocks (drv t) b) = published (blocks (drv s) b) \<Longrightarrow> Q () t"
    and fail: "\<And>t. output_phase (blocks (drv t) b) = TGPIO_OUTPUT_TOGGLE \<Longrightarrow>
      output_hw_piv (blocks (drv t) b) = 0 \<Longrightarrow> output_timer (blocks (drv t) b) = None \<Longrightarrow>
      published (blocks (drv t) b) = published (blocks (drv s) b) \<Longrightarrow> Q () t"
  shows "wp (tgpio_reconcile_arm K b d) Q s"
proof -
  have stop: "wp (do { hrtimer_cancel b; tgpio_disable_output_hw K b }) Q t"
    if "published (blocks (drv t) b) = published (blocks (drv s) b)" for t
    unfolding hrtimer_cancel_def wp_bind wp_upd_blk
    by (rule wp_disable_state) (rule fail, use that in simp_all)
  have done_ok: "wp (do {
            upd_blk b (\<lambda>m. m\<lparr>output_applied_gen := des_gen d, output_applied_freq_gen := des_freq_gen d\<rparr>);
            tgpio_log_output_arm K b d;
            tgpio_output_wake_at b w }) Q t"
    if p: "published (blocks (drv t) b) = published (blocks (drv s) b)" for t w
    unfolding wp_bind wp_upd_blk tgpio_output_wake_at_def
    by (rule wp_keeps [OF keeps_log_arm], rule ok) (use p in simp_all)
  show ?thesis
    unfolding tgpio_reconcile_arm_def wp_bind
  proof (rule wp_keeps [OF keeps_prepare])
    fix timing and t :: "'a sys" assume t: "drv t = drv s"
    show "wp (case timing of Inl e \<Rightarrow> ret True | Inr tm \<Rightarrow> do {
            r \<leftarrow> tgpio_arm_output K b (tim_first_edge_ns tm) (tim_prime_edge_ns tm)
                  (des_high_time_ns d) (des_low_time_ns d) (des_mode d);
            ret (r \<noteq> 0) }) (\<lambda>failed. wp (case timing of
        Inl e \<Rightarrow> do { hrtimer_cancel b; tgpio_disable_output_hw K b }
      | Inr tm \<Rightarrow>
          if failed then do { hrtimer_cancel b; tgpio_disable_output_hw K b }
          else do {
            upd_blk b (\<lambda>m. m\<lparr>output_applied_gen := des_gen d, output_applied_freq_gen := des_freq_gen d\<rparr>);
            tgpio_log_output_arm K b d;
            tgpio_output_wake_at b (tim_timer_start tm) }) Q) t"
    proof (cases timing)
      case (Inl e)
      then show ?thesis using stop t by (simp add: wp_return)
    next
      case (Inr tm)
      show ?thesis unfolding Inr sum.case wp_bind [of "tgpio_arm_output _ _ _ _ _ _ _"] wp_return
        by (rule wp_keeps [OF keeps_arm_output_blk [of b]]) (use stop done_ok t in \<open>simp split: if_split\<close>)
    qed
  qed
qed

lemma wp_software_edge:
  assumes "\<And>t w. output_next_edge (blocks (drv t) b) =
        output_next_edge (blocks (drv s) b) +
        tgpio_output_interval_after_edge (blocks (drv s) b) (output_next_edge_type (blocks (drv s) b)) \<Longrightarrow>
      output_next_edge_type (blocks (drv t) b) =
        tgpio_output_opposite_edge (output_next_edge_type (blocks (drv s) b)) \<Longrightarrow>
      output_timer (blocks (drv t) b) = Some w \<Longrightarrow> Q () t"
    and "\<And>t. output_phase (blocks (drv t) b) = TGPIO_OUTPUT_TOGGLE \<Longrightarrow>
      output_hw_piv (blocks (drv t) b) = 0 \<Longrightarrow> output_timer (blocks (drv t) b) = None \<Longrightarrow> Q () t"
  shows "wp (tgpio_output_software_edge K b) Q s"
proof -
  have stop: "wp (do { hrtimer_cancel b; tgpio_disable_output_hw K b }) Q t" for t
    unfolding hrtimer_cancel_def wp_bind wp_upd_blk
    by (rule wp_disable_state) (rule assms(2), simp_all)
  have stop': "wp (case interval of Inr real \<Rightarrow>
          if programmed \<noteq> TGPIO_OK \<or> real = 0 then do { hrtimer_cancel b; tgpio_disable_output_hw K b }
          else do {
            upd_blk b (\<lambda>m. m\<lparr>output_next_edge := output_next_edge (blocks (drv s) b) +
                tgpio_output_interval_after_edge (blocks (drv s) b) (output_next_edge_type (blocks (drv s) b)),
              output_next_edge_type := tgpio_output_opposite_edge (output_next_edge_type (blocks (drv s) b)),
              output_phase := TGPIO_OUTPUT_TOGGLE\<rparr>);
            wake_at \<leftarrow> get_blk b output_wake_at_time;
            tgpio_output_wake_at b (wake_at + real)
          }
      | Inl e \<Rightarrow> do { hrtimer_cancel b; tgpio_disable_output_hw K b }) Q t" for interval programmed t
    using stop [of t]
    by (simp add: wp_bind wp_get_blk wp_upd_blk tgpio_output_wake_at_def assms(1) split: sum.split)
  show ?thesis
    unfolding tgpio_output_software_edge_def wp_bind [of "get_blk _ _"] wp_get_blk wp_bind [of "param _"] wp_param
      wp_bind [of "ret _"] wp_return
    apply (subst wp_bind, rule wp_keeps [of drv]) apply (rule frame)
    apply (subst wp_bind, rule wp_keeps [OF keeps_program_edge])
    apply (rule stop')
    done
qed

end
