(* ===== verification/Engine_Bus.thy ===== *)
theory Engine_Bus
  imports Driver_Monad
begin

text \<open>
  The toggle hardware as both drivers rely on it. The interface \<open>mmio_bus\<close> has a register read
  and a register write on the world \<open>'k\<close>, observes one block's control word, compare value,
  interval and pin level there, and has a relation \<open>later\<close> for time passing; \<open>mmio_engine\<close>
  adds how edges move them. Inside it the 64-bit accesses are shown untorn, for a driver
  memory \<open>'d\<close> of any type.
\<close>

section \<open>Words and parity\<close>

lemma upper_uint: "uint (upper_32_bits v) = uint v div 4294967296"
proof -
  have "0 \<le> uint v div 4294967296" "uint v div 4294967296 < 4294967296"
    using uint_lt64 [of v] uint_ge_0 [of v] by (simp_all add: pos_imp_zdiv_nonneg_iff)
  then show ?thesis
    by (simp add: upper_32_bits_def unsigned_ucast_eq unsigned_drop_bit_eq drop_bit_eq_div uint_div
        take_bit_int_eq_self)
qed

lemma upper_mono: "v \<le> w \<Longrightarrow> upper_32_bits v \<le> upper_32_bits w"
  by (simp add: word_le_def upper_uint zdiv_mono1)

text \<open>
  The mirror of a running block: since the checkpoint a whole number of edges has moved COMPV,
  and the tracked level differs from the pin by their parity.
\<close>

definition tracked :: "u64 \<Rightarrow> u64 \<Rightarrow> bool \<Rightarrow> u64 \<Rightarrow> bool \<Rightarrow> bool" where
  "tracked ckpt p flop c lv \<longleftrightarrow> (\<exists>n. unat c = unat ckpt + n * unat p \<and> lv = (flop \<noteq> odd n))"

lemma tracked_same: "tracked c p flop c lv \<Longrightarrow> p \<noteq> 0 \<Longrightarrow> lv = flop"
  unfolding tracked_def by (elim exE) (auto simp add: unat_eq_0)

lemma tracked_refl [simp]: "tracked c p lv c lv"
  unfolding tracked_def by (rule exI [of _ 0]) simp

lemma odd_events: "(w AND 1 \<noteq> 0) = odd (unat (w :: u64))"
proof -
  have "odd w = odd (unat w)" by (simp flip: bit_0 add: bit_unsigned_iff)
  then show ?thesis by (simp add: and_one_eq mod_2_eq_odd)
qed

lemma tracked_fold:
  assumes "tracked ckpt p flop c lv" "p \<noteq> 0"
  shows "\<not> c < ckpt" "(if ((c - ckpt) div p) AND 1 \<noteq> 0 then \<not> flop else flop) = lv"
proof -
  obtain n where n: "unat c = unat ckpt + n * unat p" "lv = (flop \<noteq> odd n)"
    using assms(1) unfolding tracked_def by blast
  show le: "\<not> c < ckpt" unfolding word_less_nat_alt n(1) by linarith
  then have "unat (c - ckpt) = unat c - unat ckpt" by (simp add: unat_sub not_less)
  then have "unat (c - ckpt) = n * unat p" using n(1) by simp
  then have "unat ((c - ckpt) div p) = n" using assms(2) by (simp add: unat_div unat_eq_0)
  then show "(if ((c - ckpt) div p) AND 1 \<noteq> 0 then \<not> flop else flop) = lv"
    using n by (simp add: odd_events)
qed

lemma wp_bindI: "wp m (\<lambda>a. wp (f a) Q) s \<Longrightarrow> wp (State_Monad.bind m f) Q s"
  by (simp add: wp_bind)

section \<open>The interface\<close>

text \<open>EN and PM set, edge polarity toggle: the engine generates edges.\<close>

definition engine_on :: "u32 \<Rightarrow> bool" where
  "engine_on ctrl \<longleftrightarrow> ctrl AND (TGPIOCTL_EN OR TGPIOCTL_PM OR TGPIOCTL_EP)
     = TGPIOCTL_EN OR TGPIOCTL_PM OR TGPIOCTL_EP_TOGGLE"

lemma engine_on_bits: "engine_on c \<Longrightarrow> bit c 0 \<and> bit c 4 \<and> bit c 3 \<and> \<not> bit c 2"
proof -
  assume "engine_on c"
  then have e: "c AND 29 = 25" by (simp add: engine_on_def)
  have "bit (c AND 29) n = bit (25 :: u32) n" for n by (simp only: e)
  from this [of 0] this [of 2] this [of 3] this [of 4] show ?thesis by (simp add: bit_simps)
qed

lemma engine_off_EN: "\<not> bit c 0 \<Longrightarrow> \<not> engine_on c"
  using engine_on_bits by blast

lemma engine_off_clear [simp]: "bit m 0 \<Longrightarrow> \<not> engine_on (tgpio_ctl_without c m)"
  by (rule engine_off_EN) (simp add: tgpio_ctl_without_def bit_simps)

lemma ctl_without_bit: "bit m n \<Longrightarrow> \<not> bit (tgpio_ctl_without c m) n"
  by (simp add: tgpio_ctl_without_def bit_simps)

lemma engine_on_armed:
  assumes "\<not> bit c 1" "\<not> bit c 2"
  shows "engine_on (tgpio_ctl_with (tgpio_ctl_with c (TGPIOCTL_EP_TOGGLE OR TGPIOCTL_PM)) TGPIOCTL_EN)"
    and "\<not> bit (tgpio_ctl_with (tgpio_ctl_with c (TGPIOCTL_EP_TOGGLE OR TGPIOCTL_PM)) TGPIOCTL_EN) 1"
proof -
  have m: "bit (29 :: u32) n = (bit (25 :: u32) n \<or> n = 2)" for n
  proof -
    have "bit (29 :: u32) n = bit (25 OR 2 ^ 2 :: u32) n" by simp
    also have "\<dots> = (bit (25 :: u32) n \<or> n = 2)" unfolding bit_or_iff bit_exp_iff by auto
    finally show ?thesis .
  qed
  have "(c OR 24 OR 1) AND 29 = 25"
  proof (rule bit_word_eqI)
    have o: "(24 OR 1 :: u32) = 25" by simp
    show "bit ((c OR 24 OR 1) AND 29) n = bit (25 :: u32) n" for n
      unfolding bit_and_iff m bit_or_iff [of c] o using assms(2) by (auto simp: bit_simps)
  qed
  then show "engine_on (tgpio_ctl_with (tgpio_ctl_with c (TGPIOCTL_EP_TOGGLE OR TGPIOCTL_PM)) TGPIOCTL_EN)"
    by (simp add: engine_on_def tgpio_ctl_with_def or.assoc)
  show "\<not> bit (tgpio_ctl_with (tgpio_ctl_with c (TGPIOCTL_EP_TOGGLE OR TGPIOCTL_PM)) TGPIOCTL_EN) 1"
    using assms(1) by (simp add: tgpio_ctl_with_def bit_simps)
qed

locale mmio_bus =
  fixes rd :: "u32 \<Rightarrow> ('k, u32) state" and wr :: "u32 \<Rightarrow> u32 \<Rightarrow> ('k, unit) state"
    and ctl :: "'k \<Rightarrow> u32" and compv :: "'k \<Rightarrow> u64" and piv :: "'k \<Rightarrow> u64"
    and level :: "'k \<Rightarrow> bool" and later :: "'k \<Rightarrow> 'k \<Rightarrow> bool"
  assumes later_refl: "later k k"
    and later_trans: "later k k1 \<Longrightarrow> later k1 k2 \<Longrightarrow> later k k2"
    and read_ctl: "\<exists>k1. later k k1 \<and> later k1 (snd (run_state (rd TGPIOCTL) k)) \<and>
      fst (run_state (rd TGPIOCTL) k) = ctl k1"
    and read_compv_hi: "\<exists>k1. later k k1 \<and> later k1 (snd (run_state (rd TGPIOCOMPV63_32) k)) \<and>
      fst (run_state (rd TGPIOCOMPV63_32) k) = upper_32_bits (compv k1)"
    and read_compv_lo: "\<exists>k1. later k k1 \<and> later k1 (snd (run_state (rd TGPIOCOMPV31_0) k)) \<and>
      fst (run_state (rd TGPIOCOMPV31_0) k) = lower_32_bits (compv k1)"
    and write_ctl: "\<exists>k1 k2. later k k1 \<and> later k2 (snd (run_state (wr TGPIOCTL v) k))
        \<and> ctl k2 = v \<and> compv k2 = compv k1 \<and>
        piv k2 = piv k1 \<and> level k2 = level k1"
    and write_compv_hi: "\<not> engine_on (ctl k) \<Longrightarrow>
      \<exists>k1 k2. later k k1 \<and> later k2 (snd (run_state (wr TGPIOCOMPV63_32 v) k))
        \<and> ctl k2 = ctl k1 \<and>
        compv k2 = combine_32 v (lower_32_bits (compv k1)) \<and> piv k2 = piv k1 \<and> level k2 = level k1"
    and write_compv_lo: "\<not> engine_on (ctl k) \<Longrightarrow>
      \<exists>k1 k2. later k k1 \<and> later k2 (snd (run_state (wr TGPIOCOMPV31_0 v) k))
        \<and> ctl k2 = ctl k1 \<and>
        compv k2 = combine_32 (upper_32_bits (compv k1)) v \<and> piv k2 = piv k1 \<and> level k2 = level k1"
    and write_piv_hi: "\<exists>k1 k2. later k k1 \<and> later k2 (snd (run_state (wr TGPIOPIV63_32 v) k))
        \<and> ctl k2 = ctl k1 \<and> compv k2 = compv k1 \<and>
        piv k2 = combine_32 v (lower_32_bits (piv k1)) \<and> level k2 = level k1"
    and write_piv_lo: "\<exists>k1 k2. later k k1 \<and> later k2 (snd (run_state (wr TGPIOPIV31_0 v) k))
        \<and> ctl k2 = ctl k1 \<and> compv k2 = compv k1 \<and>
        piv k2 = combine_32 (upper_32_bits (piv k1)) v \<and> level k2 = level k1"

text \<open>
  The toggle engine: time passing leaves the programmed registers alone, and each edge moves
  COMPV by PIV without wrapping and toggles the level; edges need a running engine.
\<close>

locale mmio_engine = mmio_bus +
  assumes later_edges: "later k k' \<Longrightarrow> ctl k' = ctl k \<and> piv k' = piv k \<and>
    (\<exists>n. unat (compv k') = unat (compv k) + n * unat (piv k) \<and>
         level k' = (level k \<noteq> odd n) \<and> (0 < n \<longrightarrow> engine_on (ctl k)))"

section \<open>Register access\<close>

text \<open>The retry loop around the halves of COMPV, and the two stores of a 64-bit register.\<close>

primrec compv_loop :: "nat \<Rightarrow> (u32 \<Rightarrow> ('k, u32) state) \<Rightarrow> u32 \<Rightarrow> (('d, 'k) machine, u64) state" where
  "compv_loop 0 rd prev_hi = do { modify (hung_update (\<lambda>_. True)); ret 0 }"
| "compv_loop (Suc n) rd prev_hi = do {
     lo \<leftarrow> liftk (rd TGPIOCOMPV31_0);
     hi \<leftarrow> liftk (rd TGPIOCOMPV63_32);
     if hi \<noteq> prev_hi then compv_loop n rd hi else ret (combine_32 hi lo)
   }"

abbreviation store_64 ::
    "(u32 \<Rightarrow> u32 \<Rightarrow> ('k, unit) state) \<Rightarrow> u32 \<Rightarrow> u32 \<Rightarrow> u64 \<Rightarrow> (('d, 'k) machine, unit) state" where
  "store_64 wr off_hi off_lo v \<equiv> State_Monad.bind (liftk (wr off_hi (upper_32_bits v)))
     (\<lambda>_. liftk (wr off_lo (lower_32_bits v)))"

context mmio_bus begin

lemma wp_rd_ctl:
  assumes "\<And>k1 k'. later (kst s) k1 \<Longrightarrow> later k1 k' \<Longrightarrow> Q (ctl k1) (s\<lparr>kst := k'\<rparr>)"
  shows "wp (liftk (rd TGPIOCTL)) Q s"
proof -
  obtain k1 where "later (kst s) k1" "later k1 (snd (run_state (rd TGPIOCTL) (kst s)))"
    "fst (run_state (rd TGPIOCTL) (kst s)) = ctl k1" using read_ctl by blast
  then show ?thesis using assms [of k1] by (simp add: wp_def run_liftk)
qed

lemma wp_wr_ctl:
  assumes "\<And>k1 k2 k'. later (kst s) k1 \<Longrightarrow> later k2 k' \<Longrightarrow> ctl k2 = v \<Longrightarrow> compv k2 = compv k1 \<Longrightarrow>
     piv k2 = piv k1 \<Longrightarrow> level k2 = level k1 \<Longrightarrow> Q () (s\<lparr>kst := k'\<rparr>)"
  shows "wp (liftk (wr TGPIOCTL v)) Q s"
proof -
  obtain k1 k2 where "later (kst s) k1" "later k2 (snd (run_state (wr TGPIOCTL v) (kst s)))"
    "ctl k2 = v" "compv k2 = compv k1" "piv k2 = piv k1" "level k2 = level k1" using write_ctl by blast
  then show ?thesis using assms [of k1 k2] by (simp add: wp_def run_liftk)
qed

end

context mmio_engine begin

lemma later_mono: "later k k' \<Longrightarrow> compv k \<le> compv k'"
  using later_edges [of k k'] by (auto simp: word_le_nat_alt)

lemma later_stopped: "later k k' \<Longrightarrow> \<not> engine_on (ctl k) \<Longrightarrow>
    ctl k' = ctl k \<and> piv k' = piv k \<and> compv k' = compv k \<and> level k' = level k"
  using later_edges [of k k'] by (auto simp: word_unat_eq_iff)

lemma later_tracked:
  assumes "later k k'" "tracked ckpt (piv k) flop (compv k) (level k)"
  shows "tracked ckpt (piv k) flop (compv k') (level k')"
proof -
  obtain n where "unat (compv k) = unat ckpt + n * unat (piv k)" "level k = (flop \<noteq> odd n)"
    using assms(2) by (auto simp: tracked_def)
  moreover obtain n' where "unat (compv k') = unat (compv k) + n' * unat (piv k)"
    "level k' = (level k \<noteq> odd n')" using later_edges [OF assms(1)] by blast
  ultimately show ?thesis unfolding tracked_def
    by (intro exI [of _ "n + n'"]) (auto simp: algebra_simps)
qed

lemma later_ctl_piv: "later k k' \<Longrightarrow> ctl k' = ctl k \<and> piv k' = piv k"
  using later_edges by blast

text \<open>Stopping the engine.\<close>

lemma wp_wr_ctl_stop:
  assumes "\<not> engine_on v"
    and "\<And>k1 k'. later (kst s) k1 \<Longrightarrow> ctl k' = v \<Longrightarrow> compv k' = compv k1 \<Longrightarrow> piv k' = piv k1 \<Longrightarrow>
      level k' = level k1 \<Longrightarrow> Q () (s\<lparr>kst := k'\<rparr>)"
  shows "wp (liftk (wr TGPIOCTL v)) Q s"
proof (rule wp_wr_ctl)
  fix k1 k2 k' assume "later (kst s) k1" "later k2 k'" "ctl k2 = v" "compv k2 = compv k1"
    "piv k2 = piv k1" "level k2 = level k1"
  then show "Q () (s\<lparr>kst := k'\<rparr>)" using later_stopped [of k2 k'] assms by metis
qed

lemma wp_wr_compv_stopped:
  assumes off: "\<not> engine_on (ctl (kst s))"
    and Q: "\<And>k'. ctl k' = ctl (kst s) \<Longrightarrow> compv k' = v \<Longrightarrow> piv k' = piv (kst s) \<Longrightarrow>
      level k' = level (kst s) \<Longrightarrow> Q () (s\<lparr>kst := k'\<rparr>)"
  shows "wp (store_64 wr TGPIOCOMPV63_32 TGPIOCOMPV31_0 v) Q s"
proof -
  let ?k1 = "snd (run_state (wr TGPIOCOMPV63_32 (upper_32_bits v)) (kst s))"
  let ?k2 = "snd (run_state (wr TGPIOCOMPV31_0 (lower_32_bits v)) ?k1)"
  obtain x y where hi: "later (kst s) x" "later y ?k1" "ctl y = ctl x"
    "compv y = combine_32 (upper_32_bits v) (lower_32_bits (compv x))" "piv y = piv x" "level y = level x"
    using write_compv_hi [OF off, of "upper_32_bits v"] by blast
  have k1: "ctl ?k1 = ctl (kst s)" "upper_32_bits (compv ?k1) = upper_32_bits v"
    "piv ?k1 = piv (kst s)" "level ?k1 = level (kst s)"
    using later_stopped [OF hi(1) off] later_stopped [OF hi(2)] hi(3-6) off
    by (simp_all del: split_paired_Ex)
  obtain x' y' where lo: "later ?k1 x'" "later y' ?k2" "ctl y' = ctl x'"
    "compv y' = combine_32 (upper_32_bits (compv x')) (lower_32_bits v)" "piv y' = piv x'" "level y' = level x'"
    using write_compv_lo [of ?k1 "lower_32_bits v"] off k1(1) by auto
  have "ctl ?k2 = ctl (kst s)" "compv ?k2 = v" "piv ?k2 = piv (kst s)" "level ?k2 = level (kst s)"
    using later_stopped [OF lo(1)] later_stopped [OF lo(2)] lo(3-6) off k1 by simp_all
  from Q [OF this] show ?thesis
    by (simp add: wp_def run_liftk split_beta)
qed

lemma wp_wr_piv:
  assumes "\<And>k'. ctl k' = ctl (kst s) \<Longrightarrow> piv k' = v \<Longrightarrow>
      (\<not> engine_on (ctl (kst s)) \<Longrightarrow> compv k' = compv (kst s) \<and> level k' = level (kst s)) \<Longrightarrow>
      Q () (s\<lparr>kst := k'\<rparr>)"
  shows "wp (store_64 wr TGPIOPIV63_32 TGPIOPIV31_0 v) Q s"
proof -
  let ?k1 = "snd (run_state (wr TGPIOPIV63_32 (upper_32_bits v)) (kst s))"
  let ?k2 = "snd (run_state (wr TGPIOPIV31_0 (lower_32_bits v)) ?k1)"
  obtain x y where hi: "later (kst s) x" "later y ?k1" "ctl y = ctl x" "compv y = compv x"
    "piv y = combine_32 (upper_32_bits v) (lower_32_bits (piv x))" "level y = level x"
    using write_piv_hi by blast
  obtain x' y' where lo: "later ?k1 x'" "later y' ?k2" "ctl y' = ctl x'" "compv y' = compv x'"
    "piv y' = combine_32 (upper_32_bits (piv x')) (lower_32_bits v)" "level y' = level x'"
    using write_piv_lo by blast
  have piv: "upper_32_bits (piv x') = upper_32_bits v" "ctl x' = ctl (kst s)" "piv ?k2 = v" "ctl ?k2 = ctl (kst s)"
    using later_ctl_piv [OF hi(1)] later_ctl_piv [OF hi(2)] later_ctl_piv [OF lo(1)]
      later_ctl_piv [OF lo(2)] hi(3,5) lo(3,5) by simp_all
  have "compv ?k2 = compv (kst s) \<and> level ?k2 = level (kst s)" if off: "\<not> engine_on (ctl (kst s))"
    using later_stopped [OF hi(1) off] later_stopped [OF hi(2)] later_stopped [OF lo(1)]
      later_stopped [OF lo(2)] hi(3,4,6) lo(3,4,6) off by simp
  from assms [OF piv(4,3) this] show ?thesis
    by (simp add: wp_def run_liftk split_beta)
qed

text \<open>The retry loop returns a value COMPV had during the call.\<close>

lemma wp_compv_loop:
  assumes "unat (upper_32_bits (compv k0)) + n \<ge> 2 ^ 32" "later k0 (kst s)"
    and "\<And>k1 k'. later k0 k1 \<Longrightarrow> later k1 k' \<Longrightarrow> Q (compv k1) (s\<lparr>kst := k'\<rparr>)"
  shows "wp (compv_loop n rd (upper_32_bits (compv k0))) Q s"
  using assms
proof (induction n arbitrary: k0 s)
  case 0
  then show ?case using unsigned_less [of "upper_32_bits (compv k0)", where ?'a = nat] by simp
next
  case (Suc n)
  let ?lo = "rd TGPIOCOMPV31_0" and ?hi = "rd TGPIOCOMPV63_32"
  define ka where "ka = snd (run_state ?lo (kst s))"
  define kb where "kb = snd (run_state ?hi ka)"
  obtain k1 where lo: "later (kst s) k1" "later k1 ka" "fst (run_state ?lo (kst s)) = lower_32_bits (compv k1)"
    using read_compv_lo unfolding ka_def by blast
  obtain k2 where hi: "later ka k2" "later k2 kb" "fst (run_state ?hi ka) = upper_32_bits (compv k2)"
    using read_compv_hi unfolding kb_def by blast
  have l01: "later k0 k1" using later_trans [OF Suc.prems(2) lo(1)] .
  have l12: "later k1 k2" using later_trans [OF lo(2) hi(1)] .
  have le: "upper_32_bits (compv k0) \<le> upper_32_bits (compv k1)"
    "upper_32_bits (compv k1) \<le> upper_32_bits (compv k2)"
    using upper_mono [OF later_mono [OF l01]] upper_mono [OF later_mono [OF l12]] .
  show ?case
  proof (cases "upper_32_bits (compv k2) = upper_32_bits (compv k0)")
    case True
    then have "combine_32 (upper_32_bits (compv k2)) (lower_32_bits (compv k1)) = compv k1"
      using le by (metis combine_split order_antisym)
    moreover have "Q (compv k1) (s\<lparr>kst := kb\<rparr>)"
      using Suc.prems(3) [OF l01 later_trans [OF l12 hi(2)]] .
    ultimately show ?thesis
      using True by (simp add: wp_simps wp_liftk)
        (simp add: wp_def split_beta lo(3) hi(3) flip: ka_def kb_def)
  next
    case False
    have "upper_32_bits (compv k0) < upper_32_bits (compv k2)" using le False by simp
    then have "unat (upper_32_bits (compv k2)) + n \<ge> 2 ^ 32"
      using Suc.prems(1) by (simp add: word_less_nat_alt)
    then have "wp (compv_loop n rd (upper_32_bits (compv k2))) Q (s\<lparr>kst := kb\<rparr>)"
      by (rule Suc.IH)
        (use hi(2) Suc.prems(3) [OF later_trans [OF later_trans [OF l01 l12]]] in auto)
    then show ?thesis
      using False by (simp add: wp_simps wp_liftk)
        (simp add: wp_def split_beta lo(3) hi(3) flip: ka_def kb_def)
  qed
qed

lemma wp_rd_compv:
  assumes "2 ^ 32 \<le> n"
    and "\<And>k1 k'. later (kst s) k1 \<Longrightarrow> later k1 k' \<Longrightarrow> Q (compv k1) (s\<lparr>kst := k'\<rparr>)"
  shows "wp (do { hi \<leftarrow> liftk (rd TGPIOCOMPV63_32); compv_loop n rd hi }) Q s"
proof -
  let ?hi = "rd TGPIOCOMPV63_32"
  obtain k0 where k0: "later (kst s) k0" "later k0 (snd (run_state ?hi (kst s)))"
    "fst (run_state ?hi (kst s)) = upper_32_bits (compv k0)" using read_compv_hi by blast
  have "wp (compv_loop n rd (upper_32_bits (compv k0))) Q
      (s\<lparr>kst := snd (run_state ?hi (kst s))\<rparr>)"
    by (rule wp_compv_loop) (use k0 assms later_trans [OF k0(1)] in auto)
  then show ?thesis
    by (simp add: wp_simps wp_liftk) (simp add: wp_def split_beta k0(3))
qed

end

end
