(* ===== verification/Toggle_Engine.thy ===== *)
theory Toggle_Engine
  imports Output_Work Engine_Bus
begin

text \<open>
  The hardware as the Linux driver relies on it: the register interface of \<open>Engine_Bus\<close> on
  the accesses of one block, and the kernel services that let time pass. Inside it the register
  layer is shown to read untorn values and to keep the software mirror of the level exact.
\<close>

section \<open>The interface\<close>

locale register_bus = mmio_bus "k_readl K b" "k_writel K b" ctl compv piv level later
  for K :: "'k kernel" and b :: nat
    and ctl :: "'k \<Rightarrow> u32" and compv :: "'k \<Rightarrow> u64" and piv :: "'k \<Rightarrow> u64"
    and level :: "'k \<Rightarrow> bool" and later :: "'k \<Rightarrow> 'k \<Rightarrow> bool" +
  assumes snapshot_later: "later k (snd (run_state (k_get_snapshot K) k))"
    and real_later: "later k (snd (run_state (k_get_real K) k))"
    and to_art_later: "later k (snd (run_state (k_real_to_art K t) k))"
    and sleep_later: "later k (snd (run_state (k_msleep K ms) k))"

locale toggle_engine = register_bus K b ctl compv piv level later +
    mmio_engine "k_readl K b" "k_writel K b" ctl compv piv level later
  for K :: "'k kernel" and b :: nat
    and ctl :: "'k \<Rightarrow> u32" and compv :: "'k \<Rightarrow> u64" and piv :: "'k \<Rightarrow> u64"
    and level :: "'k \<Rightarrow> bool" and later :: "'k \<Rightarrow> 'k \<Rightarrow> bool" +
  assumes enough_retries: "2 ^ 32 \<le> k_retries K"

section \<open>Register access under the interface\<close>

lemma read_compv_loop_eq: "tgpio_read_compv_loop n K b hi = compv_loop n (k_readl K b) hi"
  by (induction n arbitrary: hi) (simp_all only: tgpio_read_compv_loop.simps compv_loop.simps tgpio_readl_def)

lemma read_compv_eq: "tgpio_read_compv K b =
    do { hi \<leftarrow> liftk (k_readl K b TGPIOCOMPV63_32); compv_loop (k_retries K) (k_readl K b) hi }"
  by (simp only: tgpio_read_compv_def tgpio_readl_def read_compv_loop_eq)

lemmas access_defs = tgpio_read_ctl_def tgpio_write_ctl_def tgpio_write_compv_def tgpio_write_piv_def
  tgpio_readl_def tgpio_writel_def

context register_bus begin

lemma wp_read_ctl:
  "(\<And>k1 k'. later (kst s) k1 \<Longrightarrow> later k1 k' \<Longrightarrow> Q (ctl k1) (s\<lparr>kst := k'\<rparr>)) \<Longrightarrow>
    wp (tgpio_read_ctl K b) Q s"
  unfolding access_defs by (rule wp_rd_ctl)

lemma wp_write_ctl:
  "(\<And>k1 k2 k'. later (kst s) k1 \<Longrightarrow> later k2 k' \<Longrightarrow> ctl k2 = v \<Longrightarrow> compv k2 = compv k1 \<Longrightarrow>
     piv k2 = piv k1 \<Longrightarrow> level k2 = level k1 \<Longrightarrow> Q () (s\<lparr>kst := k'\<rparr>)) \<Longrightarrow>
    wp (tgpio_write_ctl K b v) Q s"
  unfolding access_defs by (rule wp_wr_ctl)

end

context toggle_engine begin

lemma wp_write_ctl_stop:
  "\<not> engine_on v \<Longrightarrow> (\<And>k1 k'. later (kst s) k1 \<Longrightarrow> ctl k' = v \<Longrightarrow> compv k' = compv k1 \<Longrightarrow>
     piv k' = piv k1 \<Longrightarrow> level k' = level k1 \<Longrightarrow> Q () (s\<lparr>kst := k'\<rparr>)) \<Longrightarrow>
    wp (tgpio_write_ctl K b v) Q s"
  unfolding access_defs by (rule wp_wr_ctl_stop)

lemma wp_write_compv_stopped:
  "\<not> engine_on (ctl (kst s)) \<Longrightarrow> (\<And>k'. ctl k' = ctl (kst s) \<Longrightarrow> compv k' = v \<Longrightarrow>
     piv k' = piv (kst s) \<Longrightarrow> level k' = level (kst s) \<Longrightarrow> Q () (s\<lparr>kst := k'\<rparr>)) \<Longrightarrow>
    wp (tgpio_write_compv K b v) Q s"
  unfolding access_defs by (rule wp_wr_compv_stopped)

lemma wp_write_piv:
  assumes "\<And>k'. ctl k' = ctl (kst s) \<Longrightarrow> piv k' = v \<Longrightarrow>
      (\<not> engine_on (ctl (kst s)) \<Longrightarrow> compv k' = compv (kst s) \<and> level k' = level (kst s)) \<Longrightarrow>
      Q () (s\<lparr>kst := k'\<rparr>)"
  shows "wp (tgpio_write_piv K b v) Q s"
  unfolding access_defs by (rule wp_wr_piv, rule assms)

lemma wp_read_compv:
  assumes "\<And>k1 k'. later (kst s) k1 \<Longrightarrow> later k1 k' \<Longrightarrow> Q (compv k1) (s\<lparr>kst := k'\<rparr>)"
  shows "wp (tgpio_read_compv K b) Q s"
  unfolding read_compv_eq by (rule wp_rd_compv [OF enough_retries], rule assms)

end

section \<open>Operations that only let time pass\<close>

context register_bus begin

definition advances :: "('k sys, 'a) state \<Rightarrow> bool" where
  "advances m \<longleftrightarrow> (\<forall>s. later (kst s) (kst (exec_m m s)))"

lemma advances_return: "advances (State_Monad.return a)"
  by (simp add: advances_def later_refl)

lemma advances_bind:
  assumes "advances m" "\<And>a. advances (f a)"
  shows "advances (State_Monad.bind m f)"
  unfolding advances_def
proof
  fix s
  have "later (kst s) (kst (exec_m m s))" using assms(1) by (simp add: advances_def)
  moreover have "later (kst (exec_m m s)) (kst (exec_m (f (result_of m s)) (exec_m m s)))"
    using assms(2) by (simp add: advances_def)
  ultimately show "later (kst s) (kst (exec_m (State_Monad.bind m f) s))"
    by (simp add: split_beta) (rule later_trans)
qed

lemma advances_kst: "keeps kst m \<Longrightarrow> advances m"
  by (simp add: advances_def keeps_def later_refl)

lemma advances_liftk: "(\<And>k. later k (snd (run_state m k))) \<Longrightarrow> advances (liftk m)"
  by (simp add: advances_def run_liftk)

lemma advances_if: "advances m \<Longrightarrow> advances n \<Longrightarrow> advances (if c then m else n)"
  by simp

lemma advances_case_sum:
  "(\<And>e. advances (f e)) \<Longrightarrow> (\<And>v. advances (g v)) \<Longrightarrow> advances (case r of Inl e \<Rightarrow> f e | Inr v \<Rightarrow> g v)"
  by (simp split: sum.splits)

lemma advances_case_option:
  "advances f \<Longrightarrow> (\<And>v. advances (g v)) \<Longrightarrow> advances (case r of None \<Rightarrow> f | Some v \<Rightarrow> g v)"
  by (simp split: option.splits)

lemma advances_case_prod: "(\<And>x y. advances (f x y)) \<Longrightarrow> advances (case p of (x, y) \<Rightarrow> f x y)"
  by (cases p) simp

lemma advances_readers: "advances (param f1)" "advances (get_dev f2)" "advances (get_blk c f3)"
  "advances (get_cal f4)" "advances tgpio_output_phase_nudge_min_ns" "advances tgpio_clock_uses_model"
  "advances tgpio_phc_params_get" "advances (tgpio_clock_phc_art_to_ns art)"
  "advances (tgpio_clock_delta_to_real_ns d)"
  by (auto intro!: advances_kst frame)

lemma advances_kernel: "advances (tgpio_get_realtime_snapshot K)" "advances (ktime_get_real K)"
  "advances (ktime_real_to_art K t)"
  by (auto simp: tgpio_get_realtime_snapshot_def ktime_get_real_def ktime_real_to_art_def
      intro!: advances_liftk snapshot_later real_later to_art_later)

lemmas advances_intros = advances_return advances_bind advances_if advances_case_sum
  advances_case_option advances_case_prod advances_readers advances_kernel

lemma advances_current_art: "advances (tgpio_get_current_art K)"
  by (auto simp: tgpio_get_current_art_def intro!: advances_intros)

lemma advances_realtime_delta: "advances (tgpio_realtime_delta_to_art_cycles K d)"
  by (auto simp: tgpio_realtime_delta_to_art_cycles_def intro!: advances_intros)

lemma advances_now: "advances (tgpio_clock_now_ns K)" "advances (tgpio_realtime_anchor K)"
  by (auto simp: tgpio_clock_now_ns_def tgpio_clock_phc_now_ns_def tgpio_realtime_anchor_def
      intro!: advances_intros advances_current_art)

lemma advances_delta: "advances (tgpio_clock_delta_to_art_cycles K d)"
  "advances (tgpio_clock_art_cycles_to_delta_ns K c)"
  by (auto simp: tgpio_clock_delta_to_art_cycles_def tgpio_clock_art_cycles_to_delta_ns_def
      tgpio_art_cycles_to_realtime_delta_ns_def intro!: advances_intros advances_realtime_delta)

lemma advances_convert: "advances (tgpio_clock_ns_to_art K ns)" "advances (tgpio_clock_art_to_ns K art)"
  by (auto simp: tgpio_clock_ns_to_art_def tgpio_clock_art_to_ns_def
      intro!: advances_intros advances_realtime_delta advances_now advances_delta)

lemma advances_compare: "advances (tgpio_clock_ns_to_compare_art K ns)"
  "advances (tgpio_output_quantization_get K p h)"
  by (auto simp: tgpio_clock_ns_to_compare_art_def tgpio_output_quantization_get_def
      intro!: advances_intros advances_convert advances_delta)

lemma wp_advances:
  assumes "advances m" "keeps drv m" "keeps hung m"
    and "\<And>r k'. later (kst s) k' \<Longrightarrow> Q r (s\<lparr>kst := k'\<rparr>)"
  shows "wp m Q s"
proof -
  have "exec_m m s = s\<lparr>kst := kst (exec_m m s)\<rparr>"
    using assms(2,3) by (intro sys_eqI) (simp_all add: keeps_def)
  then show ?thesis
    using assms(1,4) unfolding advances_def wp_def split_beta by metis
qed

end

section \<open>The level mirror\<close>

text \<open>
  A block whose tracked level is right: a symmetric hardware waveform is tracked up to the
  edges since the checkpoint, and any block that is not one is disabled with the level known.
\<close>

definition mirrored :: "tgpio_mmio_block \<Rightarrow> u32 \<Rightarrow> u64 \<Rightarrow> u64 \<Rightarrow> bool \<Rightarrow> bool" where
  "mirrored m c cv p lv \<longleftrightarrow>
    (if output_phase m = TGPIO_OUTPUT_HARDWARE_PERIODIC
     then p \<noteq> 0 \<and> output_hw_piv m = p \<and> tracked (output_hw_ckpt_compv m) p (output_hw_flop_high m) cv lv
     else output_phase m \<noteq> TGPIO_OUTPUT_HW_DUTY \<and> \<not> bit c 0 \<and> lv = output_hw_flop_high m)"

text \<open>The fold moves the checkpoint to a COMPV value and the tracked level to the pin's there.\<close>

abbreviation set_mirror :: "nat \<Rightarrow> bool \<Rightarrow> u64 \<Rightarrow> driver \<Rightarrow> driver" where
  "set_mirror b flop ckpt d \<equiv> d\<lparr>blocks := (blocks d)(b := (blocks d b)
     \<lparr>output_hw_flop_high := flop, output_hw_ckpt_compv := ckpt\<rparr>)\<rparr>"

lemma flop_Not_eq: "output_hw_flop_high_update Not m = m\<lparr>output_hw_flop_high := \<not> output_hw_flop_high m\<rparr>"
  by (cases m) simp

lemma flop_same: "output_hw_flop_high m = v \<Longrightarrow> m\<lparr>output_hw_flop_high := v\<rparr> = m"
  by (cases m) simp

context toggle_engine begin

lemma later_mirrored: 
  "later k k' \<Longrightarrow> mirrored m (ctl k) (compv k) (piv k) (level k) \<Longrightarrow>
    mirrored m (ctl k') (compv k') (piv k') (level k')"
  using later_tracked later_stopped later_ctl_piv engine_off_EN unfolding mirrored_def by metis

lemma wp_fold_idle:
  assumes "output_hw_piv (blocks (drv s) b) = 0 \<or> output_phase (blocks (drv s) b) \<notin>
      {TGPIO_OUTPUT_HW_DUTY, TGPIO_OUTPUT_HARDWARE_PERIODIC}"
  shows "wp (tgpio_hw_flop_fold K b) Q s = Q () s"
  using assms by (auto simp: tgpio_hw_flop_fold_def wp_simps)

lemma wp_fold_running:
  assumes "output_phase (blocks (drv s) b) = TGPIO_OUTPUT_HARDWARE_PERIODIC"
    and "output_hw_piv (blocks (drv s) b) = piv (kst s)" "piv (kst s) \<noteq> 0"
    and "tracked (output_hw_ckpt_compv (blocks (drv s) b)) (piv (kst s))
      (output_hw_flop_high (blocks (drv s) b)) (compv (kst s)) (level (kst s))"
    and Q: "\<And>k1 k'. later (kst s) k1 \<Longrightarrow> later k1 k' \<Longrightarrow>
      Q () (s\<lparr>drv := set_mirror b (level k1) (compv k1) (drv s), kst := k'\<rparr>)"
  shows "wp (tgpio_hw_flop_fold K b) Q s"
proof -
  let ?m = "blocks (drv s) b"
  have fold: "wp (do { ckpt \<leftarrow> get_blk b output_hw_ckpt_compv;
       if compv k1 < ckpt then ret ()
       else do {
         events \<leftarrow> ret ((compv k1 - ckpt) div piv (kst s));
         when_m (events AND 1 \<noteq> 0) (upd_blk b (output_hw_flop_high_update Not));
         upd_blk b (output_hw_ckpt_compv_update (\<lambda>_. compv k1))
       }}) Q (s\<lparr>kst := k'\<rparr>)" if k: "later (kst s) k1" "later k1 k'" for k1 k'
  proof -
    have "tracked (output_hw_ckpt_compv ?m) (piv (kst s)) (output_hw_flop_high ?m) (compv k1) (level k1)"
      using later_tracked [OF k(1) assms(4)] .
    note f = tracked_fold [OF this assms(3)]
    show ?thesis using f Q [OF k]
      by (cases "((compv k1 - output_hw_ckpt_compv ?m) div piv (kst s)) AND 1 = 0")
        (simp_all add: wp_simps flop_Not_eq flop_same)
  qed
  have "wp (tgpio_hw_flop_fold K b) Q s = wp (tgpio_read_compv K b) (\<lambda>cv. wp (do {
       ckpt \<leftarrow> get_blk b output_hw_ckpt_compv;
       if cv < ckpt then ret ()
       else do {
         events \<leftarrow> ret ((cv - ckpt) div piv (kst s));
         when_m (events AND 1 \<noteq> 0) (upd_blk b (output_hw_flop_high_update Not));
         upd_blk b (output_hw_ckpt_compv_update (\<lambda>_. cv))
       }}) Q) s"
    using assms(1-3) by (simp add: tgpio_hw_flop_fold_def wp_simps cong: if_cong)
  then show ?thesis using wp_read_compv fold by simp
qed

lemma set_mirror_same:
  "output_hw_flop_high (blocks d b) = f \<Longrightarrow> output_hw_ckpt_compv (blocks d b) = c \<Longrightarrow> set_mirror b f c d = d"
  by (cases d; cases "blocks d b") (auto simp: fun_upd_idem)

lemma wp_fold_stopped:
  assumes m: "mirrored (blocks (drv s) b) (ctl (kst s)) (compv (kst s)) (piv (kst s)) (level (kst s))"
    and off: "\<not> engine_on (ctl (kst s))"
    and Q: "\<And>k' c. ctl k' = ctl (kst s) \<Longrightarrow> compv k' = compv (kst s) \<Longrightarrow> piv k' = piv (kst s) \<Longrightarrow>
      level k' = level (kst s) \<Longrightarrow>
      Q () (s\<lparr>drv := set_mirror b (level (kst s)) c (drv s), kst := k'\<rparr>)"
  shows "wp (tgpio_hw_flop_fold K b) Q s"
proof (cases "output_phase (blocks (drv s) b) = TGPIO_OUTPUT_HARDWARE_PERIODIC")
  case True
  then have r: "output_hw_piv (blocks (drv s) b) = piv (kst s)" "piv (kst s) \<noteq> 0"
    "tracked (output_hw_ckpt_compv (blocks (drv s) b)) (piv (kst s)) (output_hw_flop_high (blocks (drv s) b))
      (compv (kst s)) (level (kst s))" using m by (simp_all add: mirrored_def)
  show ?thesis
  proof (rule wp_fold_running [OF _ r])
    fix k1 k' assume k: "later (kst s) k1" "later k1 k'"
    have k1: "ctl k1 = ctl (kst s)" "compv k1 = compv (kst s)" "piv k1 = piv (kst s)" "level k1 = level (kst s)"
      using later_stopped [OF k(1) off] by simp_all
    with later_stopped [OF k(2)] off Q [of k' "compv k1"]
    show "Q () (s\<lparr>drv := set_mirror b (level k1) (compv k1) (drv s), kst := k'\<rparr>)" by simp
  qed (use True in simp)
next
  case False
  then have i: "level (kst s) = output_hw_flop_high (blocks (drv s) b)"
    "output_phase (blocks (drv s) b) \<noteq> TGPIO_OUTPUT_HW_DUTY" using m by (simp_all add: mirrored_def)
  have "Q () s" using Q [of "kst s" "output_hw_ckpt_compv (blocks (drv s) b)"] i(1) by (simp add: set_mirror_same)
  then show ?thesis using False i(2) by (subst wp_fold_idle) auto
qed

lemma mirrored_off: "mirrored m c cv p lv \<Longrightarrow> \<not> bit c' 0 \<Longrightarrow> mirrored m c' cv p lv"
  by (auto simp: mirrored_def split: if_splits)

lemma wp_disable:
  assumes "mirrored (blocks (drv s) b) (ctl (kst s)) (compv (kst s)) (piv (kst s)) (level (kst s))"
  shows "wp (tgpio_disable_output_hw K b) (\<lambda>_ t.
    (let m = blocks (drv t) b in output_hw_flop_high m = level (kst t) \<and>
      output_phase m = TGPIO_OUTPUT_TOGGLE \<and> output_hw_piv m = 0 \<and> output_hw_first_art m = 0 \<and>
      \<not> bit (ctl (kst t)) 0 \<and> \<not> engine_on (ctl (kst t)) \<and> compv (kst t) = 0 \<and> piv (kst t) = 0)) s"
  unfolding tgpio_disable_output_hw_def wp_bind
proof (rule wp_read_ctl, rule wp_write_ctl_stop, simp, rule wp_fold_stopped)
  fix k1 k2 k3 k4 k5 assume k: "later (kst s) k1" "later k1 k2" "later (kst (s\<lparr>kst := k2\<rparr>)) k3" "ctl k4 = tgpio_ctl_without (ctl k1) TGPIOCTL_EN"
     "compv k4 = compv k3" "piv k4 = piv k3" "level k4 = level k3"
  let ?s = "s\<lparr>kst := k2\<rparr>\<lparr>kst := k4\<rparr>"
  have "later (kst s) k3" using later_trans [OF later_trans [OF k(1,2)]] k(3) by simp
  from later_mirrored [OF this assms]
  show "mirrored (blocks (drv ?s) b) (ctl (kst ?s)) (compv (kst ?s)) (piv (kst ?s)) (level (kst ?s))"
    using k by (simp add: mirrored_off tgpio_ctl_without_def bit_simps)
  show "\<not> engine_on (ctl (kst ?s))" using k by simp
next
  fix k1 k2 k3 k4 k5 c
  assume k: "ctl k4 = tgpio_ctl_without (ctl k1) TGPIOCTL_EN"
    "ctl k5 = ctl (kst (s\<lparr>kst := k2\<rparr>\<lparr>kst := k4\<rparr>))"
  let ?d = "set_mirror b (level (kst (s\<lparr>kst := k2\<rparr>\<lparr>kst := k4\<rparr>))) c (drv (s\<lparr>kst := k2\<rparr>\<lparr>kst := k4\<rparr>))"
  assume "level k5 = level (kst (s\<lparr>kst := k2\<rparr>\<lparr>kst := k4\<rparr>))"
  show "wp (tgpio_write_compv K b 0) (\<lambda>a. wp (tgpio_write_piv K b 0)
     (\<lambda>a. wp (tgpio_write_ctl K b (tgpio_ctl_without (ctl k1) (TGPIOCTL_EN OR TGPIOCTL_PM)))
        (\<lambda>a. wp (upd_blk b (\<lambda>m. m\<lparr>output_phase := TGPIO_OUTPUT_TOGGLE, output_hw_first_art := 0,
                output_hw_piv := 0\<rparr>)) (\<lambda>_ t.
    (let m = blocks (drv t) b in output_hw_flop_high m = level (kst t) \<and>
      output_phase m = TGPIO_OUTPUT_TOGGLE \<and> output_hw_piv m = 0 \<and> output_hw_first_art m = 0 \<and>
      \<not> bit (ctl (kst t)) 0 \<and> \<not> engine_on (ctl (kst t)) \<and> compv (kst t) = 0 \<and> piv (kst t) = 0)))))
    (s\<lparr>kst := k2\<rparr>\<lparr>kst := k4\<rparr>\<lparr>drv := ?d, kst := k5\<rparr>)"
    using k \<open>level k5 = _\<close>
    by (intro wp_write_compv_stopped wp_write_piv wp_write_ctl_stop)
      (auto simp: wp_upd_blk Let_def ctl_without_bit dest: later_stopped)
qed

end

section \<open>Arming keeps the mirror\<close>

context toggle_engine begin

lemma wp_quiesce:
  assumes "mirrored (blocks (drv s) b) (ctl (kst s)) (compv (kst s)) (piv (kst s)) (level (kst s))"
    and Q: "\<And>ctrl c l k'. \<not> bit ctrl 0 \<Longrightarrow> \<not> bit ctrl 1 \<Longrightarrow> \<not> bit ctrl 2 \<Longrightarrow> \<not> bit ctrl 3 \<Longrightarrow> \<not> bit ctrl 4 \<Longrightarrow>
      ctl k' = ctrl \<Longrightarrow> compv k' = 0 \<Longrightarrow> piv k' = 0 \<Longrightarrow> level k' = l \<Longrightarrow>
      Q ctrl (s\<lparr>drv := set_mirror b l c (drv s), kst := k'\<rparr>)"
  shows "wp (output_quiesce K b) Q s"
  unfolding output_quiesce_def wp_bind
proof (rule wp_read_ctl, rule wp_write_ctl_stop, simp, rule wp_fold_stopped)
  fix k1 k2 k3 k4
  assume k: "later (kst s) k1" "later k1 k2" "later (kst (s\<lparr>kst := k2\<rparr>)) k3"
    "ctl k4 = tgpio_ctl_without (ctl k1) TGPIOCTL_EN"
    "compv k4 = compv k3" "piv k4 = piv k3" "level k4 = level k3"
  let ?s = "s\<lparr>kst := k2\<rparr>\<lparr>kst := k4\<rparr>"
  have "later (kst s) k3" using later_trans [OF later_trans [OF k(1,2)]] k(3) by simp
  from later_mirrored [OF this assms(1)]
  show "mirrored (blocks (drv ?s) b) (ctl (kst ?s)) (compv (kst ?s)) (piv (kst ?s)) (level (kst ?s))"
    using k by (simp add: mirrored_off tgpio_ctl_without_def bit_simps)
  show "\<not> engine_on (ctl (kst ?s))" using k by simp
next
  fix k1 k2 k3 k4 k5 c
  assume k: "ctl k4 = tgpio_ctl_without (ctl k1) TGPIOCTL_EN"
    "ctl k5 = ctl (kst (s\<lparr>kst := k2\<rparr>\<lparr>kst := k4\<rparr>))" 
    "level k5 = level (kst (s\<lparr>kst := k2\<rparr>\<lparr>kst := k4\<rparr>))"
  let ?ctrl = "tgpio_ctl_without (tgpio_ctl_without (ctl k1) TGPIOCTL_EN) (TGPIOCTL_DIR OR TGPIOCTL_EP OR TGPIOCTL_PM)"
  let ?d = "set_mirror b (level (kst (s\<lparr>kst := k2\<rparr>\<lparr>kst := k4\<rparr>))) c (drv (s\<lparr>kst := k2\<rparr>\<lparr>kst := k4\<rparr>))"
  have bits: "\<not> bit ?ctrl 0" "\<not> bit ?ctrl 1" "\<not> bit ?ctrl 2" "\<not> bit ?ctrl 3" "\<not> bit ?ctrl 4"
    by (simp_all add: tgpio_ctl_without_def bit_simps)
  have off: "\<not> engine_on ?ctrl" using bits(1) by (rule engine_off_EN)
  show "wp (tgpio_write_compv K b 0) (\<lambda>a. wp (tgpio_write_piv K b 0)
     (\<lambda>a. wp (ret ?ctrl) (\<lambda>ctrl. wp (tgpio_write_ctl K b ctrl) (\<lambda>_. wp (ret ctrl) Q))))
    (s\<lparr>kst := k2\<rparr>\<lparr>kst := k4\<rparr>\<lparr>drv := ?d, kst := k5\<rparr>)"
    unfolding wp_return
    by (intro wp_write_compv_stopped wp_write_piv wp_write_ctl_stop off)
      (use k Q [OF bits] in \<open>auto dest: later_stopped\<close>)
qed

lemma advances_read_compv: "advances (tgpio_read_compv K b)"
proof -
  have "wp (tgpio_read_compv K b) (\<lambda>_ t. later (kst s) (kst t)) s" for s
    by (rule wp_read_compv) (simp, rule later_trans)
  then show ?thesis by (simp add: advances_def wp_def split_beta)
qed

lemma read_compv_hung: "keeps hung (tgpio_read_compv K b)"
proof -
  have "wp (tgpio_read_compv K b) (\<lambda>_ t. hung t = hung s) s" for s
    by (rule wp_read_compv) simp
  then show ?thesis by (simp add: keeps_def wp_def split_beta)
qed

lemma advances_phase_get: "advances (tgpio_hw_periodic_phase_get K b g h)"
  by (auto simp: tgpio_hw_periodic_phase_get_def tgpio_hw_phase_refine_def
      intro!: advances_intros advances_convert advances_compare advances_delta advances_now advances_read_compv)

lemma phase_get_hung: "keeps hung (tgpio_hw_periodic_phase_get K b g h)"
  by (auto simp: tgpio_hw_periodic_phase_get_def tgpio_hw_phase_refine_def
      intro!: frame read_compv_hung)

lemma advances_quant_log: "advances (tgpio_log_output_quantization K b f h)"
  by (auto simp: tgpio_log_output_quantization_def
      intro!: advances_intros advances_compare advances_phase_get)

lemma quant_log_hung: "keeps hung (tgpio_log_output_quantization K b f h)"
  by (auto simp: tgpio_log_output_quantization_def intro!: frame phase_get_hung)

lemma wp_hw_start:
  assumes ctrl: "\<not> bit ctrl 0" "\<not> bit ctrl 2" "ctl (kst s) = ctrl" and p: "p \<noteq> 0"
    and sym: "high_ns = low_ns"
    and Q: "\<And>k'. ctl k' = tgpio_ctl_with (tgpio_ctl_with ctrl (TGPIOCTL_EP_TOGGLE OR TGPIOCTL_PM)) TGPIOCTL_EN \<Longrightarrow>
        piv k' = p \<Longrightarrow> tracked start p (level (kst s)) (compv k') (level k') \<Longrightarrow>
        Q () (s\<lparr>drv := (drv s)\<lparr>blocks := (blocks (drv s))(b := (blocks (drv s) b)
          \<lparr>output_high_time_ns := high_ns, output_low_time_ns := low_ns, output_next_edge := first,
           output_phase := TGPIO_OUTPUT_HARDWARE_PERIODIC, output_hw_first_art := start,
           output_hw_piv := p, output_hw_ckpt_compv := start\<rparr>)\<rparr>, kst := k'\<rparr>)"
  shows "wp (output_hw_start K b ctrl start p first high_ns low_ns) Q s"
proof -
  let ?c1 = "tgpio_ctl_with ctrl (TGPIOCTL_EP_TOGGLE OR TGPIOCTL_PM)"
  have off: "\<not> engine_on ?c1" by (rule engine_off_EN) (use ctrl in \<open>simp add: tgpio_ctl_with_def bit_simps\<close>)
  have off0: "\<not> engine_on (ctl (kst s))" by (rule engine_off_EN) (use ctrl in simp)
  show ?thesis
    unfolding output_hw_start_def wp_bind wp_return
  proof (rule wp_write_ctl_stop [OF off], rule wp_write_piv, rule wp_write_compv_stopped)
    fix k1 k2 k3 assume "ctl k3 = ctl (kst (s\<lparr>kst := k2\<rparr>))" "ctl k2 = ?c1"
    then show "\<not> engine_on (ctl (kst (s\<lparr>kst := k2\<rparr>\<lparr>kst := k3\<rparr>)))" using off by simp
  next
    fix k1 k2 k3 k4 assume k: "later (kst s) k1" "ctl k2 = ?c1" "level k2 = level k1"
      "ctl k3 = ctl (kst (s\<lparr>kst := k2\<rparr>))" "piv k3 = p"
      "\<not> engine_on (ctl (kst (s\<lparr>kst := k2\<rparr>))) \<Longrightarrow> compv k3 = compv (kst (s\<lparr>kst := k2\<rparr>)) \<and> level k3 = level (kst (s\<lparr>kst := k2\<rparr>))"
      "ctl k4 = ctl (kst (s\<lparr>kst := k2\<rparr>\<lparr>kst := k3\<rparr>))" "compv k4 = start"
      "piv k4 = piv (kst (s\<lparr>kst := k2\<rparr>\<lparr>kst := k3\<rparr>))" "level k4 = level (kst (s\<lparr>kst := k2\<rparr>\<lparr>kst := k3\<rparr>))"
    have k4: "ctl k4 = ?c1" "compv k4 = start" "piv k4 = p" "level k4 = level (kst s)"
      using k off later_stopped [OF k(1) off0] by simp_all
    let ?t = "s\<lparr>drv := (drv s)\<lparr>blocks := (blocks (drv s))(b := (blocks (drv s) b)
          \<lparr>output_high_time_ns := high_ns, output_low_time_ns := low_ns, output_next_edge := first,
           output_phase := TGPIO_OUTPUT_HARDWARE_PERIODIC, output_hw_first_art := start,
           output_hw_piv := p, output_hw_ckpt_compv := start\<rparr>)\<rparr>\<rparr>"
    have fin: "wp (tgpio_write_ctl K b (tgpio_ctl_with ?c1 TGPIOCTL_EN)) (\<lambda>a.
        wp (tgpio_log_output_quantization K b first high_ns) Q) (?t\<lparr>kst := k5\<rparr>)" if k5: "later k4 k5" for k5
    proof (rule wp_write_ctl, rule wp_advances [OF advances_quant_log keeps_quant_log_drv quant_log_hung])
      fix k6 k7 k8 r k9
      assume h: "later (kst (?t\<lparr>kst := k5\<rparr>)) k6" "later k7 k8" "ctl k7 = tgpio_ctl_with ?c1 TGPIOCTL_EN"
        "compv k7 = compv k6" "piv k7 = piv k6" "level k7 = level k6" "later (kst (?t\<lparr>kst := k5\<rparr>\<lparr>kst := k8\<rparr>)) k9"
      have "later k4 k6" using later_trans [OF k5] h(1) by simp
      from later_stopped [OF this] have k6: "compv k6 = start" "piv k6 = p" "level k6 = level (kst s)"
        using k4 off by simp_all
      have l9: "later k7 k9" using later_trans [OF h(2)] h(7) by simp
      have "tracked start p (level (kst s)) (compv k9) (level k9)"
        using later_tracked [OF l9, of start "level (kst s)"] h k6 by simp
      then show "Q r (?t\<lparr>kst := k5\<rparr>\<lparr>kst := k8\<rparr>\<lparr>kst := k9\<rparr>)"
        using Q [of k9] later_ctl_piv [OF l9] h k6 by simp
    qed
    show "wp (upd_blk b (\<lambda>m. m\<lparr>output_high_time_ns := high_ns, output_low_time_ns := low_ns, output_next_edge := first,
           output_phase := (if high_ns \<noteq> low_ns then TGPIO_OUTPUT_HW_DUTY else TGPIO_OUTPUT_HARDWARE_PERIODIC), output_hw_first_art := start,
           output_hw_piv := p, output_hw_ckpt_compv := start\<rparr>)) (\<lambda>a. wp tgpio_log_activity_on (\<lambda>activity.
         wp (when_m activity (do { _ \<leftarrow> tgpio_clock_art_cycles_to_delta_ns K p; ret () })) (\<lambda>a.
         wp (tgpio_write_ctl K b (tgpio_ctl_with ?c1 TGPIOCTL_EN)) (\<lambda>a.
         wp (if high_ns = low_ns then tgpio_log_output_quantization K b first high_ns
             else do { now \<leftarrow> ktime_get_real K; tgpio_output_wake_at b (now + TGPIO_HW_DUTY_SERVICE_DELAY_NS) }) Q))))
        (s\<lparr>kst := k2\<rparr>\<lparr>kst := k3\<rparr>\<lparr>kst := k4\<rparr>)"
      using sym fin [OF later_refl] fin
      by (auto simp: wp_upd_blk tgpio_log_activity_on_def wp_param wp_when_m wp_bind wp_return
          intro!: wp_advances [OF advances_delta(2)] frame)
  qed
qed


lemma wp_arm_program:
  assumes good: "mirrored (blocks (drv s) b) (ctl (kst s)) (compv (kst s)) (piv (kst s)) (level (kst s))"
    and ph: "output_phase (blocks (drv s) b) = TGPIO_OUTPUT_ARM_PERIODIC" and sym: "high_ns = low_ns"
    and nz: "high \<noteq> 0" "low \<noteq> 0"
  shows "wp (arm_hw_program K b first high low first_ns high_ns low_ns) (\<lambda>r t.
    let m = blocks (drv t) b in
      mirrored m (ctl (kst t)) (compv (kst t)) (piv (kst t)) (level (kst t)) \<and>
      (r = 0 \<longrightarrow> output_phase m = TGPIO_OUTPUT_HARDWARE_PERIODIC \<and> output_hw_piv m \<noteq> 0 \<and>
        engine_on (ctl (kst t)) \<and> \<not> bit (ctl (kst t)) 1)) s" (is "wp _ ?Q s")
  unfolding arm_hw_program_def wp_bind wp_get_blk wp_return
proof (rule wp_quiesce [OF good], rule wp_advances [OF advances_current_art], (rule frame)+,
    rule wp_advances [OF advances_delta(1)], (rule frame)+)
  fix ctrl c l k1 now k2 margin k3
  assume bits: "\<not> bit ctrl 0" "\<not> bit ctrl 1" "\<not> bit ctrl 2" and c: "ctl k1 = ctrl" "level k1 = l"
  define t where "t = s\<lparr>drv := set_mirror b l c (drv s), kst := k3\<rparr>"
  assume "later (kst (s\<lparr>drv := set_mirror b l c (drv s), kst := k1\<rparr>)) k2"
    "later (kst (s\<lparr>drv := set_mirror b l c (drv s), kst := k1\<rparr>\<lparr>kst := k2\<rparr>)) k3"
  then have "later k1 k3" by simp (rule later_trans)
  then have k3: "ctl (kst t) = ctrl" "level (kst t) = l"
    using later_stopped [of k1 k3] engine_off_EN [OF bits(1)] c by (simp_all add: t_def)
  have t: "output_hw_flop_high (blocks (drv t) b) = l" "output_phase (blocks (drv t) b) = TGPIO_OUTPUT_ARM_PERIODIC"
    using ph by (simp_all add: t_def)
  have err: "wp (ret (- ENODEV)) ?Q t"
    using t k3 bits(1) by (simp add: wp_return mirrored_def Let_def)
  have start: "wp (do { output_hw_start K b ctrl start p first_ns high_ns low_ns; ret 0 }) ?Q t"
    if "p \<noteq> 0" for start p
    unfolding wp_bind wp_return
    by (rule wp_hw_start [OF bits(1,3) k3(1) that sym])
      (use that t k3 engine_on_armed [OF bits(2,3)] in \<open>simp add: mirrored_def Let_def\<close>)
  show "wp (case case (now, margin) of (Inr now, Inr mgn) \<Rightarrow>
           if now \<le> U64_MAX - mgn then hw_late_push (hw_first_slot
                (output_hw_flop_high (blocks (drv (s\<lparr>drv := set_mirror b l c (drv s), kst := k1\<rparr>)) b)) first high low) (now + mgn) (high + low)
           else Some (hw_first_slot (output_hw_flop_high (blocks (drv (s\<lparr>drv := set_mirror b l c (drv s), kst := k1\<rparr>)) b)) first high low)
       | _ \<Rightarrow> Some (hw_first_slot (output_hw_flop_high (blocks (drv (s\<lparr>drv := set_mirror b l c (drv s), kst := k1\<rparr>)) b)) first high low) of
      None \<Rightarrow> ret (- ENODEV)
    | Some start \<Rightarrow> do { output_hw_start K b ctrl start (if output_hw_flop_high (blocks (drv (s\<lparr>drv := set_mirror b l c (drv s), kst := k1\<rparr>)) b) then low else high)
        first_ns high_ns low_ns; ret 0 }) ?Q
     (s\<lparr>drv := set_mirror b l c (drv s), kst := k1\<rparr>\<lparr>kst := k2\<rparr>\<lparr>kst := k3\<rparr>)"
    using err start nz by (auto simp: t_def split: option.splits)
qed

lemma wp_arm_hardware:
  assumes good: "mirrored (blocks (drv s) b) (ctl (kst s)) (compv (kst s)) (piv (kst s)) (level (kst s))"
    and ph: "output_phase (blocks (drv s) b) = TGPIO_OUTPUT_ARM_PERIODIC" and sym: "high_ns = low_ns"
  shows "wp (tgpio_arm_hardware_periodic K b first_ns high_ns low_ns) (\<lambda>r t.
    let m = blocks (drv t) b in
      mirrored m (ctl (kst t)) (compv (kst t)) (piv (kst t)) (level (kst t)) \<and>
      (r = 0 \<longrightarrow> output_phase m = TGPIO_OUTPUT_HARDWARE_PERIODIC \<and> output_hw_piv m \<noteq> 0 \<and>
        engine_on (ctl (kst t)) \<and> \<not> bit (ctl (kst t)) 1)) s" (is "wp _ ?Q s")
  unfolding tgpio_arm_hardware_periodic_def wp_bind
proof (rule wp_advances [OF advances_compare(1) keeps_compare_drv],
    rule wp_advances [OF advances_delta(1)], (rule frame)+,
    rule wp_advances [OF advances_delta(1)], (rule frame)+)
  fix first_art k1 high_art k2 low_art k3
  assume "later (kst s) k1" "later (kst (s\<lparr>kst := k1\<rparr>)) k2" "later (kst (s\<lparr>kst := k1\<rparr>\<lparr>kst := k2\<rparr>)) k3"
  then have "later (kst s) k3" by simp (blast intro: later_trans)
  note g = later_mirrored [OF this good]
  have e: "wp (ret (- ENODEV)) ?Q (s\<lparr>kst := k3\<rparr>)" using g ph by (simp add: wp_return Let_def)
  show "wp (case (first_art, high_art, low_art) of
        (Inr first, Inr high, Inr low) \<Rightarrow>
          if high = 0 \<or> low = 0 \<or> U64_MAX div 4 < high \<or> U64_MAX div 4 < low
          then ret (- ENODEV)
          else arm_hw_program K b first high low first_ns high_ns low_ns
      | _ \<Rightarrow> ret (- ENODEV)) ?Q (s\<lparr>kst := k1\<rparr>\<lparr>kst := k2\<rparr>\<lparr>kst := k3\<rparr>)"
    using wp_arm_program [of "s\<lparr>kst := k3\<rparr>" high_ns low_ns] g ph sym e by (auto split: sum.splits)
qed

end

end
