(* ===== verification/Input_Path.thy ===== *)
theory Input_Path
  imports Kernel_Clock
begin

text \<open>
  The capture side: reconciling the requested input configuration with the hardware, polling
  the event counter, converting and emitting captures, the input statistics, the automatic
  polarity check, the TDC pairing and the PPS feed.
\<close>

section \<open>Timestamps\<close>

definition tgpio_art_to_realtime_ns :: "'k kernel \<Rightarrow> nat \<Rightarrow> u64 \<Rightarrow> ('k sys, u64 tgpio_result) state" where
  "tgpio_art_to_realtime_ns K b art = do {
     history \<leftarrow> get_blk b crosststamp_snapshot;
     xtstamp \<leftarrow> liftk (k_crosststamp K art history);
     ret (case xtstamp of None \<Rightarrow> tgpio_err TGPIO_E_NODEV | Some real \<Rightarrow> tgpio_ok real)
   }"

definition tgpio_take_crosststamp :: "'k kernel \<Rightarrow> ('k sys, system_time_snapshot option) state" where
  "tgpio_take_crosststamp K = do {
     hw \<leftarrow> param hardware_timestamps;
     if \<not> hw then ret None
     else do { snapshot \<leftarrow> tgpio_get_realtime_snapshot K; ret (Some snapshot) }
   }"

text \<open>A converted time that is an error or negative is replaced by the poll time.\<close>

definition usable_ns :: "s64 tgpio_result \<Rightarrow> s64 option" where
  "usable_ns r = (case r of Inl e \<Rightarrow> None | Inr v \<Rightarrow> if v <s 0 then None else Some v)"

definition tgpio_poll_time :: "'k kernel \<Rightarrow> ('k sys, s64) state" where
  "tgpio_poll_time K = do {
     now \<leftarrow> tgpio_clock_now_ns K;
     (case usable_ns now of Some v \<Rightarrow> ret v | None \<Rightarrow> ktime_get_real K)
   }"

definition count_fallback :: "('k sys, unit) state" where
  "count_fallback = upd_dev (stats_fallbacks_update (\<lambda>n. n + 1))"

definition tgpio_emit_event :: "'k kernel \<Rightarrow> nat \<Rightarrow> u32 \<Rightarrow> u64 \<Rightarrow> ('k sys, unit) state" where
  "tgpio_emit_event K b index art_cycles = do {
     registered \<leftarrow> get_dev ptp_clock;
     hw \<leftarrow> param hardware_timestamps;
     model \<leftarrow> tgpio_clock_uses_model;
     ts_mode \<leftarrow> param timestamp_mode;
     freq \<leftarrow> param art_frequency;
     if \<not> registered then ret ()
     else do {
       ts \<leftarrow>
         (if \<not> hw then tgpio_poll_time K
          else if model then do {
            phc_ns \<leftarrow> tgpio_clock_phc_art_to_ns art_cycles;
            (case usable_ns phc_ns of
               Some v \<Rightarrow> ret v
             | None \<Rightarrow> do {
                 trace_tgpio_timestamp_fallback b art_cycles;
                 count_fallback;
                 tgpio_poll_time K
               })
          }
          else if ts_mode = TGPIO_TIMESTAMP_REALTIME then do {
            rt \<leftarrow> tgpio_art_to_realtime_ns K b art_cycles;
            (case rt of
               Inl e \<Rightarrow> do {
                 trace_tgpio_timestamp_fallback b art_cycles;
                 count_fallback;
                 ktime_get_real K
               }
             | Inr v \<Rightarrow> ret v)
          }
          else ret (tgpio_art_to_ns freq art_cycles));
       upd_dev (stats_events_update (\<lambda>n. n + 1));
       upd_dev (ptp_events_update (\<lambda>es. es @ [\<lparr>ev_index = index, ev_timestamp = ts\<rparr>]))
     }
   }"

section \<open>Reconciling the input configuration\<close>

definition tgpio_apply_input :: "'k kernel \<Rightarrow> nat \<Rightarrow> u32 \<Rightarrow> ('k sys, unit) state" where
  "tgpio_apply_input K b desired = do {
     ctl \<leftarrow> tgpio_read_ctl K b;
     ctrl \<leftarrow> ret (tgpio_ctl_without ctl TGPIOCTL_EN);
     tgpio_write_ctl K b ctrl;
     if tgpio_input_desired_state desired = TGPIO_CAPTURE_OFF
     then upd_blk b (crosststamp_snapshot_update (\<lambda>_. None))
     else do {
       ctrl \<leftarrow> ret (tgpio_ctl_with (tgpio_ctl_with_edge ctrl (tgpio_input_desired_edge desired))
                      TGPIOCTL_DIR);
       tgpio_write_ctl K b ctrl;
       cap \<leftarrow> tgpio_read_capture K b;
       upd_blk b (last_event_count_update (\<lambda>_. cap_event_count cap));
       tgpio_write_ctl K b (tgpio_ctl_with ctrl TGPIOCTL_EN)
     }
   }"

section \<open>Automatic polarity\<close>

datatype polarity_verdict = ON_GRID | AMBIGUOUS | HALF_SLOT

text \<open>Where a reference edge falls on the output's grid of the given period.\<close>

definition polarity_verdict_of :: "u64 \<Rightarrow> u64 \<Rightarrow> polarity_verdict" where
  "polarity_verdict_of r period =
    (let dist_grid = min r (period - r);
         dist_half = (if period div 2 < r then r - period div 2 else period div 2 - r)
     in if dist_grid < period div 8 then ON_GRID
        else if period div 8 \<le> dist_half then AMBIGUOUS
        else HALF_SLOT)"

text \<open>The other block of the device; \<open>index ^ 1\<close> in the source.\<close>

definition other_block :: "nat \<Rightarrow> nat" where
  "other_block b = (if b = 0 then 1 else 0)"

definition tgpio_auto_polarity_check :: "nat \<Rightarrow> s64 \<Rightarrow> ('k sys, unit) state" where
  "tgpio_auto_polarity_check in_block capture_phc_ns = do {
     out \<leftarrow> ret (other_block in_block);
     auto \<leftarrow> param auto_polarity;
     model \<leftarrow> tgpio_clock_uses_model;
     mode \<leftarrow> get_blk out blk_mode;
     phase \<leftarrow> get_blk out output_phase;
     desired \<leftarrow> tgpio_output_desired_get out;
     cooldown \<leftarrow> get_dev autopol_cooldown;
     if \<not> auto \<or> \<not> model then ret ()
     else if mode \<noteq> TGPIO_MODE_OUTPUT \<or> phase \<noteq> TGPIO_OUTPUT_HARDWARE_PERIODIC then ret ()
     else if des_run desired \<noteq> TGPIO_OUTPUT_RUNNING \<or> des_period_ns desired = 0 \<or>
        des_high_time_ns desired \<noteq> des_low_time_ns desired \<or>
        des_first_edge_ns desired <s 0 \<or> capture_phc_ns <s des_first_edge_ns desired
     then ret ()
     else if cooldown \<noteq> 0 then upd_dev (autopol_cooldown_update (\<lambda>n. n - 1))
     else
       (case polarity_verdict_of
               ((capture_phc_ns - des_first_edge_ns desired) mod des_period_ns desired)
               (des_period_ns desired) of
          HALF_SLOT \<Rightarrow> do {
            upd_dev (autopol_streak_update (\<lambda>n. n + 1));
            streak \<leftarrow> get_dev autopol_streak;
            if streak < 3 then ret ()
            else do {
              upd_dev (autopol_streak_update (\<lambda>_. 0));
              upd_dev (autopol_cooldown_update (\<lambda>_. 3));
              upd_blk out (output_desired_update (des_flip_gen_update (\<lambda>g. g + 1)));
              schedule_work out
            }
          }
        | _ \<Rightarrow> upd_dev (autopol_streak_update (\<lambda>_. 0)))
   }"

section \<open>Statistics and PPS\<close>

definition tgpio_pps_emit :: "'k kernel \<Rightarrow> nat \<Rightarrow> u64 \<Rightarrow> ('k sys, unit) state" where
  "tgpio_pps_emit K b art_cycles = do {
     source \<leftarrow> get_blk b pps;
     if \<not> source then ret ()
     else do {
       real \<leftarrow> tgpio_art_to_realtime_ns K b art_cycles;
       (case real of
          Inl e \<Rightarrow> ret ()
        | Inr v \<Rightarrow> when_m (v \<le> S64_MAX) (upd_dev (pps_events_update (\<lambda>es. es @ [(b, v)]))))
     }
   }"

text \<open>The distance of a time from the nearest whole second.\<close>

definition second_phase :: "s64 \<Rightarrow> s64" where
  "second_phase ns =
    (let frac = s64_rem ns NSEC_PER_SEC in
     if s64_div NSEC_PER_SEC 2 \<le>s frac then frac - NSEC_PER_SEC else frac)"

definition interval_add :: "u64 \<Rightarrow> tgpio_mmio_block \<Rightarrow> tgpio_mmio_block" where
  "interval_add ns m =
    (let count = interval_count m + 1 in
     m\<lparr>interval_count := count, interval_last_ns := ns,
       interval_min_ns :=
         (if count = 1 \<or> ns <s interval_min_ns m then ns else interval_min_ns m),
       interval_max_ns :=
         (if count = 1 \<or> interval_max_ns m <s ns then ns else interval_max_ns m),
       interval_sum_ns := interval_sum_ns m + ns\<rparr>)"

definition tgpio_input_stats_update :: "'k kernel \<Rightarrow> nat \<Rightarrow> u64 \<Rightarrow> ('k sys, unit) state" where
  "tgpio_input_stats_update K b art_cycles = do {
     model \<leftarrow> tgpio_clock_uses_model;
     when_m model (do {
       phc_ns \<leftarrow> tgpio_clock_phc_art_to_ns art_cycles;
       (case usable_ns phc_ns of
          None \<Rightarrow> ret ()
        | Some v \<Rightarrow> do {
            upd_blk b (input_phase_ns_update (\<lambda>_. second_phase v));
            tgpio_auto_polarity_check b v
          })
     });
     have_prev \<leftarrow> get_blk b input_have_prev;
     prev \<leftarrow> get_blk b input_prev_art;
     when_m (have_prev \<and> prev < art_cycles) (do {
       delta \<leftarrow> tgpio_clock_art_cycles_to_delta_ns K (art_cycles - prev);
       (case delta of
          Inl e \<Rightarrow> ret ()
        | Inr ns \<Rightarrow> when_m (ns \<le> S64_MAX) (upd_blk b (interval_add ns)))
     });
     upd_blk b (\<lambda>m. m\<lparr>input_prev_art := art_cycles, input_have_prev := True\<rparr>)
   }"

section \<open>Time-to-digital conversion\<close>

definition tdc_add :: "u64 \<Rightarrow> s64 \<Rightarrow> tgpio_device \<Rightarrow> tgpio_device" where
  "tdc_add cycles signed_ns d =
    (let count = tdc_count d + 1 in
     d\<lparr>tdc_count := count, tdc_last_cycles := cycles, tdc_last_ns := signed_ns,
       tdc_min_ns := (if count = 1 \<or> signed_ns <s tdc_min_ns d then signed_ns else tdc_min_ns d),
       tdc_max_ns := (if count = 1 \<or> tdc_max_ns d <s signed_ns then signed_ns else tdc_max_ns d),
       tdc_sum_ns := tdc_sum_ns d + signed_ns\<rparr>)"

definition tgpio_tdc_capture :: "'k kernel \<Rightarrow> nat \<Rightarrow> u64 \<Rightarrow> u64 \<Rightarrow> ('k sys, unit) state" where
  "tgpio_tdc_capture K block art_cycles event_delta = do {
     start_block \<leftarrow> param (\<lambda>p. unat (tdc_start p AND 1));
     on \<leftarrow> param tdc;
     if \<not> on then ret ()
     else do {
       when_m (1 < event_delta \<and> event_delta \<le> 4096)
         (upd_dev (tdc_lost_update (\<lambda>n. n + (event_delta - 1))));
       pending \<leftarrow> get_dev tdc_pending;
       pending_block \<leftarrow> get_dev tdc_pending_block;
       pending_art \<leftarrow> get_dev tdc_pending_art;
       if \<not> pending \<or> pending_block = block then
         upd_dev (\<lambda>d. d\<lparr>tdc_pending := True, tdc_pending_block := block,
                        tdc_pending_art := art_cycles\<rparr>)
       else do {
         start_art \<leftarrow> ret (if block = start_block then art_cycles else pending_art);
         stop_art \<leftarrow> ret (if block = start_block then pending_art else art_cycles);
         upd_dev (tdc_pending_update (\<lambda>_. False));
         negative \<leftarrow> ret (stop_art < start_art);
         cycles \<leftarrow> ret (if negative then start_art - stop_art else stop_art - start_art);
         duration \<leftarrow> tgpio_clock_art_cycles_to_delta_ns K cycles;
         (case duration of
            Inl e \<Rightarrow> ret ()
          | Inr ns \<Rightarrow> when_m (ns \<le> S64_MAX)
              (upd_dev (tdc_add cycles (if negative then - ns else ns))))
       }
     }
   }"

section \<open>Polling\<close>

definition tgpio_poll_interval_ms :: "('k sys, u64) state" where
  "tgpio_poll_interval_ms = param (\<lambda>p. ucast (max (poll_ms p) TGPIO_MIN_POLL_MS))"

text \<open>One capture that changed the event counter.\<close>

definition tgpio_poll_capture :: "'k kernel \<Rightarrow> nat \<Rightarrow> tgpio_capture \<Rightarrow> ('k sys, unit) state" where
  "tgpio_poll_capture K i cap = do {
     last \<leftarrow> get_blk i last_event_count;
     when_m (cap_event_count cap \<noteq> last) (do {
       event_delta \<leftarrow> ret (cap_event_count cap - last);
       upd_blk i (last_event_count_update (\<lambda>_. cap_event_count cap));
       channel \<leftarrow> gets (\<lambda>s. tgpio_channel_for_mmio_block (drv s) i PTP_PF_EXTTS);
       tgpio_emit_event K i channel (cap_art_cycles cap);
       tgpio_input_stats_update K i (cap_art_cycles cap);
       tgpio_tdc_capture K i (cap_art_cycles cap) event_delta;
       tgpio_pps_emit K i (cap_art_cycles cap)
     })
   }"

text \<open>One round of the poll loop: whether the block is an active input.\<close>

definition tgpio_poll_block :: "'k kernel \<Rightarrow> nat \<Rightarrow> ('k sys, bool) state" where
  "tgpio_poll_block K i = do {
     mode \<leftarrow> get_blk i blk_mode;
     if mode \<noteq> TGPIO_MODE_INPUT then ret False
     else do {
       desired \<leftarrow> get_blk i input_desired;
       applied \<leftarrow> get_blk i input_applied;
       when_m (desired \<noteq> applied) (do {
         tgpio_apply_input K i desired;
         upd_blk i (input_applied_update (\<lambda>_. desired))
       });
       if tgpio_input_desired_state desired = TGPIO_CAPTURE_OFF then ret False
       else do {
         snap \<leftarrow> tgpio_take_crosststamp K;
         cap \<leftarrow> tgpio_read_capture K i;
         tgpio_poll_capture K i cap;
         upd_blk i (crosststamp_snapshot_update (\<lambda>_. snap));
         ret True
       }
     }
   }"

definition tgpio_poll_work :: "'k kernel \<Rightarrow> ('k sys, unit) state" where
  "tgpio_poll_work K = do {
     active0 \<leftarrow> tgpio_poll_block K 0;
     active1 \<leftarrow> tgpio_poll_block K 1;
     delay \<leftarrow> tgpio_poll_interval_ms;
     when_m (active0 \<or> active1) (upd_dev (poll_work_update (queue_delayed delay)))
   }"

section \<open>Enabling and disabling a capture\<close>

definition tgpio_config_input :: "u32 \<Rightarrow> u32 \<Rightarrow> bool \<Rightarrow> ('k sys, int) state" where
  "tgpio_config_input channel flags on = do {
     found \<leftarrow> gets (\<lambda>s. tgpio_find_mmio_block_for_channel (drv s) PTP_PF_EXTTS channel);
     (case found of
        Inl e \<Rightarrow> ret e
      | Inr b \<Rightarrow> do {
          mode \<leftarrow> get_blk b blk_mode;
          mapped \<leftarrow> get_blk b regs;
          if mode \<noteq> TGPIO_MODE_INPUT \<or> \<not> mapped then ret (- EOPNOTSUPP)
          else do {
            default_bits \<leftarrow> get_blk b input_edge_bits;
            upd_blk b (input_desired_update (\<lambda>_.
              if on then tgpio_input_desired TGPIO_CAPTURE_ON
                           (tgpio_input_edge_bits default_bits flags)
              else tgpio_input_desired TGPIO_CAPTURE_OFF 0));
            upd_dev (poll_work_update (\<lambda>_. Some 0));
            ret 0
          }
        })
   }"

end
