(* ===== verification/Output_Config.thy ===== *)
theory Output_Config
  imports Output_Work Input_Path
begin

text \<open>
  Requests for outputs: validating a periodic output, publishing it, the persistent
  operations started at load, the debugfs one-shot pulse and polarity flip, and the stall
  watchdog.
\<close>

section \<open>Configuring an output\<close>

definition tgpio_config_output_values ::
    "'k kernel \<Rightarrow> u32 \<Rightarrow> u64 \<Rightarrow> u64 \<Rightarrow> bool \<Rightarrow> s64 \<Rightarrow> bool \<Rightarrow> ('k sys, int) state" where
  "tgpio_config_output_values K channel period_ns duty_ns duty_valid first_edge_ns on = do {
     found \<leftarrow> gets (\<lambda>s. tgpio_find_mmio_block_for_channel (drv s) PTP_PF_PEROUT channel);
     (case found of
        Inl e \<Rightarrow> ret e
      | Inr b \<Rightarrow> do {
          mode \<leftarrow> get_blk b blk_mode;
          mapped \<leftarrow> get_blk b regs;
          if mode \<noteq> TGPIO_MODE_OUTPUT \<or> \<not> mapped then ret (- EOPNOTSUPP)
          else do {
            upd_blk b (oneshot_stop_work_update (\<lambda>_. None));
            if \<not> on then do { tgpio_disable_output b; ret 0 }
            else (case tgpio_output_times_get period_ns duty_ns duty_valid of
              Inl e \<Rightarrow> ret (status_code e)
            | Inr tms \<Rightarrow> do {
                has_base \<leftarrow> liftk (k_has_art_base K);
                if \<not> has_base then do { trace_tgpio_base_clock_lost b; ret (- ENODEV) }
                else do {
                  hw \<leftarrow> param hardware_periodic_output;
                  out_mode \<leftarrow> ret (if hw \<and> tgpio_output_can_use_hardware tms
                                   then TGPIO_OUTPUT_HARDWARE else TGPIO_OUTPUT_SOFTWARE);
                  cycles \<leftarrow> (if out_mode = TGPIO_OUTPUT_HARDWARE
                             then tgpio_clock_delta_to_art_cycles K (tm_high_time_ns tms)
                             else ret (tgpio_ok 0));
                  (case cycles of
                     Inl e \<Rightarrow> ret (- ENODEV)
                   | Inr c \<Rightarrow> do {
                       timing \<leftarrow> tgpio_prepare_output_timing K
                         (tgpio_output_min_interval_ns (tm_high_time_ns tms) (tm_low_time_ns tms))
                         (tm_period_ns tms) out_mode first_edge_ns;
                       (case timing of
                          Inl e \<Rightarrow> ret (- ENODEV)
                        | Inr t \<Rightarrow> do {
                            tgpio_output_publish b TGPIO_OUTPUT_RUNNING out_mode
                              (tm_period_ns tms) (tm_high_time_ns tms) (tm_low_time_ns tms)
                              first_edge_ns;
                            ret 0
                          })
                     })
                }
              })
          }
        })
   }"

record ptp_perout_request =
  po_index :: u32
  po_flags :: u32
  po_start :: ptp_clock_time
  po_period :: ptp_clock_time
  po_on :: ptp_clock_time

definition tgpio_config_output :: "'k kernel \<Rightarrow> ptp_perout_request \<Rightarrow> bool \<Rightarrow> ('k sys, int) state" where
  "tgpio_config_output K perout on =
    (if \<not> on then tgpio_config_output_values K (po_index perout) 0 0 False 0 False
     else if po_flags perout AND NOT tgpio_supported_perout_flags \<noteq> 0 then ret (- EOPNOTSUPP)
     else case tgpio_ptp_time_to_ns (po_period perout) of
       Inl e \<Rightarrow> ret (status_code e)
     | Inr period \<Rightarrow>
         let duty_valid = (po_flags perout AND PTP_PEROUT_DUTY_CYCLE \<noteq> 0) in
         (case (if duty_valid then tgpio_ptp_time_to_ns (po_on perout) else tgpio_ok 0) of
            Inl e \<Rightarrow> ret (status_code e)
          | Inr duty \<Rightarrow>
              (case tgpio_ptp_time_to_s64_ns (po_start perout) of
                 Inl e \<Rightarrow> ret (status_code e)
               | Inr first_edge \<Rightarrow>
                   tgpio_config_output_values K (po_index perout) period duty duty_valid
                     first_edge on)))"

section \<open>Persistent operations\<close>

definition tgpio_start_persistent_input :: "nat \<Rightarrow> ('k sys, int) state" where
  "tgpio_start_persistent_input i = do {
     channel \<leftarrow> param (\<lambda>p. tgpio_persistent_input_channel p i);
     tgpio_config_input channel 0 True
   }"

definition tgpio_start_persistent_output :: "'k kernel \<Rightarrow> nat \<Rightarrow> ('k sys, int) state" where
  "tgpio_start_persistent_output K i = do {
     period_ns \<leftarrow> param (\<lambda>p. tgpio_persistent_output_period_ns p i);
     duty_ns \<leftarrow> param (\<lambda>p. tgpio_persistent_output_duty_ns p i);
     channel \<leftarrow> param (\<lambda>p. tgpio_persistent_output_channel p i);
     start_delay \<leftarrow> param output_start_delay_ns;
     first_edge \<leftarrow>
       (if start_delay = 0 then ret (Inr 0)
        else if S64_MAX < start_delay then ret (Inl (- ERANGE))
        else do {
          now \<leftarrow> tgpio_clock_now_ns K;
          ret (case usable_ns now of
                 None \<Rightarrow> Inl (- ENODEV)
               | Some n \<Rightarrow>
                   (case usable_ns (tgpio_add_s64 n start_delay) of
                      None \<Rightarrow> Inl (- ERANGE)
                    | Some f \<Rightarrow> Inr f))
        });
     (case first_edge of
        Inl e \<Rightarrow> ret e
      | Inr f \<Rightarrow> tgpio_config_output_values K channel period_ns duty_ns (duty_ns \<noteq> 0) f True)
   }"

definition tgpio_start_persistent_operations :: "'k kernel \<Rightarrow> ('k sys, int) state" where
  "tgpio_start_persistent_operations K = do {
     calibration \<leftarrow> param art_calibration_param;
     on \<leftarrow> param tdc;
     start_block \<leftarrow> param tdc_start;
     mode0 \<leftarrow> get_blk 0 blk_mode;
     mode1 \<leftarrow> get_blk 1 blk_mode;
     if calibration \<noteq> ''raw'' \<and> calibration \<noteq> ''realtime'' then ret (- EINVAL)
     else if on \<and> 1 < start_block then ret (- EINVAL)
     else if on \<and> (mode0 \<noteq> TGPIO_MODE_INPUT \<or> mode1 \<noteq> TGPIO_MODE_INPUT) then ret (- EINVAL)
     else do {
       r \<leftarrow> for_each_int (if on then all_blocks else []) (\<lambda>i. do {
              channel \<leftarrow> param (\<lambda>p. tgpio_persistent_input_channel p i);
              tgpio_config_input channel 0 True
            });
       if r \<noteq> 0 then ret r
       else do {
         r \<leftarrow> for_each_int all_blocks (\<lambda>i. do {
                enabled \<leftarrow> param (\<lambda>p. tgpio_persistent_input_enabled p i);
                if \<not> enabled then ret 0 else tgpio_start_persistent_input i
              });
         if r \<noteq> 0 then ret r
         else for_each_int all_blocks (\<lambda>i. do {
                period \<leftarrow> param (\<lambda>p. tgpio_persistent_output_period_ns p i);
                if period = 0 then ret 0 else tgpio_start_persistent_output K i
              })
       }
     }
   }"

section \<open>Watchdog\<close>

text \<open>
  When the watchdog warns, given the stalled checks and the high time: the products are taken
  once in 64 and once in 32 bits. A check of a block returns whether it warned.
\<close>

definition watchdog_warns :: "u32 \<Rightarrow> u64 \<Rightarrow> bool" where
  "watchdog_warns stalls high_time_ns =
    (let period_s = (2 * high_time_ns) div NSEC_PER_SEC; limit = max 30 (3 * period_s) in
     limit < ucast stalls * 10 \<and> ucast (stalls * 10) \<le> limit + 10)"

definition tgpio_watchdog_block :: "'k kernel \<Rightarrow> nat \<Rightarrow> ('k sys, bool) state" where
  "tgpio_watchdog_block K i = do {
     m \<leftarrow> get_blk i (\<lambda>m. m);
     if blk_mode m \<noteq> TGPIO_MODE_OUTPUT \<or>
        (output_phase m \<noteq> TGPIO_OUTPUT_HARDWARE_PERIODIC \<and> output_phase m \<noteq> TGPIO_OUTPUT_HW_DUTY) \<or>
        output_hw_piv m = 0 \<or> \<not> regs m
     then ret False
     else do {
       compv \<leftarrow> tgpio_read_compv K i;
       if compv \<noteq> wd_last_compv m
       then do {
         upd_blk i (\<lambda>m. m\<lparr>wd_last_compv := compv, wd_stalls := 0\<rparr>);
         ret False
       }
       else do {
         upd_blk i (wd_stalls_update (\<lambda>n. n + 1));
         ret (watchdog_warns (wd_stalls m + 1) (output_high_time_ns m))
       }
     }
   }"

definition tgpio_watchdog_work_fn :: "'k kernel \<Rightarrow> ('k sys, unit) state" where
  "tgpio_watchdog_work_fn K = do {
     for_each all_blocks (\<lambda>i. do { _ \<leftarrow> tgpio_watchdog_block K i; ret () });
     upd_dev (watchdog_work_update (queue_delayed 10))
   }"

section \<open>debugfs requests\<close>

text \<open>
  The value handed to \<open>tgpio_output_invert_write\<close> and \<open>tgpio_tdc_reset_write\<close> is the boolean
  \<open>kstrtobool_from_user\<close> parsed; the result is the byte count or a negated errno.
\<close>

definition tgpio_output_invert_write :: "nat \<Rightarrow> int + bool \<Rightarrow> int \<Rightarrow> ('k sys, int) state" where
  "tgpio_output_invert_write b parsed count =
    (case parsed of
       Inl e \<Rightarrow> ret e
     | Inr value \<Rightarrow> do {
         when_m value (do {
           upd_blk b (output_desired_update (des_flip_gen_update (\<lambda>g. g + 1)));
           schedule_work b
         });
         ret count
       })"

definition tgpio_tdc_reset_write :: "int + bool \<Rightarrow> int \<Rightarrow> ('k sys, int) state" where
  "tgpio_tdc_reset_write parsed count =
    (case parsed of
       Inl e \<Rightarrow> ret e
     | Inr value \<Rightarrow> do {
         when_m value (upd_dev (\<lambda>d. d\<lparr>tdc_count := 0, tdc_lost := 0, tdc_last_cycles := 0,
           tdc_last_ns := 0, tdc_min_ns := 0, tdc_max_ns := 0, tdc_sum_ns := 0\<rparr>));
         ret count
       })"

definition tgpio_oneshot_stop_work_fn :: "nat \<Rightarrow> ('k sys, unit) state" where
  "tgpio_oneshot_stop_work_fn b = tgpio_disable_output b"

text \<open>When the stop of a one-shot pulse is due, relative to now: in the low half after the pulse.\<close>

definition oneshot_stop_delta :: "s64 \<Rightarrow> s64 \<Rightarrow> u64 \<Rightarrow> s64" where
  "oneshot_stop_delta start now width =
    start - now + width + min (width div 2) (100 * NSEC_PER_MSEC)"

text \<open>
  \<open>parsed\<close> is the pair \<open>sscanf\<close> read, with the file's length and copy errors left out. The
  stop delay is kept in nanoseconds; the source rounds it to jiffies.
\<close>

definition tgpio_oneshot_write ::
    "'k kernel \<Rightarrow> nat \<Rightarrow> (s64 \<times> u64) option \<Rightarrow> int \<Rightarrow> ('k sys, int) state" where
  "tgpio_oneshot_write K b parsed count =
    (case parsed of
       None \<Rightarrow> ret (- EINVAL)
     | Some (start_arg, width) \<Rightarrow> do {
         mode \<leftarrow> get_blk b blk_mode;
         desired \<leftarrow> tgpio_output_desired_get b;
         if mode \<noteq> TGPIO_MODE_OUTPUT then ret (- EOPNOTSUPP)
         else if width < TGPIO_HW_DUTY_MIN_HALF_NS \<or> S64_MAX div 4 < width then ret (- EINVAL)
         else if des_run desired = TGPIO_OUTPUT_RUNNING then ret (- EBUSY)
         else do {
           now \<leftarrow> tgpio_clock_now_ns K;
           (case usable_ns now of
              None \<Rightarrow> ret (- ENODEV)
            | Some n \<Rightarrow> do {
                start \<leftarrow> ret (if start_arg = 0 then n + 200 * NSEC_PER_MSEC else start_arg);
                if start <s n + 50 * NSEC_PER_MSEC then ret (- EINVAL)
                else do {
                  tgpio_output_publish b TGPIO_OUTPUT_RUNNING TGPIO_OUTPUT_HARDWARE (2 * width)
                    width width start;
                  stop_delta \<leftarrow> ret (oneshot_stop_delta start n width);
                  delay_real \<leftarrow> tgpio_clock_delta_to_real_ns stop_delta;
                  upd_blk b (oneshot_stop_work_update (queue_delayed
                    (case delay_real of Inl e \<Rightarrow> stop_delta | Inr d \<Rightarrow> d)));
                  ret count
                }
              })
         }
       })"

end
