(* ===== verification/Clock_Refine.thy ===== *)
theory Clock_Refine
  imports Kernel_Clock
begin

text \<open>
  Installing and maintaining the clock model: the PHC anchor, the paired samples of ART with
  CLOCK_MONOTONIC_RAW and CLOCK_REALTIME, the ART mode calibration, and the periodic work
  that re-derives rates (\<open>tgpio_art_refine_work_fn\<close>).
\<close>

section \<open>PHC mode\<close>

definition tgpio_phc_init_clock :: "'k kernel \<Rightarrow> ('k sys, int) state" where
  "tgpio_phc_init_clock K = do {
     anchor \<leftarrow> tgpio_realtime_anchor K;
     (case anchor of
        Inl e \<Rightarrow> ret (- ENODEV)
      | Inr (art, realtime) \<Rightarrow> do {
          freq \<leftarrow> param art_frequency;
          base_art_hz \<leftarrow>
            (if freq \<noteq> 0 then ret (tgpio_ok freq)
             else tgpio_realtime_delta_to_art_cycles K NSEC_PER_SEC);
          (case base_art_hz of
             Inl e \<Rightarrow> ret (status_code e)
           | Inr hz \<Rightarrow> do {
               upd_dev (phc_update (\<lambda>_. tgpio_phc_params_make art realtime hz 0));
               ret 0
             })
        })
   }"

section \<open>Paired samples\<close>

record tgpio_art_raw_sample =
  smp_art :: u64
  smp_raw :: s64
  smp_clock_was_set_seq :: u32

text \<open>
  The loop of \<open>tgpio_sample_art_raw\<close>: the argument counts the iterations left, 8 at first;
  the last one accepts any bracket.
\<close>

primrec sample_art_raw_loop :: "nat \<Rightarrow> 'k kernel \<Rightarrow> ('k sys, tgpio_art_raw_sample tgpio_result) state" where
  "sample_art_raw_loop 0 K = ret (tgpio_err TGPIO_E_NODEV)"
| "sample_art_raw_loop (Suc n) K = do {
     raw_before \<leftarrow> ktime_get_raw_ns K;
     art \<leftarrow> tgpio_get_current_art K;
     raw_after \<leftarrow> ktime_get_raw_ns K;
     (case art of
        Inl e \<Rightarrow> ret (tgpio_err e)
      | Inr a \<Rightarrow>
          if raw_after - raw_before \<le>s 2000 \<or> n = 0 then
            ret (tgpio_ok \<lparr>smp_art = a,
                    smp_raw = raw_before + s64_div (raw_after - raw_before) 2,
                    smp_clock_was_set_seq = 0\<rparr>)
          else sample_art_raw_loop n K)
   }"

definition tgpio_sample_art_raw :: "'k kernel \<Rightarrow> ('k sys, tgpio_art_raw_sample tgpio_result) state" where
  "tgpio_sample_art_raw K = sample_art_raw_loop 8 K"

text \<open>The loop of \<open>tgpio_sample_art_real\<close> carries the best pairing and its bracket.\<close>

primrec sample_art_real_loop ::
    "nat \<Rightarrow> 'k kernel \<Rightarrow> tgpio_art_raw_sample tgpio_result \<Rightarrow> s64 \<Rightarrow>
      ('k sys, tgpio_art_raw_sample tgpio_result) state" where
  "sample_art_real_loop 0 K best best_bracket = ret best"
| "sample_art_real_loop (Suc n) K best best_bracket = do {
     before_snapshot \<leftarrow> tgpio_get_realtime_snapshot K;
     (case tgpio_snapshot_art_cycles K before_snapshot of
        Some snapshot_art \<Rightarrow>
          ret (tgpio_ok \<lparr>smp_art = snapshot_art, smp_raw = ss_real before_snapshot,
                  smp_clock_was_set_seq = ss_clock_was_set_seq before_snapshot\<rparr>)
      | None \<Rightarrow> do {
          art \<leftarrow> tgpio_get_current_art K;
          after_snapshot \<leftarrow> tgpio_get_realtime_snapshot K;
          (case art of
             Inl e \<Rightarrow> ret (tgpio_err e)
           | Inr a \<Rightarrow>
               if ss_clock_was_set_seq before_snapshot \<noteq> ss_clock_was_set_seq after_snapshot
               then sample_art_real_loop n K best best_bracket
               else
                 let before = ss_real before_snapshot; bracket = ss_real after_snapshot - before;
                     better = bracket <s best_bracket;
                     best' = (if better
                       then tgpio_ok \<lparr>smp_art = a, smp_raw = before + s64_div bracket 2,
                              smp_clock_was_set_seq = ss_clock_was_set_seq before_snapshot\<rparr>
                       else best);
                     bracket' = (if better then bracket else best_bracket)
                 in if bracket' \<le>s 300 then ret best'
                    else sample_art_real_loop n K best' bracket')
        })
   }"

definition tgpio_sample_art_real :: "'k kernel \<Rightarrow> ('k sys, tgpio_art_raw_sample tgpio_result) state" where
  "tgpio_sample_art_real K = sample_art_real_loop 16 K (tgpio_err TGPIO_E_NODEV) S64_MAX"

section \<open>ART mode\<close>

definition tgpio_art_cal_realtime :: "('k sys, bool) state" where
  "tgpio_art_cal_realtime = param (\<lambda>p. art_calibration_param p = ''realtime'')"

definition clamp_s64 :: "s64 \<Rightarrow> s64 \<Rightarrow> s64 \<Rightarrow> s64" where
  "clamp_s64 v lo hi = (if v <s lo then lo else if hi <s v then hi else v)"

definition tgpio_rate_trim_scaled_ppm :: "s64 \<Rightarrow> s64" where
  "tgpio_rate_trim_scaled_ppm trim =
    (let ppb = clamp_s64 trim (- 500000) 500000 in s64_div (- ppb * 65536) 1000)"

definition tgpio_art_init_clock :: "'k kernel \<Rightarrow> ('k sys, int) state" where
  "tgpio_art_init_clock K = do {
     first \<leftarrow> tgpio_sample_art_raw K;
     (case first of
        Inl e \<Rightarrow> ret (- ENODEV)
      | Inr f \<Rightarrow> do {
          realtime \<leftarrow> tgpio_art_cal_realtime;
          r \<leftarrow>
            (if realtime then do {
               real \<leftarrow> tgpio_sample_art_real K;
               rt \<leftarrow> tgpio_realtime_delta_to_art_cycles K NSEC_PER_SEC;
               (case (rt, real) of
                  (Inr hz, Inr rs) \<Rightarrow>
                    if hz = 0 then ret None
                    else do {
                      upd_cal (art_cal_anchor_real_update (\<lambda>_. smp_raw rs));
                      ret (Some (hz, smp_art rs, smp_raw f))
                    }
                | _ \<Rightarrow> ret None)
             }
             else do {
               liftk (k_msleep K 250);
               second \<leftarrow> tgpio_sample_art_raw K;
               (case second of
                  Inl e \<Rightarrow> ret None
                | Inr sc \<Rightarrow>
                    if smp_raw sc \<le>s smp_raw f \<or> smp_art sc \<le> smp_art f \<or>
                       U64_MAX div NSEC_PER_SEC < smp_art sc - smp_art f then ret None
                    else
                      let base = ((smp_art sc - smp_art f) * NSEC_PER_SEC)
                                   div (smp_raw sc - smp_raw f)
                      in if base = 0 then ret None
                         else ret (Some (base, smp_art sc, smp_raw sc)))
             });
          (case r of
             None \<Rightarrow> ret (- ENODEV)
           | Some (base, art, raw) \<Rightarrow> do {
               upd_cal (\<lambda>c. c\<lparr>art_cal_anchor_art := art, art_cal_anchor_raw := raw,
                               art_cal_base := base\<rparr>);
               trim \<leftarrow> param rate_trim_ppb;
               upd_dev (phc_update (\<lambda>_. tgpio_phc_params_make art raw base
                          (tgpio_rate_trim_scaled_ppm trim)));
               upd_dev (art_refine_work_update (queue_delayed 10));
               ret 0
             })
        })
   }"

section \<open>Rate refinement\<close>

text \<open>
  The kernel's 128-bit multiply and divide; the driver's operands keep the quotient in range.
\<close>

definition mul_u64_u64_div_u64 :: "u64 \<Rightarrow> u64 \<Rightarrow> u64 \<Rightarrow> u64" where
  "mul_u64_u64_div_u64 a b c = word_of_int (uint a * uint b div uint c)"

text \<open>
  Realtime mode: one sample into the sliding window. A clock step empties the window but
  keeps the rate, a counter that ran backwards drops both.
\<close>

definition art_refine_realtime_sample :: "tgpio_art_raw_sample \<Rightarrow> tgpio_calibration \<Rightarrow> tgpio_calibration" where
  "art_refine_realtime_sample real c =
    (let count = realtime_rate_ring_count c;
         oldest = (if count < 8 then 0 else realtime_rate_ring_head c);
         (o_art, o_real, o_seq) = realtime_rate_ring c ! oldest;
         c1 =
          (if count = 0 then c
           else if smp_clock_was_set_seq real \<noteq> o_seq then
             c\<lparr>realtime_rate_ring_count := 0, realtime_rate_ring_head := 0\<rparr>
           else if smp_art real \<le> o_art \<or> smp_raw real \<le>s o_real then
             c\<lparr>realtime_rate_ring_count := 0, realtime_rate_ring_head := 0,
               realtime_rate_art_cycles := 0, realtime_rate_real_ns := 0\<rparr>
           else if 4 * NSEC_PER_SEC \<le>s smp_raw real - o_real then
             c\<lparr>realtime_rate_art_cycles := smp_art real - o_art,
               realtime_rate_real_ns := smp_raw real - o_real\<rparr>
           else c);
         head = realtime_rate_ring_head c1
     in c1\<lparr>realtime_rate_ring := (realtime_rate_ring c1)
               [head := (smp_art real, smp_raw real, smp_clock_was_set_seq real)],
            realtime_rate_ring_head := (head + 1) mod 8,
            realtime_rate_ring_count :=
              (if realtime_rate_ring_count c1 < 8 then realtime_rate_ring_count c1 + 1
               else realtime_rate_ring_count c1)\<rparr>)"

definition art_refine_realtime :: "'k kernel \<Rightarrow> ('k sys, unit) state" where
  "art_refine_realtime K = do {
     real \<leftarrow> tgpio_sample_art_real K;
     (case real of
        Inl e \<Rightarrow> ret ()
      | Inr r \<Rightarrow> do {
          upd_cal (art_refine_realtime_sample r);
          tgpio_update_outputs_after_phc_freq
        });
     upd_dev (art_refine_work_update (queue_delayed 1))
   }"

text \<open>
  ART mode against CLOCK_REALTIME: the window rate error in milli-ppb is folded into a moving
  average; \<open>None\<close> where the source gives up until the next period.
\<close>

definition art_refine_ring_push :: "tgpio_art_raw_sample \<Rightarrow> tgpio_calibration \<Rightarrow> tgpio_calibration" where
  "art_refine_ring_push real c =
    c\<lparr>art_cal_ring := (art_cal_ring c)[art_cal_ring_head c := (smp_art real, smp_raw real)],
      art_cal_ring_head := (art_cal_ring_head c + 1) mod 8,
      art_cal_ring_count :=
        (if art_cal_ring_count c < 8 then art_cal_ring_count c + 1 else art_cal_ring_count c)\<rparr>"

definition art_refine_window_mppb :: "u64 \<Rightarrow> u64 \<Rightarrow> s64 \<Rightarrow> s64" where
  "art_refine_window_mppb base delta_art delta_real =
    (let expect = mul_u64_u64_div_u64 delta_real base NSEC_PER_SEC;
         err_cycles = delta_art - expect;
         err = mul_u64_u64_div_u64 (if err_cycles <s 0 then - err_cycles else err_cycles)
                 (NSEC_PER_SEC * 1000) delta_art
     in if err_cycles <s 0 then - err else err)"

definition art_refine_against_realtime ::
    "tgpio_art_raw_sample \<Rightarrow> s64 \<Rightarrow> tgpio_calibration \<Rightarrow> (u64 \<times> s64) option \<times> tgpio_calibration" where
  "art_refine_against_realtime real trim c =
    (if art_cal_ring_count c = 0 then
       (None, c\<lparr>art_cal_ring := (art_cal_ring c)[0 := (smp_art real, smp_raw real)],
                art_cal_ring_head := 1, art_cal_ring_count := 1\<rparr>)
     else
       let oldest = (if art_cal_ring_count c < 8 then 0 else art_cal_ring_head c);
           (o_art, o_real) = art_cal_ring c ! oldest
       in if smp_raw real \<le>s o_real \<or> smp_art real \<le> o_art
          then (None, c\<lparr>art_cal_ring_count := 0\<rparr>)
          else
            let delta_art = smp_art real - o_art; delta_real = smp_raw real - o_real;
                c1 = art_refine_ring_push real c
            in if delta_real <s 25 * NSEC_PER_SEC then (None, c1)
               else
                 let base = art_cal_base c1;
                     err_mppb = art_refine_window_mppb base delta_art delta_real
                 in if 100000000 <s err_mppb \<or> err_mppb <s - 100000000
                    then (None, c1\<lparr>art_cal_ring_count := 0\<rparr>)
                    else
                      let ema = art_cal_ema_mppb c1
                                  + s64_div ((err_mppb - art_cal_ema_mppb c1) * 3) 10;
                          scaled = s64_div (- ema * 65536) 1000000
                                     + tgpio_rate_trim_scaled_ppm trim
                      in (Some (base, scaled), c1\<lparr>art_cal_ema_mppb := ema\<rparr>))"

definition art_refine_against_raw ::
    "tgpio_art_raw_sample \<Rightarrow> s64 \<Rightarrow> tgpio_calibration \<Rightarrow> (u64 \<times> s64) option" where
  "art_refine_against_raw now trim c =
    (if smp_raw now \<le>s art_cal_anchor_raw c \<or> smp_art now \<le> art_cal_anchor_art c \<or>
        U64_MAX div NSEC_PER_SEC < smp_art now - art_cal_anchor_art c then None
     else
       let base = ((smp_art now - art_cal_anchor_art c) * NSEC_PER_SEC)
                    div (smp_raw now - art_cal_anchor_raw c)
       in if base = 0 then None else Some (base, tgpio_rate_trim_scaled_ppm trim))"

text \<open>Installing a new rate: the model is re-anchored at its own current reading.\<close>

definition art_refine_apply :: "u64 \<Rightarrow> u64 \<Rightarrow> s64 \<Rightarrow> ('k sys, unit) state" where
  "art_refine_apply now_art base scaled = do {
     p \<leftarrow> get_dev phc;
     if base_art_hz p \<noteq> base \<or> scaled_ppm p \<noteq> scaled then
       (case tgpio_phc_art_to_ns p now_art of
          Inl e \<Rightarrow> ret ()
        | Inr cur_ns \<Rightarrow> do {
            upd_dev (phc_update (\<lambda>_. tgpio_phc_params_make now_art cur_ns base scaled));
            tgpio_update_outputs_after_phc_freq
          })
     else ret ()
   }"

definition tgpio_art_refine_work_fn :: "'k kernel \<Rightarrow> ('k sys, unit) state" where
  "tgpio_art_refine_work_fn K = do {
     model \<leftarrow> tgpio_clock_uses_model;
     if \<not> model then art_refine_realtime K
     else do {
       now \<leftarrow> tgpio_sample_art_raw K;
       (case now of
          Inl e \<Rightarrow> ret ()
        | Inr n \<Rightarrow> do {
            realtime \<leftarrow> tgpio_art_cal_realtime;
            r \<leftarrow>
              (if realtime then do {
                 real \<leftarrow> tgpio_sample_art_real K;
                 (case real of
                    Inl e \<Rightarrow> ret None
                  | Inr rs \<Rightarrow> do {
                      c \<leftarrow> get_cal (\<lambda>c. c);
                      trim \<leftarrow> param rate_trim_ppb;
                      upd_cal (\<lambda>_. snd (art_refine_against_realtime rs trim c));
                      ret (fst (art_refine_against_realtime rs trim c))
                    })
               }
               else do {
                 c \<leftarrow> get_cal (\<lambda>c. c);
                 trim \<leftarrow> param rate_trim_ppb;
                 ret (art_refine_against_raw n trim c)
               });
            (case r of None \<Rightarrow> ret () | Some (base, scaled) \<Rightarrow> art_refine_apply (smp_art n) base scaled)
          });
       upd_dev (art_refine_work_update (queue_delayed 30))
     }
   }"

end
