(* ===== verification/Ptp_Ops.thy ===== *)
theory Ptp_Ops
  imports Output_Config Clock_Refine
begin

text \<open>
  The PTP clock operations the kernel calls: reading, setting, shifting and steering the
  clock, the cross timestamp, enabling pins and verifying pin assignments. In PHC mode they
  re-anchor the model; in realtime mode they go to the system clock; ART mode refuses them.
\<close>

section \<open>Steering the system clock\<close>

abbreviation TGPIO_REALTIME_MAX_SCALED_PPM :: s64 where
  "TGPIO_REALTIME_MAX_SCALED_PPM \<equiv> 32768000"

definition tgpio_realtime_adjfine :: "'k kernel \<Rightarrow> s64 \<Rightarrow> ('k sys, int) state" where
  "tgpio_realtime_adjfine K ppm = do {
     have_adj \<leftarrow> param have_do_adjtimex;
     if \<not> have_adj then ret (- EOPNOTSUPP)
     else if TGPIO_REALTIME_MAX_SCALED_PPM <s ppm \<or> ppm <s - TGPIO_REALTIME_MAX_SCALED_PPM
     then ret (- ERANGE)
     else do {
       r \<leftarrow> liftk (k_adjtimex K (ADJ_FREQUENCY ppm));
       ret (if r < 0 then r else 0)
     }
   }"

text \<open>
  The kernel's \<open>ns_to_timespec64\<close> and \<open>timespec64_add\<close> keep the nanoseconds in \<open>[0, 10^9)\<close>;
  its \<open>timespec64_to_ns\<close> saturates at \<open>KTIME_SEC_MAX\<close> seconds and its negative.
\<close>

definition ns_to_timespec64 :: "s64 \<Rightarrow> timespec64" where
  "ns_to_timespec64 ns =
    (let q = s64_div ns NSEC_PER_SEC; r = s64_rem ns NSEC_PER_SEC in
     if r <s 0 then \<lparr>tv_sec = q - 1, tv_nsec = r + NSEC_PER_SEC\<rparr>
     else \<lparr>tv_sec = q, tv_nsec = r\<rparr>)"

definition timespec64_add :: "timespec64 \<Rightarrow> timespec64 \<Rightarrow> timespec64" where
  "timespec64_add a b =
    (let ns = tv_nsec a + tv_nsec b; sec = tv_sec a + tv_sec b in
     if NSEC_PER_SEC \<le>s ns then \<lparr>tv_sec = sec + 1, tv_nsec = ns - NSEC_PER_SEC\<rparr>
     else \<lparr>tv_sec = sec, tv_nsec = ns\<rparr>)"

definition timespec64_to_ns :: "timespec64 \<Rightarrow> s64" where
  "timespec64_to_ns ts =
    (if 9223372036 \<le>s tv_sec ts then S64_MAX
     else if tv_sec ts \<le>s - 9223372036 then S64_MIN
     else tv_sec ts * NSEC_PER_SEC + tv_nsec ts)"

definition tgpio_realtime_adjtime :: "'k kernel \<Rightarrow> s64 \<Rightarrow> ('k sys, int) state" where
  "tgpio_realtime_adjtime K delta_ns = do {
     have_adj \<leftarrow> param have_do_adjtimex;
     if have_adj then do {
       sec \<leftarrow> ret (s64_div delta_ns NSEC_PER_SEC);
       rem \<leftarrow> ret (s64_rem delta_ns NSEC_PER_SEC);
       r \<leftarrow> liftk (k_adjtimex K
              (if rem <s 0 then ADJ_SETOFFSET_NANO (sec - 1) (rem + NSEC_PER_SEC)
               else ADJ_SETOFFSET_NANO sec rem));
       ret (if r < 0 then r else 0)
     }
     else do {
       now \<leftarrow> ktime_get_real K;
       liftk (k_settimeofday K (timespec64_add (ns_to_timespec64 now) (ns_to_timespec64 delta_ns)))
     }
   }"

section \<open>The clock operations\<close>

definition tgpio_ptp_gettime64 :: "'k kernel \<Rightarrow> ('k sys, int + timespec64) state" where
  "tgpio_ptp_gettime64 K = do {
     model \<leftarrow> tgpio_clock_uses_model;
     if \<not> model then do { now \<leftarrow> ktime_get_real K; ret (Inr (ns_to_timespec64 now)) }
     else do {
       now \<leftarrow> tgpio_clock_phc_now_ns K;
       ret (case now of
              Inl e \<Rightarrow> Inl (status_code e)
            | Inr n \<Rightarrow> if n <s 0 then Inl (- ERANGE) else Inr (ns_to_timespec64 n))
     }
   }"

definition tgpio_ptp_settime64 :: "'k kernel \<Rightarrow> timespec64 \<Rightarrow> ('k sys, int) state" where
  "tgpio_ptp_settime64 K ts = do {
     mode \<leftarrow> param clock_mode;
     if mode = TGPIO_CLOCK_ART then ret (- EOPNOTSUPP)
     else if tv_sec ts <s 0 \<or> tv_nsec ts <s 0 \<or> NSEC_PER_SEC \<le>s tv_nsec ts then ret (- EINVAL)
     else if mode = TGPIO_CLOCK_REALTIME then do {
       r \<leftarrow> liftk (k_settimeofday K ts);
       when_m (r = 0) tgpio_resync_outputs_after_phc_step;
       ret r
     }
     else if s64_div S64_MAX NSEC_PER_SEC <s tv_sec ts then ret (- ERANGE)
     else
       let ns = timespec64_to_ns ts in
       if ns <s 0 then ret (- ERANGE)
       else do {
         art \<leftarrow> tgpio_get_current_art K;
         (case art of
            Inl e \<Rightarrow> ret (- ENODEV)
          | Inr a \<Rightarrow> do {
              old \<leftarrow> get_dev (\<lambda>d. tgpio_phc_art_to_ns (phc d) a);
              upd_dev (phc_update (\<lambda>p.
                tgpio_phc_params_make a ns (base_art_hz p) (scaled_ppm p)));
              trace_tgpio_phc_step (case old of Inl e \<Rightarrow> 0 | Inr v \<Rightarrow> v) ns;
              tgpio_resync_outputs_after_phc_step;
              ret 0
            })
       }
   }"

definition tgpio_ptp_adjtime :: "'k kernel \<Rightarrow> s64 \<Rightarrow> ('k sys, int) state" where
  "tgpio_ptp_adjtime K delta = do {
     mode \<leftarrow> param clock_mode;
     if mode = TGPIO_CLOCK_ART then ret (- EOPNOTSUPP)
     else if mode = TGPIO_CLOCK_REALTIME then do {
       r \<leftarrow> tgpio_realtime_adjtime K delta;
       when_m (r = 0) tgpio_resync_outputs_after_phc_step;
       ret r
     }
     else do {
       art \<leftarrow> tgpio_get_current_art K;
       (case art of
          Inl e \<Rightarrow> ret (- ENODEV)
        | Inr a \<Rightarrow> do {
            p \<leftarrow> get_dev phc;
            (case tgpio_phc_art_to_ns p a of
               Inl e \<Rightarrow> ret (- ERANGE)
             | Inr now \<Rightarrow>
                 (case usable_ns (tgpio_add_s64 now delta) of
                    None \<Rightarrow> ret (- ERANGE)
                  | Some adjusted \<Rightarrow> do {
                      upd_dev (phc_update (\<lambda>p.
                        tgpio_phc_params_make a adjusted (base_art_hz p) (scaled_ppm p)));
                      trace_tgpio_phc_step now adjusted;
                      tgpio_resync_outputs_after_phc_step;
                      ret 0
                    }))
          })
     }
   }"

definition tgpio_ptp_adjfine :: "'k kernel \<Rightarrow> s64 \<Rightarrow> ('k sys, int) state" where
  "tgpio_ptp_adjfine K ppm = do {
     mode \<leftarrow> param clock_mode;
     periodic \<leftarrow> param hardware_periodic_output;
     if mode = TGPIO_CLOCK_ART then ret (- EOPNOTSUPP)
     else if mode = TGPIO_CLOCK_REALTIME then do {
       r \<leftarrow> tgpio_realtime_adjfine K ppm;
       when_m (r = 0 \<and> periodic) tgpio_update_outputs_after_phc_freq;
       ret r
     }
     else
       let ppb = tgpio_scaled_ppm_to_ppb ppm in
       if TGPIO_PHC_MAX_ADJ_PPB <s ppb \<or> ppb <s - TGPIO_PHC_MAX_ADJ_PPB then ret (- ERANGE)
       else do {
         art \<leftarrow> tgpio_get_current_art K;
         (case art of
            Inl e \<Rightarrow> ret (- ENODEV)
          | Inr a \<Rightarrow> do {
              p \<leftarrow> get_dev phc;
              (case tgpio_phc_art_to_ns p a of
                 Inl e \<Rightarrow> ret (- ERANGE)
               | Inr now \<Rightarrow> do {
                   upd_dev (phc_update (\<lambda>p. tgpio_phc_params_make a now (base_art_hz p) ppm));
                   when_m periodic tgpio_update_outputs_after_phc_freq;
                   ret 0
                 })
            })
       }
   }"

record ptp_crosststamp =
  ct_device :: s64
  ct_realtime :: s64
  ct_monoraw :: s64

definition tgpio_ptp_getcrosststamp :: "'k kernel \<Rightarrow> ('k sys, int + ptp_crosststamp) state" where
  "tgpio_ptp_getcrosststamp K = do {
     raw_before \<leftarrow> ktime_get_raw_ns K;
     real \<leftarrow> ktime_get_real K;
     raw_after \<leftarrow> ktime_get_raw_ns K;
     mode \<leftarrow> param clock_mode;
     device \<leftarrow>
       (if mode = TGPIO_CLOCK_REALTIME then ret (Some real)
        else do {
          art \<leftarrow> ktime_real_to_art K real;
          (case art of
             None \<Rightarrow> ret None
           | Some a \<Rightarrow> do {
               dev_ns \<leftarrow> tgpio_clock_phc_art_to_ns a;
               ret (case dev_ns of Inl e \<Rightarrow> None | Inr n \<Rightarrow> Some n)
             })
        });
     ret (case device of
            None \<Rightarrow> Inl (- EOPNOTSUPP)
          | Some d \<Rightarrow> Inr \<lparr>ct_device = d, ct_realtime = real,
                           ct_monoraw = raw_before + s64_div (raw_after - raw_before) 2\<rparr>)
   }"

section \<open>Pins\<close>

datatype ptp_clock_request =
    PTP_CLK_REQ_EXTTS u32 u32
  | PTP_CLK_REQ_PEROUT ptp_perout_request
  | PTP_CLK_REQ_PPS

definition tgpio_ptp_enable :: "'k kernel \<Rightarrow> ptp_clock_request \<Rightarrow> bool \<Rightarrow> ('k sys, int) state" where
  "tgpio_ptp_enable K req on =
    (case req of
       PTP_CLK_REQ_EXTTS idx flags \<Rightarrow> tgpio_config_input idx flags on
     | PTP_CLK_REQ_PEROUT perout \<Rightarrow> tgpio_config_output K perout on
     | PTP_CLK_REQ_PPS \<Rightarrow> ret (- EOPNOTSUPP))"

definition tgpio_ptp_verify :: "driver \<Rightarrow> u32 \<Rightarrow> ptp_pin_function \<Rightarrow> u32 \<Rightarrow> int" where
  "tgpio_ptp_verify d pin func chan =
    (if n_ptp_pins (dev d) \<le> pin then - EINVAL
     else if func = PTP_PF_NONE then 0
     else if n_ptp_pins (dev d) \<le> chan then - EINVAL
     else case func of
       PTP_PF_EXTTS \<Rightarrow>
         if tgpio_mmio_block_supports_func d pin PTP_PF_EXTTS = TGPIO_UNSUPPORTED
         then - EOPNOTSUPP else 0
     | PTP_PF_PEROUT \<Rightarrow>
         if tgpio_mmio_block_supports_func d pin PTP_PF_PEROUT = TGPIO_UNSUPPORTED
         then - EOPNOTSUPP else 0
     | _ \<Rightarrow> - EOPNOTSUPP)"

end
