(* ===== verification/Setup.thy ===== *)
theory Setup
  imports Ptp_Ops
begin

text \<open>
  Loading and unloading: detecting the ART frequency, mapping the blocks, validating the
  persistent configuration, registering the clock, and the two tear-down paths
  (\<open>tgpio_input_init\<close> with its error path, \<open>tgpio_input_exit\<close>).
\<close>

section \<open>ART frequency\<close>

abbreviation TGPIO_CPUID_ART_LEAF :: u32 where "TGPIO_CPUID_ART_LEAF \<equiv> 0x15"

definition tgpio_detect_cpuid_art_frequency :: "'k kernel \<Rightarrow> ('k sys, u64 tgpio_result) state" where
  "tgpio_detect_cpuid_art_frequency K =
    (case k_cpuid K 0 of (max_leaf, _, _, _) \<Rightarrow>
       if max_leaf < TGPIO_CPUID_ART_LEAF then ret (tgpio_err TGPIO_E_NODEV)
       else case k_cpuid K TGPIO_CPUID_ART_LEAF of (eax, ebx, ecx, edx) \<Rightarrow>
         if eax = 0 \<or> ebx = 0 then ret (tgpio_err TGPIO_E_NODEV)
         else do {
           upd_par (\<lambda>p. p\<lparr>tsc_art_numerator := ebx, tsc_art_denominator := eax\<rparr>);
           ret (if ecx = 0 then tgpio_err TGPIO_E_NODEV else tgpio_ok (ucast ecx))
         })"

definition tgpio_resolve_art_frequency :: "'k kernel \<Rightarrow> ('k sys, int) state" where
  "tgpio_resolve_art_frequency K = do {
     detected \<leftarrow> tgpio_detect_cpuid_art_frequency K;
     freq \<leftarrow> param art_frequency;
     if freq \<noteq> 0 then ret 0
     else (case detected of
       Inr hz \<Rightarrow> do { upd_par (art_frequency_update (\<lambda>_. hz)); ret 0 }
     | Inl e \<Rightarrow> ret (- ENODEV))
   }"

definition tgpio_probe_art_parameters_for_status :: "'k kernel \<Rightarrow> ('k sys, unit) state" where
  "tgpio_probe_art_parameters_for_status K = do {
     detected \<leftarrow> tgpio_detect_cpuid_art_frequency K;
     freq \<leftarrow> param art_frequency;
     (case detected of
        Inr hz \<Rightarrow> when_m (freq = 0) (upd_par (art_frequency_update (\<lambda>_. hz)))
      | Inl e \<Rightarrow> ret ())
   }"

section \<open>Mapping the blocks\<close>

definition tgpio_check_addr :: "u32 \<Rightarrow> u64 \<Rightarrow> int" where
  "tgpio_check_addr msize a =
    (if a = 0 \<or> msize < TGPIO_MIN_MMIO_SIZE then - EINVAL
     else if a + ucast msize - 1 < a then - EOVERFLOW
     else 0)"

definition tgpio_map_mmio_block :: "'k kernel \<Rightarrow> nat \<Rightarrow> ('k sys, int) state" where
  "tgpio_map_mmio_block K i = do {
     msize \<leftarrow> param mmio_size;
     phys \<leftarrow> get_blk i mmio_phys;
     if tgpio_check_addr msize phys \<noteq> 0 then ret (tgpio_check_addr msize phys)
     else do {
       region \<leftarrow> liftk (k_request_mem_region K i);
       upd_blk i (mem_region_update (\<lambda>_. region));
       if \<not> region then ret (- EBUSY)
       else do {
         mapped \<leftarrow> liftk (k_ioremap K i);
         upd_blk i (regs_update (\<lambda>_. mapped));
         if \<not> mapped then do {
           liftk (k_release_mem_region K i);
           upd_blk i (mem_region_update (\<lambda>_. False));
           ret (- ENOMEM)
         }
         else do {
           upd_dev (n_ptp_pins_update (\<lambda>n. max n (word_of_nat i + 1)));
           ret 0
         }
       }
     }
   }"

definition tgpio_unmap_mmio_blocks :: "'k kernel \<Rightarrow> ('k sys, unit) state" where
  "tgpio_unmap_mmio_blocks K = for_each all_blocks (\<lambda>i. do {
     mapped \<leftarrow> get_blk i regs;
     when_m mapped (do { liftk (k_iounmap K i); upd_blk i (regs_update (\<lambda>_. False)) });
     region \<leftarrow> get_blk i mem_region;
     when_m region (do { liftk (k_release_mem_region K i); upd_blk i (mem_region_update (\<lambda>_. False)) })
   })"

definition tgpio_configure_mmio_blocks :: "'k kernel \<Rightarrow> ('k sys, int) state" where
  "tgpio_configure_mmio_blocks K = do {
     r \<leftarrow> for_each_int all_blocks (\<lambda>i. do {
            base \<leftarrow> param (\<lambda>p. addr p i);
            mode_str \<leftarrow> param (\<lambda>p. tgpio_param p i);
            edge_str \<leftarrow> param (\<lambda>p. edge_param p i);
            upd_blk i (mmio_phys_update (\<lambda>_. base));
            (case tgpio_parse_mode mode_str of
               Inl e \<Rightarrow> ret (status_code e)
             | Inr mode \<Rightarrow> do {
                 upd_blk i (blk_mode_update (\<lambda>_. mode));
                 (case tgpio_parse_edge edge_str of
                    Inl e \<Rightarrow> ret (status_code e)
                  | Inr edge_bits \<Rightarrow> do {
                      upd_blk i (input_edge_bits_update (\<lambda>_. edge_bits));
                      ret 0
                    })
               })
          });
     if r \<noteq> 0 then ret r
     else do {
       second \<leftarrow> param use_second;
       when_m (\<not> second) (upd_blk 1 (blk_mode_update (\<lambda>_. TGPIO_MODE_OFF)));
       for_each_int all_blocks (\<lambda>i. do {
         mode \<leftarrow> get_blk i blk_mode;
         if mode = TGPIO_MODE_OFF then ret 0 else tgpio_map_mmio_block K i
       })
     }
   }"

section \<open>Requirements and validation\<close>

definition tgpio_needs_art_frequency :: "driver \<Rightarrow> tgpio_requirement" where
  "tgpio_needs_art_frequency d =
    (if \<not> hardware_timestamps (par d) then TGPIO_NOT_REQUIRED
     else if timestamp_mode (par d) \<noteq> TGPIO_TIMESTAMP_ART then TGPIO_NOT_REQUIRED
     else if list_ex (\<lambda>i. blk_mode (blocks d i) = TGPIO_MODE_INPUT) all_blocks
     then TGPIO_REQUIRED else TGPIO_NOT_REQUIRED)"

definition tgpio_needs_art_base_clock :: "driver \<Rightarrow> tgpio_requirement" where
  "tgpio_needs_art_base_clock d =
    (if \<not> hardware_timestamps (par d) then TGPIO_NOT_REQUIRED
     else if timestamp_mode (par d) \<noteq> TGPIO_TIMESTAMP_REALTIME then TGPIO_NOT_REQUIRED
     else if list_ex (\<lambda>i. blk_mode (blocks d i) = TGPIO_MODE_INPUT) all_blocks
     then TGPIO_REQUIRED else TGPIO_NOT_REQUIRED)"

text \<open>The checks on one block, in the order of the source.\<close>

definition validate_block :: "driver \<Rightarrow> nat \<Rightarrow> int" where
  "validate_block d i =
    (let p = par d; mode = blk_mode (blocks d i); enabled = tgpio_persistent_input_enabled p i;
         period = tgpio_persistent_output_period_ns p i; duty = tgpio_persistent_output_duty_ns p i; pins = n_ptp_pins (dev d);
         tms = tgpio_output_times_get period duty (duty \<noteq> 0)
     in if enabled \<and> period \<noteq> 0 then - EINVAL
        else if S64_MAX < period then - ERANGE
        else if duty \<noteq> 0 \<and> period = 0 then - EINVAL
        else if period \<noteq> 0 \<and> (case tms of Inl e \<Rightarrow> True | Inr t \<Rightarrow> False)
          then (case tms of Inl e \<Rightarrow> status_code e | Inr t \<Rightarrow> 0)
        else if enabled \<and> mode \<noteq> TGPIO_MODE_INPUT then - EINVAL
        else if period \<noteq> 0 \<and> mode \<noteq> TGPIO_MODE_OUTPUT then - EINVAL
        else if enabled \<and> pins \<le> tgpio_persistent_input_channel p i then - EINVAL
        else if period \<noteq> 0 \<and> pins \<le> tgpio_persistent_output_channel p i then - EINVAL
        else 0)"

definition tgpio_validate_persistent_operations :: "driver \<Rightarrow> int" where
  "tgpio_validate_persistent_operations d =
    (let p = par d in
     if validate_block d 0 \<noteq> 0 then validate_block d 0
     else if validate_block d 1 \<noteq> 0 then validate_block d 1
     else if tgpio_persistent_input_enabled p 0 \<and> tgpio_persistent_input_enabled p 1 \<and> tgpio_persistent_input_channel p 0 = tgpio_persistent_input_channel p 1
       then - EINVAL
     else if tgpio_persistent_output_period_ns p 0 \<noteq> 0 \<and> tgpio_persistent_output_period_ns p 1 \<noteq> 0 \<and>
         tgpio_persistent_output_channel p 0 = tgpio_persistent_output_channel p 1 then - EINVAL
     else 0)"

section \<open>The PTP clock\<close>

definition setup_pin :: "tgpio_params \<Rightarrow> nat \<Rightarrow> ptp_pin_desc" where
  "setup_pin p i =
    (if tgpio_persistent_input_enabled p i then \<lparr>pin_func = PTP_PF_EXTTS, pin_chan = tgpio_persistent_input_channel p i\<rparr>
     else if tgpio_persistent_output_period_ns p i \<noteq> 0
     then \<lparr>pin_func = PTP_PF_PEROUT, pin_chan = tgpio_persistent_output_channel p i\<rparr>
     else \<lparr>pin_func = PTP_PF_NONE, pin_chan = word_of_nat i\<rparr>)"

definition tgpio_setup_pin_descs :: "('k sys, unit) state" where
  "tgpio_setup_pin_descs = do {
     p \<leftarrow> param (\<lambda>p. p);
     n \<leftarrow> get_dev n_ptp_pins;
     upd_dev (pin_config_update (\<lambda>pins i. if i < unat n then setup_pin p i else pins i))
   }"

definition tgpio_max_adj :: "tgpio_params \<Rightarrow> int" where
  "tgpio_max_adj p =
    (if clock_mode p = TGPIO_CLOCK_PHC then 100000000
     else if clock_mode p = TGPIO_CLOCK_REALTIME \<and> have_do_adjtimex p then 500000
     else 0)"

definition tgpio_register_ptp_clock :: "'k kernel \<Rightarrow> ('k sys, int) state" where
  "tgpio_register_ptp_clock K = do {
     n \<leftarrow> get_dev n_ptp_pins;
     if n = 0 then ret 0
     else do {
       tgpio_setup_pin_descs;
       r \<leftarrow> liftk (k_ptp_register K);
       upd_dev (ptp_clock_update (\<lambda>_. r = 0));
       ret r
     }
   }"

section \<open>PPS sources\<close>

definition tgpio_pps_register :: "'k kernel \<Rightarrow> ('k sys, unit) state" where
  "tgpio_pps_register K = for_each all_blocks (\<lambda>i. do {
     mode \<leftarrow> get_blk i blk_mode;
     if mode \<noteq> TGPIO_MODE_INPUT then ret ()
     else do {
       source \<leftarrow> liftk (k_pps_register K i);
       upd_blk i (pps_update (\<lambda>_. source))
     }
   })"

definition tgpio_pps_unregister :: "'k kernel \<Rightarrow> ('k sys, unit) state" where
  "tgpio_pps_unregister K = for_each all_blocks (\<lambda>i. do {
     source \<leftarrow> get_blk i pps;
     when_m source (do { liftk (k_pps_unregister K i); upd_blk i (pps_update (\<lambda>_. False)) })
   })"

section \<open>Disabling the blocks\<close>

definition tgpio_disable_inputs :: "'k kernel \<Rightarrow> ('k sys, unit) state" where
  "tgpio_disable_inputs K = do {
     upd_dev (poll_work_update (\<lambda>_. None));
     for_each all_blocks (\<lambda>i. do {
       mode \<leftarrow> get_blk i blk_mode;
       mapped \<leftarrow> get_blk i regs;
       if mode \<noteq> TGPIO_MODE_INPUT \<or> \<not> mapped then ret ()
       else do {
         ctrl \<leftarrow> tgpio_read_ctl K i;
         tgpio_write_ctl K i (ctrl AND NOT TGPIOCTL_EN);
         upd_blk i (input_desired_update (\<lambda>_. 0))
       }
     })
   }"

text \<open>The synchronous cancels wait for a running work, so afterwards nothing is pending.\<close>

definition cancel_output_work :: "nat \<Rightarrow> ('k sys, unit) state" where
  "cancel_output_work i = upd_blk i (output_work_pending_update (\<lambda>_. False))"

definition tgpio_disable_outputs :: "'k kernel \<Rightarrow> ('k sys, unit) state" where
  "tgpio_disable_outputs K = for_each all_blocks (\<lambda>i. do {
     mode \<leftarrow> get_blk i blk_mode;
     if mode \<noteq> TGPIO_MODE_OUTPUT then ret ()
     else do {
       upd_blk i (output_desired_update stopped_desired);
       upd_blk i (oneshot_stop_work_update (\<lambda>_. None));
       hrtimer_cancel i;
       cancel_output_work i;
       hrtimer_cancel i;
       cancel_output_work i;
       mapped \<leftarrow> get_blk i regs;
       when_m mapped (do {
         tgpio_hw_periodic_drain_low K i;
         tgpio_disable_output_hw K i
       })
     }
   })"

definition tgpio_disable_mmio_blocks :: "'k kernel \<Rightarrow> ('k sys, unit) state" where
  "tgpio_disable_mmio_blocks K = do { tgpio_disable_inputs K; tgpio_disable_outputs K }"

end
