(* ===== verification/Decimal.thy ===== *)
theory Decimal
  imports Tgpio_Prelude
begin

text \<open>
  Numbers in decimal: what \<open>%u\<close>, \<open>%llu\<close> and \<open>%lld\<close> print and what the \<open>strtoul\<close> family reads,
  for the files of the Linux driver and the command line of the Windows tool.
\<close>

section \<open>Reading\<close>

definition digit_of :: "char \<Rightarrow> nat option" where
  "digit_of c = (let n = of_char c :: nat in if 48 \<le> n \<and> n \<le> 57 then Some (n - 48) else None)"

text \<open>The value of the longest run of digits after \<open>acc\<close>, and the rest.\<close>

fun read_digits :: "nat \<Rightarrow> string \<Rightarrow> nat \<times> string" where
  "read_digits acc [] = (acc, [])"
| "read_digits acc (c # cs) = (case digit_of c of
     Some d \<Rightarrow> read_digits (10 * acc + d) cs | None \<Rightarrow> (acc, c # cs))"

section \<open>Printing\<close>

fun decimal :: "nat \<Rightarrow> string" where
  "decimal n = (if n < 10 then [char_of (48 + n)] else decimal (n div 10) @ [char_of (48 + n mod 10)])"

declare decimal.simps [simp del]

definition print_int :: "int \<Rightarrow> string" where
  "print_int i = (if i < 0 then CHR ''-'' # decimal (nat (- i)) else decimal (nat i))"

abbreviation print_u32 :: "u32 \<Rightarrow> string" where "print_u32 w \<equiv> decimal (unat w)"
abbreviation print_u64 :: "u64 \<Rightarrow> string" where "print_u64 w \<equiv> decimal (unat w)"
abbreviation print_s64 :: "s64 \<Rightarrow> string" where "print_s64 w \<equiv> print_int (sint w)"

section \<open>Reading what was printed\<close>

lemma digit_of_char: "d < 10 \<Longrightarrow> digit_of (char_of (48 + d)) = Some d"
  by (simp add: digit_of_def Let_def)

lemma read_digits_append:
  "\<forall>c \<in> set ds. digit_of c \<noteq> None \<Longrightarrow> read_digits acc (ds @ r) = read_digits (fst (read_digits acc ds)) r"
  by (induction ds arbitrary: acc) (auto split: option.splits)

lemma decimal_digits: "\<forall>c \<in> set (decimal n). digit_of c \<noteq> None"
  by (induction n rule: decimal.induct, subst decimal.simps) (auto simp: digit_of_char)

lemma fst_read_decimal: "fst (read_digits 0 (decimal n)) = n"
proof (induction n rule: decimal.induct)
  case (1 n)
  show ?case
  proof (cases "n < 10")
    case True
    then show ?thesis by (subst decimal.simps) (simp add: digit_of_char)
  next
    case False
    then have "read_digits 0 (decimal n) = read_digits (n div 10) [char_of (48 + n mod 10)]"
      using 1 [OF False] by (subst decimal.simps) (simp add: read_digits_append [OF decimal_digits])
    then show ?thesis by (simp add: digit_of_char)
  qed
qed

lemma read_decimal: "r = [] \<or> digit_of (hd r) = None \<Longrightarrow> read_digits 0 (decimal n @ r) = (n, r)"
  unfolding read_digits_append [OF decimal_digits] fst_read_decimal by (cases r) auto

lemma decimal_head: "decimal n \<noteq> []" "digit_of (hd (decimal n)) \<noteq> None"
proof -
  show "decimal n \<noteq> []" by (subst decimal.simps) simp
  then show "digit_of (hd (decimal n)) \<noteq> None" using decimal_digits [of n] by (cases "decimal n") auto
qed

text \<open>A signed number: an optional minus, then digits.\<close>

definition read_int :: "string \<Rightarrow> int \<times> string" where
  "read_int s = (case s of
     [] \<Rightarrow> (0, [])
   | c # cs \<Rightarrow> if c = CHR ''-'' then (case read_digits 0 cs of (n, r) \<Rightarrow> (- int n, r))
       else (case read_digits 0 s of (n, r) \<Rightarrow> (int n, r)))"

lemma minus_no_digit: "digit_of (CHR ''-'') = None"
  by (simp add: digit_of_def)

lemma read_int_decimal: "r = [] \<or> digit_of (hd r) = None \<Longrightarrow> read_int (decimal n @ r) = (int n, r)"
proof -
  assume r: "r = [] \<or> digit_of (hd r) = None"
  obtain c cs where c: "decimal n = c # cs" using decimal_head(1) [of n] by (cases "decimal n") auto
  then have "c \<noteq> CHR ''-''" using decimal_head(2) [of n] minus_no_digit by auto
  then show ?thesis using read_decimal [OF r, of n] c by (simp add: read_int_def)
qed

lemma read_print_int: "r = [] \<or> digit_of (hd r) = None \<Longrightarrow> read_int (print_int i @ r) = (i, r)"
  by (cases "i < 0") (simp_all add: print_int_def read_int_decimal, simp add: read_int_def read_decimal)

end
