(* ===== verification/Status.thy ===== *)
theory Status
  imports Output_Hw Decimal
begin

text \<open>
  What a reader sees of the driver: the debugfs files \<open>status\<close> and \<open>qerr_snapshot\<close>, the two sysfs
  counters, and the registration of both at load. A show function returns the
  text it prints, or the negated errno it fails with.
\<close>

abbreviation newline :: string where "newline \<equiv> [CHR 10]"

definition tgpio_log_verbose :: "('k sys, bool) state" where
  "tgpio_log_verbose = param verbose"

section \<open>The status file\<close>

definition on_off :: "bool \<Rightarrow> string" where
  "on_off b = (if b then ''on'' else ''off'')"

definition present_absent :: "bool \<Rightarrow> string" where
  "present_absent b = (if b then ''present'' else ''absent'')"

text \<open>The clock and the switches.\<close>

definition status_header :: "'k kernel \<Rightarrow> tgpio_phc_params \<Rightarrow> system_time_snapshot \<Rightarrow> ('k sys, string) state" where
  "status_header K p snapshot = do {
     mode \<leftarrow> param clock_mode;
     freq \<leftarrow> param art_frequency;
     activity \<leftarrow> tgpio_log_activity_on;
     verb \<leftarrow> tgpio_log_verbose;
     base \<leftarrow> liftk (k_has_art_base K);
     ret (''clock_mode: '' @ tgpio_clock_mode_name mode @ newline
       @ ''art_frequency: '' @ print_u64 freq @ '' Hz'' @ newline
       @ ''activity_log: '' @ on_off activity @ newline
       @ ''verbose: '' @ on_off verb @ newline
       @ ''art_base_clock: '' @ present_absent base @ newline
       @ ''art_snapshot: '' @ present_absent (tgpio_snapshot_art_cycles K snapshot \<noteq> None) @ newline
       @ ''phc: anchor_art='' @ print_u64 (anchor_art p) @ '' anchor_ns='' @ print_s64 (anchor_ns p)
       @ '' base_art_hz='' @ print_u64 (base_art_hz p) @ '' scaled_ppm='' @ print_s64 (scaled_ppm p) @ newline)
   }"

text \<open>What follows the name of an input block.\<close>

definition status_input :: "bool \<Rightarrow> tgpio_mmio_block \<Rightarrow> string" where
  "status_input model m =
     '' capture='' @ on_off (tgpio_input_desired_state (input_desired m) = TGPIO_CAPTURE_ON)
     @ '' events='' @ print_u64 (last_event_count m)
     @ (if model \<and> input_have_prev m then '' phase='' @ print_s64 (input_phase_ns m) @ ''ns'' else [])
     @ (if interval_count m \<noteq> 0 then
          '' interval_last='' @ print_s64 (interval_last_ns m)
          @ ''ns min='' @ print_s64 (interval_min_ns m) @ ''ns max='' @ print_s64 (interval_max_ns m)
          @ ''ns mean='' @ print_s64 (s64_div (interval_sum_ns m) (interval_count m))
          @ ''ns n='' @ print_u64 (interval_count m)
        else [])"

text \<open>The quantization and the phase of a symmetric hardware waveform.\<close>

definition status_waveform ::
    "'k kernel \<Rightarrow> nat \<Rightarrow> tgpio_output_desired \<Rightarrow> u64 \<Rightarrow> ('k sys, string) state" where
  "status_waveform K i desired high_ns = do {
     quant \<leftarrow> tgpio_output_quantization_get K (des_period_ns desired) high_ns;
     quantized \<leftarrow> ret (case quant of
         Inr q \<Rightarrow> '' art_half_cycles='' @ print_u64 (q_art_half_period_cycles q)
           @ '' actual_period='' @ print_u64 (q_actual_period_ns q)
           @ ''ns period_error='' @ print_s64 (q_period_error_ns q) @ ''ns''
       | Inl e \<Rightarrow> '' quantization_status='' @ print_int (status_code e));
     piv \<leftarrow> get_blk i output_hw_piv;
     if piv = 0 then ret quantized
     else do {
       phase \<leftarrow> tgpio_hw_periodic_phase_get K i (des_first_edge_ns desired) high_ns;
       armed \<leftarrow> get_blk i output_hw_piv;
       flop_high \<leftarrow> get_blk i output_hw_flop_high;
       ret (quantized
         @ (case phase of
              Inr ph \<Rightarrow> '' armed_piv='' @ print_u64 armed @ '' phase_error='' @ print_s64 (ph_error_ns ph) @ ''ns''
            | Inl e \<Rightarrow> [])
         @ '' tracked_level='' @ (if flop_high then ''high'' else ''low''))
     }
   }"

text \<open>What follows the name of an output block.\<close>

definition status_output :: "'k kernel \<Rightarrow> nat \<Rightarrow> ('k sys, string) state" where
  "status_output K i = do {
     desired \<leftarrow> tgpio_output_desired_get i;
     running \<leftarrow> ret (des_run desired = TGPIO_OUTPUT_RUNNING);
     high_ns \<leftarrow> get_blk i (\<lambda>m. if running then output_high_time_ns m else des_high_time_ns desired);
     low_ns \<leftarrow> get_blk i (\<lambda>m. if running then output_low_time_ns m else des_low_time_ns desired);
     line \<leftarrow> ret ('' '' @ (if running then ''running'' else ''stopped'')
       @ '' mode='' @ tgpio_output_mode_name (des_mode desired)
       @ '' period='' @ print_u64 (des_period_ns desired)
       @ ''ns high_time='' @ print_u64 high_ns @ ''ns low_time='' @ print_u64 low_ns @ ''ns'');
     if running \<and> des_mode desired = TGPIO_OUTPUT_HARDWARE \<and> high_ns = low_ns \<and> high_ns \<noteq> 0
     then do {
       waveform \<leftarrow> status_waveform K i desired high_ns;
       ret (line @ waveform)
     }
     else ret line
   }"

definition status_block :: "'k kernel \<Rightarrow> nat \<Rightarrow> ('k sys, string) state" where
  "status_block K i = do {
     mode \<leftarrow> get_blk i blk_mode;
     model \<leftarrow> tgpio_clock_uses_model;
     details \<leftarrow>
       (if mode = TGPIO_MODE_INPUT then get_blk i (status_input model)
        else if mode = TGPIO_MODE_OUTPUT then status_output K i
        else ret []);
     ret (''block'' @ decimal i @ '': '' @ tgpio_mode_name mode @ details @ newline)
   }"

text \<open>The time-to-digital conversion; \<open>start\<close> is the parameter \<open>tdc_start\<close>.\<close>

definition status_tdc :: "u32 \<Rightarrow> tgpio_device \<Rightarrow> string" where
  "status_tdc start d =
     ''tdc: start=block'' @ print_u32 (start AND 1) @ '' stop=block'' @ print_u32 ((start AND 1) XOR 1)
     @ (if tdc_count d \<noteq> 0 then
          '' count='' @ print_u64 (tdc_count d) @ '' last='' @ print_s64 (tdc_last_ns d)
          @ ''ns last_cycles='' @ print_u64 (tdc_last_cycles d)
          @ '' min='' @ print_s64 (tdc_min_ns d) @ ''ns max='' @ print_s64 (tdc_max_ns d)
          @ ''ns mean='' @ print_s64 (s64_div (tdc_sum_ns d) (tdc_count d))
          @ ''ns lost='' @ print_u64 (tdc_lost d)
        else '' count=0 lost='' @ print_u64 (tdc_lost d))
     @ '' pending='' @ (if tdc_pending d then ''1'' else ''0'') @ newline"

definition tgpio_status_show :: "'k kernel \<Rightarrow> ('k sys, string) state" where
  "tgpio_status_show K = do {
     p \<leftarrow> tgpio_phc_params_get;
     snapshot \<leftarrow> tgpio_get_realtime_snapshot K;
     header \<leftarrow> status_header K p snapshot;
     block0 \<leftarrow> status_block K 0;
     block1 \<leftarrow> status_block K 1;
     tdc_on \<leftarrow> param tdc;
     start \<leftarrow> param tdc_start;
     converter \<leftarrow> get_dev (status_tdc start);
     events \<leftarrow> get_dev stats_events;
     fallbacks \<leftarrow> get_dev stats_fallbacks;
     ret (header @ block0 @ block1 @ (if tdc_on then converter else [])
       @ ''counters: events='' @ print_s64 events @ '' fallbacks='' @ print_s64 fallbacks @ newline)
   }"

section \<open>The experiment record\<close>

text \<open>The line of \<open>qerr_snapshot\<close>.\<close>

definition qerr_line ::
    "u64 \<Rightarrow> s64 \<Rightarrow> u32 \<Rightarrow> u64 \<Rightarrow> s64 \<Rightarrow> u32 \<Rightarrow> u64 \<Rightarrow> u64 \<Rightarrow> u32 \<Rightarrow> string" where
  "qerr_line art_before real_before seq_before art_after real_after seq_after compv piv ctl =
     print_u64 art_before @ '','' @ print_s64 real_before @ '','' @ print_u32 seq_before @ '',''
     @ print_u64 art_after @ '','' @ print_s64 real_after @ '','' @ print_u32 seq_after @ '',''
     @ print_u64 compv @ '','' @ print_u64 piv @ '','' @ print_u32 ctl @ newline"

text \<open>The ART value of a snapshot, by inverting its own realtime value where it carries none.\<close>

definition snapshot_art :: "'k kernel \<Rightarrow> system_time_snapshot \<Rightarrow> ('k sys, u64 option) state" where
  "snapshot_art K snapshot =
    (case tgpio_snapshot_art_cycles K snapshot of
       Some art \<Rightarrow> ret (Some art)
     | None \<Rightarrow> ktime_real_to_art K (ss_real snapshot))"

definition tgpio_qerr_snapshot_show :: "'k kernel \<Rightarrow> ('k sys, int + string) state" where
  "tgpio_qerr_snapshot_show K = do {
     mode \<leftarrow> get_blk 0 blk_mode;
     if mode \<noteq> TGPIO_MODE_OUTPUT then ret (Inl (- EOPNOTSUPP))
     else do {
       before \<leftarrow> tgpio_get_realtime_snapshot K;
       compv \<leftarrow> tgpio_read_compv K 0;
       piv_lo \<leftarrow> tgpio_readl K 0 TGPIOPIV31_0;
       piv_hi \<leftarrow> tgpio_readl K 0 TGPIOPIV63_32;
       ctl \<leftarrow> tgpio_read_ctl K 0;
       after \<leftarrow> tgpio_get_realtime_snapshot K;
       art_before \<leftarrow> snapshot_art K before;
       (case art_before of
          None \<Rightarrow> ret (Inl (- ENODEV))
        | Some a \<Rightarrow> do {
            art_after \<leftarrow> snapshot_art K after;
            ret (case art_after of
                   None \<Rightarrow> Inl (- ENODEV)
                 | Some a' \<Rightarrow> Inr (qerr_line a (ss_real before) (ss_clock_was_set_seq before)
                     a' (ss_real after) (ss_clock_was_set_seq after)
                     compv (combine_32 piv_hi piv_lo) ctl))
          })
     }
   }"

section \<open>The counters and the debugfs directory\<close>

definition events_show :: "('k sys, string) state" where
  "events_show = get_dev (\<lambda>d. print_s64 (stats_events d) @ newline)"

definition fallbacks_show :: "('k sys, string) state" where
  "fallbacks_show = get_dev (\<lambda>d. print_s64 (stats_fallbacks d) @ newline)"

text \<open>
  The files created in the directory \<open>tgpio\<close>, in order, with their modes. The directory is held
  as the list of its files; when it cannot be created the file system ignores its files.
\<close>

definition debugfs_files :: "driver \<Rightarrow> (string \<times> nat) list" where
  "debugfs_files d =
     [(''status'', 292), (''qerr_snapshot'', 292), (''tdc_reset'', 128)]
     @ concat (map (\<lambda>i. if blk_mode (blocks d i) \<noteq> TGPIO_MODE_OUTPUT then []
         else [(''output'' @ decimal i @ ''_invert'', 128), (''oneshot'' @ decimal i, 128)]) all_blocks)"

definition tgpio_debugfs_init :: "'k kernel \<Rightarrow> ('k sys, unit) state" where
  "tgpio_debugfs_init K = do {
     created \<leftarrow> liftk (k_debugfs_create_dir K);
     upd_drv (\<lambda>d. d\<lparr>tgpio_debugfs_dir := (if created then Some (debugfs_files d) else None)\<rparr>)
   }"

definition tgpio_debugfs_exit :: "'k kernel \<Rightarrow> ('k sys, unit) state" where
  "tgpio_debugfs_exit K = do {
     liftk (k_debugfs_remove K);
     upd_drv (tgpio_debugfs_dir_update (\<lambda>_. None))
   }"

text \<open>The sysfs directory, as the list of its attributes; it exists without them when they cannot be added.\<close>

definition tgpio_sysfs_attrs :: "string list" where
  "tgpio_sysfs_attrs = [''events'', ''fallbacks'']"

definition tgpio_sysfs_init :: "'k kernel \<Rightarrow> ('k sys, int) state" where
  "tgpio_sysfs_init K = do {
     created \<leftarrow> liftk (k_kobject_create_and_add K);
     upd_drv (tgpio_sysfs_kobj_update (\<lambda>_. if created then Some [] else None));
     if \<not> created then ret (- ENOMEM)
     else do {
       r \<leftarrow> liftk (k_sysfs_create_groups K tgpio_sysfs_attrs);
       when_m (r = 0) (upd_drv (tgpio_sysfs_kobj_update (\<lambda>_. Some tgpio_sysfs_attrs)));
       ret r
     }
   }"

definition tgpio_sysfs_exit :: "'k kernel \<Rightarrow> ('k sys, unit) state" where
  "tgpio_sysfs_exit K = do {
     liftk (k_kobject_put K);
     upd_drv (tgpio_sysfs_kobj_update (\<lambda>_. None))
   }"

text \<open>A failure to create the counters is only logged.\<close>

definition tgpio_observability_init :: "'k kernel \<Rightarrow> ('k sys, unit) state" where
  "tgpio_observability_init K = do {
     tgpio_debugfs_init K;
     _ \<leftarrow> tgpio_sysfs_init K;
     ret ()
   }"

definition tgpio_observability_exit :: "'k kernel \<Rightarrow> ('k sys, unit) state" where
  "tgpio_observability_exit K = do {
     tgpio_sysfs_exit K;
     tgpio_debugfs_exit K
   }"

section \<open>The trace\<close>

text \<open>The line a trace event prints.\<close>

fun trace_printk :: "trace_event \<Rightarrow> string" where
  "trace_printk (TGPIO_TIMESTAMP_FALLBACK block art) = ''block='' @ decimal block @ '' art='' @ print_u64 art"
| "trace_printk (TGPIO_PHC_STEP old_ns new_ns) =
     ''old_ns='' @ print_s64 old_ns @ '' new_ns='' @ print_s64 new_ns @ '' delta_ns='' @ print_s64 (new_ns - old_ns)"
| "trace_printk (TGPIO_BASE_CLOCK_LOST block) = ''block='' @ decimal block"

end
