(* ===== verification/Module_Init.thy ===== *)
theory Module_Init
  imports Setup Status
begin

text \<open>
  \<open>tgpio_input_init\<close> with its error path and \<open>tgpio_input_exit\<close>. The delayed works of a freed device stay readable in the model: a work
  that is still queued then is one that will run on freed memory.
\<close>

section \<open>A zeroed device\<close>

definition zero_desired :: tgpio_output_desired where
  "zero_desired = \<lparr>des_flip_gen = 0, des_gen = 0, des_freq_gen = 0, des_run = TGPIO_OUTPUT_STOPPED,
    des_mode = TGPIO_OUTPUT_SOFTWARE, des_period_ns = 0, des_high_time_ns = 0,
    des_low_time_ns = 0, des_first_edge_ns = 0\<rparr>"

definition zero_block :: tgpio_mmio_block where
  "zero_block = \<lparr>mmio_phys = 0, blk_mode = TGPIO_MODE_OFF, regs = False, mem_region = False,
    input_edge_bits = 0, input_desired = 0, input_applied = 0, last_event_count = 0,
    input_prev_art = 0, input_have_prev = False, input_phase_ns = 0, interval_count = 0,
    interval_last_ns = 0, interval_min_ns = 0, interval_max_ns = 0, interval_sum_ns = 0,
    wd_last_compv = 0, wd_stalls = 0, pps = False, oneshot_stop_work = None,
    crosststamp_snapshot = None, output_timer = None, output_work_pending = False,
    output_desired = zero_desired, output_applied_gen = 0, output_applied_freq_gen = 0,
    output_applied_flip_gen = 0, output_phase = TGPIO_OUTPUT_ARM_PERIODIC,
    output_hw_first_art = 0, output_hw_piv = 0, output_hw_ckpt_compv = 0,
    output_hw_flop_high = False, output_high_time_ns = 0, output_low_time_ns = 0,
    output_next_edge_type = TGPIO_EDGE_FALL, output_next_edge = 0, output_wake_at_time = 0\<rparr>"

definition zero_device :: tgpio_device where
  "zero_device = \<lparr>ptp_clock = False,
    pin_config = (\<lambda>_. \<lparr>pin_func = PTP_PF_NONE, pin_chan = 0\<rparr>),
    phc = tgpio_phc_params_make 0 0 0 0, stats_events = 0, stats_fallbacks = 0,
    poll_work = None, art_refine_work = None, watchdog_work = None, autopol_streak = 0,
    autopol_cooldown = 0, tdc_pending = False, tdc_pending_block = 0, tdc_pending_art = 0,
    tdc_count = 0, tdc_lost = 0, tdc_last_cycles = 0, tdc_last_ns = 0, tdc_min_ns = 0,
    tdc_max_ns = 0, tdc_sum_ns = 0, n_ptp_pins = 0, ptp_events = [], pps_events = [], traces = []\<rparr>"

text \<open>The file-scope variables as the module starts with them.\<close>

definition zero_calibration :: tgpio_calibration where
  "zero_calibration = \<lparr>realtime_rate_art_cycles = 0, realtime_rate_real_ns = 0,
    art_cal_anchor_art = 0, art_cal_anchor_raw = 0, art_cal_anchor_real = 0, art_cal_base = 0,
    art_cal_ema_mppb = 0, art_cal_ring = replicate 8 (0, 0), art_cal_ring_head = 0,
    art_cal_ring_count = 0, realtime_rate_ring = replicate 8 (0, 0, 0),
    realtime_rate_ring_head = 0, realtime_rate_ring_count = 0\<rparr>"

definition default_params :: tgpio_params where
  "default_params = \<lparr>addr = (\<lambda>i. if i = 0 then 0xFE001210 else 0xFE001310), mmio_size = 0x38,
    use_second = True, tgpio_param = (\<lambda>i. ''input''), edge_param = (\<lambda>i. ''rising''),
    clock_mode_param = ''phc'', timestamp_mode_param = ''realtime'',
    output_polarity_param = ''normal'', poll_ms = 10, art_frequency = 0,
    tsc_art_numerator = 0, tsc_art_denominator = 0, clock_mode = TGPIO_CLOCK_REALTIME,
    timestamp_mode = TGPIO_TIMESTAMP_REALTIME, output_polarity = TGPIO_OUTPUT_NORMAL,
    hardware_timestamps = True, hardware_periodic_output = True, software_rearm_toggle = True,
    experimental_instantaneous_realtime_projection = False, activity_log = False,
    verbose_rounding = False, verbose = False, tdc = False, tdc_start = 0, auto_polarity = False,
    input_enable = (\<lambda>i. False), input_channel = (\<lambda>i. if i = 0 then 0 else 1),
    output_channel = (\<lambda>i. if i = 0 then 0 else 1), output_period_ns = (\<lambda>i. 0),
    output_duty_ns = (\<lambda>i. 0), output_start_delay_ns = 0, output_phase_offset_ns = 0,
    output_phase_tolerance_ns = 0, art_calibration_param = ''raw'', rate_trim_ppb = 0,
    have_do_adjtimex = False\<rparr>"

section \<open>Load\<close>

text \<open>The clock-mode dependent part of the initialisation.\<close>

definition init_clock :: "'k kernel \<Rightarrow> ('k sys, int) state" where
  "init_clock K = do {
     mode \<leftarrow> param clock_mode;
     needs_freq \<leftarrow> gets (\<lambda>s. tgpio_needs_art_frequency (drv s));
     needs_base \<leftarrow> gets (\<lambda>s. tgpio_needs_art_base_clock (drv s));
     if mode \<noteq> TGPIO_CLOCK_REALTIME then do {
       base \<leftarrow> liftk (k_has_art_base K);
       if \<not> base then ret (- ENODEV)
       else do {
         r \<leftarrow> (if mode = TGPIO_CLOCK_ART then tgpio_art_init_clock K else tgpio_phc_init_clock K);
         if r \<noteq> 0 then ret r
         else do { tgpio_probe_art_parameters_for_status K; ret 0 }
       }
     }
     else if needs_freq = TGPIO_REQUIRED then tgpio_resolve_art_frequency K
     else if needs_base = TGPIO_REQUIRED then do {
       base \<leftarrow> liftk (k_has_art_base K);
       if \<not> base then ret (- ENODEV)
       else do { tgpio_probe_art_parameters_for_status K; ret 0 }
     }
     else ret 0
   }"

text \<open>From the parsed parameters to the started operations; a non-zero result is an error.\<close>

definition init_device :: "'k kernel \<Rightarrow> ('k sys, int) state" where
  "init_device K = do {
     r \<leftarrow> tgpio_configure_mmio_blocks K;
     if r \<noteq> 0 then ret r
     else do {
       tgpio_pps_register K;
       r \<leftarrow> gets (\<lambda>s. tgpio_validate_persistent_operations (drv s));
       if r \<noteq> 0 then ret r
       else do {
         mode \<leftarrow> param clock_mode;
         when_m (mode = TGPIO_CLOCK_REALTIME) (do {
           resolved \<leftarrow> liftk (k_resolve_adjtimex K);
           upd_par (have_do_adjtimex_update (\<lambda>_. resolved))
         });
         r \<leftarrow> init_clock K;
         if r \<noteq> 0 then ret r
         else do {
           r \<leftarrow> tgpio_register_ptp_clock K;
           if r \<noteq> 0 then ret r
           else do {
             tgpio_observability_init K;
             tgpio_start_persistent_operations K
           }
         }
       }
     }
   }"

definition init_params :: "'k kernel \<Rightarrow> ('k sys, int) state" where
  "init_params K = do {
     clock_str \<leftarrow> param clock_mode_param;
     timestamp_str \<leftarrow> param timestamp_mode_param;
     polarity_str \<leftarrow> param output_polarity_param;
     (case tgpio_parse_clock_mode clock_str of
        Inl e \<Rightarrow> ret (status_code e)
      | Inr cm \<Rightarrow> do {
          upd_par (clock_mode_update (\<lambda>_. cm));
          (case tgpio_parse_timestamp_mode timestamp_str of
             Inl e \<Rightarrow> ret (status_code e)
           | Inr tm \<Rightarrow> do {
               upd_par (timestamp_mode_update (\<lambda>_. tm));
               (case tgpio_parse_output_polarity polarity_str of
                  Inl e \<Rightarrow> ret (status_code e)
                | Inr pol \<Rightarrow> do {
                    upd_par (output_polarity_update (\<lambda>_. pol));
                    init_device K
                  })
             })
        })
   }"

definition unregister_ptp :: "'k kernel \<Rightarrow> ('k sys, unit) state" where
  "unregister_ptp K = do {
     registered \<leftarrow> get_dev ptp_clock;
     when_m registered (liftk (k_ptp_unregister K))
   }"

definition init_err_cleanup :: "'k kernel \<Rightarrow> ('k sys, unit) state" where
  "init_err_cleanup K = do {
     tgpio_observability_exit K;
     unregister_ptp K;
     tgpio_disable_mmio_blocks K;
     tgpio_unmap_mmio_blocks K;
     upd_drv (allocated_update (\<lambda>_. False))
   }"

definition tgpio_input_init :: "'k kernel \<Rightarrow> ('k sys, int) state" where
  "tgpio_input_init K = do {
     msize \<leftarrow> param mmio_size;
     if msize < TGPIO_MIN_MMIO_SIZE then ret (- EINVAL)
     else do {
       memory \<leftarrow> liftk (k_alloc K);
       if \<not> memory then ret (- ENOMEM)
       else do {
         upd_drv (\<lambda>d. d\<lparr>allocated := True, dev := zero_device, blocks := (\<lambda>_. zero_block)\<rparr>);
         upd_dev (watchdog_work_update (queue_delayed 10));
         r \<leftarrow> init_params K;
         if r \<noteq> 0 then do { init_err_cleanup K; ret r }
         else do {
           mode \<leftarrow> param clock_mode;
           when_m (mode = TGPIO_CLOCK_REALTIME)
             (upd_dev (art_refine_work_update (queue_delayed 0)));
           ret 0
         }
       }
     }
   }"

section \<open>Unload\<close>

definition tgpio_input_exit :: "'k kernel \<Rightarrow> ('k sys, unit) state" where
  "tgpio_input_exit K = do {
     live \<leftarrow> gets (\<lambda>s. allocated (drv s));
     when_m live (do {
       tgpio_observability_exit K;
       unregister_ptp K;
       upd_dev (art_refine_work_update (\<lambda>_. None));
       upd_dev (watchdog_work_update (\<lambda>_. None));
       tgpio_pps_unregister K;
       tgpio_disable_mmio_blocks K;
       tgpio_unmap_mmio_blocks K;
       upd_drv (allocated_update (\<lambda>_. False))
     })
   }"

end
