(* ===== verification/Sim_Hw.thy ===== *)
theory Sim_Hw
  imports Toggle_Engine Module_Init
begin

text \<open>
  A concrete world for the driver: blocks whose toggle engine fires edges between accesses
  following an arbitrary schedule, and a timekeeper whose CLOCK_REALTIME and ART counter advance by
  scheduled amounts. It provides the interface \<open>toggle_engine\<close> for every schedule, so the
  engine's lemmas hold of it; on concrete schedules it runs the driver's operations.
\<close>

section \<open>The world\<close>

record engine =
  e_ctl :: u32
  e_compv :: u64
  e_piv :: u64
  e_level :: bool

text \<open>\<open>w_edges\<close>: how many edges fire before each coming access, on every running block.\<close>

record world =
  w_engine :: "nat \<Rightarrow> engine"
  w_edges :: "nat list"
  w_art :: u64
  w_real :: s64
  w_capture :: "nat \<Rightarrow> u64 \<times> u64"

definition fire_edge :: "engine \<Rightarrow> engine" where
  "fire_edge e =
    (if engine_on (e_ctl e) \<and> unat (e_compv e) + unat (e_piv e) < 18446744073709551616
     then e\<lparr>e_compv := e_compv e + e_piv e, e_level := \<not> e_level e\<rparr> else e)"

primrec fire_edges :: "nat \<Rightarrow> engine \<Rightarrow> engine" where
  "fire_edges 0 e = e"
| "fire_edges (Suc n) e = fire_edges n (fire_edge e)"

text \<open>Time passes: the next number of the schedule fires on every block.\<close>

definition pass :: "world \<Rightarrow> world" where
  "pass w = (case w_edges w of
     [] \<Rightarrow> w
   | n # ns \<Rightarrow> w\<lparr>w_engine := (\<lambda>b. fire_edges n (w_engine w b)), w_edges := ns\<rparr>)"

definition engine_read :: "engine \<Rightarrow> u64 \<times> u64 \<Rightarrow> u32 \<Rightarrow> u32" where
  "engine_read e cap off =
    (if off = TGPIOCTL then e_ctl e
     else if off = TGPIOCOMPV31_0 then lower_32_bits (e_compv e)
     else if off = TGPIOCOMPV63_32 then upper_32_bits (e_compv e)
     else if off = TGPIOPIV31_0 then lower_32_bits (e_piv e)
     else if off = TGPIOPIV63_32 then upper_32_bits (e_piv e)
     else if off = TGPIOECCV31_0 then lower_32_bits (fst cap)
     else if off = TGPIOECCV63_32 then upper_32_bits (fst cap)
     else if off = TGPIOTCV31_0 then lower_32_bits (snd cap)
     else if off = TGPIOTCV63_32 then upper_32_bits (snd cap)
     else 0)"

definition engine_write :: "engine \<Rightarrow> u32 \<Rightarrow> u32 \<Rightarrow> engine" where
  "engine_write e off v =
    (if off = TGPIOCTL then e\<lparr>e_ctl := v\<rparr>
     else if off = TGPIOCOMPV31_0 then e\<lparr>e_compv := combine_32 (upper_32_bits (e_compv e)) v\<rparr>
     else if off = TGPIOCOMPV63_32 then e\<lparr>e_compv := combine_32 v (lower_32_bits (e_compv e))\<rparr>
     else if off = TGPIOPIV31_0 then e\<lparr>e_piv := combine_32 (upper_32_bits (e_piv e)) v\<rparr>
     else if off = TGPIOPIV63_32 then e\<lparr>e_piv := combine_32 v (lower_32_bits (e_piv e))\<rparr>
     else e)"

definition sim_readl :: "nat \<Rightarrow> u32 \<Rightarrow> (world, u32) state" where
  "sim_readl b off = State (\<lambda>w. let w' = pass w in (engine_read (w_engine w' b) (w_capture w' b) off, w'))"

definition sim_writel :: "nat \<Rightarrow> u32 \<Rightarrow> u32 \<Rightarrow> (world, unit) state" where
  "sim_writel b off v = State (\<lambda>w. let w' = pass w in
     ((), w'\<lparr>w_engine := (w_engine w')(b := engine_write (w_engine w' b) off v)\<rparr>))"

definition sim_snapshot :: "(world, system_time_snapshot) state" where
  "sim_snapshot = State (\<lambda>w.
     (\<lparr>ss_valid = True, ss_hw_is_art = False, ss_hw_cycles = 0, ss_is_art = True,
       ss_cycles = w_art w, ss_real = w_real w, ss_clock_was_set_seq = 0\<rparr>, w))"

text \<open>
  The simulated kernel; the argument bounds the COMPV retry loop. ART counts at 1 GHz against
  CLOCK_REALTIME; resources are always granted.
\<close>

definition sim_kernel :: "nat \<Rightarrow> world kernel" where
  "sim_kernel retries =
    \<lparr>k_7_2 = False, k_readl = sim_readl, k_writel = sim_writel, k_get_snapshot = sim_snapshot,
     k_get_real = gets w_real, k_get_raw = gets w_real,
     k_real_to_art = (\<lambda>t. gets (\<lambda>w. Some (w_art w + (t - w_real w)))),
     k_has_art_base = State_Monad.return True,
     k_crosststamp = (\<lambda>art hist. gets (\<lambda>w. Some (w_real w - (w_art w - art)))),
     k_msleep = (\<lambda>ms. modify pass), k_adjtimex = (\<lambda>r. State_Monad.return 0),
     k_settimeofday = (\<lambda>ts. State_Monad.return 0),
     k_cpuid = (\<lambda>leaf. (0, 0, 0, 0)),
     k_request_mem_region = (\<lambda>i. State_Monad.return True),
     k_release_mem_region = (\<lambda>i. State_Monad.return ()),
     k_ioremap = (\<lambda>i. State_Monad.return True), k_iounmap = (\<lambda>i. State_Monad.return ()),
     k_pps_register = (\<lambda>i. State_Monad.return True), k_pps_unregister = (\<lambda>i. State_Monad.return ()),
     k_ptp_register = State_Monad.return 0, k_ptp_unregister = State_Monad.return (),
     k_resolve_adjtimex = State_Monad.return True,
     k_debugfs_create_dir = State_Monad.return True, k_debugfs_remove = State_Monad.return (),
     k_kobject_create_and_add = State_Monad.return True, k_sysfs_create_groups = (\<lambda>fs. State_Monad.return 0),
     k_kobject_put = State_Monad.return (), k_alloc = State_Monad.return True,
     k_retries = retries\<rparr>"

section \<open>It provides the engine interface\<close>

text \<open>Later worlds of a block: some of the schedule has passed.\<close>

definition w_later :: "nat \<Rightarrow> world \<Rightarrow> world \<Rightarrow> bool" where
  "w_later b w w' \<longleftrightarrow> (\<exists>i. w_edges w' = drop i (w_edges w) \<and>
     w_engine w' b = fire_edges (sum_list (take i (w_edges w))) (w_engine w b))"

lemma fire_edges_add: "fire_edges (m + n) e = fire_edges n (fire_edges m e)"
  by (induction m arbitrary: e) simp_all

lemma fire_edges_effect:
  "e_ctl (fire_edges n e) = e_ctl e \<and> e_piv (fire_edges n e) = e_piv e \<and>
   (\<exists>m. unat (e_compv (fire_edges n e)) = unat (e_compv e) + m * unat (e_piv e) \<and>
        e_level (fire_edges n e) = (e_level e \<noteq> odd m) \<and> (0 < m \<longrightarrow> engine_on (e_ctl e)))"
proof (induction n arbitrary: e)
  case 0
  show ?case by (auto intro: exI [of _ 0])
next
  case (Suc n)
  show ?case
  proof (cases "engine_on (e_ctl e) \<and> unat (e_compv e) + unat (e_piv e) < 18446744073709551616")
    case True
    let ?e = "fire_edge e"
    have e: "e_ctl ?e = e_ctl e" "e_piv ?e = e_piv e" "e_level ?e = (\<not> e_level e)"
      "unat (e_compv ?e) = unat (e_compv e) + unat (e_piv e)"
      using True by (simp_all add: fire_edge_def unat_plus_if')
    obtain m where "unat (e_compv (fire_edges n ?e)) = unat (e_compv ?e) + m * unat (e_piv ?e)"
      "e_level (fire_edges n ?e) = (e_level ?e \<noteq> odd m)" using Suc [of ?e] by blast
    then show ?thesis using Suc [of ?e] e True
      by (auto intro!: exI [of _ "Suc m"])
  next
    case False
    then have "fire_edge e = e" unfolding fire_edge_def by (rule if_not_P)
    then show ?thesis using Suc [of e] by simp
  qed
qed

lemma pass_later: "w_later b w (pass w)"
  by (cases "w_edges w") (auto simp: w_later_def pass_def intro: exI [of _ 0] exI [of _ 1])

lemma w_later_refl: "w_later b w w"
  by (auto simp: w_later_def intro: exI [of _ 0])

lemma w_later_trans:
  assumes "w_later b w w1" "w_later b w1 w2"
  shows "w_later b w w2"
proof -
  obtain i j where "w_edges w1 = drop i (w_edges w)"
    "w_engine w1 b = fire_edges (sum_list (take i (w_edges w))) (w_engine w b)"
    "w_edges w2 = drop j (w_edges w1)"
    "w_engine w2 b = fire_edges (sum_list (take j (w_edges w1))) (w_engine w1 b)"
    using assms by (auto simp: w_later_def)
  then show ?thesis
    unfolding w_later_def by (intro exI [of _ "i + j"]) (simp add: add.commute take_add flip: fire_edges_add)
qed

lemmas sim_defs = sim_kernel_def sim_readl_def sim_writel_def sim_snapshot_def Let_def
  engine_read_def engine_write_def

lemma sim_read_step:
  "\<exists>k1. w_later b k k1 \<and> w_later b k1 (snd (run_state (k_readl (sim_kernel r) b off) k)) \<and>
     fst (run_state (k_readl (sim_kernel r) b off) k) = engine_read (w_engine k1 b) (w_capture k1 b) off"
  by (rule exI [of _ "pass k"]) (simp add: sim_kernel_def sim_readl_def Let_def pass_later w_later_refl)

lemma sim_write_step:
  "\<exists>k1 k2. w_later b k k1 \<and> w_later b k2 (snd (run_state (k_writel (sim_kernel r) b off v) k)) \<and>
     w_engine k2 b = engine_write (w_engine k1 b) off v"
  by (rule exI [of _ "pass k"], rule exI [of _ "snd (run_state (k_writel (sim_kernel r) b off v) k)"])
    (simp add: sim_kernel_def sim_writel_def Let_def pass_later w_later_refl)

lemma sim_toggle_engine:
  assumes "2 ^ 32 \<le> retries"
  shows "toggle_engine (sim_kernel retries) b (\<lambda>w. e_ctl (w_engine w b)) (\<lambda>w. e_compv (w_engine w b))
    (\<lambda>w. e_piv (w_engine w b)) (\<lambda>w. e_level (w_engine w b)) (w_later b)"
proof unfold_locales
  show "w_later b k1 k2 \<Longrightarrow> w_later b k2 k3 \<Longrightarrow> w_later b k1 k3" for k1 k2 k3
    by (rule w_later_trans)
  show "w_later b k k' \<Longrightarrow> e_ctl (w_engine k' b) = e_ctl (w_engine k b) \<and>
      e_piv (w_engine k' b) = e_piv (w_engine k b) \<and>
      (\<exists>n. unat (e_compv (w_engine k' b)) = unat (e_compv (w_engine k b)) + n * unat (e_piv (w_engine k b)) \<and>
        e_level (w_engine k' b) = (e_level (w_engine k b) \<noteq> odd n) \<and>
        (0 < n \<longrightarrow> engine_on (e_ctl (w_engine k b))))" for k k'
    using fire_edges_effect unfolding w_later_def by metis
  show "w_later b k (snd (run_state (k_msleep (sim_kernel retries) ms) k))" for k ms
    by (simp add: sim_kernel_def pass_later)
qed (insert assms,
    ((use sim_read_step [of b k retries off for k off] in \<open>force simp: engine_read_def\<close>) |
     (use sim_write_step [of b k retries off v for k off v] in \<open>force simp: engine_write_def\<close>) |
     simp add: w_later_refl sim_defs)+)

interpretation sim: toggle_engine "sim_kernel (2 ^ 32)" b "\<lambda>w. e_ctl (w_engine w b)"
    "\<lambda>w. e_compv (w_engine w b)" "\<lambda>w. e_piv (w_engine w b)" "\<lambda>w. e_level (w_engine w b)" "w_later b"
  for b
  by (rule sim_toggle_engine) simp

section \<open>A loaded driver in the simulated world\<close>

text \<open>
  Both blocks are outputs, the PHC runs at 1 GHz from ART 0; the first argument is the block
  state, the second the engine, the third the schedule of edges.
\<close>

definition idle_engine :: engine where
  "idle_engine = \<lparr>e_ctl = 0, e_compv = 0, e_piv = 0, e_level = False\<rparr>"

definition sim_driver :: "tgpio_mmio_block \<Rightarrow> driver" where
  "sim_driver m = \<lparr>allocated = True, par = default_params\<lparr>clock_mode := TGPIO_CLOCK_PHC\<rparr>,
     dev = zero_device\<lparr>phc := tgpio_phc_params_make 0 0 1000000000 0, n_ptp_pins := 2\<rparr>,
     blocks = (\<lambda>_. m), cal = zero_calibration, tgpio_debugfs_dir = None, tgpio_sysfs_kobj = None\<rparr>"

definition sim_world :: "engine \<Rightarrow> nat list \<Rightarrow> world" where
  "sim_world e edges = \<lparr>w_engine = (\<lambda>_. e), w_edges = edges, w_art = 1000000000,
     w_real = 1000000000, w_capture = (\<lambda>_. (0, 0))\<rparr>"

definition sim_sys :: "tgpio_mmio_block \<Rightarrow> engine \<Rightarrow> nat list \<Rightarrow> world sys" where
  "sim_sys m e edges = \<lparr>drv = sim_driver m, kst = sim_world e edges, hung = False\<rparr>"

definition output_block :: tgpio_mmio_block where
  "output_block = zero_block\<lparr>blk_mode := TGPIO_MODE_OUTPUT, regs := True\<rparr>"

text \<open>A block that free-runs with a half period of 500 ms, and its engine.\<close>

definition running_block :: tgpio_mmio_block where
  "running_block = output_block\<lparr>output_phase := TGPIO_OUTPUT_HARDWARE_PERIODIC,
     output_hw_piv := 500000000, output_hw_ckpt_compv := 2000000000, output_hw_flop_high := False,
     output_high_time_ns := 500000000, output_low_time_ns := 500000000\<rparr>"

definition running_engine :: engine where
  "running_engine = \<lparr>e_ctl = 25, e_compv = 2000000000, e_piv = 500000000, e_level = False\<rparr>"

end
