(* ===== verification/Clock_Spec.thy ===== *)
theory Clock_Spec
  imports Clock_Math
begin

text \<open>
  Reference functions on mathematical integers for the value layer, and the proofs that the
  64-bit code computes them, errors included. Quotients are exact integer quotients: no
  intermediate result of the code wraps for the rates the hypotheses allow (products of the
  two rates up to \<open>2^64\<close>, adjustments below \<open>10^9\<close> ppb).
\<close>

section \<open>Reference functions\<close>

definition in_s64 :: "int \<Rightarrow> bool" where
  "in_s64 i \<longleftrightarrow> - 9223372036854775808 \<le> i \<and> i < 9223372036854775808"

definition checked_s64 :: "int \<Rightarrow> s64 tgpio_result" where
  "checked_s64 i = (if in_s64 i then Inr (word_of_int i) else Inl TGPIO_E_RANGE)"

definition round_div :: "bool \<Rightarrow> int \<Rightarrow> int \<Rightarrow> int" where
  "round_div nearest a b = (if nearest then (2 * a + b) div (2 * b) else a div b)"

lemma add_s64_checked: "tgpio_add_s64 a b = checked_s64 (sint a + sint b)"
proof -
  have hi: "sint (S64_MAX - b) = 9223372036854775807 - sint b" if "0 < sint b"
    using that sint_lt64 [of b] by (simp add: sint_sub64)
  have lo: "sint (S64_MIN - b) = - 9223372036854775808 - sint b" if "sint b < 0"
    using that sint_ge64 [of b] by (simp add: sint_sub64)
  have eq: "a + b = word_of_int (sint a + sint b)"
    by simp
  show ?thesis
    unfolding tgpio_add_s64_def checked_s64_def in_s64_def eq
    using sint_ge64 [of a] sint_lt64 [of a] sint_ge64 [of b] sint_lt64 [of b] hi lo
    by (auto simp: word_sless_alt)
qed

lemma abs_s64_abs: "uint (tgpio_abs_s64 v) = \<bar>sint v\<bar>"
proof (cases "sint v < 0")
  case True
  have "- (v + 1) + 1 = - v" by simp
  moreover have "- v = word_of_int (- sint v)" by simp
  ultimately show ?thesis
    using True sint_ge64 [of v]
    by (simp add: tgpio_abs_s64_def word_sless_alt uint_word_of_int take_bit_int_eq_self
        del: wi_hom_neg of_int_minus)
next
  case False
  then show ?thesis
    by (simp add: tgpio_abs_s64_def word_sless_alt uint_eq_sint64)
qed

lemma mult_div_mod_less:
  fixes n s d :: int
  assumes "0 < s" "0 \<le> d" "0 \<le> n" 
  shows "(n mod s) * d \<le> s * d" "0 \<le> (n mod s) * d"
  using assms by (auto intro!: mult_right_mono simp: less_imp_le)

lemma div_mult_add:
  fixes a b c :: int
  assumes "0 < b"
  shows "(b * c + a) div b = c + a div b"
  using assms by simp

lemma round_div_split:
  fixes n s d :: int
  assumes "0 < s"
  shows "round_div rn (n * d) s = (n div s) * d + round_div rn ((n mod s) * d) s"
proof -
  have n: "n * d = s * ((n div s) * d) + (n mod s) * d"
    by (metis mult.assoc distrib_right mult.commute div_mult_mod_eq)
  have n2: "2 * (n * d) + s = (2 * s) * ((n div s) * d) + (2 * ((n mod s) * d) + s)"
    by (subst n) (simp add: algebra_simps)
  have "(n * d) div s = (n div s) * d + ((n mod s) * d) div s"
    using div_mult_add [OF assms, of "(n div s) * d" "(n mod s) * d"] n by simp
  moreover have "(2 * (n * d) + s) div (2 * s)
      = (n div s) * d + (2 * ((n mod s) * d) + s) div (2 * s)"
    unfolding n2 using assms by (intro div_mult_add) simp
  ultimately show ?thesis
    by (simp add: round_div_def)
qed

lemma round_nearest_eq:
  fixes a s :: int
  assumes "0 < s"
  shows "(2 * a + s) div (2 * s) = a div s + (if s - a mod s \<le> a mod s then 1 else 0)"
proof -
  define q r where "q = a div s" and "r = a mod s"
  have a: "a = s * q + r" and r: "0 \<le> r" "r < s"
    using assms by (simp_all add: q_def r_def)
  have "(2 * a + s) div (2 * s) = q + (2 * r + s) div (2 * s)"
    using div_mult_add [of "2 * s" q "2 * r + s"] assms by (simp add: a algebra_simps)
  also have "(2 * r + s) div (2 * s) = (if s - r \<le> r then 1 else 0)"
  proof (cases "s - r \<le> r")
    case True
    have "(2 * s * 1 + (2 * r - s)) div (2 * s) = 1 + (2 * r - s) div (2 * s)"
      using assms by (intro div_mult_add) simp
    moreover have "(2 * r - s) div (2 * s) = 0"
      using True r by (intro div_pos_pos_trivial) auto
    ultimately show ?thesis using True by (simp add: add.commute)
  next
    case False
    then show ?thesis using r by (simp add: div_pos_pos_trivial)
  qed
  finally show ?thesis by (simp add: q_def r_def)
qed

lemma div_less_int:
  fixes a d s :: int
  assumes "0 < s" "a < d * s"
  shows "a div s < d"
proof (rule ccontr)
  assume "\<not> a div s < d"
  then have "d * s \<le> (a div s) * s"
    using assms(1) by (simp add: mult_right_mono)
  also have "\<dots> \<le> a"
    using assms(1) by (simp add: minus_mod_eq_div_mult [symmetric])
  finally show False using assms(2) by simp
qed

lemma pos_uint: "w \<noteq> 0 \<Longrightarrow> 0 < uint (w :: u64)"
  by (metis uint_0_iff uint_ge_0 order_le_less)

lemma rescale_common_exact:
  assumes "uint s * uint d \<le> 18446744073709551616"
  shows "tgpio_rescale_common n s d rn =
    (if s = 0 \<or> d = 0 then Inl TGPIO_E_NODEV
     else let r = round_div rn (uint n * uint d) (uint s) in
       if r \<le> 9223372036854775807 then Inr (word_of_int r) else Inl TGPIO_E_RANGE)"
proof (cases "s = 0 \<or> d = 0")
  case True
  then show ?thesis by (auto simp: tgpio_rescale_common_def)
next
  case False
  then have s: "0 < uint s" and d: "0 < uint d"
    by (auto intro: pos_uint)
  define q m where "q = uint n div uint s" and "m = uint n mod uint s"
  have m: "0 \<le> m" "m < uint s" and q: "0 \<le> q"
    using s by (simp_all add: q_def m_def pos_imp_zdiv_nonneg_iff)
  have uq: "uint (n div s) = q" and um: "uint (n mod s) = m"
    by (simp_all add: q_def m_def uint_div uint_mod)
  define a where "a = m * uint d"
  have a: "0 \<le> a" "a < uint d * uint s"
    using m d by (simp_all add: a_def mult_strict_right_mono mult.commute)
  then have a64: "a < 18446744073709551616"
    using assms by (simp add: mult.commute)
  have umd: "uint (n mod s * d) = a"
    using a64 by (simp add: uint_mult64 um a_def)
  have ad: "a div uint s < uint d" "0 \<le> a div uint s"
    using a s by (simp_all add: div_less_int pos_imp_zdiv_nonneg_iff)
  have r: "round_div rn (uint n * uint d) (uint s) =
      q * uint d + (a div uint s + (if rn \<and> uint s - a mod uint s \<le> a mod uint s then 1 else 0))"
    using s round_div_split [of "uint s" rn "uint n" "uint d"] round_nearest_eq [of "uint s" a]
    by (simp add: round_div_def q_def [symmetric] m_def [symmetric] a_def [symmetric])
  have ud: "uint (n mod s * d div s) = a div uint s" "uint (n mod s * d mod s) = a mod uint s"
    by (simp_all add: uint_div uint_mod umd)
  have mods: "n mod s * d mod s < s"
    using s by (simp add: word_less_def ud)
  have sub: "uint (s - n mod s * d mod s) = uint s - a mod uint s"
    using mods by (simp add: uint_sub64 ud less_imp_le)
  define sc where "sc = (if rn \<and> s - n mod s * d mod s \<le> n mod s * d mod s
      then n mod s * d div s + 1 else n mod s * d div s)"
  have sc: "uint sc = a div uint s + (if rn \<and> uint s - a mod uint s \<le> a mod uint s then 1 else 0)"
    using ad uint_lt64 [of d] by (auto simp: sc_def word_le_def sub ud uint_add64)
  have sc0: "0 \<le> uint sc" by simp
  have r': "round_div rn (uint n * uint d) (uint s) = q * uint d + uint sc"
    by (simp only: r sc)
  have fn: "tgpio_rescale_common n s d rn =
      (if S64_MAX div d < n div s then Inl TGPIO_E_RANGE
       else if S64_MAX - n div s * d < sc then Inl TGPIO_E_RANGE else Inr (n div s * d + sc))"
    using False by (simp add: tgpio_rescale_common_def Let_def sc_def)
  have md: "uint (S64_MAX div d) = 9223372036854775807 div uint d"
    by (simp add: uint_div)
  have lt: "S64_MAX div d < n div s \<longleftrightarrow> 9223372036854775807 < q * uint d"
    using d div_less_int [of "uint d" 9223372036854775807 q]
      zdiv_mono1 [of "q * uint d" 9223372036854775807 "uint d"]
    by (auto simp: word_less_def md uq not_less not_le) (meson not_le)
  show ?thesis
  proof (cases "9223372036854775807 < q * uint d")
    case True
    then have "\<not> q * uint d + uint sc \<le> 9223372036854775807"
      using sc0 by linarith
    with True lt False show ?thesis
      by (simp add: fn r' Let_def)
  next
    case qd: False
    have uqd: "uint (n div s * d) = q * uint d"
      using qd by (simp add: uint_mult64 uq)
    have usub: "uint (S64_MAX - n div s * d) = 9223372036854775807 - q * uint d"
      using qd by (subst uint_sub64) (simp_all add: word_le_def uqd)
    have eq: "(S64_MAX - n div s * d < sc) = (9223372036854775807 < q * uint d + uint sc)"
      by (simp add: word_less_def usub) linarith
    have sum: "n div s * d + sc = word_of_int (q * uint d + uint sc)"
      by (simp add: uqd [symmetric])
    have nlt: "\<not> S64_MAX div d < n div s"
      using qd lt by blast
    show ?thesis
      using False by (simp only: fn r' sum nlt eq Let_def if_False not_less) auto
  qed
qed

section \<open>Signed conversions\<close>

definition sround_div :: "bool \<Rightarrow> int \<Rightarrow> int \<Rightarrow> int" where
  "sround_div nearest a b = sgn a * round_div nearest \<bar>a\<bar> b"

text \<open>A result the code can only return with a magnitude up to \<open>S64_MAX\<close>.\<close>

definition symmetric_s64 :: "int \<Rightarrow> s64 tgpio_result" where
  "symmetric_s64 i =
    (if \<bar>i\<bar> \<le> 9223372036854775807 then Inr (word_of_int i) else Inl TGPIO_E_RANGE)"

lemma round_div_nonneg: "0 \<le> a \<Longrightarrow> 0 < b \<Longrightarrow> 0 \<le> round_div rn a b"
  by (simp add: round_div_def pos_imp_zdiv_nonneg_iff)

lemma sround_div_sdiv: "0 < b \<Longrightarrow> sround_div False a b = a sdiv b"
  by (simp add: sround_div_def round_div_def signed_divide_int_def)

lemma abs_sround_div: "0 < b \<Longrightarrow> \<bar>sround_div rn a b\<bar> = round_div rn \<bar>a\<bar> b"
  using round_div_nonneg [of "\<bar>a\<bar>" b rn]
  by (cases "a = 0") (auto simp: sround_div_def abs_mult round_div_def)

lemma delta_convert:
  fixes v :: s64
  assumes s: "uint s * uint d \<le> 18446744073709551616" and nz: "s \<noteq> 0" "d \<noteq> 0"
  shows "(case tgpio_rescale_common (tgpio_abs_s64 v) s d rn of
      Inl e \<Rightarrow> Inl e
    | Inr r \<Rightarrow> if S64_MAX < r then Inl TGPIO_E_RANGE else Inr (if v <s 0 then - r else r))
    = symmetric_s64 (sround_div rn (sint v * uint d) (uint s))"
proof -
  define r where "r = round_div rn (\<bar>sint v\<bar> * uint d) (uint s)"
  have sp: "0 < uint s" using nz by (simp add: pos_uint)
  have dp: "0 < uint d" using nz by (simp add: pos_uint)
  have r0: "0 \<le> r" using sp dp by (simp add: r_def round_div_nonneg)
  have sr: "sround_div rn (sint v * uint d) (uint s) = sgn (sint v) * r"
    using dp nz by (simp add: sround_div_def r_def abs_mult sgn_mult)
  have ab: "\<bar>sround_div rn (sint v * uint d) (uint s)\<bar> = r"
    using sp dp by (simp add: abs_sround_div r_def abs_mult)
  have sym: "symmetric_s64 (sround_div rn (sint v * uint d) (uint s)) =
      (if r \<le> 9223372036854775807 then Inr (word_of_int (sgn (sint v) * r))
       else Inl TGPIO_E_RANGE)"
    unfolding symmetric_s64_def ab unfolding sr ..
  have resc: "tgpio_rescale_common (tgpio_abs_s64 v) s d rn =
      (if r \<le> 9223372036854775807 then Inr (word_of_int r) else Inl TGPIO_E_RANGE)"
    using nz rescale_common_exact [OF s, of "tgpio_abs_s64 v" rn]
    by (simp add: abs_s64_abs r_def Let_def)
  show ?thesis
  proof (cases "r \<le> 9223372036854775807")
    case True
    have le: "\<not> S64_MAX < word_of_int r"
      using True r0 by (simp add: word_less_def uint_word_of_int take_bit_int_eq_self)
    have "(if v <s 0 then - word_of_int r else word_of_int r)
        = (word_of_int (sgn (sint v) * r) :: s64)"
    proof (cases "sint v = 0")
      case True
      then have "r = 0" using sp by (simp add: r_def round_div_def)
      then show ?thesis by simp
    next
      case False
      then show ?thesis by (auto simp: word_sless_alt sgn_if)
    qed
    with True le show ?thesis
      by (simp add: resc sym)
  next
    case False
    then show ?thesis by (simp add: resc sym)
  qed
qed

lemma cycles_delta_to_ns_exact:
  assumes "uint hz * 1000000000 \<le> 18446744073709551616"
  shows "tgpio_cycles_delta_to_ns c hz rn =
    (if hz = 0 then Inl TGPIO_E_NODEV
     else symmetric_s64 (sround_div rn (sint c * 1000000000) (uint hz)))"
proof (cases "hz = 0")
  case True
  then show ?thesis
    by (simp add: tgpio_cycles_delta_to_ns_def tgpio_rescale_def tgpio_rescale_nearest_def
        tgpio_rescale_common_def)
next
  case False
  have "tgpio_cycles_delta_to_ns c hz rn =
     (case tgpio_rescale_common (tgpio_abs_s64 c) hz NSEC_PER_SEC rn of
      Inl e \<Rightarrow> Inl e
    | Inr r \<Rightarrow> if S64_MAX < r then Inl TGPIO_E_RANGE else Inr (if c <s 0 then - r else r))"
    by (simp add: tgpio_cycles_delta_to_ns_def tgpio_rescale_def tgpio_rescale_nearest_def)
  with False assms show ?thesis
    using delta_convert [of hz NSEC_PER_SEC c rn] by simp
qed

lemma ns_delta_to_cycles_exact:
  assumes "uint hz * 1000000000 \<le> 18446744073709551616"
  shows "tgpio_ns_delta_to_cycles ns hz rn =
    (if hz = 0 then Inl TGPIO_E_NODEV
     else symmetric_s64 (sround_div rn (sint ns * uint hz) 1000000000))"
proof (cases "hz = 0")
  case True
  then show ?thesis
    by (simp add: tgpio_ns_delta_to_cycles_def tgpio_rescale_def tgpio_rescale_nearest_def
        tgpio_rescale_common_def)
next
  case False
  have "tgpio_ns_delta_to_cycles ns hz rn =
     (case tgpio_rescale_common (tgpio_abs_s64 ns) NSEC_PER_SEC hz rn of
      Inl e \<Rightarrow> Inl e
    | Inr r \<Rightarrow> if S64_MAX < r then Inl TGPIO_E_RANGE else Inr (if ns <s 0 then - r else r))"
    by (simp add: tgpio_ns_delta_to_cycles_def tgpio_rescale_def tgpio_rescale_nearest_def)
  with False assms show ?thesis
    using delta_convert [of NSEC_PER_SEC hz ns rn] by (simp add: mult.commute)
qed


section \<open>Rate adjustment\<close>

lemma sint_eq_uint: "0 \<le> sint (w :: s64) \<Longrightarrow> sint w = uint w"
  by (simp add: uint_eq_sint64)

lemma sint_nonzero: "w \<noteq> 0 \<Longrightarrow> sint (w :: s64) \<noteq> 0"
  by (metis signed_word_eqI signed_0)

lemma split_mult_div:
  fixes x y z :: int
  assumes "0 < z"
  shows "(x div z) * y + ((x mod z) * y) div z = (x * y) div z"
proof -
  have "x * y = z * ((x div z) * y) + (x mod z) * y"
    by (metis mult.assoc distrib_right mult.commute div_mult_mod_eq)
  then show ?thesis
    using div_mult_add [OF assms, of "(x div z) * y" "(x mod z) * y"] by simp
qed

lemma apply_ppb_exact:
  assumes "\<bar>sint ppb\<bar> < 1000000000"
  shows "sint (tgpio_apply_ppb_to_ns ns ppb) = (sint ns * sint ppb) sdiv 1000000000"
proof (cases "ns = 0 \<or> ppb = 0")
  case True
  then show ?thesis by (auto simp: tgpio_apply_ppb_to_ns_def Let_def)
next
  case False
  define x y where "x = \<bar>sint ns\<bar>" and "y = \<bar>sint ppb\<bar>"
  have x: "0 \<le> x" "x \<le> 9223372036854775808" and y: "0 \<le> y" "y < 1000000000"
    using assms sint_ge64 [of ns] sint_lt64 [of ns] by (auto simp: x_def y_def)
  define c where "c = (x * y) div 1000000000"
  have "x * y \<le> 9223372036854775808 * 999999999"
    using x y by (intro mult_mono) auto
  then have c: "0 \<le> c" "c \<le> 9223372036854775807"
    using x y by (auto simp: c_def pos_imp_zdiv_nonneg_iff intro: order_trans [OF zdiv_mono1])
  have ux: "uint (tgpio_abs_s64 ns) = x" and uy: "uint (tgpio_abs_s64 ppb) = y"
    by (simp_all add: abs_s64_abs x_def y_def)
  have p1: "uint (tgpio_abs_s64 ns div NSEC_PER_SEC * tgpio_abs_s64 ppb) = x div 1000000000 * y"
  proof -
    have "x div 1000000000 * y \<le> 9223372037 * 1000000000"
      using x y by (intro mult_mono) auto
    then show ?thesis by (simp add: uint_mult64 uint_div ux uy)
  qed
  have p2: "uint (tgpio_abs_s64 ns mod NSEC_PER_SEC * tgpio_abs_s64 ppb) = x mod 1000000000 * y"
  proof -
    have "x mod 1000000000 * y \<le> 1000000000 * 1000000000"
      using x y by (intro mult_mono) (auto simp: less_imp_le)
    then show ?thesis by (simp add: uint_mult64 uint_mod ux uy)
  qed
  define w where "w = tgpio_abs_s64 ns div NSEC_PER_SEC * tgpio_abs_s64 ppb
      + tgpio_abs_s64 ns mod NSEC_PER_SEC * tgpio_abs_s64 ppb div NSEC_PER_SEC"
  have uw: "uint w = c"
    unfolding w_def using c split_mult_div [of 1000000000 x y]
    by (subst uint_add64) (simp_all add: p1 p2 uint_div c_def)
  have sw: "sint w = c"
    using uw c by (simp add: sint_eq_uint64)
  have le: "\<not> S64_MAX < w"
    using uw c by (simp add: word_less_def)
  have res: "tgpio_apply_ppb_to_ns ns ppb = (if (ns <s 0) \<noteq> (ppb <s 0) then - w else w)"
    using False le by (simp add: tgpio_apply_ppb_to_ns_def Let_def w_def)
  have "(sint ns * sint ppb) sdiv 1000000000 = sgn (sint ns) * sgn (sint ppb) * c"
    by (simp add: signed_divide_int_def abs_mult sgn_mult c_def x_def y_def)
  moreover have "sint (- w) = - c"
    using sw c by (simp add: sint_minus64)
  ultimately show ?thesis
    using False sw sint_nonzero [of ns] sint_nonzero [of ppb]
    by (auto simp: res word_sless_alt sgn_if)
qed

lemma adjusted_to_base_exact:
  assumes "- 1000000000 < sint ppb" "sint ppb \<le> 1000000000"
  shows "tgpio_phc_adjusted_to_base_delta a ppb =
    symmetric_s64 ((sint a * 1000000000) sdiv (1000000000 + sint ppb))"
proof -
  define x D where "x = \<bar>sint a\<bar>" and "D = 1000000000 + sint ppb"
  have D: "0 < D" "D \<le> 2000000000" using assms by (auto simp: D_def)
  have x: "0 \<le> x" "x \<le> 9223372036854775808"
    using sint_ge64 [of a] sint_lt64 [of a] by (auto simp: x_def)
  have sd: "sint (NSEC_PER_SEC + ppb) = D"
    using assms by (simp add: sint_add64 D_def)
  have ud: "uint (NSEC_PER_SEC + ppb) = D"
    using sd D uint_eq_sint64 [of "NSEC_PER_SEC + ppb"] by simp
  have ux: "uint (tgpio_abs_s64 a) = x" by (simp add: abs_s64_abs x_def)
  define r where "r = (x * 1000000000) div D"
  have r0: "0 \<le> r" using x D by (simp add: r_def pos_imp_zdiv_nonneg_iff)
  have sdv: "(sint a * 1000000000) sdiv D = sgn (sint a) * r"
    using D by (simp add: signed_divide_int_def r_def x_def abs_mult sgn_mult)
  have abs_sdv: "\<bar>(sint a * 1000000000) sdiv D\<bar> = r"
    using r0 x by (auto simp: sdv abs_mult abs_sgn_eq) (simp add: r_def x_def)
  have q0: "0 \<le> x div D" using x D by (simp add: pos_imp_zdiv_nonneg_iff)
  have rsplit: "r = x div D * 1000000000 + (x mod D * 1000000000) div D"
    using split_mult_div [OF D(1), of x 1000000000] by (simp add: r_def)
  have m0: "0 \<le> (x mod D * 1000000000) div D"
    using D by (simp add: pos_imp_zdiv_nonneg_iff)
  have mlt: "(x mod D * 1000000000) div D < 1000000000"
    using D pos_mod_bound [OF D(1), of x] by (intro div_less_int) simp_all
  show ?thesis
  proof (cases "9223372036 < x div D")
    case True
    then have "9223372036854775807 < r" using m0 rsplit by linarith
    then show ?thesis
      using True D unfolding D_def [symmetric] symmetric_s64_def abs_sdv
      by (simp add: tgpio_phc_adjusted_to_base_delta_def Let_def word_sle_eq sd word_less_def
          uint_div ud ux)
  next
    case False
    have mb: "x mod D * 1000000000 \<le> 2000000000 * 1000000000"
    proof (rule mult_right_mono)
      show "x mod D \<le> 2000000000" using D pos_mod_bound [OF D(1), of x] by linarith
    qed simp
    define w where "w = tgpio_abs_s64 a div (NSEC_PER_SEC + ppb) * NSEC_PER_SEC +
        (tgpio_abs_s64 a mod (NSEC_PER_SEC + ppb) * NSEC_PER_SEC) div (NSEC_PER_SEC + ppb)"
    have p1: "uint (tgpio_abs_s64 a div (NSEC_PER_SEC + ppb) * NSEC_PER_SEC) = x div D * 1000000000"
      using False q0 by (simp add: uint_mult64 uint_div ux ud)
    have p2: "uint (tgpio_abs_s64 a mod (NSEC_PER_SEC + ppb) * NSEC_PER_SEC) = x mod D * 1000000000"
      using mb by (simp add: uint_mult64 uint_mod ux ud)
    have uw: "uint w = r"
      unfolding w_def rsplit using False mlt m0
      by (subst uint_add64) (simp_all add: p1 p2 uint_div ud)
    have fn: "tgpio_phc_adjusted_to_base_delta a ppb =
        (if S64_MAX < w then Inl TGPIO_E_RANGE else Inr (if a <s 0 then - w else w))"
      using False D
      by (simp add: tgpio_phc_adjusted_to_base_delta_def Let_def word_sle_eq sd word_less_def
          uint_div ud ux w_def)
    have ww: "w = word_of_int r" using uw by (metis word_of_int_uint)
    show ?thesis
      unfolding D_def [symmetric] symmetric_s64_def abs_sdv unfolding sdv fn
      using uw r0 x sint_nonzero [of a]
      by (auto simp: word_less_def ww word_sless_alt sgn_if r_def x_def)
  qed
qed

section \<open>The clock model over the integers\<close>

definition phc_ppb :: "tgpio_phc_params \<Rightarrow> int" where
  "phc_ppb p = sint (tgpio_scaled_ppm_to_ppb (scaled_ppm p))"

definition phc_hz :: "tgpio_phc_params \<Rightarrow> int" where
  "phc_hz p = uint (base_art_hz p)"

text \<open>
  Parameters the driver installs: a base rate, small enough that products with \<open>10^9\<close> fit
  in 64 bits, and an adjustment \<open>adjfine\<close> accepts.
\<close>

definition valid_phc :: "tgpio_phc_params \<Rightarrow> bool" where
  "valid_phc p \<longleftrightarrow>
    0 < phc_hz p \<and> phc_hz p * 1000000000 \<le> 18446744073709551616 \<and>
    \<bar>phc_ppb p\<bar> \<le> 100000000"

definition base_ns :: "tgpio_phc_params \<Rightarrow> int \<Rightarrow> int" where
  "base_ns p c = (c * 1000000000) sdiv phc_hz p"

definition adjusted_ns :: "tgpio_phc_params \<Rightarrow> int \<Rightarrow> int" where
  "adjusted_ns p b = b + (b * phc_ppb p) sdiv 1000000000"

lemma phc_art_to_ns_exact:
  assumes "valid_phc p"
  shows "tgpio_phc_art_to_ns p art =
    (let c = uint art - uint (anchor_art p); b = base_ns p c; a = adjusted_ns p b in
     if \<bar>c\<bar> \<le> 9223372036854775807 \<and> \<bar>b\<bar> \<le> 9223372036854775807 \<and> in_s64 a \<and>
        in_s64 (sint (anchor_ns p) + a)
     then Inr (word_of_int (sint (anchor_ns p) + a)) else Inl TGPIO_E_RANGE)"
proof -
  define c where "c = uint art - uint (anchor_art p)"
  define d where "d = (if anchor_art p \<le> art then art - anchor_art p else - (anchor_art p - art))"
  show ?thesis
  proof (cases "\<bar>c\<bar> \<le> 9223372036854775807")
    case False
    then have "tgpio_phc_art_to_ns p art = Inl TGPIO_E_RANGE"
      by (auto simp: tgpio_phc_art_to_ns_def word_less_def word_le_def uint_sub64 c_def not_le
          split: if_splits)
    with False show ?thesis by (simp add: c_def Let_def)
  next
    case True
    have up: "sint (art - anchor_art p) = c" if "anchor_art p \<le> art"
      using that True by (subst sint_eq_uint64) (simp_all add: uint_sub64 c_def)
    have dn: "sint (- (anchor_art p - art)) = c" if "\<not> anchor_art p \<le> art"
    proof -
      have le: "art \<le> anchor_art p" using that by simp
      then have u: "uint (anchor_art p - art) = - c"
        by (simp add: uint_sub64 c_def)
      then have "sint (anchor_art p - art) = - c"
        using True by (subst sint_eq_uint64) simp_all
      then show ?thesis
        using True by (subst sint_minus64) simp_all
    qed
    have sd: "sint d = c"
      using up dn by (simp add: d_def)
    have ncond: "\<not> (anchor_art p \<le> art \<and> S64_MAX < art - anchor_art p)"
        "\<not> (art < anchor_art p \<and> S64_MAX < anchor_art p - art)"
      using True by (auto simp: word_less_def c_def uint_sub64 less_imp_le)
    have hz: "uint (base_art_hz p) * 1000000000 \<le> 18446744073709551616" "base_art_hz p \<noteq> 0"
      using assms by (auto simp: valid_phc_def phc_hz_def)
    have base: "tgpio_cycles_delta_to_ns d (base_art_hz p) False = symmetric_s64 (base_ns p c)"
      using cycles_delta_to_ns_exact [OF hz(1), of d False] hz(2) sround_div_sdiv [of "phc_hz p"] assms
      by (simp add: sd base_ns_def phc_hz_def valid_phc_def)
    have fn: "tgpio_phc_art_to_ns p art =
       (case symmetric_s64 (base_ns p c) of
            Inl e \<Rightarrow> Inl e
          | Inr base \<Rightarrow>
              (case tgpio_phc_base_to_adjusted_delta base
                      (tgpio_scaled_ppm_to_ppb (scaled_ppm p)) of
                 Inl e \<Rightarrow> Inl e
               | Inr adjusted \<Rightarrow> tgpio_add_s64 (anchor_ns p) adjusted))"
      unfolding tgpio_phc_art_to_ns_def Let_def d_def [symmetric] base
      by (simp only: ncond if_False)
    show ?thesis
    proof (cases "\<bar>base_ns p c\<bar> \<le> 9223372036854775807")
      case False
      then show ?thesis by (simp add: fn symmetric_s64_def c_def [symmetric] Let_def)
    next
      case b: True
      have sb: "sint (word_of_int (base_ns p c) :: s64) = base_ns p c"
        using b by (intro sint_of_int64) auto
      have ap: "sint (tgpio_apply_ppb_to_ns (word_of_int (base_ns p c))
          (tgpio_scaled_ppm_to_ppb (scaled_ppm p))) = (base_ns p c * phc_ppb p) sdiv 1000000000"
        using assms by (subst apply_ppb_exact) (simp_all add: sb phc_ppb_def valid_phc_def)
      have adj: "tgpio_phc_base_to_adjusted_delta (word_of_int (base_ns p c))
          (tgpio_scaled_ppm_to_ppb (scaled_ppm p)) = checked_s64 (adjusted_ns p (base_ns p c))"
        by (simp add: tgpio_phc_base_to_adjusted_delta_def add_s64_checked sb ap adjusted_ns_def)
      show ?thesis
        using True b
        by (auto simp: fn symmetric_s64_def adj checked_s64_def c_def [symmetric] Let_def
            add_s64_checked in_s64_def sint_of_int64)
    qed
  qed
qed

lemma phc_art_to_ns_value:
  assumes "valid_phc p" "tgpio_phc_art_to_ns p art = Inr ns"
  shows "sint ns = sint (anchor_ns p) + adjusted_ns p (base_ns p (uint art - uint (anchor_art p)))"
  using assms(2) unfolding phc_art_to_ns_exact [OF assms(1)]
  by (auto simp: Let_def in_s64_def sint_of_int64 sint_add64 split: if_splits)

section \<open>The clock never runs backwards\<close>

lemma sdiv_cases:
  fixes a b :: int
  assumes "0 < b"
  shows "a sdiv b = (if 0 \<le> a then a div b else - ((- a) div b))"
  using assms by (simp add: signed_divide_int_def sgn_if)

lemma sdiv_mono:
  fixes a a' b :: int
  assumes "0 < b" "a \<le> a'"
  shows "a sdiv b \<le> a' sdiv b"
proof (cases "0 \<le> a")
  case True
  then show ?thesis using assms by (simp add: sdiv_cases zdiv_mono1)
next
  case neg: False
  show ?thesis
  proof (cases "0 \<le> a'")
    case True
    have "0 \<le> (- a) div b" "0 \<le> a' div b"
      using neg True assms by (simp_all add: pos_imp_zdiv_nonneg_iff)
    then show ?thesis using neg True assms by (simp add: sdiv_cases)
  next
    case False
    then show ?thesis using neg assms by (simp add: sdiv_cases zdiv_mono1)
  qed
qed

lemma floor_le_ceiling:
  fixes a b :: int
  assumes "0 < b"
  shows "a div b \<le> - ((- a) div b)"
proof -
  have "b * (a div b) \<le> a" "b * ((- a) div b) \<le> - a"
    using assms by (simp_all add: minus_mod_eq_mult_div [symmetric])
  then have "b * (a div b + (- a) div b) \<le> 0"
    by (simp add: algebra_simps)
  then show ?thesis
    using assms by (simp add: mult_le_0_iff)
qed

lemma sdiv_add_mult:
  fixes a b k :: int
  assumes "0 < b" "0 \<le> k"
  shows "(a + k * b) sdiv b \<le> a sdiv b + k"
proof (cases "0 \<le> a + k * b")
  case True
  have "a div b \<le> a sdiv b"
    using floor_le_ceiling [OF assms(1), of a] assms(1) by (simp add: sdiv_cases)
  then show ?thesis using True assms by (simp add: sdiv_cases)
next
  case False
  have "0 \<le> k * b" using assms by simp
  then have "a < 0" using False by linarith
  moreover have "- (a + k * b) = - a + (- k) * b" by simp
  then have "(- (a + k * b)) div b = (- a) div b + - k"
    using assms(1) by (simp only: div_mult_self1)
  ultimately show ?thesis using False assms by (simp add: sdiv_cases)
qed

lemma adjusted_ns_mono:
  assumes "\<bar>phc_ppb p\<bar> \<le> 1000000000" "b \<le> b'"
  shows "adjusted_ns p b \<le> adjusted_ns p b'"
proof (cases "0 \<le> phc_ppb p")
  case True
  then show ?thesis
    using assms sdiv_mono [of 1000000000 "b * phc_ppb p" "b' * phc_ppb p"]
    by (simp add: adjusted_ns_def mult_right_mono)
next
  case False
  define q where "q = - phc_ppb p"
  have q: "0 \<le> q" "q \<le> 1000000000" using False assms by (auto simp: q_def)
  have shift: "(b' * q) sdiv 1000000000 \<le> (b * q) sdiv 1000000000 + (b' - b)"
  proof -
    have "b' * q \<le> b * q + (b' - b) * 1000000000"
      using mult_left_mono [OF q(2), of "b' - b"] assms(2) by (simp add: algebra_simps)
    then have "(b' * q) sdiv 1000000000 \<le> (b * q + (b' - b) * 1000000000) sdiv 1000000000"
      by (intro sdiv_mono) simp_all
    also have "\<dots> \<le> (b * q) sdiv 1000000000 + (b' - b)"
      using assms(2) by (intro sdiv_add_mult) simp_all
    finally show ?thesis .
  qed
  have neg: "(x * phc_ppb p) sdiv 1000000000 = - ((x * q) sdiv 1000000000)" for x
    by (simp add: q_def signed_divide_int_def sgn_if abs_mult)
  show ?thesis
    using shift by (simp add: adjusted_ns_def neg)
qed

lemma base_ns_mono: "0 < phc_hz p \<Longrightarrow> c \<le> c' \<Longrightarrow> base_ns p c \<le> base_ns p c'"
  by (simp add: base_ns_def sdiv_mono)

lemma art_to_ns_anchor:
  assumes "base_art_hz p \<noteq> 0"
  shows "tgpio_phc_art_to_ns p (anchor_art p) = Inr (anchor_ns p)"
  using assms
  by (simp add: tgpio_phc_art_to_ns_def tgpio_cycles_delta_to_ns_def tgpio_rescale_def
      tgpio_rescale_common_def tgpio_phc_base_to_adjusted_delta_def tgpio_apply_ppb_to_ns_def
      tgpio_add_s64_def tgpio_abs_s64_def Let_def)

section \<open>From nanoseconds back to ART cycles\<close>

lemma phc_ns_to_art_exact:
  assumes "valid_phc p" "sint (anchor_ns p) \<noteq> - 9223372036854775808"
  shows "tgpio_phc_ns_to_art p ns =
    (let d = sint ns - sint (anchor_ns p);
         b = (d * 1000000000) sdiv (1000000000 + phc_ppb p);
         c = sround_div True (b * phc_hz p) 1000000000;
         a = uint (anchor_art p) + c in
     if in_s64 d \<and> \<bar>b\<bar> \<le> 9223372036854775807 \<and> \<bar>c\<bar> \<le> 9223372036854775807 \<and>
        0 \<le> a \<and> a < 18446744073709551616
     then Inr (word_of_int a) else Inl TGPIO_E_RANGE)"
proof -
  define d b c where "d = sint ns - sint (anchor_ns p)"
    and "b = (d * 1000000000) sdiv (1000000000 + phc_ppb p)"
    and "c = sround_div True (b * phc_hz p) 1000000000"
  have add: "tgpio_add_s64 ns (- anchor_ns p) = checked_s64 d"
    using assms(2) by (simp add: add_s64_checked sint_minus64 d_def)
  have base: "tgpio_phc_adjusted_to_base_delta (word_of_int d)
      (tgpio_scaled_ppm_to_ppb (scaled_ppm p)) = symmetric_s64 b" if "in_s64 d"
    using that assms(1) 
    by (subst adjusted_to_base_exact)
      (auto simp: b_def phc_ppb_def valid_phc_def in_s64_def sint_of_int64)
  have hz: "uint (base_art_hz p) * 1000000000 \<le> 18446744073709551616" "base_art_hz p \<noteq> 0"
    using assms by (auto simp: valid_phc_def phc_hz_def)
  have cyc: "tgpio_ns_delta_to_cycles (word_of_int b) (base_art_hz p) True = symmetric_s64 c"
    if "\<bar>b\<bar> \<le> 9223372036854775807"
    using that hz by (subst ns_delta_to_cycles_exact) (auto simp: sint_of_int64 c_def phc_hz_def)
  define art where "art = anchor_art p"
  have last: "(if 0 \<le>s (word_of_int c :: s64) then
                   let r = art + word_of_int c in
                   if r < art then tgpio_err TGPIO_E_RANGE else tgpio_ok r
                 else if art < tgpio_abs_s64 (word_of_int c) then tgpio_err TGPIO_E_RANGE
                 else tgpio_ok (art - tgpio_abs_s64 (word_of_int c)))
     = (if 0 \<le> uint art + c \<and> uint art + c < 18446744073709551616
        then Inr (word_of_int (uint art + c)) else Inl TGPIO_E_RANGE)"
    if c: "\<bar>c\<bar> \<le> 9223372036854775807"
  proof -
    have sc: "sint (word_of_int c :: s64) = c" using c by (intro sint_of_int64) auto
    show ?thesis
    proof (cases "0 \<le> c")
      case True
      have uc: "uint (word_of_int c :: u64) = c"
        using True sc uint_eq_sint64 [of "word_of_int c"] by simp
      have "(art + word_of_int c < art) = (\<not> uint art + c < 18446744073709551616)"
        by (simp add: add_overflow64 uc not_less)
      then show ?thesis using True sc by (auto simp: word_sle_eq Let_def)
    next
      case False
      have uc: "uint (tgpio_abs_s64 (word_of_int c)) = - c"
        using False by (simp add: abs_s64_abs sc)
      define w where "w = tgpio_abs_s64 (word_of_int c)"
      have "word_of_int (- c) = w"
        using uc unfolding w_def by (metis word_of_int_uint)
      then have "word_of_int c = - w"
        by (metis minus_minus of_int_minus)
      then have sum: "word_of_int (uint art + c) = art - w"
        by simp
      show ?thesis
        using False sc uc uint_lt64 [of art]
        by (auto simp: word_sle_eq word_less_def w_def [symmetric] sum simp del: of_int_add)
    qed
  qed
  note fold = tgpio_phc_ns_to_art_def add d_def [symmetric] Let_def b_def [symmetric]
      c_def [symmetric] art_def [symmetric]
  show ?thesis
  proof (cases "in_s64 d \<and> \<bar>b\<bar> \<le> 9223372036854775807 \<and> \<bar>c\<bar> \<le> 9223372036854775807")
    case True
    then have "checked_s64 d = Inr (word_of_int d)"
        "tgpio_phc_adjusted_to_base_delta (word_of_int d)
          (tgpio_scaled_ppm_to_ppb (scaled_ppm p)) = Inr (word_of_int b)"
        "tgpio_ns_delta_to_cycles (word_of_int b) (base_art_hz p) True = Inr (word_of_int c)"
      using base cyc by (simp_all add: checked_s64_def symmetric_s64_def)
    then show ?thesis
      unfolding fold using last True by (simp only: sum.case Let_def True simp_thms)
  next
    case False
    then show ?thesis
      unfolding fold using base cyc by (auto simp: checked_s64_def symmetric_s64_def)
  qed
qed

lemma sround_div_minus: "sround_div rn (- a) b = - sround_div rn a b"
  by (simp add: sround_div_def)

lemma sdiv_minus: "(- a) sdiv b = - (a sdiv (b :: int))"
  by (simp add: signed_divide_int_def)

lemma adjusted_ns_minus: "adjusted_ns p (- b) = - adjusted_ns p b"
  by (simp add: adjusted_ns_def sdiv_minus)

lemma base_ns_minus: "base_ns p (- c) = - base_ns p c"
  by (simp add: base_ns_def sdiv_minus)

lemma div_bounds:
  fixes a b :: int
  assumes "0 < b"
  shows "b * (a div b) \<le> a" "a < b * (a div b) + b"
  using assms pos_mod_bound [of b a] by (simp_all add: minus_mod_eq_mult_div [symmetric])

lemma adjusted_ns_inverse_nonneg:
  assumes "\<bar>phc_ppb p\<bar> \<le> 100000000" "0 \<le> b"
  shows "0 \<le> adjusted_ns p b"
    and "\<bar>(adjusted_ns p b * 1000000000) sdiv (1000000000 + phc_ppb p) - b\<bar> \<le> 1"
proof -
  define P where "P = phc_ppb p"
  define D where "D = 1000000000 + P"
  have P: "- 100000000 \<le> P" "P \<le> 100000000" and D: "900000000 \<le> D" "D \<le> 1100000000"
    using assms(1) by (auto simp: P_def D_def)
  define a where "a = adjusted_ns p b"
  have bounds: "b * D - 1000000000 < a * 1000000000 \<and> a * 1000000000 < b * D + 1000000000 \<and> (0 \<le> P \<longrightarrow> a * 1000000000 \<le> b * D) \<and> (P < 0 \<longrightarrow> b * D \<le> a * 1000000000)"
  proof (cases "0 \<le> P")
    case True
    have "a = b + (b * P) div 1000000000"
      using True assms(2) by (simp add: a_def adjusted_ns_def P_def [symmetric] sdiv_cases)
    then show ?thesis
      using True div_bounds [of 1000000000 "b * P"] by (simp add: D_def algebra_simps)
  next
    case False
    define Q where "Q = - P"
    have "b * P = - (b * Q)" by (simp add: Q_def)
    moreover have "0 \<le> b * Q" using False assms(2) by (simp add: Q_def mult_nonneg_nonpos)
    ultimately have "a = b - (b * Q) div 1000000000"
      by (simp add: a_def adjusted_ns_def P_def [symmetric] sdiv_cases sdiv_minus del: mult_minus_right)
    then show ?thesis
      using False div_bounds [of 1000000000 "b * Q"] by (simp add: D_def Q_def algebra_simps)
  qed
  have bD: "0 \<le> b * D" using D assms(2) by simp
  have a0: "0 \<le> a" using bounds bD by linarith
  then show "0 \<le> adjusted_ns p b" by (simp add: a_def)
  define b' where "b' = (a * 1000000000) sdiv D"
  have b': "D * b' \<le> a * 1000000000" "a * 1000000000 < D * b' + D"
    using a0 D div_bounds [of D "a * 1000000000"] by (simp_all add: b'_def sdiv_cases)
  have "0 \<le> P \<longrightarrow> 1000000000 \<le> D" by (simp add: D_def)
  then have "D * b' < D * (b + 2)" "D * (b - 2) < D * b'"
    using bounds b' D by (cases "0 \<le> P"; simp add: algebra_simps)+
  then have "b' < b + 2" "b - 2 < b'"
    using D by simp_all
  then show "\<bar>(adjusted_ns p b * 1000000000) sdiv (1000000000 + phc_ppb p) - b\<bar> \<le> 1"
    by (simp add: b'_def a_def D_def P_def)
qed

lemma rounds_back_nonneg:
  fixes hz c b' :: int
  assumes "0 < hz" "hz \<le> 250000000" "0 \<le> c" "\<bar>b' - (c * 1000000000) div hz\<bar> \<le> 1" "0 \<le> b'"
  shows "sround_div True (b' * hz) 1000000000 = c"
proof -
  define b where "b = (c * 1000000000) div hz"
  have b: "hz * b \<le> c * 1000000000" "c * 1000000000 < hz * b + hz"
    using assms(1) div_bounds [of hz "c * 1000000000"] by (simp_all add: b_def)
  have "hz * (b - 1) \<le> hz * b'" "hz * b' \<le> hz * (b + 1)"
    using assms(1,4) by (simp_all add: b_def)
  then have "c * 1000000000 - 2 * hz < hz * b'" "hz * b' \<le> c * 1000000000 + hz"
    using b by (simp_all add: algebra_simps)
  then have "2000000000 * c \<le> 2 * (b' * hz) + 1000000000" "2 * (b' * hz) + 1000000000 < 2000000000 * c + 2000000000"
    using assms(2) by (simp_all add: mult.commute)
  then have "(2 * (b' * hz) + 1000000000) div 2000000000 = c"
    by linarith
  moreover define x where "x = b' * hz"
  moreover have "0 \<le> x" using assms by (simp add: x_def)
  ultimately show ?thesis
    unfolding x_def [symmetric]
    by (cases "x = 0") (auto simp: sround_div_def round_div_def)
qed

lemma phc_roundtrip_int:
  assumes v: "valid_phc p" and hz: "phc_hz p \<le> 250000000"
  shows "\<bar>(adjusted_ns p (base_ns p c) * 1000000000) sdiv (1000000000 + phc_ppb p)\<bar> \<le> \<bar>base_ns p c\<bar> + 1
    \<and> sround_div True ((adjusted_ns p (base_ns p c) * 1000000000) sdiv (1000000000 + phc_ppb p)
        * phc_hz p) 1000000000 = c"
    (is "?P c")
proof -
  have pos: "?P c" if "0 \<le> c" for c
  proof -
    have hz0: "0 < phc_hz p" and ppb: "\<bar>phc_ppb p\<bar> \<le> 100000000"
      using v by (auto simp: valid_phc_def)
    define b where "b = base_ns p c"
    define b' where "b' = (adjusted_ns p b * 1000000000) sdiv (1000000000 + phc_ppb p)"
    have bd: "b = (c * 1000000000) div phc_hz p" and b0: "0 \<le> b"
      using that hz0 by (simp_all add: b_def base_ns_def sdiv_cases pos_imp_zdiv_nonneg_iff)
    have a0: "0 \<le> adjusted_ns p b" and near: "\<bar>b' - b\<bar> \<le> 1"
      using adjusted_ns_inverse_nonneg [OF ppb b0] by (simp_all add: b'_def)
    have b'0: "0 \<le> b'"
      using a0 ppb by (simp add: b'_def sdiv_cases pos_imp_zdiv_nonneg_iff)
    have "sround_div True (b' * phc_hz p) 1000000000 = c"
      using hz0 hz that near b'0 by (intro rounds_back_nonneg) (simp_all add: bd)
    moreover have "\<bar>b'\<bar> \<le> \<bar>b\<bar> + 1" using near by linarith
    ultimately show ?thesis by (simp add: b'_def b_def)
  qed
  show ?thesis
  proof (cases "0 \<le> c")
    case True
    then show ?thesis by (rule pos)
  next
    case False
    then have "?P (- c)" by (intro pos) simp
    then show ?thesis
      by (simp add: base_ns_minus adjusted_ns_minus sdiv_minus sround_div_minus
          del: mult_minus_left)
        (simp add: sdiv_minus sround_div_minus)
  qed
qed

lemma scaled_ppm_exact:
  "sint (tgpio_scaled_ppm_to_ppb s) =
    (if 9223372036854775 < sint s then 9223372036854775807
     else if sint s < - 9223372036854775 then - 9223372036854775808
     else (sint s * 1000) sdiv 65536)"
proof -
  have lim: "sint (s64_div S64_MAX 1000) = 9223372036854775"
    "sint (s64_div S64_MIN 1000) = - 9223372036854775"
    by (simp_all add: s64_div_def signed_divide_int_def)
  show ?thesis
  proof (cases "9223372036854775 < sint s \<or> sint s < - 9223372036854775")
    case True
    then show ?thesis by (auto simp: tgpio_scaled_ppm_to_ppb_def word_sless_alt lim)
  next
    case False
    have m: "sint (s * 1000) = sint s * 1000"
      using False by (simp add: sint_word_mult s64_wrap_id)
    have "\<bar>(sint s * 1000) sdiv 65536\<bar> \<le> 9223372036854775807"
      using False zdiv_mono1 [of "\<bar>sint s * 1000\<bar>" "9223372036854775000" 65536]
      by (auto simp: signed_divide_int_def abs_mult sgn_if)
    then have "sint (s64_div (s * 1000) 65536) = (sint s * 1000) sdiv 65536"
      by (simp add: s64_div_def m sint_of_int64)
    then show ?thesis using False by (simp add: tgpio_scaled_ppm_to_ppb_def word_sless_alt lim)
  qed
qed

end
