(* ===== verification/Clock_Props.thy ===== *)
theory Clock_Props
  imports Clock_Spec
begin

text \<open>
  What the value layer promises its callers: conversions that are exact up to one unit, a
  PHC that never runs backwards within one set of parameters and that inverts exactly, start
  times that stay on their period grid, and the exact behaviour of the request-time and
  duty-time validators and of the parameter parsers.
\<close>

section \<open>Rescaling\<close>

lemma round_div_error:
  assumes "0 < b"
  shows "rn \<Longrightarrow> 2 * \<bar>b * round_div rn a b - a\<bar> \<le> b"
    and "\<not> rn \<Longrightarrow> b * round_div rn a b \<le> a \<and> a < b * round_div rn a b + b"
proof -
  define x where "x = (2 * a + b) div (2 * b)"
  have "2 * (b * x) \<le> 2 * a + b" "2 * a + b < 2 * (b * x) + 2 * b"
    using assms div_bounds [of "2 * b" "2 * a + b"] by (simp_all add: x_def mult.assoc)
  then show "2 * \<bar>b * round_div rn a b - a\<bar> \<le> b" if rn
    using that unfolding round_div_def x_def [symmetric] if_P [OF that]
    by (cases "a \<le> b * x") simp_all
  show "b * round_div rn a b \<le> a \<and> a < b * round_div rn a b + b" if "\<not> rn"
    using that assms div_bounds [of b a] by (simp add: round_div_def)
qed

text \<open>
  A count converted between two rates is within one destination unit of the exact
  rational result: rounded to nearest it is off by at most half a unit, otherwise it is the
  floor.
\<close>

theorem rescale_within_one_unit:
  assumes "uint src_hz * uint dst_hz \<le> 18446744073709551616"
    and "tgpio_rescale_common count src_hz dst_hz round_nearest = Inr v"
  shows "if round_nearest
    then 2 * \<bar>uint src_hz * uint v - uint count * uint dst_hz\<bar> \<le> uint src_hz
    else uint src_hz * uint v \<le> uint count * uint dst_hz \<and>
      uint count * uint dst_hz < uint src_hz * uint v + uint src_hz"
proof -
  define r where "r = round_div round_nearest (uint count * uint dst_hz) (uint src_hz)"
  have nz: "src_hz \<noteq> 0" "dst_hz \<noteq> 0" and r: "r \<le> 9223372036854775807" "v = word_of_int r"
    using assms(2) unfolding rescale_common_exact [OF assms(1)] r_def
    by (auto simp: Let_def split: if_splits)
  have s: "0 < uint src_hz" using nz by (simp add: pos_uint)
  have "0 \<le> r" using s by (simp add: r_def round_div_nonneg)
  then have "uint v = r"
    using r by (simp add: uint_word_of_int take_bit_int_eq_self)
  then show ?thesis
    using round_div_error [OF s, of round_nearest "uint count * uint dst_hz"] by (simp add: r_def)
qed

lemma rescale_within_one_unit_witness:
  "uint (38400000 :: u64) * uint (1000000000 :: u64) \<le> 18446744073709551616 \<and>
   tgpio_rescale_common 38400001 38400000 1000000000 True = Inr 1000000026 \<and>
   2 * \<bar>uint (38400000 :: u64) * uint (1000000026 :: u64) - uint (38400001 :: u64) * uint (1000000000 :: u64)\<bar>
     \<le> uint (38400000 :: u64)"
proof -
  have a: "uint (38400000 :: u64) * uint (1000000000 :: u64) \<le> 18446744073709551616" by simp
  have b: "tgpio_rescale_common 38400001 38400000 1000000000 True = Inr 1000000026" by code_simp
  show ?thesis using a b rescale_within_one_unit [OF a b] by simp
qed

section \<open>The PHC model\<close>

text \<open>
  Within one set of PHC parameters a later ART value never converts to an earlier
  PHC time.
\<close>

theorem phc_time_monotone:
  assumes "valid_phc p" "tgpio_phc_art_to_ns p art1 = Inr t1" "tgpio_phc_art_to_ns p art2 = Inr t2"
    and "art1 \<le> art2"
  shows "sint t1 \<le> sint t2"
proof -
  have le: "uint art1 - uint (anchor_art p) \<le> uint art2 - uint (anchor_art p)"
    using assms(4) by (simp add: word_le_def)
  have v: "0 < phc_hz p" "\<bar>phc_ppb p\<bar> \<le> 1000000000" using assms(1) by (auto simp: valid_phc_def)
  show ?thesis
    using adjusted_ns_mono [OF v(2) base_ns_mono [OF v(1) le]]
      phc_art_to_ns_value [OF assms(1,2)] phc_art_to_ns_value [OF assms(1,3)] by simp
qed

text \<open>A PHC at 38.4 MHz running 1 ppm fast, used by the witnesses.\<close>

definition example_phc :: tgpio_phc_params where
  "example_phc = tgpio_phc_params_make 1000 5 38400000 65536"

lemma example_phc_valid: "valid_phc example_phc"
  by (simp add: example_phc_def valid_phc_def phc_hz_def phc_ppb_def tgpio_phc_params_make_def
      tgpio_scaled_ppm_to_ppb_def s64_div_def signed_divide_int_def word_sless_alt)

lemma example_phc_second: "tgpio_phc_art_to_ns example_phc 38401000 = Inr 1000001005"
  by code_simp

lemma phc_time_monotone_witness:
  "tgpio_phc_art_to_ns example_phc 1000 = Inr 5 \<and> sint (5 :: s64) \<le> sint (1000001005 :: s64)"
proof -
  have "tgpio_phc_art_to_ns example_phc 1000 = Inr 5" by code_simp
  then show ?thesis
    using phc_time_monotone [OF example_phc_valid _ example_phc_second] by simp
qed

text \<open>
  C37. Converting an ART value to PHC time and back returns the same ART value, for any
  rate up to 250 MHz, any adjustment the driver accepts and any instant within nine billion
  seconds of the anchor.
\<close>

theorem phc_roundtrip:
  assumes v: "valid_phc p" and hz: "phc_hz p \<le> 250000000"
    and anchor: "0 \<le> sint (anchor_ns p)"
    and near: "\<bar>uint art - uint (anchor_art p)\<bar> \<le> 9000000000 * phc_hz p"
    and ns: "tgpio_phc_art_to_ns p art = Inr ns"
  shows "tgpio_phc_ns_to_art p ns = Inr art"
proof -
  define c where "c = uint art - uint (anchor_art p)"
  define b where "b = base_ns p c"
  define a where "a = adjusted_ns p b"
  have hz0: "0 < phc_hz p" using v by (simp add: valid_phc_def)
  have rng: "\<bar>c\<bar> \<le> 9223372036854775807" "in_s64 a"
    using ns unfolding phc_art_to_ns_exact [OF v] by (auto simp: Let_def c_def b_def a_def split: if_splits)
  have val: "sint ns = sint (anchor_ns p) + a"
    using phc_art_to_ns_value [OF v ns] by (simp add: a_def b_def c_def)
  have bb: "\<bar>b\<bar> \<le> 9000000000000000000"
  proof -
    have "c \<le> 9000000000 * phc_hz p" "- (9000000000 * phc_hz p) \<le> c"
      using near by (auto simp: c_def)
    then have "base_ns p c \<le> base_ns p (9000000000 * phc_hz p)"
      "base_ns p (- (9000000000 * phc_hz p)) \<le> base_ns p c"
      using hz0 by (simp_all add: base_ns_mono del: mult_minus_left)
    moreover have "base_ns p (9000000000 * phc_hz p) = 9000000000000000000"
      using hz0 by (simp add: base_ns_def sdiv_cases)
    ultimately show ?thesis by (simp add: b_def base_ns_minus)
  qed
  show ?thesis
    using phc_roundtrip_int [OF v hz, of c] anchor rng bb val uint_lt64 [of art]
    by (simp add: phc_ns_to_art_exact [OF v] Let_def a_def b_def c_def)
qed

lemma phc_roundtrip_witness: "tgpio_phc_ns_to_art example_phc 1000001005 = Inr 38401000"
  by (rule phc_roundtrip [OF example_phc_valid _ _ _ example_phc_second])
    (simp_all add: example_phc_def tgpio_phc_params_make_def phc_hz_def)

section \<open>Start times\<close>

text \<open>
  A start time that is already too early is moved to the first point of its own period
  grid that is late enough: never earlier than the minimum, less than one period after it, and a
  whole number of periods from the request.
\<close>

theorem align_first_edge_grid:
  assumes "0 \<le> sint requested" "sint requested < sint min_first" "0 < sint period"
    and "sint min_first + sint period \<le> 9223372036854775807"
  shows "let r = sint (tgpio_output_align_first_edge requested min_first period) in
    sint min_first \<le> r \<and> r < sint min_first + sint period \<and> sint period dvd r - sint requested"
proof -
  define D P where "D = sint min_first - sint requested" and "P = sint period"
  have D: "0 < D" "D + P \<le> 9223372036854775807" and P: "0 < P"
    using assms by (simp_all add: D_def P_def)
  have sD: "sint (min_first - requested) = D"
    using assms by (subst sint_sub64) (simp_all add: D_def)
  have uD: "uint (min_first - requested) = D" using sD D uint_eq_sint64 [of "min_first - requested"] by simp
  have uP: "uint period = P" using P uint_eq_sint64 [of period] by (simp add: P_def)
  have Ppos: "period \<noteq> 0" "\<not> S64_MAX < period"
    using P assms by (auto simp: P_def le_S64_MAX not_less)
  define k where "k = D div P + (if D mod P = 0 then 0 else 1)"
  have k: "D \<le> k * P" "k * P < D + P" "0 \<le> k"
  proof -
    define q m where "q = D div P" and "m = D mod P"
    have "D = P * q + m" "0 \<le> m" "m < P" "0 \<le> q"
      using P D by (simp_all add: q_def m_def pos_imp_zdiv_nonneg_iff)
    moreover have "k = q + (if m = 0 then 0 else 1)"
      by (simp add: k_def q_def m_def)
    ultimately show "D \<le> k * P" "k * P < D + P" "0 \<le> k"
      by (auto simp: algebra_simps)
  qed
  define periods where "periods = (min_first - requested) div period
      + (if (min_first - requested) mod period \<noteq> 0 then 1 else 0)"
  have md: "((min_first - requested) mod period = 0) = (D mod P = 0)"
    by (metis uint_0_iff uint_mod uD uP)
  have Dd: "D div P \<le> D" using D P zdiv_mono2 [of D 1 P] by simp
  have uk: "uint periods = k"
    using D P Dd by (simp add: periods_def md k_def uint_add64 uint_div uD uP)
  have kP: "sint (periods * period) = k * P" "uint (periods * period) = k * P"
  proof -
    show u: "uint (periods * period) = k * P"
      using k D by (simp add: uint_mult64 uk uP)
    show "sint (periods * period) = k * P"
      using k D u by (subst sint_eq_uint64) simp_all
  qed
  have nover: "\<not> S64_MAX div period < periods"
  proof -
    have "k \<le> 9223372036854775807 div P"
      using k D P zdiv_mono1 [of "k * P" 9223372036854775807 P] by simp
    then show ?thesis by (simp add: word_less_def uint_div uk uP)
  qed
  have wk: "word_of_int k = periods" "word_of_int P = period"
    using uk uP by (metis word_of_int_uint)+
  have lt: "sint requested + k * P < 9223372036854775808"
    using k(2) assms(4) unfolding D_def P_def by linarith
  have "0 \<le> k * P" using k(3) P by simp
  then have "in_s64 (sint requested + k * P)" using lt assms(1) by (simp add: in_s64_def)
  then have "tgpio_add_s64 requested (periods * period) = Inr (requested + periods * period)"
    by (simp add: add_s64_checked checked_s64_def kP wk)
  then have fn: "tgpio_output_align_first_edge requested min_first period = requested + periods * period"
    using assms Ppos nover
    by (simp add: tgpio_output_align_first_edge_def Let_def periods_def [symmetric] word_sle_eq
        word_sless_alt)
  have "sint (requested + periods * period) = sint requested + k * P"
    using assms(1) lt \<open>0 \<le> k * P\<close> kP by (subst sint_add64) simp_all
  then show ?thesis
    using k by (simp add: fn D_def P_def Let_def)
qed

lemma align_first_edge_grid_witness:
  "let r = sint (tgpio_output_align_first_edge 100 1250 500) in 1250 \<le> r \<and> r < 1750 \<and> 500 dvd r - 100"
  using align_first_edge_grid [of 100 1250 500] by (simp add: Let_def)

section \<open>Request validation\<close>

lemma uint_of_u32: "uint (ucast (n :: u32) :: u64) = uint n" 
  using uint_lt2p [of n] by (simp add: unsigned_ucast_eq take_bit_int_eq_self)

lemma ptp_time_word: "0 \<le> sint s \<Longrightarrow> s * 1000000000 + ucast (n :: u32) = (word_of_int (sint s * 1000000000 + uint n) :: u64)"
proof -
  have "ucast n = (word_of_int (uint n) :: u64)" by (metis uint_of_u32 word_of_int_uint)
  then show ?thesis by simp
qed

lemma le_nsec_u32: "(NSEC_PER_SEC \<le> ucast (n :: u32)) = (1000000000 \<le> uint n)"
  by (simp add: word_le_def uint_of_u32)

text \<open>
  C40. A PTP request time converts to its nanosecond count; the range check admits one second
  too much: in second 18446744073 a count past the 64-bit range wraps instead of being refused.
\<close>

theorem ptp_time_to_ns_exact:
  "map_sum id uint (tgpio_ptp_time_to_ns time) =
    (let s = sint (pct_sec time); n = uint (pct_nsec time); t = s * 1000000000 + n in
     if s < 0 \<or> 1000000000 \<le> n then Inl TGPIO_E_INVAL
     else if 18446744073 < s then Inl TGPIO_E_RANGE
     else Inr (if t < 18446744073709551616 then t else t - 18446744073709551616))"
proof (cases "sint (pct_sec time) < 0 \<or> 1000000000 \<le> uint (pct_nsec time)")
  case True
  then show ?thesis
    by (auto simp: tgpio_ptp_time_to_ns_def Let_def word_sless_alt le_nsec_u32)
next
  case False
  define t where "t = sint (pct_sec time) * 1000000000 + uint (pct_nsec time)"
  have u: "uint (word_of_int t :: u64) = (if t < 18446744073709551616 then t else t - 18446744073709551616)"
    if "sint (pct_sec time) \<le> 18446744073"
  proof -
    have "0 \<le> t" "t < 2 * 18446744073709551616" using False that uint_ge_0 [of "pct_nsec time"] by (auto simp: t_def)
    then have "t mod 18446744073709551616 = (if t < 18446744073709551616 then t else t - 18446744073709551616)"
      using minus_mod_self2 [of t 18446744073709551616]
        mod_pos_pos_trivial [of "t - 18446744073709551616" 18446744073709551616]
        mod_pos_pos_trivial [of t 18446744073709551616] by (simp del: minus_mod_self2)
    then show ?thesis by (simp add: uint_word_of_int)
  qed
  show ?thesis
    using False u
    by (simp add: tgpio_ptp_time_to_ns_def Let_def word_sless_alt le_nsec_u32 ptp_time_word
        word_less_def uint_eq_sint64 t_def del: of_int_add of_int_mult)
qed

text \<open>
  The signed conversion of a start time has the same flaw at its own limit: in second
  9223372036 a count past the signed range turns negative instead of being refused.
\<close>

theorem ptp_time_to_s64_ns_exact:
  "map_sum id sint (tgpio_ptp_time_to_s64_ns time) =
    (let s = sint (pct_sec time); n = uint (pct_nsec time); t = s * 1000000000 + n in
     if s < 0 \<or> 1000000000 \<le> n then Inl TGPIO_E_INVAL
     else if 9223372036 < s then Inl TGPIO_E_RANGE
     else Inr (if t < 9223372036854775808 then t else t - 18446744073709551616))"
proof (cases "sint (pct_sec time) < 0 \<or> 1000000000 \<le> uint (pct_nsec time)")
  case True
  then show ?thesis
    by (auto simp: tgpio_ptp_time_to_s64_ns_def Let_def word_sless_alt le_nsec_u32)
next
  case False
  define t where "t = sint (pct_sec time) * 1000000000 + uint (pct_nsec time)"
  have lim: "sint (s64_div S64_MAX NSEC_PER_SEC) = 9223372036"
    by (simp add: s64_div_nonneg)
  have u: "sint (word_of_int t :: u64) = (if t < 9223372036854775808 then t else t - 18446744073709551616)"
    if "sint (pct_sec time) \<le> 9223372036"
  proof -
    have t: "0 \<le> t" "t < 18446744073709551616" using False that uint_ge_0 [of "pct_nsec time"] by (auto simp: t_def)
    then have w: "uint (word_of_int t :: u64) = t" by (simp add: uint_word_of_int mod_pos_pos_trivial)
    show ?thesis
      using w sint_uint_cases64 [of "word_of_int t"] t sint_lt64 [of "word_of_int t"] sint_ge64 [of "word_of_int t"]
      by (auto split: if_splits)
  qed
  show ?thesis
    using False u
    by (simp add: tgpio_ptp_time_to_s64_ns_def Let_def word_sless_alt le_nsec_u32 ptp_time_word lim
        t_def del: of_int_add of_int_mult)
qed

text \<open>
  The duty times of an output are accepted exactly when the period fits in 63 bits and the
  high time lies strictly inside it; then high and low time add up to the period.
\<close>

theorem output_times_exact:
  "tgpio_output_times_get p d v =
    (let high = (if v then uint d else uint p div 2) in
     if 9223372036854775807 < uint p then Inl TGPIO_E_RANGE
     else if 0 < high \<and> high < uint p then
       Inr \<lparr>tm_period_ns = p, tm_high_time_ns = word_of_int high, tm_low_time_ns = p - word_of_int high\<rparr>
     else Inl TGPIO_E_INVAL)"
proof -
  define high where "high = (if v then d else p div 2)"
  have h: "(if v then uint d else uint p div 2) = uint high" by (simp add: high_def uint_div)
  have z: "w = 0 \<longleftrightarrow> uint w = 0" for w :: u64 by (metis uint_0_iff)
  have low: "uint (p - high) = uint p - uint high" if "uint high < uint p"
    using that by (simp add: uint_sub64 word_le_def)
  show ?thesis
    unfolding h tgpio_output_times_get_def Let_def high_def [symmetric] z
    using uint_ge_0 [of high] uint_ge_0 [of p] low uint_0_iff [of high]
    by (auto simp: word_le_def word_less_def uint_0_iff order_le_less)
qed

section \<open>Parameter strings\<close>

text \<open>
  Every name the driver prints for a mode, clock mode, timestamp mode, polarity or edge is
  parsed back to the same value, with or without the newline sysfs writes carry.
\<close>

theorem parse_print:
  assumes "nl = [] \<or> nl = [CHR 10]"
  shows "tgpio_parse_mode (tgpio_mode_name m @ nl) = Inr m \<and>
    tgpio_parse_clock_mode (tgpio_clock_mode_name c @ nl) = Inr c \<and>
    tgpio_parse_timestamp_mode (tgpio_timestamp_mode_name ts @ nl) = Inr ts \<and>
    tgpio_parse_output_polarity (tgpio_output_polarity_name pol @ nl) = Inr pol \<and>
    (e \<in> {TGPIOCTL_EP_RISING, TGPIOCTL_EP_FALLING, TGPIOCTL_EP_TOGGLE} \<longrightarrow>
      tgpio_parse_edge (tgpio_edge_bits_name e @ nl) = Inr e)"
proof -
  have "tgpio_parse_mode (tgpio_mode_name m @ nl) = Inr m"
    using assms by (cases m; elim disjE) (simp_all add: tgpio_parse_mode_def sysfs_streq_def)
  moreover have "tgpio_parse_clock_mode (tgpio_clock_mode_name c @ nl) = Inr c"
    using assms by (cases c; elim disjE) (simp_all add: tgpio_parse_clock_mode_def sysfs_streq_def)
  moreover have "tgpio_parse_timestamp_mode (tgpio_timestamp_mode_name ts @ nl) = Inr ts"
    using assms by (cases ts; elim disjE) (simp_all add: tgpio_parse_timestamp_mode_def sysfs_streq_def)
  moreover have "tgpio_parse_output_polarity (tgpio_output_polarity_name pol @ nl) = Inr pol"
    using assms by (cases pol; elim disjE) (simp_all add: tgpio_parse_output_polarity_def sysfs_streq_def)
  moreover have "tgpio_parse_edge (tgpio_edge_bits_name e @ nl) = Inr e"
    if "e \<in> {TGPIOCTL_EP_RISING, TGPIOCTL_EP_FALLING, TGPIOCTL_EP_TOGGLE}"
    using assms that by (elim disjE insertE emptyE) 
      (simp_all add: tgpio_parse_edge_def tgpio_edge_bits_name_def sysfs_streq_def)
  ultimately show ?thesis by blast
qed

lemma parse_print_witness:
  "tgpio_parse_mode (''output'' @ [CHR 10]) = Inr TGPIO_MODE_OUTPUT"
  using parse_print [of "[CHR 10]" TGPIO_MODE_OUTPUT] by simp

text \<open>
  The packed input request round-trips: the state and the edge selection that were
  packed are the ones the poll work unpacks.
\<close>

theorem input_desired_roundtrip:
  assumes "e \<in> {TGPIOCTL_EP_RISING, TGPIOCTL_EP_FALLING, TGPIOCTL_EP_TOGGLE}"
  shows "tgpio_input_desired_state (tgpio_input_desired st e) = st \<and>
    tgpio_input_desired_edge (tgpio_input_desired st e) = e"
  using assms by (cases st) (auto simp: tgpio_input_desired_def tgpio_input_desired_state_def
    tgpio_input_desired_edge_def)

lemma input_desired_roundtrip_witness:
  "tgpio_input_desired_edge (tgpio_input_desired TGPIO_CAPTURE_ON TGPIOCTL_EP_TOGGLE) = TGPIOCTL_EP_TOGGLE"
  using input_desired_roundtrip [of TGPIOCTL_EP_TOGGLE TGPIO_CAPTURE_ON] by simp

end
