(* ===== verification/Output_Props.thy ===== *)
theory Output_Props
  imports Sim_Hw Clock_Props
begin

text \<open>
  Properties of the output path. The hardware enters through the interface \<open>toggle_engine\<close>;
  each property that uses it holds for every kernel and world that provide it, and its
  witness runs in the simulated world.
\<close>

section \<open>The level mirror\<close>

lemma running_mirrored: "mirrored running_block (e_ctl running_engine) (e_compv running_engine)
    (e_piv running_engine) (e_level running_engine)"
  by (simp add: mirrored_def running_block_def running_engine_def)

lemma sim_sys_simps [simp]:
  "blocks (drv (sim_sys m e es)) b = m" "w_engine (kst (sim_sys m e es)) b = e"
  by (simp_all add: sim_sys_def sim_driver_def sim_world_def)

text \<open>
  C7. Reading the live COMPV as two 32-bit halves returns a value the register really held
  during the call, whatever edges fire between the accesses, and the retry loop ends.
\<close>

theorem read_compv_untorn:
  assumes "toggle_engine K b ctl compv piv level later"
    and "run_state (tgpio_read_compv K b) s = (v, t)"
  shows "(\<exists>k. later (kst s) k \<and> later k (kst t) \<and> v = compv k) \<and> drv t = drv s \<and> hung t = hung s"
proof -
  have "wp (tgpio_read_compv K b) (\<lambda>v t. (\<exists>k. later (kst s) k \<and> later k (kst t) \<and> v = compv k) \<and>
      drv t = drv s \<and> hung t = hung s) s"
    by (rule toggle_engine.wp_read_compv [OF assms(1)]) auto
  from wp_run [OF this assms(2)] show ?thesis .
qed

lemma read_compv_untorn_witness:
  "let s = sim_sys running_block (running_engine\<lparr>e_compv := 0xFFFFFFF0\<rparr>) [0, 1, 2];
     r = run_state (tgpio_read_compv (sim_kernel (2 ^ 32)) 0) s
   in \<exists>k. w_later 0 (kst s) k \<and> fst r = e_compv (w_engine k 0)"
  using read_compv_untorn [OF sim.toggle_engine_axioms [of 0] prod.collapse [symmetric],
      of "sim_sys running_block (running_engine\<lparr>e_compv := 0xFFFFFFF0\<rparr>) [0, 1, 2]"]
  by (auto simp: Let_def)



text \<open>
  Arming a symmetric hardware waveform either fails with the block idle, or leaves a
  running output whose level is tracked from its very first edge on.
\<close>

theorem arm_hardware_mirrored:
  assumes "toggle_engine K b ctl compv piv level later"
    and "mirrored (blocks (drv s) b) (ctl (kst s)) (compv (kst s)) (piv (kst s)) (level (kst s))"
    and "output_phase (blocks (drv s) b) = TGPIO_OUTPUT_ARM_PERIODIC" and "high_ns = low_ns"
    and "run_state (tgpio_arm_hardware_periodic K b first_ns high_ns low_ns) s = (r, t)"
  shows "let m = blocks (drv t) b in
    mirrored m (ctl (kst t)) (compv (kst t)) (piv (kst t)) (level (kst t)) \<and>
    (r = 0 \<longrightarrow> output_phase m = TGPIO_OUTPUT_HARDWARE_PERIODIC \<and> output_hw_piv m \<noteq> 0 \<and>
      engine_on (ctl (kst t)) \<and> \<not> bit (ctl (kst t)) 1)"
  using wp_run [OF toggle_engine.wp_arm_hardware [OF assms(1-4)] assms(5)] .

lemma arm_hardware_mirrored_witness:
  "let m0 = output_block\<lparr>output_phase := TGPIO_OUTPUT_ARM_PERIODIC\<rparr>;
     t = exec_m (tgpio_arm_hardware_periodic (sim_kernel (2 ^ 32)) 0 2000000000 500000000 500000000)
           (sim_sys m0 idle_engine []); m = blocks (drv t) 0; e = w_engine (kst t) 0
   in mirrored m (e_ctl e) (e_compv e) (e_piv e) (e_level e)"
proof -
  let ?m = "output_block\<lparr>output_phase := TGPIO_OUTPUT_ARM_PERIODIC\<rparr>"
  let ?s = "sim_sys ?m idle_engine []"
  let ?r = "run_state (tgpio_arm_hardware_periodic (sim_kernel (2 ^ 32)) 0 2000000000 500000000 500000000) ?s"
  have "mirrored (blocks (drv ?s) 0) (e_ctl (w_engine (kst ?s) 0)) (e_compv (w_engine (kst ?s) 0))
      (e_piv (w_engine (kst ?s) 0)) (e_level (w_engine (kst ?s) 0))"
    by (simp add: mirrored_def output_block_def zero_block_def idle_engine_def)
  from arm_hardware_mirrored [OF sim.toggle_engine_axioms [of 0] this _ refl prod.collapse [symmetric], of 2000000000 500000000]
  show ?thesis by (simp add: Let_def output_block_def)
qed

text \<open>The late push, over integers: a whole number of periods, past the deadline.\<close>

lemma late_push_exact:
  assumes "hw_late_push slot deadline (high + low) = Some start"
    and hl: "0 < uint high" "0 < uint low" "uint high \<le> 4611686018427387903" "uint low \<le> 4611686018427387903"
  shows "deadline \<le> start \<and> (\<exists>n. uint start = uint slot + n * (uint high + uint low))"
proof (cases "slot < deadline")
  case False
  then have "start = slot" using assms(1) by (simp add: hw_late_push_def)
  then show ?thesis using False by (auto simp: not_less intro: exI [of _ 0])
next
  case True
  define P where "P = uint high + uint low"
  have P: "uint (high + low) = P" "0 < P" using hl by (simp_all add: uint_add64 P_def)
  define n where "n = (deadline - slot) div (high + low) + 1"
  have start: "start = slot + n * (high + low)" "\<not> (U64_MAX - slot) div (high + low) < n"
    using assms(1) True by (simp_all add: hw_late_push_def Let_def n_def split: if_splits)
  have d: "uint (deadline - slot) = uint deadline - uint slot" using True by (simp add: uint_sub64)
  have q: "(uint deadline - uint slot) div P \<le> (uint deadline - uint slot) div 2"
    using True P hl by (intro zdiv_mono2) (simp_all add: word_less_def P_def)
  have "uint deadline - uint slot < 18446744073709551616"
    using uint_lt64 [of deadline] uint_ge_0 [of slot] by linarith
  then have "(uint deadline - uint slot) div P + 1 < 18446744073709551616" using q by linarith
  then have n: "uint n = (uint deadline - uint slot) div P + 1" by (simp add: n_def uint_add64 uint_div d P)
  have "uint n \<le> (18446744073709551615 - uint slot) div P"
    using start(2) uint_lt64 [of slot] by (simp add: word_less_def not_less uint_div uint_sub64 word_le_def P)
  then have "P * uint n \<le> P * ((18446744073709551615 - uint slot) div P)"
    using P(2) by (intro mult_left_mono) simp_all
  from order_trans [OF this div_bounds(1) [OF P(2)]]
  have nP: "uint n * P \<le> 18446744073709551615 - uint slot" by (simp add: mult.commute)
  have "uint n * P < 18446744073709551616" "uint slot + uint n * P < 18446744073709551616"
    using nP uint_ge_0 [of slot] by linarith+
  then have u: "uint start = uint slot + uint n * P" using start(1) P by (simp add: uint_add64 uint_mult64)
  have "uint deadline - uint slot < uint n * P"
    using div_bounds(2) [of P "uint deadline - uint slot"] P(2) n by (simp add: algebra_simps)
  then have "deadline \<le> start" using u by (simp add: word_le_def)
  with u show ?thesis by (auto simp: P_def)
qed

text \<open>
  C10. The first edge of a hardware waveform: the compare is not before the arming deadline, and
  the first rising edge, one low time later when the tracked level is high, lies on the
  requested grid, a whole number of periods from the requested edge.
\<close>

theorem arm_first_edge_on_grid:
  assumes "hw_late_push (hw_first_slot flop first high low) deadline (high + low) = Some start"
    and "high \<noteq> 0" "low \<noteq> 0" "high \<le> U64_MAX div 4" "low \<le> U64_MAX div 4"
  shows "deadline \<le> start \<and>
    (uint high + uint low) dvd (uint start + (if flop then uint low else 0)) - uint first"
proof -
  have hl: "0 < uint high" "0 < uint low" "uint high \<le> 4611686018427387903" "uint low \<le> 4611686018427387903"
    using assms(2-5) by (simp_all add: pos_uint word_le_def)
  define P where "P = uint high + uint low"
  let ?slot = "hw_first_slot flop first high low"
  obtain n where n: "deadline \<le> start" "uint start = uint ?slot + n * P"
    using late_push_exact [OF assms(1) hl] by (auto simp: P_def)
  have "P dvd (uint ?slot + (if flop then uint low else 0)) - uint first"
    using hl by (auto simp: hw_first_slot_def uint_sub64 uint_add64 word_less_def not_less P_def algebra_simps
        word_le_def)
  from dvd_add [OF this dvd_triv_right [of P n]] n
  have "P dvd (uint start + (if flop then uint low else 0)) - uint first" by (simp add: algebra_simps)
  then show ?thesis using n(1) by (simp add: P_def)
qed

lemma arm_first_edge_on_grid_witness:
  "hw_late_push (hw_first_slot True 1000 300 200) 5000 500 = Some 5300 \<and>
   (5000 :: u64) \<le> 5300 \<and> uint (300 :: u64) + uint (200 :: u64) dvd (uint (5300 :: u64) + uint (200 :: u64)) - uint (1000 :: u64)"
proof -
  have "hw_late_push (hw_first_slot True 1000 300 200) 5000 (300 + 200) = Some 5300" by code_simp
  from this arm_first_edge_on_grid [OF this] show ?thesis by simp
qed

section \<open>The output work\<close>

text \<open>
  A stopped output ends disabled: the work cancels the timer, clears the hardware state and
  leaves the published configuration alone, on any hardware.
\<close>

theorem output_work_stopped:
  assumes "des_run (output_desired (blocks (drv s) b)) = TGPIO_OUTPUT_STOPPED"
  shows "let m = blocks (drv (exec_m (tgpio_output_work K b) s)) b in
    output_timer m = None \<and> output_phase m = TGPIO_OUTPUT_TOGGLE \<and> output_hw_piv m = 0 \<and>
    output_desired m = output_desired (blocks (drv s) b)"
proof -
  let ?g = "\<lambda>m. (output_timer m, output_desired m)"
  have "wp (tgpio_output_work K b) (\<lambda>_ t. let m = blocks (drv t) b in
    output_timer m = None \<and> output_phase m = TGPIO_OUTPUT_TOGGLE \<and> output_hw_piv m = 0 \<and>
    output_desired m = output_desired (blocks (drv s) b)) s"
    using assms
    apply (simp add: tgpio_output_work_def tgpio_output_desired_get_def hrtimer_cancel_def wp_bind wp_get_blk wp_upd_blk wp_if)
    apply (rule wp_keeps [OF keeps_drain_blk [of ?g b]], simp, simp)
    apply (rule wp_disable_state)
    apply (simp add: Let_def)
    done
  from wp_exec [OF this] show ?thesis .
qed


lemma output_work_stopped_witness:
  "output_timer (blocks (drv (exec_m (tgpio_output_work (sim_kernel 3) 0)
     (sim_sys running_block running_engine [1]))) 0) = None"
  using output_work_stopped [where K = "sim_kernel 3" and s = "sim_sys running_block running_engine [1]" and b = 0]
  by (simp add: Let_def running_block_def output_block_def zero_block_def zero_desired_def)

lemma wp_work_new_config:
  assumes "des_run (output_desired (blocks (drv s) b)) = TGPIO_OUTPUT_RUNNING"
    and "des_gen (output_desired (blocks (drv s) b)) \<noteq> output_applied_gen (blocks (drv s) b)"
    and "des_flip_gen (output_desired (blocks (drv s) b)) = output_applied_flip_gen (blocks (drv s) b)"
    and "d = output_desired (blocks (drv s) b)"
  shows "wp (tgpio_output_work K b) (\<lambda>_ t. let m = blocks (drv t) b in
    output_desired m = d \<and>
    (output_applied_gen m = des_gen d \<and> output_applied_freq_gen m = des_freq_gen d \<and>
       output_timer m \<noteq> None \<or>
     output_timer m = None \<and> output_phase m = TGPIO_OUTPUT_TOGGLE \<and> output_hw_piv m = 0)) s"
  using assms
  by (simp add: tgpio_output_work_def tgpio_output_desired_get_def wp_simps)
    (rule wp_reconcile, simp_all add: Let_def)

text \<open>
  C11. A new configuration is reconciled in one run: either the block is armed for exactly this
  generation with its wake-up timer set, or it is disabled with no timer.
\<close>

theorem output_work_new_config:
  assumes "des_run (output_desired (blocks (drv s) b)) = TGPIO_OUTPUT_RUNNING"
    and "des_gen (output_desired (blocks (drv s) b)) \<noteq> output_applied_gen (blocks (drv s) b)"
    and "des_flip_gen (output_desired (blocks (drv s) b)) = output_applied_flip_gen (blocks (drv s) b)"
  shows "let d = output_desired (blocks (drv s) b);
      m = blocks (drv (exec_m (tgpio_output_work K b) s)) b in
    output_desired m = d \<and>
    (output_applied_gen m = des_gen d \<and> output_applied_freq_gen m = des_freq_gen d \<and>
       output_timer m \<noteq> None \<or>
     output_timer m = None \<and> output_phase m = TGPIO_OUTPUT_TOGGLE \<and> output_hw_piv m = 0)"
  using wp_exec [OF wp_work_new_config [OF assms refl]] by (simp add: Let_def)

definition configured_block :: tgpio_mmio_block where
  "configured_block = output_block\<lparr>output_desired := zero_desired\<lparr>des_run := TGPIO_OUTPUT_RUNNING,
     des_gen := 1, des_mode := TGPIO_OUTPUT_HARDWARE, des_period_ns := 1000000000,
     des_high_time_ns := 500000000, des_low_time_ns := 500000000\<rparr>\<rparr>"

lemma configured_block_simps:
  "des_run (output_desired configured_block) = TGPIO_OUTPUT_RUNNING"
  "des_gen (output_desired configured_block) = 1" "output_applied_gen configured_block = 0"
  "des_flip_gen (output_desired configured_block) = output_applied_flip_gen configured_block"
  by (simp_all add: configured_block_def output_block_def zero_block_def zero_desired_def)

lemma output_work_new_config_witness:
  "let m = blocks (drv (exec_m (tgpio_output_work (sim_kernel 3) 0) (sim_sys configured_block idle_engine []))) 0
   in output_applied_gen m = 1 \<or> output_timer m = None"
  using output_work_new_config [where K = "sim_kernel 3" and s = "sim_sys configured_block idle_engine []" and b = 0]
  by (auto simp: Let_def configured_block_simps)


text \<open>An output with halves of 10 and 30 ms whose pending edge is still 10 ms away.\<close>

definition software_block :: tgpio_mmio_block where
  "software_block = output_block\<lparr>output_phase := TGPIO_OUTPUT_TOGGLE,
     output_desired := zero_desired\<lparr>des_run := TGPIO_OUTPUT_RUNNING, des_freq_gen := 1,
       des_period_ns := 40000000, des_high_time_ns := 10000000, des_low_time_ns := 30000000\<rparr>,
     output_high_time_ns := 10000000, output_low_time_ns := 30000000,
     output_next_edge := 1030000000, output_next_edge_type := TGPIO_EDGE_RISE,
     output_wake_at_time := 1027500000, output_timer := Some 1027500000\<rparr>"

lemma software_block_simps:
  "des_run (output_desired software_block) = TGPIO_OUTPUT_RUNNING"
  "des_gen (output_desired software_block) = output_applied_gen software_block"
  "des_flip_gen (output_desired software_block) = output_applied_flip_gen software_block"
  "des_freq_gen (output_desired software_block) = 1" "output_applied_freq_gen software_block = 0"
  "output_phase software_block = TGPIO_OUTPUT_TOGGLE" "output_next_edge software_block = 1030000000"
  "tgpio_output_interval_after_edge software_block (output_next_edge_type software_block) = 10000000"
  by (simp_all add: software_block_def output_block_def zero_block_def zero_desired_def
      tgpio_output_interval_after_edge_def)


lemmas wp_run_defs =
  tgpio_output_work_def [THEN wp_unfold] tgpio_output_work_same_gen_def [THEN wp_unfold]
  tgpio_output_software_edge_def [THEN wp_unfold] tgpio_output_desired_get_def [THEN wp_unfold]
  tgpio_clock_delta_to_real_ns_def [THEN wp_unfold] tgpio_clock_uses_model_def [THEN wp_unfold]
  tgpio_phc_params_get_def [THEN wp_unfold] tgpio_program_output_edge_def [THEN wp_unfold]
  tgpio_clock_ns_to_compare_art_def [THEN wp_unfold] tgpio_clock_ns_to_art_def [THEN wp_unfold]
  tgpio_read_ctl_def [THEN wp_unfold] tgpio_write_ctl_def [THEN wp_unfold]
  tgpio_write_compv_def [THEN wp_unfold] tgpio_write_piv_def [THEN wp_unfold]
  tgpio_readl_def [THEN wp_unfold] tgpio_writel_def [THEN wp_unfold]
  tgpio_output_wake_at_def [THEN wp_unfold] hrtimer_cancel_def [THEN wp_unfold]
  wp_liftk wp_State

lemma sim_conversions:
  "tgpio_phc_delta_to_real_ns (tgpio_phc_params_make 0 0 1000000000 0) 10000000 = Inr 10000000"
  "tgpio_phc_ns_to_art (tgpio_phc_params_make 0 0 1000000000 0) 1030000000 = Inr 1030000000"
  "tgpio_add_s64 1030000000 0 = Inr 1030000000"
  by code_simp+

text \<open>
  On this block the refresh overwrites the compare of the pending edge at ART 1010000000 with
  that of the edge after it while ART is still 1000000000, so the pending edge never fires.
\<close>

lemma software_refresh_overwrites_compare: "wp (tgpio_output_work (sim_kernel r) 0)
   (\<lambda>_ t. e_compv (w_engine (kst t) 0) = 1029999998 \<and> w_art (kst t) = 1000000000)
   (sim_sys software_block (running_engine\<lparr>e_ctl := 9, e_compv := 1009999998, e_piv := 0\<rparr>) [])"
  by (simp add: wp_run_defs wp_simps software_block_def output_block_def zero_block_def zero_desired_def
     sim_sys_def sim_driver_def zero_device_def default_params_def sim_world_def running_engine_def
     sim_conversions sim_kernel_def sim_readl_def sim_writel_def pass_def engine_read_def engine_write_def Let_def
     tgpio_output_interval_after_edge_def)

end
