(* ===== verification/Ptp_Props.thy ===== *)
theory Ptp_Props
  imports Output_Props
begin

text \<open>
  Properties of the PTP clock operations and of the rate refinement: reading back what was set,
  exact shifts, phase continuity of every rate change, refusals, and what a clock step means for
  the running outputs. The witnesses run in the simulated world, where ART stands still between
  two accesses.
\<close>

section \<open>timespecs\<close>

lemma s64_div_rem_nonneg:
  assumes "0 \<le> sint a" "0 < sint b"
  shows "s64_div a b = word_of_int (sint a div sint b)" "s64_rem a b = word_of_int (sint a mod sint b)"
  using assms by (simp_all add: s64_div_def s64_rem_def signed_divide_int_def signed_modulo_int_def sgn_if)

lemma timespec_split:
  assumes "0 \<le> sint (tv_sec ts)" "sint (tv_sec ts) \<le> 9223372036" "0 \<le> sint (tv_nsec ts)" "sint (tv_nsec ts) < 1000000000"
  shows "ns_to_timespec64 (timespec64_to_ns ts) =
    (if tv_sec ts = 9223372036 then \<lparr>tv_sec = 9223372036, tv_nsec = 854775807\<rparr> else ts)"
proof (cases "tv_sec ts = 9223372036")
  case True
  then show ?thesis
    by (simp add: timespec64_to_ns_def ns_to_timespec64_def s64_div_def s64_rem_def signed_divide_int_def
        signed_modulo_int_def word_sle_eq word_sless_alt)
next
  case False
  have "sint (tv_sec ts) \<noteq> 9223372036"
    using False signed_word_eqI [of "tv_sec ts" "9223372036 :: s64"] by auto
  then have s: "sint (tv_sec ts) < 9223372036" using assms by simp
  let ?ns = "tv_sec ts * 1000000000 + tv_nsec ts"
  have ns: "sint ?ns = sint (tv_sec ts) * 1000000000 + sint (tv_nsec ts)"
    using s assms by (simp add: sint_word_add sint_word_mult s64_wrap_id)
  have "sint ?ns div 1000000000 = sint (tv_sec ts)" "sint ?ns mod 1000000000 = sint (tv_nsec ts)"
    using assms unfolding ns by simp_all
  moreover have "0 \<le> sint ?ns" using ns assms by simp
  ultimately have "s64_div ?ns 1000000000 = tv_sec ts" "s64_rem ?ns 1000000000 = tv_nsec ts"
    by (simp_all add: s64_div_rem_nonneg)
  then show ?thesis
    using s assms False by (simp add: timespec64_to_ns_def ns_to_timespec64_def word_sle_eq word_sless_alt)
qed

lemma timespec_ns_nonneg:
  assumes "0 \<le> sint (tv_sec ts)" "sint (tv_sec ts) \<le> 9223372036" "0 \<le> sint (tv_nsec ts)" "sint (tv_nsec ts) < 1000000000"
  shows "0 \<le> sint (timespec64_to_ns ts)"
  using assms by (auto simp: timespec64_to_ns_def word_sle_eq sint_word_add sint_word_mult s64_wrap_id)

section \<open>Re-anchoring\<close>

text \<open>
  What the two publishers of a clock change do to the blocks: a running output has the counter
  bumped and its work scheduled.
\<close>

definition republish_block ::
    "(tgpio_output_desired \<Rightarrow> tgpio_output_desired) \<Rightarrow> tgpio_mmio_block \<Rightarrow> tgpio_mmio_block"
where
  "republish_block bump m =
    (if blk_mode m = TGPIO_MODE_OUTPUT \<and> des_run (output_desired m) = TGPIO_OUTPUT_RUNNING
     then (output_desired_update bump m)\<lparr>output_work_pending := True\<rparr> else m)"

definition republished ::
    "(tgpio_output_desired \<Rightarrow> tgpio_output_desired) \<Rightarrow> (nat \<Rightarrow> tgpio_mmio_block) \<Rightarrow> nat \<Rightarrow> tgpio_mmio_block"
where
  "republished bump bs i = (if i < 2 then republish_block bump (bs i) else bs i)"

abbreviation bump_gen :: "tgpio_output_desired \<Rightarrow> tgpio_output_desired" where
  "bump_gen \<equiv> des_gen_update (\<lambda>g. g + 1)"

abbreviation bump_freq_gen :: "tgpio_output_desired \<Rightarrow> tgpio_output_desired" where
  "bump_freq_gen \<equiv> des_freq_gen_update (\<lambda>g. g + 1)"

abbreviation set_blocks :: "(nat \<Rightarrow> tgpio_mmio_block) \<Rightarrow> 'k sys \<Rightarrow> 'k sys" where
  "set_blocks bs s \<equiv> s\<lparr>drv := (drv s)\<lparr>blocks := bs\<rparr>\<rparr>"

lemma wp_for_blocks:
  assumes "\<And>i Q s. wp (f i) Q s = Q () (g i s)"
  shows "wp (for_each all_blocks f) Q s = Q () (g 1 (g 0 s))"
  by (simp add: wp_bind wp_return assms)

lemma wp_republish:
  "wp (for_each all_blocks (\<lambda>i. do {
     mode \<leftarrow> get_blk i blk_mode;
     if mode \<noteq> TGPIO_MODE_OUTPUT then ret ()
     else do {
       run \<leftarrow> get_blk i (\<lambda>m. des_run (output_desired m));
       when_m (run = TGPIO_OUTPUT_RUNNING) (upd_blk i (output_desired_update bump));
       when_m (run = TGPIO_OUTPUT_RUNNING) (schedule_work i)
     } })) Q s = Q () (set_blocks (republished bump (blocks (drv s))) s)"
proof -
  have step: "wp (do {
     mode \<leftarrow> get_blk i blk_mode;
     if mode \<noteq> TGPIO_MODE_OUTPUT then ret ()
     else do {
       run \<leftarrow> get_blk i (\<lambda>m. des_run (output_desired m));
       when_m (run = TGPIO_OUTPUT_RUNNING) (upd_blk i (output_desired_update bump));
       when_m (run = TGPIO_OUTPUT_RUNNING) (schedule_work i)
     } }) Q s = Q () (set_blocks ((blocks (drv s))(i := republish_block bump (blocks (drv s) i))) s)"
    for i Q and s :: "'a sys"
    by (cases s, cases "drv s")
      (auto simp: wp_simps schedule_work_def republish_block_def fun_upd_idem)
  have bs: "(blocks (drv s))(0 := republish_block bump (blocks (drv s) 0), 1 := republish_block bump (blocks (drv s) 1)) =
      republished bump (blocks (drv s))"
    by (auto simp: republished_def fun_eq_iff less_2_cases_iff)
  show ?thesis
    by (subst wp_for_blocks [OF step]) (simp add: bs [simplified])
qed

lemma wp_resync [wp_simps]:
  "wp tgpio_resync_outputs_after_phc_step Q s = Q () (set_blocks (republished bump_gen (blocks (drv s))) s)"
  unfolding tgpio_resync_outputs_after_phc_step_def by (rule wp_republish)

lemma wp_update_freq [wp_simps]:
  "wp tgpio_update_outputs_after_phc_freq Q s = Q () (set_blocks (republished bump_freq_gen (blocks (drv s))) s)"
  unfolding tgpio_update_outputs_after_phc_freq_def by (rule wp_republish)

lemma wp_current_art:
  assumes "\<And>r t. run_state (tgpio_get_current_art K) s = (r, t) \<Longrightarrow> drv t = drv s \<Longrightarrow> Q r t"
  shows "wp (tgpio_get_current_art K) Q s"
  using assms keeps_current_art(1) [of K, THEN keepsD, of s] by (simp add: wp_def split_beta)

text \<open>The driver's memory after the clock is re-anchored at a new model and outputs are rescheduled.\<close>

abbreviation anchored :: "driver \<Rightarrow> tgpio_phc_params \<Rightarrow> driver" where
  "anchored d p \<equiv> d\<lparr>dev := (dev d)\<lparr>phc := p\<rparr>\<rparr>"

definition stepped :: "driver \<Rightarrow> u64 \<Rightarrow> s64 \<Rightarrow> driver" where
  "stepped d a ns = d\<lparr>dev := (dev d)\<lparr>phc := tgpio_phc_params_make a ns (base_art_hz (phc (dev d))) (scaled_ppm (phc (dev d))),
       traces := traces (dev d) @ [TGPIO_PHC_STEP (case tgpio_phc_art_to_ns (phc (dev d)) a of Inl e \<Rightarrow> 0 | Inr old \<Rightarrow> old) ns]\<rparr>,
     blocks := republished bump_gen (blocks d)\<rparr>"

definition settable :: "timespec64 \<Rightarrow> bool" where
  "settable ts \<longleftrightarrow> 0 \<le> sint (tv_sec ts) \<and> sint (tv_sec ts) \<le> 9223372036 \<and>
     0 \<le> sint (tv_nsec ts) \<and> sint (tv_nsec ts) < 1000000000"

lemma sdiv_max_sec: "s64_div S64_MAX NSEC_PER_SEC = 9223372036"
  by (simp add: s64_div_def signed_divide_int_def)

lemma wp_settime_phc:
  assumes "clock_mode (par (drv s)) = TGPIO_CLOCK_PHC"
  shows "wp (tgpio_ptp_settime64 K ts) (\<lambda>r t. if r = 0 then settable ts \<and>
      (\<exists>a. result_of (tgpio_get_current_art K) s = Inr a \<and> drv t = stepped (drv s) a (timespec64_to_ns ts))
    else drv t = drv s) s"
  using assms
  apply (simp add: tgpio_ptp_settime64_def wp_simps Let_def sdiv_max_sec word_sless_alt)
  apply (intro impI conjI)
  apply (rule wp_current_art)
  apply (auto simp: wp_simps settable_def stepped_def word_sle_eq not_less split: sum.splits)
  done


text \<open>
  C13. Setting the PHC and reading it back: a read that sees the ART value at which the clock was
  set returns exactly the time set, except in the last second of the range, where the kernel's
  conversion saturates and any time set becomes 9223372036.854775807.
\<close>

theorem settime_gettime:
  assumes "clock_mode (par (drv s)) = TGPIO_CLOCK_PHC" and "base_art_hz (phc (dev (drv s))) \<noteq> 0"
    and "run_state (tgpio_ptp_settime64 K ts) s = (0, t)"
    and "result_of (tgpio_get_current_art K) t = result_of (tgpio_get_current_art K) s"
  shows "result_of (tgpio_ptp_gettime64 K) t =
    Inr (if tv_sec ts = 9223372036 then \<lparr>tv_sec = 9223372036, tv_nsec = 854775807\<rparr> else ts)"
proof -
  from wp_run [OF wp_settime_phc [OF assms(1)] assms(3)] obtain a where ok: "settable ts"
    and a: "result_of (tgpio_get_current_art K) s = Inr a"
    and t: "drv t = stepped (drv s) a (timespec64_to_ns ts)" by auto
  let ?ns = "timespec64_to_ns ts"
  have p: "tgpio_phc_art_to_ns (phc (dev (drv t))) a = Inr ?ns" "clock_mode (par (drv t)) = TGPIO_CLOCK_PHC"
    using assms(1,2) art_to_ns_anchor [of "phc (dev (drv t))"] t
    by (simp_all add: stepped_def tgpio_phc_params_make_def)
  have ns: "\<not> ?ns <s 0" "ns_to_timespec64 ?ns =
      (if tv_sec ts = 9223372036 then \<lparr>tv_sec = 9223372036, tv_nsec = 854775807\<rparr> else ts)"
    using ok timespec_ns_nonneg [of ts] timespec_split [of ts] by (simp_all add: settable_def word_sless_alt not_less)
  have "wp (tgpio_ptp_gettime64 K) (\<lambda>r _. r = Inr (ns_to_timespec64 ?ns)) t"
    using p ns(1) a assms(4)
    apply (simp add: tgpio_ptp_gettime64_def tgpio_clock_uses_model_def tgpio_clock_phc_now_ns_def wp_simps)
    apply (rule wp_current_art)
    apply (simp add: wp_simps tgpio_clock_phc_art_to_ns_def tgpio_phc_params_get_def)
    done
  then show ?thesis using ns(2) by (simp add: wp_def split_beta)
qed

lemma wp_adjtime_phc:
  assumes "clock_mode (par (drv s)) = TGPIO_CLOCK_PHC"
  shows "wp (tgpio_ptp_adjtime K delta) (\<lambda>r t. if r = 0 then
      (\<exists>a now adj. result_of (tgpio_get_current_art K) s = Inr a \<and>
        tgpio_phc_art_to_ns (phc (dev (drv s))) a = Inr now \<and>
        usable_ns (tgpio_add_s64 now delta) = Some adj \<and> drv t = stepped (drv s) a adj)
    else drv t = drv s) s"
  using assms
  apply (simp add: tgpio_ptp_adjtime_def wp_simps)
  apply (rule wp_current_art)
  apply (auto simp: wp_simps stepped_def split: sum.splits option.splits)
  done

lemma usable_add:
  assumes "usable_ns (tgpio_add_s64 a b) = Some c"
  shows "sint c = sint a + sint b" "0 \<le> sint c"
  using assms
  by (auto simp: usable_ns_def add_s64_checked checked_s64_def in_s64_def exact word_sless_alt split: sum.splits if_splits)

text \<open>
  C17. Shifting the PHC: when it succeeds, the ART value it was shifted at converts to exactly the
  shifted time, which is not negative, and one step from the old to the new time is traced; when it
  fails the driver's memory is unchanged.
\<close>

theorem adjtime_exact_shift:
  assumes "clock_mode (par (drv s)) = TGPIO_CLOCK_PHC" and "base_art_hz (phc (dev (drv s))) \<noteq> 0"
    and "run_state (tgpio_ptp_adjtime K delta) s = (r, t)"
  shows "if r = 0 then \<exists>a before after.
      result_of (tgpio_get_current_art K) s = Inr a \<and>
      tgpio_phc_art_to_ns (phc (dev (drv s))) a = Inr before \<and>
      tgpio_phc_art_to_ns (phc (dev (drv t))) a = Inr after \<and>
      sint after = sint before + sint delta \<and> 0 \<le> sint after \<and>
      traces (dev (drv t)) = traces (dev (drv s)) @ [TGPIO_PHC_STEP before after]
    else drv t = drv s"
proof (cases "r = 0")
  case True
  with wp_run [OF wp_adjtime_phc [OF assms(1)] assms(3)] obtain a before after where
    a: "result_of (tgpio_get_current_art K) s = Inr a" "tgpio_phc_art_to_ns (phc (dev (drv s))) a = Inr before"
    and u: "usable_ns (tgpio_add_s64 before delta) = Some after" and t: "drv t = stepped (drv s) a after" by auto
  have "tgpio_phc_art_to_ns (phc (dev (drv t))) a = Inr after"
    using assms(2) art_to_ns_anchor [of "phc (dev (drv t))"] t by (simp add: stepped_def tgpio_phc_params_make_def)
  moreover have "traces (dev (drv t)) = traces (dev (drv s)) @ [TGPIO_PHC_STEP before after]"
    using t a(2) by (simp add: stepped_def)
  ultimately show ?thesis using a u True usable_add by auto
next
  case False
  with wp_run [OF wp_adjtime_phc [OF assms(1)] assms(3)] show ?thesis by simp
qed


lemma wp_adjfine_phc:
  assumes "clock_mode (par (drv s)) = TGPIO_CLOCK_PHC"
  shows "wp (tgpio_ptp_adjfine K ppm) (\<lambda>r t. if r = 0 then
      (\<exists>a now. result_of (tgpio_get_current_art K) s = Inr a \<and>
        tgpio_phc_art_to_ns (phc (dev (drv s))) a = Inr now \<and>
        phc (dev (drv t)) = tgpio_phc_params_make a now (base_art_hz (phc (dev (drv s)))) ppm) \<and>
        \<bar>sint (tgpio_scaled_ppm_to_ppb ppm)\<bar> \<le> 100000000
    else drv t = drv s) s"
  using assms
  apply (simp add: tgpio_ptp_adjfine_def wp_simps Let_def word_sless_alt)
  apply (intro impI conjI)
  apply (rule wp_current_art)
  apply (auto simp: wp_simps split: sum.splits option.splits)
  done

text \<open>
  C15. Steering the PHC is phase continuous: at the ART value where the new rate takes over, the
  model reads what it read before, and it stays valid; a refused rate changes nothing.
\<close>

theorem adjfine_continuous:
  assumes "clock_mode (par (drv s)) = TGPIO_CLOCK_PHC" and "valid_phc (phc (dev (drv s)))"
    and "run_state (tgpio_ptp_adjfine K ppm) s = (r, t)"
  shows "if r = 0 then valid_phc (phc (dev (drv t))) \<and> scaled_ppm (phc (dev (drv t))) = ppm \<and>
      (\<exists>a now. result_of (tgpio_get_current_art K) s = Inr a \<and>
        tgpio_phc_art_to_ns (phc (dev (drv s))) a = Inr now \<and>
        tgpio_phc_art_to_ns (phc (dev (drv t))) a = Inr now)
    else drv t = drv s"
proof (cases "r = 0")
  case True
  with wp_run [OF wp_adjfine_phc [OF assms(1)] assms(3)] obtain a now where
    a: "result_of (tgpio_get_current_art K) s = Inr a" "tgpio_phc_art_to_ns (phc (dev (drv s))) a = Inr now"
    and p: "phc (dev (drv t)) = tgpio_phc_params_make a now (base_art_hz (phc (dev (drv s)))) ppm"
    and ppb: "\<bar>sint (tgpio_scaled_ppm_to_ppb ppm)\<bar> \<le> 100000000" by auto
  have v: "valid_phc (phc (dev (drv t)))"
    using assms(2) ppb by (simp add: p valid_phc_def phc_hz_def phc_ppb_def tgpio_phc_params_make_def)
  have "base_art_hz (phc (dev (drv t))) \<noteq> 0" using v by (auto simp: valid_phc_def phc_hz_def)
  from art_to_ns_anchor [OF this] have "tgpio_phc_art_to_ns (phc (dev (drv t))) a = Inr now"
    by (simp add: p tgpio_phc_params_make_def)
  with a v True show ?thesis by (simp add: p tgpio_phc_params_make_def)
next
  case False
  with wp_run [OF wp_adjfine_phc [OF assms(1)] assms(3)] show ?thesis by simp
qed

text \<open>
  In ART mode nobody can steer the clock: setting, shifting and tuning it are refused and
  leave driver, kernel and hardware exactly as they were.
\<close>

theorem art_mode_refuses:
  assumes "clock_mode (par (drv s)) = TGPIO_CLOCK_ART"
  shows "run_state (tgpio_ptp_settime64 K ts) s = (- EOPNOTSUPP, s) \<and>
    run_state (tgpio_ptp_adjtime K delta) s = (- EOPNOTSUPP, s) \<and>
    run_state (tgpio_ptp_adjfine K ppm) s = (- EOPNOTSUPP, s)"
  using assms by (simp add: tgpio_ptp_settime64_def tgpio_ptp_adjtime_def tgpio_ptp_adjfine_def)

section \<open>Rate refinement\<close>

lemma keeps_art_raw_loop: "keeps drv (sample_art_raw_loop n K)"
  by (induction n) (auto intro!: frame)

lemma keeps_art_real_loop: "keeps drv (sample_art_real_loop n K best br)"
  by (induction n arbitrary: best br) (auto simp: Let_def intro!: frame)

lemma keeps_samples [frame]:
  "keeps drv (tgpio_sample_art_raw K)" "keeps drv (tgpio_sample_art_real K)"
  by (simp_all add: tgpio_sample_art_raw_def tgpio_sample_art_real_def keeps_art_raw_loop keeps_art_real_loop)

lemma wp_sample_raw:
  assumes "\<And>r t. result_of (tgpio_sample_art_raw K) s = r \<Longrightarrow> drv t = drv s \<Longrightarrow> Q r t"
  shows "wp (tgpio_sample_art_raw K) Q s"
  using assms keeps_samples(1) [of K, THEN keepsD, of s] by (simp add: wp_def split_beta)

lemma wp_refine_apply:
  assumes "base \<noteq> 0"
  shows "wp (art_refine_apply a base scaled) (\<lambda>_ t. 
    tgpio_phc_art_to_ns (phc (dev (drv t))) a = tgpio_phc_art_to_ns (phc (dev (drv s))) a) s"
  using assms art_to_ns_anchor [of "tgpio_phc_params_make a ns base scaled" for ns]
  by (auto simp: art_refine_apply_def wp_simps tgpio_phc_params_make_def split: sum.splits)

lemma refine_raw_base: "art_refine_against_raw n trim c = Some (base, scaled) \<Longrightarrow> base \<noteq> 0"
  by (auto simp: art_refine_against_raw_def Let_def split: if_splits)

lemma refine_real_base:
  "fst (art_refine_against_realtime r trim c) = Some (base, scaled) \<Longrightarrow> base = art_cal_base c"
  by (auto simp: art_refine_against_realtime_def art_refine_ring_push_def Let_def
      split: if_splits prod.splits)

lemma wp_refine_install:
  assumes "\<And>base scaled. r = Some (base, scaled) \<Longrightarrow> base \<noteq> 0"
    and "\<And>u. tgpio_phc_art_to_ns (phc (dev (drv u))) a = tgpio_phc_art_to_ns (phc (dev (drv t))) a \<Longrightarrow> Q () u"
  shows "wp (case r of None \<Rightarrow> ret () | Some (base, scaled) \<Rightarrow> art_refine_apply a base scaled) Q t"
proof (cases r)
  case None
  then show ?thesis using assms(2) by (simp add: wp_return)
next
  case (Some v)
  obtain base scaled where v: "v = (base, scaled)" by (cases v)
  from wp_mono [OF wp_refine_apply [of base a scaled t]] assms Some v show ?thesis by simp
qed

text \<open>
  C16. Refining the rate is phase continuous: whatever the measurement, the ART value sampled
  converts to the same time, or the same error, before and after the refinement work.
\<close>

theorem refine_continuous:
  assumes "clock_mode (par (drv s)) \<noteq> TGPIO_CLOCK_REALTIME" and "art_cal_base (cal (drv s)) \<noteq> 0"
  shows "case result_of (tgpio_sample_art_raw K) s of
      Inl _ \<Rightarrow> phc (dev (drv (exec_m (tgpio_art_refine_work_fn K) s))) = phc (dev (drv s))
    | Inr now \<Rightarrow> tgpio_phc_art_to_ns (phc (dev (drv (exec_m (tgpio_art_refine_work_fn K) s)))) (smp_art now) =
        tgpio_phc_art_to_ns (phc (dev (drv s))) (smp_art now)"
proof -
  have "wp (tgpio_art_refine_work_fn K) (\<lambda>_ t. case result_of (tgpio_sample_art_raw K) s of
      Inl _ \<Rightarrow> phc (dev (drv t)) = phc (dev (drv s))
    | Inr now \<Rightarrow> tgpio_phc_art_to_ns (phc (dev (drv t))) (smp_art now) =
        tgpio_phc_art_to_ns (phc (dev (drv s))) (smp_art now)) s"
    using assms
    apply (simp add: tgpio_art_refine_work_fn_def tgpio_clock_uses_model_def wp_simps)
    apply (rule wp_sample_raw)
    apply (auto simp: wp_bind wp_param wp_if wp_return tgpio_art_cal_realtime_def wp_get_cal wp_upd_dev split: sum.split)
      apply (rule wp_keeps [OF keeps_samples(2)])
      apply (auto simp: wp_bind wp_return wp_get_cal wp_param wp_upd_cal wp_upd_dev split: sum.split)[1]
     apply (rule wp_refine_install; auto simp: wp_upd_dev dest: refine_real_base)
    apply (rule wp_refine_install; auto simp: wp_upd_dev dest: refine_raw_base)
    done
  from wp_exec [OF this] show ?thesis .
qed

text \<open>
  C35. Once the raw calibration's anchor is more than 18446744073 cycles old (480 s at 38.4 MHz),
  the refinement work changes nothing any more, whatever it measures and whatever trim the
  operator writes.
\<close>

theorem raw_refinement_freezes:
  assumes "clock_mode (par (drv s)) = TGPIO_CLOCK_ART" and "art_calibration_param (par (drv s)) = ''raw''"
    and "result_of (tgpio_sample_art_raw K) s = Inr now"
    and "U64_MAX div NSEC_PER_SEC < smp_art now - art_cal_anchor_art (cal (drv s))"
  shows "drv (exec_m (tgpio_art_refine_work_fn K) s) =
    (drv s)\<lparr>dev := (dev (drv s))\<lparr>art_refine_work := queue_delayed 30 (art_refine_work (dev (drv s)))\<rparr>\<rparr>"
proof -
  have none: "art_refine_against_raw now trim (cal (drv s)) = None" for trim
    using assms(4) by (simp add: art_refine_against_raw_def)
  have "wp (tgpio_art_refine_work_fn K) (\<lambda>_ t. drv t =
    (drv s)\<lparr>dev := (dev (drv s))\<lparr>art_refine_work := queue_delayed 30 (art_refine_work (dev (drv s)))\<rparr>\<rparr>) s"
    using assms(1-3)
    apply (simp add: tgpio_art_refine_work_fn_def tgpio_clock_uses_model_def wp_simps)
    apply (rule wp_sample_raw)
    apply (simp add: wp_simps tgpio_art_cal_realtime_def none)
    done
  from wp_exec [OF this] show ?thesis .
qed

definition sim_mode :: "tgpio_clock_mode \<Rightarrow> world sys" where
  "sim_mode mode = (let s = sim_sys output_block idle_engine [] in
     s\<lparr>drv := (drv s)\<lparr>par := (par (drv s))\<lparr>clock_mode := mode\<rparr>\<rparr>\<rparr>)"

lemma sim_mode_simps [simp]:
  "clock_mode (par (drv (sim_mode mode))) = mode" "base_art_hz (phc (dev (drv (sim_mode mode)))) = 1000000000"
  "scaled_ppm (phc (dev (drv (sim_mode mode)))) = 0" "art_cal_base (cal (drv (sim_mode mode))) = 0"
  by (simp_all add: sim_mode_def sim_sys_def sim_driver_def tgpio_phc_params_make_def zero_calibration_def)

lemma settime_gettime_witness:
  "let t = exec_m (tgpio_ptp_settime64 (sim_kernel 3) \<lparr>tv_sec = 5, tv_nsec = 7\<rparr>) (sim_mode TGPIO_CLOCK_PHC)
   in result_of (tgpio_ptp_gettime64 (sim_kernel 3)) t = Inr \<lparr>tv_sec = 5, tv_nsec = 7\<rparr>"
proof -
  let ?s = "sim_mode TGPIO_CLOCK_PHC" and ?m = "tgpio_ptp_settime64 (sim_kernel 3) \<lparr>tv_sec = 5, tv_nsec = 7\<rparr>"
  have r: "run_state ?m ?s = (0, exec_m ?m ?s)"
    by (rule prod_eqI, simp_all only: fst_conv snd_conv) code_simp
  have a: "result_of (tgpio_get_current_art (sim_kernel 3)) (exec_m ?m ?s) = Inr 1000000000"
    "result_of (tgpio_get_current_art (sim_kernel 3)) ?s = Inr 1000000000"
    by code_simp+
  show ?thesis using settime_gettime [OF _ _ r] a by (simp add: Let_def)
qed

lemma adjtime_exact_shift_witness:
  "let s = sim_mode TGPIO_CLOCK_PHC; t = exec_m (tgpio_ptp_adjtime (sim_kernel 3) (- 5)) s
   in \<exists>a before after. tgpio_phc_art_to_ns (phc (dev (drv s))) a = Inr before \<and>
     tgpio_phc_art_to_ns (phc (dev (drv t))) a = Inr after \<and> sint after = sint before - 5"
proof -
  let ?s = "sim_mode TGPIO_CLOCK_PHC" and ?m = "tgpio_ptp_adjtime (sim_kernel 3) (- 5)"
  have r: "run_state ?m ?s = (0, exec_m ?m ?s)"
    by (rule prod_eqI, simp_all only: fst_conv snd_conv) code_simp
  show ?thesis using adjtime_exact_shift [OF _ _ r] by (auto simp: Let_def)
qed

lemma adjfine_continuous_witness:
  "scaled_ppm (phc (dev (drv (exec_m (tgpio_ptp_adjfine (sim_kernel 3) 65536) (sim_mode TGPIO_CLOCK_PHC))))) = 65536"
proof -
  let ?s = "sim_mode TGPIO_CLOCK_PHC" and ?m = "tgpio_ptp_adjfine (sim_kernel 3) 65536"
  have r: "run_state ?m ?s = (0, exec_m ?m ?s)"
    by (rule prod_eqI, simp_all only: fst_conv snd_conv) code_simp
  have "valid_phc (phc (dev (drv ?s)))"
    by (simp add: valid_phc_def phc_hz_def phc_ppb_def) code_simp
  from adjfine_continuous [OF _ this r] show ?thesis by simp
qed

lemma art_mode_refuses_witness:
  "exec_m (tgpio_ptp_adjfine (sim_kernel 3) 65536) (sim_mode TGPIO_CLOCK_ART) = sim_mode TGPIO_CLOCK_ART"
  using art_mode_refuses [of "sim_mode TGPIO_CLOCK_ART" "sim_kernel 3"] by simp

text \<open>An ART mode clock calibrated at ART 0 for 1 GHz, some time later.\<close>

definition sim_aged :: "u64 \<Rightarrow> s64 \<Rightarrow> world sys" where
  "sim_aged art raw = (let s = sim_mode TGPIO_CLOCK_ART in
     s\<lparr>drv := (drv s)\<lparr>cal := (cal (drv s))\<lparr>art_cal_base := 1000000000\<rparr>\<rparr>,
       kst := (kst s)\<lparr>w_art := art, w_real := raw\<rparr>\<rparr>)"

lemma sim_aged_simps:
  "clock_mode (par (drv (sim_aged art raw))) = TGPIO_CLOCK_ART"
  "art_calibration_param (par (drv (sim_aged art raw))) = ''raw''"
  "art_cal_base (cal (drv (sim_aged art raw))) = 1000000000"
  "art_cal_anchor_art (cal (drv (sim_aged art raw))) = 0"
  by (simp_all add: sim_aged_def Let_def sim_mode_def sim_sys_def sim_driver_def zero_calibration_def
      default_params_def)

lemma refine_continuous_witness:
  "let t = exec_m (tgpio_art_refine_work_fn (sim_kernel 3)) (sim_aged 10000000000 5000000000)
   in tgpio_phc_art_to_ns (phc (dev (drv t))) 10000000000 = Inr 10000000000 \<and>
      base_art_hz (phc (dev (drv t))) = 2000000000"
proof -
  let ?s = "sim_aged 10000000000 5000000000"
  have s: "result_of (tgpio_sample_art_raw (sim_kernel 3)) ?s =
      Inr \<lparr>smp_art = 10000000000, smp_raw = 5000000000, smp_clock_was_set_seq = 0\<rparr>" by code_simp
  have "tgpio_phc_art_to_ns (phc (dev (drv ?s))) 10000000000 = Inr 10000000000"
    "base_art_hz (phc (dev (drv (exec_m (tgpio_art_refine_work_fn (sim_kernel 3)) ?s)))) = 2000000000"
    by code_simp+
  then show ?thesis using refine_continuous [of ?s "sim_kernel 3"] by (simp add: sim_aged_simps s Let_def)
qed

lemma raw_refinement_freezes_witness:
  "let s = sim_aged 3600000000000 1800000000000
   in phc (dev (drv (exec_m (tgpio_art_refine_work_fn (sim_kernel 3)) s))) = phc (dev (drv s))"
proof -
  have s: "result_of (tgpio_sample_art_raw (sim_kernel 3)) (sim_aged 3600000000000 1800000000000) =
      Inr \<lparr>smp_art = 3600000000000, smp_raw = 1800000000000, smp_clock_was_set_seq = 0\<rparr>" by code_simp
  show ?thesis using raw_refinement_freezes [OF _ _ s] by (simp add: sim_aged_simps Let_def)
qed

section \<open>A clock step and the outputs\<close>

text \<open>
  C12. Setting the clock re-times the outputs: a running output that was in step with its
  configuration gets a new generation and its work scheduled, and one run of the work either
  arms it for that generation with its timer set or leaves it disabled with none.
\<close>

theorem settime_rearms_outputs:
  assumes "clock_mode (par (drv s)) = TGPIO_CLOCK_PHC"
    and "run_state (tgpio_ptp_settime64 K ts) s = (0, t)"
    and "b < 2" and "blk_mode (blocks (drv s) b) = TGPIO_MODE_OUTPUT"
    and "des_run (output_desired (blocks (drv s) b)) = TGPIO_OUTPUT_RUNNING"
    and "des_gen (output_desired (blocks (drv s) b)) = output_applied_gen (blocks (drv s) b)"
    and "des_flip_gen (output_desired (blocks (drv s) b)) = output_applied_flip_gen (blocks (drv s) b)"
  shows "let g = output_applied_gen (blocks (drv s) b) + 1;
      m = blocks (drv (exec_m (run_output_work K b) t)) b in
    output_work_pending (blocks (drv t) b) \<and> des_gen (output_desired m) = g \<and>
    (output_applied_gen m = g \<and> output_timer m \<noteq> None \<or>
     output_timer m = None \<and> output_phase m = TGPIO_OUTPUT_TOGGLE \<and> output_hw_piv m = 0)"
proof -
  let ?g = "output_applied_gen (blocks (drv s) b) + 1"
  from wp_run [OF wp_settime_phc [OF assms(1)] assms(2)]
  have m: "blocks (drv t) b = (output_desired_update bump_gen (blocks (drv s) b))\<lparr>output_work_pending := True\<rparr>"
    using assms(3-5) by (auto simp: stepped_def republished_def republish_block_def)
  have "wp (run_output_work K b) (\<lambda>_ u. let m = blocks (drv u) b in des_gen (output_desired m) = ?g \<and>
    (output_applied_gen m = ?g \<and> output_timer m \<noteq> None \<or>
     output_timer m = None \<and> output_phase m = TGPIO_OUTPUT_TOGGLE \<and> output_hw_piv m = 0)) t"
    unfolding run_output_work_def
    apply (simp add: wp_simps m)
    apply (rule wp_mono, rule wp_work_new_config [OF _ _ _ refl])
    using assms(5-7) m by (auto simp: Let_def)
  from wp_exec [OF this] show ?thesis using m by (simp add: Let_def)
qed

definition armed_block :: tgpio_mmio_block where
  "armed_block = configured_block\<lparr>output_applied_gen := 1\<rparr>"

lemma settime_rearms_outputs_witness:
  "let t = exec_m (tgpio_ptp_settime64 (sim_kernel 3) \<lparr>tv_sec = 5, tv_nsec = 7\<rparr>) (sim_sys armed_block running_engine []);
     m = blocks (drv (exec_m (run_output_work (sim_kernel 3) 0) t)) 0
   in des_gen (output_desired m) = 2"
proof -
  let ?s = "sim_sys armed_block running_engine []" and ?m = "tgpio_ptp_settime64 (sim_kernel 3) \<lparr>tv_sec = 5, tv_nsec = 7\<rparr>"
  have r: "run_state ?m ?s = (0, exec_m ?m ?s)"
    by (rule prod_eqI, simp_all only: fst_conv snd_conv) code_simp
  have "clock_mode (par (drv ?s)) = TGPIO_CLOCK_PHC" by (simp add: sim_sys_def sim_driver_def)
  from settime_rearms_outputs [OF this r, of 0] show ?thesis
    by (simp add: Let_def armed_block_def configured_block_def output_block_def zero_block_def zero_desired_def)
qed

end
