(* ===== verification/Output_Flow.thy ===== *)
theory Output_Flow
  imports Ptp_Props
begin

text \<open>
  How the operations of the loaded driver change an output's control state. A preorder on the
  driver's memory that the elementary updates follow is followed by every function built from
  them (\<open>memory_order\<close>); it is interpreted twice: entry points leave an output alone or schedule
  its work (\<open>undisturbed\<close>), and the work serves the published configuration and nothing else
  (\<open>serves\<close>). On hardware that provides the engine interface no loop of the work runs away.
\<close>

lemma keeps_desired_get [frame]: "keeps f (tgpio_output_desired_get b)"
  by (simp add: tgpio_output_desired_get_def keeps_readers)

section \<open>No loop of the output path runs away\<close>

context toggle_engine
begin

lemma read_compv_hung_frame [frame]: "keeps hung (tgpio_read_compv K b)"
  by (rule read_compv_hung)

lemma mmio_hung [frame]:
  "keeps hung (tgpio_readl K c off)" "keeps hung (tgpio_writel K c off v)"
  "keeps hung (tgpio_read_ctl K c)" "keeps hung (tgpio_write_ctl K c v)"
  "keeps hung (tgpio_write_compv K c w)" "keeps hung (tgpio_write_piv K c w)"
  by (auto simp: tgpio_readl_def tgpio_writel_def tgpio_read_ctl_def tgpio_write_ctl_def
      tgpio_write_compv_def tgpio_write_piv_def intro!: frame)

lemma fold_hung [frame]: "keeps hung (tgpio_hw_flop_fold K b)"
  by (auto simp: tgpio_hw_flop_fold_def intro!: frame)

lemma disable_hung [frame]: "keeps hung (tgpio_disable_output_hw K b)"
  by (auto simp: tgpio_disable_output_hw_def intro!: frame)

lemma program_hung [frame]: "keeps hung (tgpio_program_output_edge K b e bits)" "keeps hung (tgpio_clock_ns_to_compare_art K e)"
  "keeps hung (tgpio_prepare_output_timing K i p m f)"
  by (auto simp: tgpio_program_output_edge_def tgpio_clock_ns_to_compare_art_def tgpio_prepare_output_timing_def Let_def intro!: frame)


lemma hw_phase_hung [frame]:
  "keeps hung (tgpio_hw_periodic_phase_get K b g h)" "keeps hung (tgpio_log_output_quantization K b f h)"
  by (rule phase_get_hung quant_log_hung)+

lemma quiesce_hung [frame]: "keeps hung (output_quiesce K b)"
  by (auto simp: output_quiesce_def intro!: frame)

lemma arm_hung [frame]:
  "keeps hung (output_hw_start K b ctrl start piv0 f h l)" "keeps hung (tgpio_arm_output K b f p h l m)"
  by (auto simp: output_hw_start_def tgpio_arm_output_def intro!: frame)

lemma arm_hardware_hung [frame]: "keeps hung (tgpio_arm_hardware_periodic K b f h l)"
  by (auto simp: tgpio_arm_hardware_periodic_def arm_hw_program_def intro!: frame)

lemma reconcile_hung [frame]: "keeps hung (tgpio_reconcile_arm K b d)"
  by (auto simp: tgpio_reconcile_arm_def tgpio_log_output_arm_def intro!: frame)

lemma paused_hung [frame]: "keeps hung (tgpio_hw_periodic_write_compv_paused K b w)"
  by (auto simp: tgpio_hw_periodic_write_compv_paused_def intro!: frame)

lemma apply_freq_hung [frame]: "keeps hung (tgpio_hw_periodic_apply_freq K b d)"
  by (auto simp: tgpio_hw_periodic_apply_freq_def tgpio_log_rounding_interval_def intro!: frame)

lemma drain_loop_hung: "keeps hung (drain_loop n K b)"
  by (induction n) (auto intro!: frame)

lemma invert_wait_hung: "keeps hung (invert_wait_loop n K b)"
  by (induction n) (auto intro!: frame)

lemma drain_hung [frame]: "keeps hung (tgpio_hw_periodic_drain_low K b)"
  by (auto simp: tgpio_hw_periodic_drain_low_def intro!: frame drain_loop_hung)

lemma invert_hung [frame]: "keeps hung (tgpio_hw_periodic_invert K b)"
  by (auto simp: tgpio_hw_periodic_invert_def intro!: frame invert_wait_hung)

lemma duty_hung [frame]: "keeps hung (tgpio_hw_duty_service K b)"
  by (auto simp: tgpio_hw_duty_service_def intro!: frame)

lemma software_hung [frame]: "keeps hung (tgpio_output_software_edge K b)"
  by (auto simp: tgpio_output_software_edge_def intro!: frame)

lemma same_gen_hung [frame]: "keeps hung (tgpio_output_work_same_gen K b)"
  by (auto simp: tgpio_output_work_same_gen_def intro!: frame)

lemma output_work_hung: "keeps hung (tgpio_output_work K b)"
  by (auto simp: tgpio_output_work_def intro!: frame)

lemma watchdog_hung: "keeps hung (tgpio_watchdog_block K b)"
  by (auto simp: tgpio_watchdog_block_def intro!: frame)

end

section \<open>How an operation may change the state\<close>

text \<open>
  \<open>takes R m\<close>: the operation takes every state to one that is related to it by \<open>R\<close>. For a
  preorder \<open>R\<close> this is closed under the program constructs, so an operation respects \<open>R\<close> when
  its elementary steps do.
\<close>

definition takes :: "('k sys \<Rightarrow> 'k sys \<Rightarrow> bool) \<Rightarrow> ('k sys, 'a) state \<Rightarrow> bool" where
  "takes R m \<longleftrightarrow> (\<forall>s. R s (exec_m m s))"

lemma takesD: "takes R m \<Longrightarrow> R s (exec_m m s)"
  by (simp add: takes_def)

lemma takes_wp: "(\<And>s. wp m (\<lambda>_ t. R s t) s) \<Longrightarrow> takes R m"
  by (simp add: takes_def wp_def split_beta)

lemma wp_takes: "takes R m \<Longrightarrow> (\<And>r t. R s t \<Longrightarrow> Q r t) \<Longrightarrow> wp m Q s"
  by (simp add: takes_def wp_def split_beta)

locale sys_order =
  fixes R :: "'k sys \<Rightarrow> 'k sys \<Rightarrow> bool"
  assumes sys_refl: "R s s"
    and sys_trans: "R s t \<Longrightarrow> R t u \<Longrightarrow> R s u"
begin

lemma bind:
  assumes "takes R m" "\<And>a. takes R (g a)"
  shows "takes R (State_Monad.bind m g)"
  unfolding takes_def
proof
  fix s
  have "exec_m (State_Monad.bind m g) s = exec_m (g (result_of m s)) (exec_m m s)"
    by (cases "run_state m s") simp
  then show "R s (exec_m (State_Monad.bind m g) s)"
    using sys_trans [of s "exec_m m s"] assms by (simp add: takes_def)
qed

lemma return: "takes R (State_Monad.return a)"
  by (simp add: takes_def sys_refl)

lemma when_m: "takes R m \<Longrightarrow> takes R (when_m c m)"
  by (simp add: when_m_def return)

lemma if_then: "takes R m \<Longrightarrow> takes R n \<Longrightarrow> takes R (if c then m else n)"
  by simp

lemma case_sum:
  "(\<And>e. takes R (g e)) \<Longrightarrow> (\<And>v. takes R (h v)) \<Longrightarrow> takes R (case r of Inl e \<Rightarrow> g e | Inr v \<Rightarrow> h v)"
  by (simp split: sum.splits)

lemma case_option:
  "takes R g \<Longrightarrow> (\<And>v. takes R (h v)) \<Longrightarrow> takes R (case r of None \<Rightarrow> g | Some v \<Rightarrow> h v)"
  by (simp split: option.splits)

lemma case_prod: "(\<And>x y. takes R (g x y)) \<Longrightarrow> takes R (case p of (x, y) \<Rightarrow> g x y)"
  by (cases p) simp

lemma let_in: "(\<And>a. takes R (g a)) \<Longrightarrow> takes R (Let b g)"
  by (simp add: Let_def)

lemma for_each: "(\<And>i. takes R (g i)) \<Longrightarrow> takes R (for_each is g)"
  by (induction "is") (simp_all add: return bind)

lemmas constructs = bind return when_m if_then case_sum case_option case_prod let_in for_each

end

text \<open>A preorder on the driver's memory alone.\<close>

abbreviation moves :: "(driver \<Rightarrow> driver \<Rightarrow> bool) \<Rightarrow> ('k sys, 'a) state \<Rightarrow> bool" where
  "moves R \<equiv> takes (\<lambda>s t. R (drv s) (drv t))"

lemma movesD: "moves R m \<Longrightarrow> R (drv s) (drv (exec_m m s))"
  by (simp add: takes_def)

lemma moves_wp: "(\<And>s. wp m (\<lambda>_ t. R (drv s) (drv t)) s) \<Longrightarrow> moves R m"
  by (rule takes_wp)

lemma wp_moves: "moves R m \<Longrightarrow> (\<And>r t. R (drv s) (drv t) \<Longrightarrow> Q r t) \<Longrightarrow> wp m Q s"
  by (erule wp_takes)

locale memory_order =
  fixes R :: "driver \<Rightarrow> driver \<Rightarrow> bool"
  assumes refl: "R d d"
    and trans: "R d e \<Longrightarrow> R e f \<Longrightarrow> R d f"

sublocale memory_order \<subseteq> sys: sys_order "\<lambda>s t. R (drv s) (drv t)"
  by unfold_locales (rule refl, rule trans)

context memory_order
begin

lemma keeps: "keeps drv m \<Longrightarrow> moves R m"
  by (simp add: keeps_def takes_def refl)

lemma readers:
  "moves R (gets g0)" "moves R (param f1)" "moves R (get_dev f2)" "moves R (get_blk b f3)"
  "moves R (get_cal f4)" "moves R (liftk m)" "moves R (tgpio_output_desired_get b)"
  by (rule keeps, rule frame)+

lemma clock_reads:
  "moves R (ktime_get_real K)" "moves R (tgpio_get_current_art K)" "moves R (tgpio_clock_now_ns K)"
  "moves R (tgpio_clock_delta_to_real_ns d)" "moves R (tgpio_clock_delta_to_art_cycles K d)"
  "moves R (tgpio_prepare_output_timing K intv p m f)" "moves R tgpio_clock_uses_model"
  "moves R (tgpio_clock_phc_art_to_ns art)" "moves R (tgpio_clock_art_cycles_to_delta_ns K c)"
  "moves R (tgpio_sample_art_raw K)" "moves R (tgpio_sample_art_real K)" "moves R tgpio_art_cal_realtime"
  "moves R (tgpio_clock_ns_to_compare_art K ns)" "moves R (tgpio_hw_periodic_phase_get K i g h)"
  "moves R (tgpio_log_output_quantization K i fe h)" "moves R tgpio_log_activity_on" "moves R tgpio_log_rounding_on"
  "moves R (tgpio_log_output_arm K i des)" "moves R tgpio_output_phase_nudge_min_ns"
  "moves R (tgpio_program_output_edge K i e bits)"
  by (rule keeps; (rule frame | simp add: tgpio_art_cal_realtime_def keeps_readers))+

lemma mmio:
  "moves R (tgpio_readl K b off)" "moves R (tgpio_writel K b off v)" "moves R (tgpio_read_ctl K b)"
  "moves R (tgpio_write_ctl K b v)" "moves R (tgpio_write_compv K b w)" "moves R (tgpio_write_piv K b w)"
  "moves R (tgpio_read_compv K b)" "moves R (tgpio_read_capture K b)"
  by (rule keeps, rule frame)+

lemmas rules = sys.constructs readers clock_reads mmio

end

section \<open>Requests\<close>

text \<open>
  What the request protocol is about: the published configuration, whether the work is
  scheduled, the generation it last applied, and what it left running. An operation that is not
  the work either leaves a block's control state alone or has its work scheduled.
\<close>

abbreviation control :: "tgpio_mmio_block \<Rightarrow> tgpio_output_desired \<times> bool \<times> u32 \<times> s64 option \<times> tgpio_output_phase \<times> u64"
where
  "control m \<equiv> (output_desired m, output_work_pending m, output_applied_gen m, output_timer m, output_phase m, output_hw_piv m)"

definition undisturbed :: "driver \<Rightarrow> driver \<Rightarrow> bool" where
  "undisturbed d d' \<longleftrightarrow> (\<forall>b. output_work_pending (blocks d' b) \<or> control (blocks d' b) = control (blocks d b))"

interpretation resched: memory_order undisturbed
proof
  show "undisturbed d d" for d by (simp add: undisturbed_def)
  show "undisturbed d e \<Longrightarrow> undisturbed e f \<Longrightarrow> undisturbed d f" for d e f
    unfolding undisturbed_def by (metis Pair_inject)
qed

abbreviation reschedules :: "('k sys, 'a) state \<Rightarrow> bool" where
  "reschedules \<equiv> moves undisturbed"

named_theorems resched \<open>operations that leave the outputs alone or schedule their work\<close>

lemmas [resched] = resched.rules

lemma resched_updates [resched]: "reschedules (upd_dev f1)" "reschedules (upd_par f2)" "reschedules (upd_cal f3)"
  by (simp_all add: takes_def undisturbed_def upd_dev_def upd_par_def upd_cal_def)

lemma resched_upd_blk [resched]: "(\<And>m. control (f m) = control m) \<Longrightarrow> reschedules (upd_blk b f)"
  by (auto simp: takes_def undisturbed_def upd_blk_def)

text \<open>The publishers change the configuration and schedule the work.\<close>

lemma resched_publish_pair: "reschedules (do { upd_blk b f; schedule_work b })"
  by (simp add: takes_def undisturbed_def upd_blk_def schedule_work_def)

lemma resched_publishers [resched]:
  "reschedules (tgpio_disable_output b)" "reschedules (tgpio_output_publish b r m p h l f)"
  "reschedules (tgpio_output_timer b)" "reschedules (schedule_work b)"
  unfolding tgpio_disable_output_def tgpio_output_publish_def tgpio_output_timer_def
  by (rule resched_publish_pair)+ (simp add: takes_def undisturbed_def upd_blk_def schedule_work_def)

lemma undisturbed_republished: "undisturbed d (d\<lparr>blocks := republished bump (blocks d)\<rparr>)"
  by (simp add: undisturbed_def republished_def republish_block_def)

lemma resched_republish [resched]:
  "reschedules tgpio_resync_outputs_after_phc_step" "reschedules tgpio_update_outputs_after_phc_freq"
  by (rule moves_wp, simp add: wp_simps undisturbed_republished)+

subsection \<open>Every entry point of the driver\<close>

lemma resched_invert_write [resched]: "reschedules (tgpio_output_invert_write b parsed count)"
  by (auto simp: tgpio_output_invert_write_def intro!: resched resched_publish_pair)

lemma resched_tdc_reset [resched]: "reschedules (tgpio_tdc_reset_write parsed count)"
  by (auto simp: tgpio_tdc_reset_write_def intro!: resched)

lemma resched_oneshot [resched]: "reschedules (tgpio_oneshot_write K b parsed count)" "reschedules (tgpio_oneshot_stop_work_fn b)"
  by (auto simp: tgpio_oneshot_write_def tgpio_oneshot_stop_work_fn_def Let_def intro!: resched)

lemma resched_config_values [resched]: "reschedules (tgpio_config_output_values K c p d v f on)"
  by (auto simp: tgpio_config_output_values_def trace_defs intro!: resched)

lemma resched_config_output [resched]: "reschedules (tgpio_config_output K perout on)"
  by (auto simp: tgpio_config_output_def Let_def intro!: resched)

lemma resched_config_input [resched]: "reschedules (tgpio_config_input c flags on)"
  by (auto simp: tgpio_config_input_def intro!: resched)

lemma resched_ptp_enable [resched]: "reschedules (tgpio_ptp_enable K req on)"
  by (auto simp: tgpio_ptp_enable_def intro!: resched split: ptp_clock_request.split)

lemma resched_clock_ops [resched]:
  "reschedules (tgpio_ptp_settime64 K ts)" "reschedules (tgpio_ptp_adjtime K delta)" "reschedules (tgpio_ptp_adjfine K ppm)"
  by (auto simp: tgpio_ptp_settime64_def trace_defs tgpio_ptp_adjtime_def tgpio_ptp_adjfine_def tgpio_realtime_adjtime_def
      tgpio_realtime_adjfine_def Let_def intro!: resched)


lemma resched_refine [resched]: "reschedules (tgpio_art_refine_work_fn K)"
  by (auto simp: tgpio_art_refine_work_fn_def art_refine_realtime_def art_refine_apply_def intro!: resched)

lemma resched_input [resched]:
  "reschedules (tgpio_emit_event K b i art)" "reschedules (tgpio_take_crosststamp K)" "reschedules (tgpio_apply_input K b d)"
  "reschedules (tgpio_pps_emit K b art)" "reschedules (tgpio_tdc_capture K b art ev)" "reschedules tgpio_poll_interval_ms"
  by (auto simp: tgpio_emit_event_def tgpio_take_crosststamp_def tgpio_apply_input_def tgpio_pps_emit_def
      tgpio_tdc_capture_def tgpio_poll_interval_ms_def tgpio_poll_time_def count_fallback_def trace_defs tgpio_art_to_realtime_ns_def
      tgpio_get_realtime_snapshot_def
      intro!: resched )

lemma resched_auto_polarity [resched]: "reschedules (tgpio_auto_polarity_check b ns)"
  by (auto simp: tgpio_auto_polarity_check_def intro!: resched resched_publish_pair split: polarity_verdict.split)

lemma resched_stats [resched]: "reschedules (tgpio_input_stats_update K b art)"
  by (auto simp: tgpio_input_stats_update_def interval_add_def Let_def intro!: resched)

lemma resched_poll [resched]: "reschedules (tgpio_poll_work K)"
  by (auto simp: tgpio_poll_work_def tgpio_poll_block_def tgpio_poll_capture_def
      intro!: resched)

lemma resched_watchdog [resched]: "reschedules (tgpio_watchdog_work_fn K)"
  by (auto simp: tgpio_watchdog_work_fn_def tgpio_watchdog_block_def
      intro!: resched)


section \<open>The work\<close>

text \<open>
  What the work may do while it serves the configuration of generation \<open>g\<close>: it leaves the other
  blocks, the configuration and the pending flag alone, and the only generation it can record
  as applied is \<open>g\<close>.
\<close>

definition serves :: "nat \<Rightarrow> u32 \<Rightarrow> driver \<Rightarrow> driver \<Rightarrow> bool" where
  "serves b g d d' \<longleftrightarrow> des_gen (output_desired (blocks d b)) = g \<longrightarrow>
    (\<forall>c. c \<noteq> b \<longrightarrow> blocks d' c = blocks d c) \<and>
    output_desired (blocks d' b) = output_desired (blocks d b) \<and>
    output_work_pending (blocks d' b) = output_work_pending (blocks d b) \<and>
    output_applied_gen (blocks d' b) \<in> {output_applied_gen (blocks d b), g}"

interpretation served: memory_order "serves b g" for b g
  by unfold_locales (auto simp: serves_def)

named_theorems servd \<open>operations that only serve the published configuration\<close>

lemmas [servd] = served.rules

abbreviation config :: "tgpio_mmio_block \<Rightarrow> tgpio_output_desired \<times> bool" where
  "config m \<equiv> (output_desired m, output_work_pending m)"

lemma served_upd_blk [servd]:
  "(\<And>m. config (f m) = config m \<and> output_applied_gen (f m) \<in> {output_applied_gen m, g}) \<Longrightarrow> moves (serves b g) (upd_blk b f)"
  by (auto simp: takes_def serves_def upd_blk_def)

lemma served_desired [servd]:
  assumes "\<And>d. des_gen d = g \<Longrightarrow> moves (serves b g) (h d)"
  shows "moves (serves b g) (do { d \<leftarrow> tgpio_output_desired_get b; h d })"
  using assms by (auto simp: takes_def serves_def tgpio_output_desired_get_def)

lemma served_timer [servd]: "moves (serves b g) (hrtimer_cancel b)" "moves (serves b g) (tgpio_output_wake_at b w)"
  by (auto simp: hrtimer_cancel_def tgpio_output_wake_at_def intro!: servd)

lemma served_fold [servd]: "moves (serves b g) (tgpio_hw_flop_fold K b)"
  by (auto simp: tgpio_hw_flop_fold_def intro!: servd)

lemma served_disable [servd]: "moves (serves b g) (tgpio_disable_output_hw K b)"
  by (auto simp: tgpio_disable_output_hw_def intro!: servd)

lemma served_arm [servd]:
  "moves (serves b g) (output_quiesce K b)" "moves (serves b g) (output_hw_start K b ctrl start piv0 f h l)"
  by (auto simp: output_quiesce_def output_hw_start_def intro!: servd)

lemma served_arm_output [servd]:
  "moves (serves b g) (tgpio_arm_output K b f p h l m)" "moves (serves b g) (tgpio_arm_hardware_periodic K b f h l)"
  by (auto simp: tgpio_arm_output_def tgpio_arm_hardware_periodic_def arm_hw_program_def intro!: servd)

lemma served_reconcile [servd]: "des_gen d = g \<Longrightarrow> moves (serves b g) (tgpio_reconcile_arm K b d)"
  by (auto simp: tgpio_reconcile_arm_def intro!: servd)

lemma served_paused [servd]: "moves (serves b g) (tgpio_hw_periodic_write_compv_paused K b w)"
  by (auto simp: tgpio_hw_periodic_write_compv_paused_def intro!: servd)

lemma served_apply_freq [servd]: "des_gen d = g \<Longrightarrow> moves (serves b g) (tgpio_hw_periodic_apply_freq K b d)"
  by (auto simp: tgpio_hw_periodic_apply_freq_def tgpio_log_rounding_interval_def intro!: servd)

lemma served_loops [servd]: "moves (serves b g) (drain_loop n K b)" "moves (serves b g) (invert_wait_loop n K b)"
  by (induction n) (auto intro!: servd)

lemma served_drain [servd]: "moves (serves b g) (tgpio_hw_periodic_drain_low K b)"
  by (auto simp: tgpio_hw_periodic_drain_low_def intro!: servd)

lemma served_invert [servd]: "moves (serves b g) (tgpio_hw_periodic_invert K b)"
  by (auto simp: tgpio_hw_periodic_invert_def intro!: servd)

lemma served_duty [servd]: "moves (serves b g) (tgpio_hw_duty_service K b)"
  by (auto simp: tgpio_hw_duty_service_def intro!: servd)

lemma served_software [servd]: "moves (serves b g) (tgpio_output_software_edge K b)"
  by (auto simp: tgpio_output_software_edge_def intro!: servd)

lemma served_same_gen [servd]: "moves (serves b g) (tgpio_output_work_same_gen K b)"
  by (auto simp: tgpio_output_work_same_gen_def intro!: servd)

lemma served_work: "moves (serves b g) (tgpio_output_work K b)"
  by (auto simp: tgpio_output_work_def intro!: servd)


text \<open>An output that is down: no timer, not free-running, no interval.\<close>

definition down :: "tgpio_mmio_block \<Rightarrow> bool" where
  "down m \<longleftrightarrow> output_timer m = None \<and> output_hw_piv m = 0 \<and>
    output_phase m \<noteq> TGPIO_OUTPUT_HARDWARE_PERIODIC \<and> output_phase m \<noteq> TGPIO_OUTPUT_HW_DUTY"

definition honoured :: "tgpio_mmio_block \<Rightarrow> bool" where
  "honoured m \<longleftrightarrow> (case des_run (output_desired m) of
     TGPIO_OUTPUT_STOPPED \<Rightarrow> down m
   | TGPIO_OUTPUT_RUNNING \<Rightarrow> output_applied_gen m = des_gen (output_desired m) \<or> down m)"

lemma wp_work_stopped:
  assumes "des_run (output_desired (blocks (drv s) b)) = TGPIO_OUTPUT_STOPPED"
  shows "wp (tgpio_output_work K b) (\<lambda>_ t. down (blocks (drv t) b)) s"
  using assms unfolding tgpio_output_work_def tgpio_output_desired_get_def hrtimer_cancel_def
  apply (simp add: wp_bind wp_get_blk wp_upd_blk wp_if)
  apply (rule wp_keeps [OF keeps_drain_blk [of output_timer b]], simp, simp)
  apply (rule wp_disable_state)
  apply (simp add: down_def)
  done

lemma served_applied:
  assumes "moves (serves b g) m" "des_gen (output_desired (blocks (drv s) b)) = g" "output_applied_gen (blocks (drv s) b) = g"
  shows "wp m (\<lambda>_ t. output_applied_gen (blocks (drv t) b) = g) s"
  by (rule wp_moves [OF assms(1)]) (use assms(2,3) in \<open>auto simp: serves_def\<close>)

lemma wp_work_running:
  assumes "des_run (output_desired (blocks (drv s) b)) = TGPIO_OUTPUT_RUNNING"
    and g: "g = des_gen (output_desired (blocks (drv s) b))"
  shows "wp (tgpio_output_work K b) (\<lambda>_ t. output_applied_gen (blocks (drv t) b) = g \<or> down (blocks (drv t) b)) s"
    (is "wp _ ?Q s")
proof -
  let ?d = "output_desired (blocks (drv s) b)"
  have reconcile: "wp (tgpio_reconcile_arm K b ?d) ?Q t" for t
    by (rule wp_reconcile) (auto simp: g down_def)
  have rest: "wp (do {
       upd_blk b (output_applied_flip_gen_update (\<lambda>_. des_flip_gen ?d));
       applied_gen \<leftarrow> get_blk b output_applied_gen;
       if des_gen ?d \<noteq> applied_gen then tgpio_reconcile_arm K b ?d
       else do {
         applied_freq_gen \<leftarrow> get_blk b output_applied_freq_gen;
         phase \<leftarrow> get_blk b output_phase;
         if des_freq_gen ?d \<noteq> applied_freq_gen then do {
           upd_blk b (output_applied_freq_gen_update (\<lambda>_. des_freq_gen ?d));
           if phase = TGPIO_OUTPUT_HARDWARE_PERIODIC
           then tgpio_hw_periodic_apply_freq K b ?d
           else if phase = TGPIO_OUTPUT_HW_DUTY then ret ()
           else if phase = TGPIO_OUTPUT_ARM_PERIODIC then do {
             now \<leftarrow> ktime_get_real K;
             wake_at \<leftarrow> get_blk b output_wake_at_time;
             if now <s wake_at then ret () else tgpio_output_work_same_gen K b
           }
           else tgpio_output_work_same_gen K b
         }
         else tgpio_output_work_same_gen K b
       }
     }) ?Q t" if t: "output_desired (blocks (drv t) b) = ?d" for t
  proof (cases "output_applied_gen (blocks (drv t) b) = g")
    case False
    then show ?thesis by (simp add: wp_bind wp_get_blk wp_upd_blk wp_if reconcile [unfolded g] g)
  next
    case True
    show ?thesis
      by (rule wp_mono, rule served_applied [of b g])
        (use t True g in \<open>auto intro!: servd split: if_splits\<close>)
  qed
  show ?thesis
    unfolding tgpio_output_work_def tgpio_output_desired_get_def wp_bind [of "get_blk _ _"] wp_get_blk wp_if
      wp_bind [of "when_m _ _"]
    apply (simp add: assms(1))
    apply (rule wp_moves [of "serves b g"], intro servd)
    apply (rule rest)
    apply (simp add: serves_def g)
    done
qed

lemma work_settles:
  "wp (run_output_work K b) (\<lambda>_ t. (\<forall>c. c \<noteq> b \<longrightarrow> blocks (drv t) c = blocks (drv s) c) \<and>
    output_desired (blocks (drv t) b) = output_desired (blocks (drv s) b) \<and>
    (output_work_pending (blocks (drv s) b) \<longrightarrow>
       \<not> output_work_pending (blocks (drv t) b) \<and> honoured (blocks (drv t) b)) \<and>
    (\<not> output_work_pending (blocks (drv s) b) \<longrightarrow> drv t = drv s)) s"
proof (cases "output_work_pending (blocks (drv s) b)")
  case False
  then show ?thesis by (simp add: run_output_work_def wp_simps)
next
  case True
  define u where "u = s\<lparr>drv := (drv s)\<lparr>blocks := (blocks (drv s))(b := (blocks (drv s) b)\<lparr>output_work_pending := False\<rparr>)\<rparr>\<rparr>"
  let ?g = "des_gen (output_desired (blocks (drv s) b))"
  have frame: "wp (tgpio_output_work K b) (\<lambda>_ t. serves b ?g (drv u) (drv t)) u"
    using served_work by (rule wp_moves)
  have down: "wp (tgpio_output_work K b) (\<lambda>_ t. des_run (output_desired (blocks (drv s) b)) = TGPIO_OUTPUT_STOPPED \<longrightarrow>
      down (blocks (drv t) b)) u"
    using wp_work_stopped [of u b K] by (cases "des_run (output_desired (blocks (drv s) b))") (auto simp: u_def wp_simps)
  have run: "wp (tgpio_output_work K b) (\<lambda>_ t. des_run (output_desired (blocks (drv s) b)) = TGPIO_OUTPUT_RUNNING \<longrightarrow>
      output_applied_gen (blocks (drv t) b) = ?g \<or> down (blocks (drv t) b)) u"
    using wp_work_running [of u b ?g K] by (cases "des_run (output_desired (blocks (drv s) b))") (auto simp: u_def wp_simps)
  have "wp (tgpio_output_work K b) (\<lambda>_ t. (\<forall>c. c \<noteq> b \<longrightarrow> blocks (drv t) c = blocks (drv s) c) \<and>
    output_desired (blocks (drv t) b) = output_desired (blocks (drv s) b) \<and>
       \<not> output_work_pending (blocks (drv t) b) \<and> honoured (blocks (drv t) b)) u"
    by (rule wp_mono [OF conjI [OF frame conjI [OF down run], folded wp_conj]])
      (auto simp: serves_def u_def honoured_def split: tgpio_output_run.split)
  then show ?thesis using True by (simp add: run_output_work_def wp_simps u_def)
qed

end
