(* ===== verification/Output_Control.thy ===== *)
theory Output_Control
  imports Output_Flow
begin

text \<open>
  The loaded driver as a state machine, the protocol its outputs follow (a configuration is
  published, waits for the work, and is taken up or refused), the refinement of that protocol
  by the driver, and the invariant that no request is lost.
\<close>

section \<open>Runs of the loaded driver\<close>

text \<open>
  A step of the loaded driver: an entry point runs (a request through the PTP clock or debugfs,
  a write to a module parameter, a due work or timer), the output work runs, or the world moves on by itself.
\<close>

inductive entry_step :: "'k kernel \<Rightarrow> 'k sys \<Rightarrow> 'k sys \<Rightarrow> bool" for K where
  enable: "entry_step K s (exec_m (tgpio_ptp_enable K req on) s)"
| settime: "entry_step K s (exec_m (tgpio_ptp_settime64 K ts) s)"
| adjtime: "entry_step K s (exec_m (tgpio_ptp_adjtime K delta) s)"
| adjfine: "entry_step K s (exec_m (tgpio_ptp_adjfine K ppm) s)"
| invert: "entry_step K s (exec_m (tgpio_output_invert_write b parsed count) s)"
| oneshot: "entry_step K s (exec_m (tgpio_oneshot_write K b pulse count) s)"
| oneshot_stop: "entry_step K s (exec_m (tgpio_oneshot_stop_work_fn b) s)"
| tdc_reset: "entry_step K s (exec_m (tgpio_tdc_reset_write parsed count) s)"
| poll: "entry_step K s (exec_m (tgpio_poll_work K) s)"
| refine: "entry_step K s (exec_m (tgpio_art_refine_work_fn K) s)"
| watchdog: "entry_step K s (exec_m (tgpio_watchdog_work_fn K) s)"
| param_write: "entry_step K s (exec_m (upd_par (tgpio_param_write q)) s)"
| timer: "output_timer (blocks (drv s) b) = Some w \<Longrightarrow> entry_step K s (exec_m (tgpio_output_timer b) s)"

inductive driver_step :: "'k kernel \<Rightarrow> 'k sys \<Rightarrow> 'k sys \<Rightarrow> bool" for K where
  entry: "entry_step K s t \<Longrightarrow> driver_step K s t"
| work: "driver_step K s (exec_m (run_output_work K b) s)"
| world: "driver_step K s (s\<lparr>kst := k\<rparr>)"

abbreviation driver_run :: "'k kernel \<Rightarrow> 'k sys \<Rightarrow> 'k sys \<Rightarrow> bool" where
  "driver_run K \<equiv> (driver_step K)\<^sup>*\<^sup>*"

text \<open>Every step but a run of the work leaves the blocks alone or schedules their work.\<close>

lemma entry_undisturbed: "entry_step K s t \<Longrightarrow> undisturbed (drv s) (drv t)"
  by (erule entry_step.cases) (simp only:, rule movesD, rule resched)+

lemma step_cases:
  assumes "driver_step K s t"
  obtains (request) "undisturbed (drv s) (drv t)"
    | (work) b where "t = exec_m (run_output_work K b) s"
  using assms
proof cases
  case world
  then show ?thesis using request by (simp add: undisturbed_def)
next
  case work
  then show ?thesis using that by blast
next
  case entry
  then show ?thesis using request entry_undisturbed by blast
qed

section \<open>The request protocol\<close>

text \<open>
  The abstract view of an output: the configuration last published, and whether it is waiting
  for the work, taken up by it, or refused.
\<close>

datatype request_state = Waiting | Taken | Refused

definition request_of :: "tgpio_mmio_block \<Rightarrow> tgpio_output_desired \<times> request_state" where
  "request_of m = (output_desired m,
    if output_work_pending m then Waiting
    else if des_run (output_desired m) = TGPIO_OUTPUT_STOPPED \<or>
       output_applied_gen m = des_gen (output_desired m) then Taken
    else Refused)"

inductive request_step :: "tgpio_output_desired \<times> request_state \<Rightarrow> tgpio_output_desired \<times> request_state \<Rightarrow> bool" where
  publish: "request_step (c, q) (c', Waiting)"
| serve: "request_step (c, Waiting) (c, Taken)"
| refuse: "des_run c = TGPIO_OUTPUT_RUNNING \<Longrightarrow> request_step (c, Waiting) (c, Refused)"

lemma undisturbedD:
  "undisturbed d d' \<Longrightarrow> \<not> output_work_pending (blocks d' b) \<Longrightarrow> control (blocks d' b) = control (blocks d b)"
  unfolding undisturbed_def by blast

lemma request_undisturbed:
  assumes "undisturbed (drv s) (drv t)"
  shows "request_of (blocks (drv t) b) = request_of (blocks (drv s) b) \<or>
    request_step (request_of (blocks (drv s) b)) (request_of (blocks (drv t) b))"
proof (cases "output_work_pending (blocks (drv t) b)")
  case True
  then show ?thesis
    by (cases "request_of (blocks (drv s) b)") (simp add: request_of_def request_step.intros)
next
  case False
  then have "control (blocks (drv t) b) = control (blocks (drv s) b)"
    using undisturbedD [OF assms] by simp
  then have "request_of (blocks (drv t) b) = request_of (blocks (drv s) b)"
    by (simp add: request_of_def)
  then show ?thesis by simp
qed

lemma request_work:
  assumes "t = exec_m (run_output_work K b) s"
  shows "request_of (blocks (drv t) c) = request_of (blocks (drv s) c) \<or>
    request_step (request_of (blocks (drv s) c)) (request_of (blocks (drv t) c))"
proof -
  have w: "(\<forall>c. c \<noteq> b \<longrightarrow> blocks (drv t) c = blocks (drv s) c) \<and>
    output_desired (blocks (drv t) b) = output_desired (blocks (drv s) b) \<and>
    (output_work_pending (blocks (drv s) b) \<longrightarrow>
       \<not> output_work_pending (blocks (drv t) b) \<and> honoured (blocks (drv t) b)) \<and>
    (\<not> output_work_pending (blocks (drv s) b) \<longrightarrow> drv t = drv s)"
    using wp_exec [OF work_settles [of K b s]] assms by simp
  show ?thesis
    using w by (cases "c = b"; cases "output_work_pending (blocks (drv s) b)";
        cases "des_run (output_desired (blocks (drv s) b))")
      (auto simp: request_of_def request_step.intros)
qed

lemma request_driver_step:
  "driver_step K s t \<Longrightarrow> request_of (blocks (drv t) b) = request_of (blocks (drv s) b) \<or>
    request_step (request_of (blocks (drv s) b)) (request_of (blocks (drv t) b))"
  by (erule step_cases) (erule request_undisturbed request_work)+

text \<open>
  C6. The driver refines the request protocol: projected to an output, any run of requests,
  works, timers and clock changes is a run of the abstract machine, in which a configuration is
  published as waiting and only the work, which never changes it, takes it up or refuses it.
\<close>

theorem driver_refines_requests:
  assumes "driver_run K s t"
  shows "request_step\<^sup>*\<^sup>* (request_of (blocks (drv s) b)) (request_of (blocks (drv t) b))"
  using assms
proof (induction rule: rtranclp_induct)
  case (step t u)
  then show ?case using request_driver_step [OF step(2), of b] by (auto intro: rtranclp.rtrancl_into_rtrancl)
qed simp

definition settled :: "tgpio_mmio_block \<Rightarrow> bool" where
  "settled m \<longleftrightarrow> output_work_pending m \<or> honoured m"

lemma settled_cong: "control m' = control m \<Longrightarrow> settled m' = settled m"
  by (simp add: settled_def honoured_def down_def split: tgpio_output_run.split)

lemma settled_step:
  assumes "driver_step K s t" "\<And>c. settled (blocks (drv s) c)"
  shows "settled (blocks (drv t) c)"
  using assms(1)
proof (cases rule: step_cases)
  case request
  show ?thesis
  proof (cases "output_work_pending (blocks (drv t) c)")
    case False
    then have "control (blocks (drv t) c) = control (blocks (drv s) c)"
      using undisturbedD [OF request] by simp
    then show ?thesis using assms(2) [of c] settled_cong by metis
  qed (simp add: settled_def)
next
  case (work b)
  then show ?thesis using wp_exec [OF work_settles [of K b s]] assms(2) [of c]
    by (cases "c = b"; cases "output_work_pending (blocks (drv s) b)") (auto simp: settled_def)
qed

text \<open>
  C5. No request is lost: in every run of the loaded driver, a block without scheduled work has
  honoured its configuration: a stopped output is down, and a running one has been taken up in
  its latest generation or is down because it could not be armed.
\<close>

theorem no_request_lost:
  assumes "driver_run K s t" and "\<And>c. settled (blocks (drv s) c)" and "\<not> output_work_pending (blocks (drv t) b)"
  shows "honoured (blocks (drv t) b)"
proof -
  have "settled (blocks (drv t) c)" for c
    using assms(1) by (induction arbitrary: c rule: rtranclp_induct) (use assms(2) settled_step in blast)+
  then show ?thesis using assms(3) by (auto simp: settled_def)
qed


definition waiting_block :: tgpio_mmio_block where
  "waiting_block = configured_block\<lparr>output_work_pending := True\<rparr>"

lemma waiting_block_simps:
  "output_work_pending waiting_block" "request_of waiting_block = (output_desired waiting_block, Waiting)"
  by (simp_all add: request_of_def waiting_block_def)

lemma work_run: "driver_run K s (exec_m (run_output_work K b) s)"
  by (rule r_into_rtranclp, rule driver_step.work)

lemma driver_refines_requests_witness:
  "let s = sim_sys waiting_block idle_engine []; t = exec_m (run_output_work (sim_kernel 3) 0) s
   in request_step\<^sup>*\<^sup>* (output_desired waiting_block, Waiting) (request_of (blocks (drv t) 0))"
  using driver_refines_requests [OF work_run, of "sim_sys waiting_block idle_engine []" 0 "sim_kernel 3" 0]
  by (simp add: Let_def waiting_block_simps)

lemma no_request_lost_witness:
  "let s = sim_sys waiting_block idle_engine []; t = exec_m (run_output_work (sim_kernel 3) 0) s
   in honoured (blocks (drv t) 0)"
proof -
  let ?s = "sim_sys waiting_block idle_engine []"
  let ?t = "exec_m (run_output_work (sim_kernel 3) 0) ?s"
  have a: "\<And>c. settled (blocks (drv ?s) c)" by (simp add: settled_def waiting_block_simps)
  have b: "\<not> output_work_pending (blocks (drv ?t) 0)"
    using wp_exec [OF work_settles [of "sim_kernel 3" 0 ?s]] by (simp add: waiting_block_simps)
  show ?thesis using no_request_lost [OF work_run a b] by (simp add: Let_def)
qed

text \<open>
  C8. The output work and the watchdog always return: on every hardware that provides the engine
  interface no retry loop uses up its bound.
\<close>

theorem output_work_returns:
  assumes "toggle_engine K b ctl compv piv level later"
  shows "hung (exec_m (tgpio_output_work K b) s) = hung s \<and> hung (exec_m (tgpio_watchdog_block K b) s) = hung s"
  using toggle_engine.output_work_hung [OF assms] toggle_engine.watchdog_hung [OF assms] by (simp add: keeps_def)

lemma output_work_returns_witness:
  "\<not> hung (exec_m (tgpio_output_work (sim_kernel (2 ^ 32)) 0) (sim_sys running_block running_engine [3, 1, 4, 1, 5]))"
  using output_work_returns [OF sim.toggle_engine_axioms [of 0], of "sim_sys running_block running_engine [3, 1, 4, 1, 5]"]
  by (simp add: sim_sys_def)

end
