(* ===== verification/Level_Mirror.thy ===== *)
theory Level_Mirror
  imports Output_Control
begin

text \<open>
  The software mirror of the level flop under any timing of the edges: every operation of the
  output path but the rewriting of a free-running block's registers keeps it exact, whenever
  edges fire.
\<close>

section \<open>Exact mirrors\<close>

lemma wp_ifI: "(c \<Longrightarrow> wp m Q s) \<Longrightarrow> (\<not> c \<Longrightarrow> wp n Q s) \<Longrightarrow> wp (if c then m else n) Q s"
  by simp

lemma wp_when_mI: "(c \<Longrightarrow> wp m Q s) \<Longrightarrow> (\<not> c \<Longrightarrow> Q () s) \<Longrightarrow> wp (when_m c m) Q s"
  by (simp add: wp_when_m)

lemma mirrored_cong:
  "output_phase m = output_phase m' \<Longrightarrow> output_hw_piv m = output_hw_piv m' \<Longrightarrow>
    output_hw_ckpt_compv m = output_hw_ckpt_compv m' \<Longrightarrow> output_hw_flop_high m = output_hw_flop_high m' \<Longrightarrow>
    mirrored m c cv p lv = mirrored m' c cv p lv"
  by (simp add: mirrored_def)

text \<open>The part of a block the level mirror is about.\<close>

definition mirror_part :: "tgpio_mmio_block \<Rightarrow> tgpio_output_phase \<times> u64 \<times> u64 \<times> bool \<times> u64 \<times> u64" where
  "mirror_part m = (output_phase m, output_hw_piv m, output_hw_ckpt_compv m, output_hw_flop_high m,
    output_high_time_ns m, output_low_time_ns m)"

text \<open>The block's waveform is symmetric and its level is known.\<close>

definition mirror_ok :: "nat \<Rightarrow> ('k \<Rightarrow> u32) \<Rightarrow> ('k \<Rightarrow> u64) \<Rightarrow> ('k \<Rightarrow> u64) \<Rightarrow> ('k \<Rightarrow> bool) \<Rightarrow> 'k sys \<Rightarrow> bool" where
  "mirror_ok b ctl compv piv level s \<longleftrightarrow>
    mirrored (blocks (drv s) b) (ctl (kst s)) (compv (kst s)) (piv (kst s)) (level (kst s)) \<and>
    output_high_time_ns (blocks (drv s) b) = output_low_time_ns (blocks (drv s) b)"

text \<open>Arming leaves a symmetric waveform symmetric.\<close>

definition symmetric :: "nat \<Rightarrow> driver \<Rightarrow> bool" where
  "symmetric b d \<longleftrightarrow> output_high_time_ns (blocks d b) = output_low_time_ns (blocks d b)"

interpretation symm: memory_order "\<lambda>d d'. symmetric b d \<longrightarrow> symmetric b d'" for b
  by unfold_locales auto

lemma symm_upd_blk:
  "(\<And>m. output_high_time_ns m = output_low_time_ns m \<Longrightarrow> output_high_time_ns (f m) = output_low_time_ns (f m)) \<Longrightarrow>
    moves (\<lambda>d d'. symmetric b d \<longrightarrow> symmetric b d') (upd_blk b f)"
  by (auto simp: takes_def symmetric_def upd_blk_def)

lemma symm_arm: "moves (\<lambda>d d'. symmetric b d \<longrightarrow> symmetric b d') (tgpio_arm_hardware_periodic K b first h h)"
  by (auto simp: tgpio_arm_hardware_periodic_def arm_hw_program_def output_quiesce_def output_hw_start_def
      tgpio_hw_flop_fold_def tgpio_output_wake_at_def intro!: symm.rules symm_upd_blk)

context toggle_engine
begin

text \<open>The engine seen with its level inverted is an engine too.\<close>

lemma inverted: "toggle_engine K b ctl compv piv (\<lambda>k. level k \<noteq> f) later"
proof (cases f)
  case True
  show ?thesis
  proof unfold_locales
    show "\<exists>k1 k2. later k k1 \<and> later k2 (snd (run_state (k_writel K b TGPIOCTL v) k)) \<and> ctl k2 = v \<and>
        compv k2 = compv k1 \<and> piv k2 = piv k1 \<and> (level k2 \<noteq> f) = (level k1 \<noteq> f)" for k v
      using write_ctl by metis
    show "\<not> engine_on (ctl k) \<Longrightarrow> \<exists>k1 k2. later k k1 \<and> later k2 (snd (run_state (k_writel K b TGPIOCOMPV63_32 v) k))
        \<and> ctl k2 = ctl k1 \<and> compv k2 = combine_32 v (lower_32_bits (compv k1)) \<and> piv k2 = piv k1 \<and>
        (level k2 \<noteq> f) = (level k1 \<noteq> f)" for k v
      using write_compv_hi by metis
    show "\<not> engine_on (ctl k) \<Longrightarrow> \<exists>k1 k2. later k k1 \<and> later k2 (snd (run_state (k_writel K b TGPIOCOMPV31_0 v) k))
        \<and> ctl k2 = ctl k1 \<and> compv k2 = combine_32 (upper_32_bits (compv k1)) v \<and> piv k2 = piv k1 \<and>
        (level k2 \<noteq> f) = (level k1 \<noteq> f)" for k v
      using write_compv_lo by metis
    show "\<exists>k1 k2. later k k1 \<and> later k2 (snd (run_state (k_writel K b TGPIOPIV63_32 v) k))
        \<and> ctl k2 = ctl k1 \<and> compv k2 = compv k1 \<and>
        piv k2 = combine_32 v (lower_32_bits (piv k1)) \<and> (level k2 \<noteq> f) = (level k1 \<noteq> f)" for k v
      using write_piv_hi by metis
    show "\<exists>k1 k2. later k k1 \<and> later k2 (snd (run_state (k_writel K b TGPIOPIV31_0 v) k))
        \<and> ctl k2 = ctl k1 \<and> compv k2 = compv k1 \<and>
        piv k2 = combine_32 (upper_32_bits (piv k1)) v \<and> (level k2 \<noteq> f) = (level k1 \<noteq> f)" for k v
      using write_piv_lo by metis
    show "later k k' \<Longrightarrow> ctl k' = ctl k \<and> piv k' = piv k \<and>
      (\<exists>n. unat (compv k') = unat (compv k) + n * unat (piv k) \<and>
         (level k' \<noteq> f) = ((level k \<noteq> f) \<noteq> odd n) \<and> (0 < n \<longrightarrow> engine_on (ctl k)))" for k k'
      using later_edges by metis
  qed ((erule later_trans, assumption) | rule later_refl read_ctl read_compv_hi read_compv_lo snapshot_later
      real_later to_art_later sleep_later enough_retries)+
next
  case False
  then have "(\<lambda>k. level k \<noteq> f) = level" by (simp add: fun_eq_iff)
  then show ?thesis using toggle_engine_axioms by simp
qed

abbreviation ok :: "'k sys \<Rightarrow> bool" where
  "ok \<equiv> mirror_ok b ctl compv piv level"

lemma mok_later:
  assumes "later (kst s) (kst t)" "mirror_part (blocks (drv t) b) = mirror_part (blocks (drv s) b)" "ok s"
  shows "ok t"
proof -
  have "mirrored (blocks (drv s) b) (ctl (kst t)) (compv (kst t)) (piv (kst t)) (level (kst t))"
    using assms(1,3) later_mirrored unfolding mirror_ok_def by blast
  then show ?thesis
    using assms(2,3) mirrored_cong [of "blocks (drv t) b" "blocks (drv s) b"] by (simp add: mirror_ok_def mirror_part_def)
qed

lemma mok_time: "later (kst s) k \<Longrightarrow> ok s \<Longrightarrow> ok (s\<lparr>kst := k\<rparr>)"
  by (rule mok_later [of s]) simp_all

lemma mok_idleI:
  "output_phase (blocks (drv s) b) \<noteq> TGPIO_OUTPUT_HW_DUTY \<Longrightarrow>
   output_phase (blocks (drv s) b) \<noteq> TGPIO_OUTPUT_HARDWARE_PERIODIC \<Longrightarrow>
   \<not> bit (ctl (kst s)) 0 \<Longrightarrow> level (kst s) = output_hw_flop_high (blocks (drv s) b) \<Longrightarrow>
   output_high_time_ns (blocks (drv s) b) = output_low_time_ns (blocks (drv s) b) \<Longrightarrow> ok s"
  by (auto simp: mirror_ok_def mirrored_def)

lemma wp_advances_mok:
  assumes "advances m" "keeps drv m" "keeps hung m" "ok s"
    and "\<And>r k'. later (kst s) k' \<Longrightarrow> ok (s\<lparr>kst := k'\<rparr>) \<Longrightarrow> Q r (s\<lparr>kst := k'\<rparr>)"
  shows "wp m Q s"
  by (rule wp_advances [OF assms(1-3)]) (use assms(4,5) mok_time in blast)

lemma wp_fold_mok:
  assumes "ok s" and Q: "\<And>t c. ok t \<Longrightarrow> later (kst s) (kst t) \<Longrightarrow> drv t = set_mirror b (output_hw_flop_high (blocks (drv t) b)) c (drv s) \<Longrightarrow>
      Q () t"
  shows "wp (tgpio_hw_flop_fold K b) Q s"
proof (cases "output_phase (blocks (drv s) b) = TGPIO_OUTPUT_HARDWARE_PERIODIC")
  case True
  then have r: "output_hw_piv (blocks (drv s) b) = piv (kst s)" "piv (kst s) \<noteq> 0"
    "tracked (output_hw_ckpt_compv (blocks (drv s) b)) (piv (kst s)) (output_hw_flop_high (blocks (drv s) b))
      (compv (kst s)) (level (kst s))"
    using assms(1) by (simp_all add: mirror_ok_def mirrored_def)
  show ?thesis
  proof (rule wp_fold_running [OF _ r])
    fix k1 k' assume k: "later (kst s) k1" "later k1 k'"
    have p: "piv k1 = piv (kst s)" "piv k' = piv (kst s)"
      using later_ctl_piv [OF k(1)] later_ctl_piv [OF k(2)] by simp_all
    have "tracked (compv k1) (piv (kst s)) (level k1) (compv k') (level k')"
      using later_tracked [OF k(2), of "compv k1" "level k1"] p by simp
    then show "Q () (s\<lparr>drv := set_mirror b (level k1) (compv k1) (drv s), kst := k'\<rparr>)"
      using True r assms(1) p by (intro Q) (simp_all add: mirror_ok_def mirrored_def later_trans [OF k])
  qed (use True in simp)
next
  case False
  then have "output_hw_piv (blocks (drv s) b) = 0 \<or> output_phase (blocks (drv s) b) \<notin>
      {TGPIO_OUTPUT_HW_DUTY, TGPIO_OUTPUT_HARDWARE_PERIODIC}"
    using assms(1) by (auto simp: mirror_ok_def mirrored_def)
  then show ?thesis
    using Q [OF assms(1) later_refl, of "output_hw_ckpt_compv (blocks (drv s) b)"]
    by (subst wp_fold_idle) (simp_all add: set_mirror_same)
qed

lemma drain_mok: "ok s \<Longrightarrow> wp (tgpio_hw_periodic_drain_low K b) (\<lambda>_. ok) s"
proof -
  have sleep: "advances (liftk (k_msleep K ms))" for ms
    by (rule advances_liftk) (rule sleep_later)
  have loop: "ok s \<Longrightarrow> wp (drain_loop n K b) (\<lambda>_. ok) s" for n s
  proof (induction n arbitrary: s)
    case (Suc n)
    then show ?case
      by (auto simp: wp_simps intro!: wp_advances_mok [OF sleep] wp_fold_mok keeps_liftk_drv keeps_liftk_hung)
  qed (simp add: wp_simps)
  assume "ok s"
  then show ?thesis
    by (auto simp: tgpio_hw_periodic_drain_low_def wp_simps intro!: wp_fold_mok loop)
qed

lemma disable_idle:
  "output_high_time_ns (blocks (drv t) b) = output_low_time_ns (blocks (drv t) b) \<and>
   (let m = blocks (drv t) b in output_hw_flop_high m = level (kst t) \<and>
      output_phase m = TGPIO_OUTPUT_TOGGLE \<and> output_hw_piv m = 0 \<and> output_hw_first_art m = 0 \<and>
      \<not> bit (ctl (kst t)) 0 \<and> \<not> engine_on (ctl (kst t)) \<and> compv (kst t) = 0 \<and> piv (kst t) = 0) \<Longrightarrow> ok t"
  by (rule mok_idleI) (simp_all add: Let_def)

lemma disable_mok:
  assumes "ok s"
  shows "wp (tgpio_disable_output_hw K b) (\<lambda>_. ok) s"
proof -
  let ?g = "\<lambda>m. (output_high_time_ns m, output_low_time_ns m)"
  have k: "keeps (\<lambda>s. ?g (blocks (drv s) b)) (tgpio_disable_output_hw K b)"
    by (auto simp: tgpio_disable_output_hw_def
      intro!: keeps_bind keeps_mmio_blk keeps_fold_blk keeps_return keeps_upd_blk)
  have "output_high_time_ns (blocks (drv s) b) = output_low_time_ns (blocks (drv s) b)"
    using assms by (simp add: mirror_ok_def)
  then have "wp (tgpio_disable_output_hw K b) (\<lambda>_ t.
      output_high_time_ns (blocks (drv t) b) = output_low_time_ns (blocks (drv t) b)) s"
    using wp_keeps [OF k, of s] by simp
  moreover have "mirrored (blocks (drv s) b) (ctl (kst s)) (compv (kst s)) (piv (kst s)) (level (kst s))"
    using assms by (simp add: mirror_ok_def)
  note wp_disable [OF this]
  ultimately show ?thesis by (rule wp_and) (rule disable_idle, rule conjI)
qed

text \<open>Arming from a published symmetric configuration, as far as the timer.\<close>

lemma advances_prepare: "advances (tgpio_prepare_output_timing K i p m f)"
  by (auto simp: tgpio_prepare_output_timing_def Let_def intro!: advances_intros advances_now)

lemma advances_log_arm: "advances (tgpio_log_output_arm K b d)"
  by (auto simp: tgpio_log_output_arm_def tgpio_log_activity_on_def when_m_def intro!: advances_intros advances_compare)

lemma log_arm_hung [frame]: "keeps hung (tgpio_log_output_arm K b d)"
  by (auto simp: tgpio_log_output_arm_def intro!: frame)

lemma arm_output_mok:
  assumes "ok s" "high = low"
  shows "wp (tgpio_arm_output K b first prime high low TGPIO_OUTPUT_HARDWARE) (\<lambda>r t. r = 0 \<and> ok t) s"
  unfolding tgpio_arm_output_def wp_bind
  by (rule wp_quiesce) (use assms in \<open>auto simp: mirror_ok_def [of b ctl compv piv level s] wp_simps intro!: mok_idleI\<close>)

lemma reconcile_mok:
  assumes "ok s" "des_mode d = TGPIO_OUTPUT_HARDWARE" "des_high_time_ns d = des_low_time_ns d"
  shows "wp (tgpio_reconcile_arm K b d) (\<lambda>_. ok) s"
proof -
  have blk: "ok (s\<lparr>drv := (drv s)\<lparr>blocks := (blocks (drv s))(b := f (blocks (drv s) b))\<rparr>\<rparr>)"
    if "ok s" "mirror_part (f (blocks (drv s) b)) = mirror_part (blocks (drv s) b)" for f s
    by (rule mok_later [of s]) (use that in \<open>simp_all add: later_refl\<close>)
  have stop: "wp (do { hrtimer_cancel b; tgpio_disable_output_hw K b }) (\<lambda>_. ok) t" if "ok t" for t
    unfolding hrtimer_cancel_def wp_bind wp_upd_blk
    by (rule disable_mok) (rule blk [OF that], simp add: mirror_part_def)
  have started: "wp (do {
            upd_blk b (\<lambda>m. m\<lparr>output_applied_gen := des_gen d, output_applied_freq_gen := des_freq_gen d\<rparr>);
            tgpio_log_output_arm K b d;
            tgpio_output_wake_at b w }) (\<lambda>_. ok) t" if "ok t" for t w
    unfolding wp_bind wp_upd_blk tgpio_output_wake_at_def
    by (rule wp_advances_mok [OF advances_log_arm keeps_log_arm log_arm_hung])
      (rule blk [OF that], simp add: mirror_part_def, rule blk, rule blk, assumption, simp_all add: mirror_part_def)
  show ?thesis
    unfolding tgpio_reconcile_arm_def wp_bind
  proof (rule wp_advances_mok [OF advances_prepare keeps_prepare program_hung(3) assms(1)])
    fix timing k assume k: "ok (s\<lparr>kst := k\<rparr>)"
    show "wp (case timing of Inl e \<Rightarrow> ret True | Inr tm \<Rightarrow> do {
            r \<leftarrow> tgpio_arm_output K b (tim_first_edge_ns tm) (tim_prime_edge_ns tm)
                  (des_high_time_ns d) (des_low_time_ns d) (des_mode d);
            ret (r \<noteq> 0) }) (\<lambda>failed. wp (case timing of
        Inl e \<Rightarrow> do { hrtimer_cancel b; tgpio_disable_output_hw K b }
      | Inr tm \<Rightarrow>
          if failed then do { hrtimer_cancel b; tgpio_disable_output_hw K b }
          else do {
            upd_blk b (\<lambda>m. m\<lparr>output_applied_gen := des_gen d, output_applied_freq_gen := des_freq_gen d\<rparr>);
            tgpio_log_output_arm K b d;
            tgpio_output_wake_at b (tim_timer_start tm) }) (\<lambda>_. ok)) (s\<lparr>kst := k\<rparr>)"
    proof (cases timing)
      case (Inl e)
      then show ?thesis using stop [OF k] by (simp add: wp_return)
    next
      case (Inr tm)
      show ?thesis unfolding Inr sum.case wp_bind [of "tgpio_arm_output _ _ _ _ _ _ _"] wp_return assms(2)
        by (rule wp_mono [OF arm_output_mok [OF k assms(3)]]) (use started in simp)
    qed
  qed
qed

lemma arm_hardware_mok:
  assumes "ok s" "output_phase (blocks (drv s) b) = TGPIO_OUTPUT_ARM_PERIODIC" "h = l"
  shows "wp (tgpio_arm_hardware_periodic K b first h l) (\<lambda>_. ok) s"
proof -
  have m: "mirrored (blocks (drv s) b) (ctl (kst s)) (compv (kst s)) (piv (kst s)) (level (kst s))"
    and "symmetric b (drv s)"
    using assms(1) by (simp_all add: mirror_ok_def symmetric_def)
  then have "wp (tgpio_arm_hardware_periodic K b first h l) (\<lambda>_ t. symmetric b (drv t)) s"
    unfolding assms(3) by (intro wp_moves [OF symm_arm [of b]]) simp
  from this wp_arm_hardware [OF m assms(2,3)] show ?thesis
    by (rule wp_and) (simp add: mirror_ok_def symmetric_def Let_def)
qed

lemma mok_upd_blk:
  assumes "ok s" "mirror_part (f (blocks (drv s) b)) = mirror_part (blocks (drv s) b)"
  shows "ok (s\<lparr>drv := (drv s)\<lparr>blocks := (blocks (drv s))(b := f (blocks (drv s) b))\<rparr>\<rparr>)"
  by (rule mok_later [of s]) (use assms in \<open>simp_all add: later_refl\<close>)

text \<open>A software edge of a block whose engine is disabled goes nowhere.\<close>

lemma program_edge_mok:
  assumes "ok s" "output_phase (blocks (drv s) b) \<noteq> TGPIO_OUTPUT_HARDWARE_PERIODIC"
    "\<not> bit edge_bits 0"
  shows "wp (tgpio_program_output_edge K b edge edge_bits) (\<lambda>_ t. ok t \<and> drv t = drv s) s"
proof -
  have off: "\<not> bit (ctl k) 0 \<and> level k = output_hw_flop_high (blocks (drv s) b)" if "later (kst s) k" for k
    using mok_time [OF that assms(1)] assms(2) by (simp add: mirror_ok_def mirrored_def)
  have ctrl: "\<not> bit ((c AND NOT TGPIOCTL_EP) OR edge_bits) 0" if "\<not> bit c 0" for c
    using that assms(3) by (simp add: bit_simps)
  have idle: "ok (s\<lparr>kst := k\<rparr>)" if "\<not> bit (ctl k) 0" "level k = output_hw_flop_high (blocks (drv s) b)" for k
    using assms(1,2) that by (intro mok_idleI) (simp_all add: mirror_ok_def mirrored_def)
  have writes: "wp (if toggle then do { tgpio_write_compv K b a; tgpio_write_ctl K b c }
       else do { tgpio_write_ctl K b c; tgpio_write_compv K b a }) (\<lambda>_ t. ok t \<and> drv t = drv s) (s\<lparr>kst := k\<rparr>)"
    if k: "later (kst s) k" and c: "\<not> bit c 0" for k a c toggle
    using off [OF k] c idle engine_off_EN [of "ctl k"] engine_off_EN [of c] later_stopped
    by (cases toggle) (auto simp: wp_bind intro!: wp_write_compv_stopped wp_write_ctl_stop)
  show ?thesis
    unfolding tgpio_program_output_edge_def wp_bind
  proof (rule wp_advances_mok [OF advances_compare(1) keeps_compare_drv assms(1)])
    fix art k assume k: "later (kst s) k" "ok (s\<lparr>kst := k\<rparr>)"
    show "wp (case art of Inl e \<Rightarrow> ret e | Inr a \<Rightarrow> do {
          ctl \<leftarrow> tgpio_read_ctl K b;
          ctrl \<leftarrow> ret ((ctl AND NOT TGPIOCTL_EP) OR edge_bits);
          (if edge_bits = TGPIOCTL_EP_TOGGLE then do {
             tgpio_write_compv K b a;
             tgpio_write_ctl K b ctrl
           }
           else do {
             tgpio_write_ctl K b ctrl;
             tgpio_write_compv K b a
           });
          ret TGPIO_OK }) (\<lambda>_ t. ok t \<and> drv t = drv s) (s\<lparr>kst := k\<rparr>)"
    proof (cases art)
      case (Inr a)
      show ?thesis unfolding Inr sum.case wp_bind wp_return
      proof (rule wp_read_ctl)
        fix k1 k' assume k': "later (kst (s\<lparr>kst := k\<rparr>)) k1" "later k1 k'"
        have l1: "later (kst s) k1" by (rule later_trans [OF k(1)]) (use k' in simp)
        note l = l1 later_trans [OF l1 k'(2)]
        show "wp (if edge_bits = TGPIOCTL_EP_TOGGLE then do {
             tgpio_write_compv K b a;
             tgpio_write_ctl K b ((ctl k1 AND NOT TGPIOCTL_EP) OR edge_bits)
           }
           else do {
             tgpio_write_ctl K b ((ctl k1 AND NOT TGPIOCTL_EP) OR edge_bits);
             tgpio_write_compv K b a
           }) (\<lambda>_ t. ok t \<and> drv t = drv s) (s\<lparr>kst := k\<rparr>\<lparr>kst := k'\<rparr>)"
          using writes [OF l(2) ctrl] off [OF l(1)] by simp
      qed
    qed (use k in \<open>simp add: wp_return\<close>)
  qed
qed

lemma stop_mok: "ok s \<Longrightarrow> wp (do { hrtimer_cancel b; tgpio_disable_output_hw K b }) (\<lambda>_. ok) s"
  unfolding hrtimer_cancel_def wp_bind wp_upd_blk
  by (rule disable_mok) (rule mok_upd_blk, assumption, simp add: mirror_part_def)

lemma software_edge_mok:
  assumes "ok s" "output_phase (blocks (drv s) b) \<noteq> TGPIO_OUTPUT_HARDWARE_PERIODIC"
  shows "wp (tgpio_output_software_edge K b) (\<lambda>_. ok) s"
proof -
  have bits: "\<not> bit (if toggle then TGPIOCTL_EP_TOGGLE else tgpio_output_edge_bits polarity edge) 0" for toggle polarity edge
    by (simp add: tgpio_output_edge_bits_def Let_def bit_numeral_rec)
  have adv: "wp (do {
            upd_blk b (\<lambda>m. m\<lparr>output_next_edge := e, output_next_edge_type := ty, output_phase := TGPIO_OUTPUT_TOGGLE\<rparr>);
            wake_at \<leftarrow> get_blk b output_wake_at_time;
            tgpio_output_wake_at b (wake_at + r)
          }) (\<lambda>_. ok) t" if "ok t \<and> drv t = drv s" for t e ty r
    using that assms(2)
    by (auto simp: wp_simps tgpio_output_wake_at_def mirror_ok_def mirrored_def split: if_splits)
  show ?thesis
    unfolding tgpio_output_software_edge_def wp_bind [of "get_blk _ _"] wp_get_blk wp_bind [of "param _"] wp_param
      wp_bind [of "ret _"] wp_return
    apply (subst wp_bind, rule wp_advances_mok [OF advances_readers(9) _ _ assms(1)]) apply (rule frame)+
    apply (subst wp_bind, rule wp_mono [OF program_edge_mok])
    using adv stop_mok assms bits
    apply (auto simp: wp_simps split: sum.split)
    done
qed

lemma same_gen_mok:
  assumes "ok s"
  shows "wp (tgpio_output_work_same_gen K b) (\<lambda>_. ok) s"
proof -
  have "output_phase (blocks (drv s) b) \<noteq> TGPIO_OUTPUT_HW_DUTY" "output_high_time_ns (blocks (drv s) b) = output_low_time_ns (blocks (drv s) b)"
    using assms by (auto simp: mirror_ok_def mirrored_def split: if_splits)
  then show ?thesis using assms
    unfolding tgpio_output_work_same_gen_def
    by (simp add: wp_bind wp_get_blk wp_if wp_return software_edge_mok)
      (auto simp: wp_when_m disable_mok intro!: wp_mono [OF arm_hardware_mok])
qed

end

end
