(* ===== verification/Output_Mirror.thy ===== *)
theory Output_Mirror
  imports Level_Mirror
begin

text \<open>
  The work as a whole and the level mirror. Rewriting the interval or the compare of a
  free-running block is right when no edge fires in between (\<open>calm_engine\<close>); with that, every
  run of the work for a symmetric hardware waveform keeps the mirror exact, and a pending
  polarity flip turns a wrong mirror into a right one.
\<close>

section \<open>Quiet moments\<close>

text \<open>
  \<open>calm k\<close>: no edge is due for the time being, so accesses see the programmed registers and
  change nothing else.
\<close>

locale calm_engine = toggle_engine K b ctl compv piv level later
  for K :: "'k kernel" and b :: nat
    and ctl :: "'k \<Rightarrow> u32" and compv :: "'k \<Rightarrow> u64" and piv :: "'k \<Rightarrow> u64"
    and level :: "'k \<Rightarrow> bool" and later :: "'k \<Rightarrow> 'k \<Rightarrow> bool" +
  fixes calm :: "'k \<Rightarrow> bool"
  assumes calm_later: "calm k \<Longrightarrow> later k k' \<Longrightarrow> calm k' \<and> compv k' = compv k \<and> level k' = level k"
    and calm_write: "calm k \<Longrightarrow> calm (snd (run_state (k_writel K b off v) k)) \<and>
      level (snd (run_state (k_writel K b off v) k)) = level k"
    and calm_write_ctl: "calm k \<Longrightarrow> ctl (snd (run_state (k_writel K b TGPIOCTL v) k)) = v \<and>
      compv (snd (run_state (k_writel K b TGPIOCTL v) k)) = compv k \<and>
      piv (snd (run_state (k_writel K b TGPIOCTL v) k)) = piv k"
    and calm_write_piv: "calm k \<Longrightarrow> off \<in> {TGPIOPIV63_32, TGPIOPIV31_0} \<Longrightarrow>
      compv (snd (run_state (k_writel K b off v) k)) = compv k"
begin

lemma inverted_calm: "calm_engine K b ctl compv piv (\<lambda>k. level k \<noteq> f) later calm"
  by (rule calm_engine.intro [OF inverted], rule calm_engine_axioms.intro)
    (use calm_later calm_write calm_write_ctl calm_write_piv in auto)

lemma calm_time: "calm k \<Longrightarrow> later k k' \<Longrightarrow> calm k'"
  using calm_later by blast

lemma wp_calm_write_ctl:
  assumes "calm (kst s)"
    and "\<And>k'. calm k' \<Longrightarrow> ctl k' = v \<Longrightarrow> compv k' = compv (kst s) \<Longrightarrow> piv k' = piv (kst s) \<Longrightarrow>
      level k' = level (kst s) \<Longrightarrow> Q () (s\<lparr>kst := k'\<rparr>)"
  shows "wp (tgpio_write_ctl K b v) Q s"
  using assms calm_write [OF assms(1), of TGPIOCTL v] calm_write_ctl [OF assms(1), of v]
  by (simp add: access_defs wp_def run_liftk)

lemma wp_calm_write_piv:
  assumes "calm (kst s)"
    and "\<And>k'. calm k' \<Longrightarrow> ctl k' = ctl (kst s) \<Longrightarrow> compv k' = compv (kst s) \<Longrightarrow> piv k' = v \<Longrightarrow>
      level k' = level (kst s) \<Longrightarrow> Q () (s\<lparr>kst := k'\<rparr>)"
  shows "wp (tgpio_write_piv K b v) Q (s :: 'k sys)"
proof -
  let ?k1 = "snd (run_state (k_writel K b TGPIOPIV63_32 (upper_32_bits v)) (kst s))"
  let ?k2 = "snd (run_state (k_writel K b TGPIOPIV31_0 (lower_32_bits v)) ?k1)"
  have c: "calm ?k1" "calm ?k2" "level ?k2 = level (kst s)" "compv ?k2 = compv (kst s)"
    using assms(1) by (simp_all add: calm_write calm_write_piv)
  have "wp (tgpio_write_piv K b v) (\<lambda>_ t. kst t = ?k2 \<and> drv t = drv s \<and> hung t = hung s) s"
    by (simp add: access_defs wp_def run_liftk split_beta)
  moreover have "wp (tgpio_write_piv K b v) (\<lambda>_ t. ctl (kst t) = ctl (kst s) \<and> piv (kst t) = v) s"
    by (rule wp_write_piv) simp
  ultimately show ?thesis
  proof (rule wp_and)
    fix r and t :: "'k sys" assume t: "kst t = ?k2 \<and> drv t = drv s \<and> hung t = hung s" "ctl (kst t) = ctl (kst s) \<and> piv (kst t) = v"
    then have e: "t = s\<lparr>kst := ?k2\<rparr>" by (intro sys_eqI) simp_all
    have "Q () (s\<lparr>kst := ?k2\<rparr>)" by (rule assms(2)) (use c t in simp_all)
    then show "Q r t" using e by simp
  qed
qed

lemma wp_calm_write_compv:
  assumes "calm (kst s)" "\<not> engine_on (ctl (kst s))"
    and "\<And>k'. calm k' \<Longrightarrow> ctl k' = ctl (kst s) \<Longrightarrow> compv k' = v \<Longrightarrow> piv k' = piv (kst s) \<Longrightarrow>
      level k' = level (kst s) \<Longrightarrow> Q () (s\<lparr>kst := k'\<rparr>)"
  shows "wp (tgpio_write_compv K b v) Q s"
proof -
  have "wp (tgpio_write_compv K b v) (\<lambda>_ t. calm (kst t)) s"
    using assms(1) by (simp add: access_defs wp_def run_liftk split_beta calm_write)
  moreover have "wp (tgpio_write_compv K b v) (\<lambda>_ t. ctl (kst t) = ctl (kst s) \<and> compv (kst t) = v \<and>
      piv (kst t) = piv (kst s) \<and> level (kst t) = level (kst s) \<and> t = s\<lparr>kst := kst t\<rparr>) s"
    by (rule wp_write_compv_stopped [OF assms(2)]) simp
  ultimately show ?thesis
    by (rule wp_and) (metis assms(3) old.unit.exhaust)
qed

text \<open>
  A free-running block right after a fold: the checkpoint is the live compare and the tracked
  level is the pin's.
\<close>

definition folded :: "'k sys \<Rightarrow> bool" where
  "folded s \<longleftrightarrow> calm (kst s) \<and> ok s \<and> output_phase (blocks (drv s) b) = TGPIO_OUTPUT_HARDWARE_PERIODIC \<and>
    output_hw_ckpt_compv (blocks (drv s) b) = compv (kst s) \<and> output_hw_flop_high (blocks (drv s) b) = level (kst s)"

lemma folded_later:
  "folded s \<Longrightarrow> later (kst s) (kst t) \<Longrightarrow> mirror_part (blocks (drv t) b) = mirror_part (blocks (drv s) b) \<Longrightarrow> folded t"
  using mok_later [of s t] calm_later [of "kst s" "kst t"] by (auto simp: folded_def mirror_part_def)

lemma folded_time: "folded s \<Longrightarrow> later (kst s) k \<Longrightarrow> folded (s\<lparr>kst := k\<rparr>)"
  by (rule folded_later [of s]) simp_all

lemma folded_upd_blk:
  "folded s \<Longrightarrow> mirror_part (f (blocks (drv s) b)) = mirror_part (blocks (drv s) b) \<Longrightarrow>
    folded (s\<lparr>drv := (drv s)\<lparr>blocks := (blocks (drv s))(b := f (blocks (drv s) b))\<rparr>\<rparr>)"
  by (rule folded_later [of s]) (simp_all add: later_refl)

lemma foldedI:
  assumes "calm (kst s)" "output_phase (blocks (drv s) b) = TGPIO_OUTPUT_HARDWARE_PERIODIC"
    "output_hw_piv (blocks (drv s) b) = piv (kst s)" "piv (kst s) \<noteq> 0"
    "output_hw_ckpt_compv (blocks (drv s) b) = compv (kst s)" "output_hw_flop_high (blocks (drv s) b) = level (kst s)"
    "output_high_time_ns (blocks (drv s) b) = output_low_time_ns (blocks (drv s) b)"
  shows "folded s"
  using assms by (simp add: folded_def mirror_ok_def mirrored_def)

lemma foldedD:
  assumes "folded s"
  shows "calm (kst s)" "output_phase (blocks (drv s) b) = TGPIO_OUTPUT_HARDWARE_PERIODIC"
    "output_hw_piv (blocks (drv s) b) = piv (kst s)" "piv (kst s) \<noteq> 0"
    "output_hw_ckpt_compv (blocks (drv s) b) = compv (kst s)" "output_hw_flop_high (blocks (drv s) b) = level (kst s)"
    "output_high_time_ns (blocks (drv s) b) = output_low_time_ns (blocks (drv s) b)" "ok s"
  using assms by (simp_all add: folded_def mirror_ok_def mirrored_def)

lemma fold_folded:
  assumes "calm (kst s)" "ok s" "output_phase (blocks (drv s) b) = TGPIO_OUTPUT_HARDWARE_PERIODIC"
    and Q: "\<And>t. folded t \<Longrightarrow> published (blocks (drv t) b) = published (blocks (drv s) b) \<Longrightarrow> Q () t"
  shows "wp (tgpio_hw_flop_fold K b) Q s"
proof -
  have r: "output_hw_piv (blocks (drv s) b) = piv (kst s)" "piv (kst s) \<noteq> 0"
    "tracked (output_hw_ckpt_compv (blocks (drv s) b)) (piv (kst s)) (output_hw_flop_high (blocks (drv s) b))
      (compv (kst s)) (level (kst s))"
    using assms by (simp_all add: mirror_ok_def mirrored_def)
  show ?thesis
  proof (rule wp_fold_running [OF assms(3) r])
    fix k1 k' assume k: "later (kst s) k1" "later k1 k'"
    have c: "calm k'" "compv k1 = compv k'" "level k1 = level k'" "piv k' = piv (kst s)"
      using calm_later [OF assms(1) k(1)] calm_later [OF _ k(2)] later_ctl_piv [OF k(1)] later_ctl_piv [OF k(2)] by simp_all
    show "Q () (s\<lparr>drv := set_mirror b (level k1) (compv k1) (drv s), kst := k'\<rparr>)"
      using assms(2,3) r c by (intro Q foldedI) (simp_all add: mirror_ok_def)
  qed
qed

lemma wp_advances_folded:
  assumes "advances m" "keeps drv m" "keeps hung m" "folded s"
    and "\<And>r k'. folded (s\<lparr>kst := k'\<rparr>) \<Longrightarrow> Q r (s\<lparr>kst := k'\<rparr>)"
  shows "wp m Q s"
  by (rule wp_advances [OF assms(1-3)]) (use assms(4,5) folded_time in blast)

text \<open>Rewriting the pending compare moves the checkpoint with it.\<close>

lemma paused_folded:
  assumes "folded s"
    and Q: "\<And>t. folded t \<Longrightarrow> published (blocks (drv t) b) = published (blocks (drv s) b) \<Longrightarrow> Q () t"
  shows "wp (tgpio_hw_periodic_write_compv_paused K b v) Q s"
  unfolding tgpio_hw_periodic_write_compv_paused_def wp_bind
proof (rule wp_read_ctl)
  fix k1 k2 assume k: "later (kst s) k1" "later k1 k2"
  note f = foldedD [OF folded_time [OF assms(1) later_trans [OF k]]]
  have off: "\<not> engine_on (tgpio_ctl_without (ctl k1) TGPIOCTL_PM)"
    using engine_on_bits [of "tgpio_ctl_without (ctl k1) TGPIOCTL_PM"] ctl_without_bit [of TGPIOCTL_PM 4]
    by (auto simp: bit_numeral_rec)
  show "wp (tgpio_write_ctl K b (tgpio_ctl_without (ctl k1) TGPIOCTL_PM)) (\<lambda>_.
      wp (tgpio_write_compv K b v) (\<lambda>_. wp (tgpio_write_ctl K b (ctl k1))
        (\<lambda>_. wp (upd_blk b (output_hw_ckpt_compv_update (\<lambda>_. v))) Q))) (s\<lparr>kst := k2\<rparr>)"
    by (rule wp_calm_write_ctl, use f in simp, rule wp_calm_write_compv, simp, simp add: off, rule wp_calm_write_ctl, simp)
      (use f in \<open>auto simp: wp_upd_blk intro!: Q foldedI\<close>)
qed

text \<open>A hot interval write at the checkpoint.\<close>

lemma hot_piv_folded:
  assumes "folded s" "v \<noteq> 0"
    and Q: "\<And>t. folded t \<Longrightarrow> Q () t"
  shows "wp (do { tgpio_write_piv K b v; upd_blk b (output_hw_piv_update (\<lambda>_. v)) }) Q s"
  unfolding wp_bind
  by (rule wp_calm_write_piv) (use foldedD [OF assms(1)] assms(2) in \<open>auto simp: wp_upd_blk intro!: Q foldedI\<close>)

lemma advances_rounding: "advances (tgpio_log_rounding_interval K v)" "keeps drv (tgpio_log_rounding_interval K v)"
    "keeps hung (tgpio_log_rounding_interval K v)"
  by (auto simp: tgpio_log_rounding_interval_def tgpio_log_rounding_on_def when_m_def
      intro!: advances_intros advances_delta frame)

lemma apply_freq_mok:
  assumes "calm (kst s)" "ok s" "output_phase (blocks (drv s) b) = TGPIO_OUTPUT_HARDWARE_PERIODIC"
    and d: "des_mode d = TGPIO_OUTPUT_HARDWARE" "des_high_time_ns d = des_low_time_ns d"
  shows "wp (tgpio_hw_periodic_apply_freq K b d) (\<lambda>_. ok) s"
proof -
  note wb = wp_bind wp_get_blk wp_return wp_param
  have nudge: "wp (do {
              nudged_art \<leftarrow> tgpio_clock_ns_to_compare_art K e;
              (case nudged_art of
                 Inl e \<Rightarrow> ret ()
               | Inr a \<Rightarrow> do {
                   tgpio_hw_periodic_write_compv_paused K b a;
                   upd_blk b (output_next_edge_update (\<lambda>_. e))
                 })
            }) (\<lambda>_. ok) t" if "folded t" for t e
    unfolding wb
    by (rule wp_advances_folded [OF advances_compare(1) keeps_compare_drv that])
      (auto simp: wb wp_upd_blk foldedD mirror_part_def split: sum.split intro!: paused_folded mok_upd_blk)
  have deadband: "wp (do {
            configured \<leftarrow> param output_phase_tolerance_ns;
            nudge_min \<leftarrow> tgpio_output_phase_nudge_min_ns;
            tolerance \<leftarrow> ret (s64_max configured nudge_min);
            if - tolerance <s ph_error_ns ph \<and> ph_error_ns ph <s tolerance then ret ()
            else if \<not> ph_nudge_safe ph then ret ()
            else do {
              aligned_ns \<leftarrow> ret (ph_pending_ns ph - ph_error_ns ph);
              nudged_art \<leftarrow> tgpio_clock_ns_to_compare_art K aligned_ns;
              (case nudged_art of
                 Inl e \<Rightarrow> ret ()
               | Inr a \<Rightarrow> do {
                   tgpio_hw_periodic_write_compv_paused K b a;
                   upd_blk b (output_next_edge_update (\<lambda>_. aligned_ns))
                 })
            } }) (\<lambda>_. ok) t" if "folded t" for t ph
    unfolding wp_bind [of "param _"] wp_param wp_bind [of "ret (s64_max _ _)"] wp_return
      wp_bind [of tgpio_output_phase_nudge_min_ns]
    by (rule wp_advances_folded [OF advances_readers(5)], (rule frame)+, rule that)
      (simp add: nudge foldedD wp_return)
  have phase: "wp (do {
     phase \<leftarrow> tgpio_hw_periodic_phase_get K b (des_first_edge_ns d) (des_high_time_ns d);
     (case phase of
        Inl e \<Rightarrow> ret ()
      | Inr ph \<Rightarrow>
          if des_high_time_ns d div 4 < tgpio_abs_s64 (ph_error_ns ph)
          then tgpio_reconcile_arm K b d
          else do {
            configured \<leftarrow> param output_phase_tolerance_ns;
            nudge_min \<leftarrow> tgpio_output_phase_nudge_min_ns;
            tolerance \<leftarrow> ret (s64_max configured nudge_min);
            if - tolerance <s ph_error_ns ph \<and> ph_error_ns ph <s tolerance then ret ()
            else if \<not> ph_nudge_safe ph then ret ()
            else do {
              aligned_ns \<leftarrow> ret (ph_pending_ns ph - ph_error_ns ph);
              nudged_art \<leftarrow> tgpio_clock_ns_to_compare_art K aligned_ns;
              (case nudged_art of
                 Inl e \<Rightarrow> ret ()
               | Inr a \<Rightarrow> do {
                   tgpio_hw_periodic_write_compv_paused K b a;
                   upd_blk b (output_next_edge_update (\<lambda>_. aligned_ns))
                 })
            }
          }) }) (\<lambda>_. ok) t" if "folded t" for t
    unfolding wp_bind [of "tgpio_hw_periodic_phase_get _ _ _ _"]
    by (rule wp_advances_folded [OF advances_phase_get keeps_phase_get_drv phase_get_hung that])
      (auto simp only: wp_return foldedD split: sum.split intro!: wp_ifI reconcile_mok [OF _ d] deadband)
  have hot: "wp (do { tgpio_write_piv K b v; upd_blk b (output_hw_piv_update (\<lambda>_. v)); tgpio_log_rounding_interval K v })
      Q t" if "folded t" "v \<noteq> 0" and "\<And>t. folded t \<Longrightarrow> Q () t" for t v Q
  proof -
    have "wp (do { do { tgpio_write_piv K b v; upd_blk b (output_hw_piv_update (\<lambda>_. v)) }; tgpio_log_rounding_interval K v }) Q t"
      unfolding wp_bind [of "do { tgpio_write_piv K b v; upd_blk b (output_hw_piv_update (\<lambda>_. v)) }"]
      by (rule hot_piv_folded [OF that(1,2)], rule wp_advances_folded [OF advances_rounding]) (use that(3) in auto)
    then show ?thesis by simp
  qed
  show ?thesis
    unfolding tgpio_hw_periodic_apply_freq_def wp_bind [of "get_blk _ _"] wp_get_blk
      wp_bind [of "tgpio_clock_delta_to_art_cycles _ _"] wp_bind [of "tgpio_hw_flop_fold _ _"]
      wp_bind [of "case_sum _ _ _"]
    apply (rule wp_advances [OF advances_delta(1)], (rule frame)+)
    apply (rule fold_folded)
    subgoal for v k using calm_time [OF assms(1), of k] by simp
    subgoal for v k using mok_time [OF _ assms(2), of k] by simp
    subgoal using assms(3) by simp
    subgoal premises p for v k t
      unfolding wp_bind [of "get_blk _ _"] wp_get_blk wp_bind [of "case_sum _ _ _"]
      by (cases v) (use p(2) in \<open>auto simp only: sum.case wp_return hot_piv_ok_def intro!: wp_when_mI hot phase\<close>)
    done
qed

text \<open>Inverting the tracked level: seen from the inverted pin, it is right before and after.\<close>

lemma advances_invert_wait: "advances (invert_wait_loop n K b)"
  by (induction n) (auto simp: tgpio_output_desired_get_def intro!: advances_intros advances_phase_get
      advances_liftk sleep_later)

lemma keeps_invert_wait: "keeps drv (invert_wait_loop n K b)"
  by (induction n) (auto simp: tgpio_output_desired_get_def intro!: frame)

lemma invert_rest_mok:
  assumes "calm (kst s)" "ok s" "output_phase (blocks (drv s) b) = TGPIO_OUTPUT_HARDWARE_PERIODIC"
  shows "wp (do {
       invert_wait_loop 50 K b;
       tgpio_hw_flop_fold K b;
       compv \<leftarrow> tgpio_read_compv K b;
       piv \<leftarrow> get_blk b output_hw_piv;
       if U64_MAX - piv < compv then ret ()
       else tgpio_hw_periodic_write_compv_paused K b (compv + piv)
     }) (\<lambda>_ t. calm (kst t) \<and> ok t \<and> published (blocks (drv t) b) = published (blocks (drv s) b)) s"
  unfolding wp_bind wp_get_blk
  apply (rule wp_advances [OF advances_invert_wait keeps_invert_wait invert_wait_hung])
  apply (rule fold_folded)
  using assms calm_time mok_time apply simp_all
  apply (rule wp_advances_folded [OF advances_read_compv keeps_read_compv_drv read_compv_hung], assumption)
  apply (auto simp: wp_return foldedD intro!: paused_folded dest: foldedD(1))
  done

end

section \<open>The output work\<close>

definition flips_pending :: "tgpio_mmio_block \<Rightarrow> bool" where
  "flips_pending m \<longleftrightarrow> (des_flip_gen (output_desired m) - output_applied_flip_gen m) AND 1 \<noteq> 0"

text \<open>
  The configuration asks for a symmetric hardware waveform, if it asks for any; the work does
  not touch a free-running block when it runs for it.
\<close>

definition hw_symmetric :: "tgpio_output_desired \<Rightarrow> bool" where
  "hw_symmetric d \<longleftrightarrow> des_run d = TGPIO_OUTPUT_RUNNING \<longrightarrow>
    des_mode d = TGPIO_OUTPUT_HARDWARE \<and> des_high_time_ns d = des_low_time_ns d"

definition hands_off :: "tgpio_mmio_block \<Rightarrow> bool" where
  "hands_off m \<longleftrightarrow> des_run (output_desired m) = TGPIO_OUTPUT_STOPPED \<or>
    output_phase m \<noteq> TGPIO_OUTPUT_HARDWARE_PERIODIC \<or> \<not> flips_pending m \<and>
     (des_gen (output_desired m) \<noteq> output_applied_gen m \<or> des_freq_gen (output_desired m) = output_applied_freq_gen m)"

text \<open>The work once the pending flips are applied.\<close>

definition work_rest :: "'k kernel \<Rightarrow> nat \<Rightarrow> tgpio_output_desired \<Rightarrow> ('k sys, unit) state" where
  "work_rest K b d = do {
       applied_gen \<leftarrow> get_blk b output_applied_gen;
       if des_gen d \<noteq> applied_gen then tgpio_reconcile_arm K b d
       else do {
         applied_freq_gen \<leftarrow> get_blk b output_applied_freq_gen;
         phase \<leftarrow> get_blk b output_phase;
         if des_freq_gen d \<noteq> applied_freq_gen then do {
           upd_blk b (output_applied_freq_gen_update (\<lambda>_. des_freq_gen d));
           if phase = TGPIO_OUTPUT_HARDWARE_PERIODIC
           then tgpio_hw_periodic_apply_freq K b d
           else if phase = TGPIO_OUTPUT_HW_DUTY then ret ()
           else if phase = TGPIO_OUTPUT_ARM_PERIODIC then do {
             now \<leftarrow> ktime_get_real K;
             wake_at \<leftarrow> get_blk b output_wake_at_time;
             if now <s wake_at then ret () else tgpio_output_work_same_gen K b
           }
           else tgpio_output_work_same_gen K b
         }
         else tgpio_output_work_same_gen K b
       }
     }"

lemma work_split: "tgpio_output_work K b = do {
     d \<leftarrow> tgpio_output_desired_get b;
     if des_run d = TGPIO_OUTPUT_STOPPED then do {
       hrtimer_cancel b;
       tgpio_hw_periodic_drain_low K b;
       tgpio_disable_output_hw K b
     }
     else do {
       applied_flip \<leftarrow> get_blk b output_applied_flip_gen;
       when_m ((des_flip_gen d - applied_flip) AND 1 \<noteq> 0) (tgpio_hw_periodic_invert K b);
       upd_blk b (output_applied_flip_gen_update (\<lambda>_. des_flip_gen d));
       work_rest K b d
     } }"
  by (simp only: tgpio_output_work_def work_rest_def)

context calm_engine begin

lemma rest_mok:
  assumes "ok s" and d: "des_mode d = TGPIO_OUTPUT_HARDWARE" "des_high_time_ns d = des_low_time_ns d"
    and "calm (kst s) \<or> output_phase (blocks (drv s) b) \<noteq> TGPIO_OUTPUT_HARDWARE_PERIODIC \<or>
      des_gen d \<noteq> output_applied_gen (blocks (drv s) b) \<or> des_freq_gen d = output_applied_freq_gen (blocks (drv s) b)"
  shows "wp (work_rest K b d) (\<lambda>_. ok) s"
proof -
  have u: "ok (s\<lparr>drv := (drv s)\<lparr>blocks := (blocks (drv s))(b := f (blocks (drv s) b))\<rparr>\<rparr>)"
    if "\<And>m. mirror_part (f m) = mirror_part m" for f
    using mok_upd_blk [OF assms(1)] that by blast
  have late: "wp (ktime_get_real K) (\<lambda>now. wp (do {
             wake_at \<leftarrow> get_blk b output_wake_at_time;
             if now <s wake_at then ret () else tgpio_output_work_same_gen K b
           }) (\<lambda>_. ok)) t" if "ok t" for t
    by (rule wp_advances_mok [OF advances_kernel(2) _ _ that], (rule frame)+)
      (auto simp: wp_bind wp_get_blk wp_return intro!: wp_ifI same_gen_mok)
  show ?thesis
    unfolding work_rest_def
    using assms u [of "output_applied_freq_gen_update (\<lambda>_. des_freq_gen d)"]
    by (simp add: wp_bind wp_get_blk wp_upd_blk wp_if wp_return mirror_part_def reconcile_mok same_gen_mok)
      (auto intro!: apply_freq_mok late)
qed

end

text \<open>Flipping the belief makes it right for the inverted pin.\<close>

lemma mok_flip:
  assumes "mirror_ok b ctl compv piv level s"
  shows "mirror_ok b ctl compv piv (\<lambda>k. \<not> level k)
    (s\<lparr>drv := (drv s)\<lparr>blocks := (blocks (drv s))(b := output_hw_flop_high_update Not (blocks (drv s) b))\<rparr>\<rparr>)"
  using assms by (auto simp: mirror_ok_def mirrored_def tracked_def split: if_splits)

context calm_engine begin

lemma flip_mok:
  assumes "ok s" "output_phase (blocks (drv s) b) = TGPIO_OUTPUT_HARDWARE_PERIODIC \<longrightarrow> calm (kst s)"
  shows "wp (tgpio_hw_periodic_invert K b) (\<lambda>_ t. mirror_ok b ctl compv piv (\<lambda>k. \<not> level k) t \<and>
    (calm (kst s) \<or> output_phase (blocks (drv s) b) \<noteq> TGPIO_OUTPUT_HARDWARE_PERIODIC \<longrightarrow>
     calm (kst t) \<or> output_phase (blocks (drv t) b) \<noteq> TGPIO_OUTPUT_HARDWARE_PERIODIC)) s"
proof -
  let ?t = "s\<lparr>drv := (drv s)\<lparr>blocks := (blocks (drv s))(b := output_hw_flop_high_update Not (blocks (drv s) b))\<rparr>\<rparr>"
  have f: "mirror_ok b ctl compv piv (\<lambda>k. \<not> level k) ?t" using assms(1) by (rule mok_flip)
  have i: "calm_engine K b ctl compv piv (\<lambda>k. \<not> level k) later calm" using inverted_calm [of True] by simp
  have d: "output_phase (blocks (drv s) b) \<noteq> TGPIO_OUTPUT_HW_DUTY"
    and p: "output_phase (blocks (drv s) b) = TGPIO_OUTPUT_HARDWARE_PERIODIC \<longrightarrow> output_hw_piv (blocks (drv s) b) \<noteq> 0"
    using assms(1) by (auto simp: mirror_ok_def mirrored_def split: if_splits)
  show ?thesis
  proof (cases "output_phase (blocks (drv s) b) = TGPIO_OUTPUT_HARDWARE_PERIODIC")
    case True
    have "calm (kst ?t)" using True assms(2) by simp
    from calm_engine.invert_rest_mok [OF i this f]
    have "wp (do {
       invert_wait_loop 50 K b;
       tgpio_hw_flop_fold K b;
       compv \<leftarrow> tgpio_read_compv K b;
       piv \<leftarrow> get_blk b output_hw_piv;
       if U64_MAX - piv < compv then ret ()
       else tgpio_hw_periodic_write_compv_paused K b (compv + piv)
     }) (\<lambda>_ t. mirror_ok b ctl compv piv (\<lambda>k. \<not> level k) t \<and>
    (calm (kst s) \<or> output_phase (blocks (drv s) b) \<noteq> TGPIO_OUTPUT_HARDWARE_PERIODIC \<longrightarrow>
     calm (kst t) \<or> output_phase (blocks (drv t) b) \<noteq> TGPIO_OUTPUT_HARDWARE_PERIODIC)) ?t"
      using True by (auto elim: wp_mono)
    then show ?thesis
      using True p by (simp add: tgpio_hw_periodic_invert_def wp_bind wp_get_blk wp_upd_blk)
  next
    case False
    then show ?thesis using f d by (simp add: tgpio_hw_periodic_invert_def wp_bind wp_get_blk wp_upd_blk wp_return)
  qed
qed

lemma flipped_rest_mok:
  assumes "ok s" "des_run d = TGPIO_OUTPUT_RUNNING" "hw_symmetric d"
    and "calm (kst s) \<or> output_phase (blocks (drv s) b) \<noteq> TGPIO_OUTPUT_HARDWARE_PERIODIC \<or>
      des_gen d \<noteq> output_applied_gen (blocks (drv s) b) \<or> des_freq_gen d = output_applied_freq_gen (blocks (drv s) b)"
  shows "wp (do { upd_blk b (output_applied_flip_gen_update (\<lambda>_. des_flip_gen d)); work_rest K b d }) (\<lambda>_. ok) s"
  unfolding wp_bind wp_upd_blk
  by (rule rest_mok, rule mok_upd_blk [OF assms(1)]) (use assms(2-4) in \<open>simp_all add: mirror_part_def hw_symmetric_def\<close>)

text \<open>
  The work keeps the level known: of the pin when it applies no flip, of the inverted pin when
  it applies one.
\<close>

lemma work_mok:
  assumes "ok s" "hw_symmetric (output_desired (blocks (drv s) b))"
    and "hands_off (blocks (drv s) b) \<or> calm (kst s)"
    and f: "f \<longleftrightarrow> des_run (output_desired (blocks (drv s) b)) = TGPIO_OUTPUT_RUNNING \<and> flips_pending (blocks (drv s) b)"
  shows "wp (tgpio_output_work K b) (\<lambda>_. mirror_ok b ctl compv piv (\<lambda>k. level k \<noteq> f)) s"
proof (cases "des_run (output_desired (blocks (drv s) b))")
  case TGPIO_OUTPUT_STOPPED
  have c: "ok (s\<lparr>drv := (drv s)\<lparr>blocks := (blocks (drv s))(b := (blocks (drv s) b)\<lparr>output_timer := None\<rparr>)\<rparr>\<rparr>)"
    by (rule mok_upd_blk [OF assms(1)]) (simp add: mirror_part_def)
  from wp_mono [OF drain_mok [OF c] disable_mok] TGPIO_OUTPUT_STOPPED f show ?thesis
    by (simp add: work_split tgpio_output_desired_get_def hrtimer_cancel_def wp_bind wp_get_blk wp_upd_blk)
next
  case TGPIO_OUTPUT_RUNNING
  let ?d = "output_desired (blocks (drv s) b)"
  have eq: "wp (tgpio_output_work K b) Q s = wp (when_m f (tgpio_hw_periodic_invert K b))
      (\<lambda>_. wp (do { upd_blk b (output_applied_flip_gen_update (\<lambda>_. des_flip_gen ?d)); work_rest K b ?d }) Q) s" for Q
    using TGPIO_OUTPUT_RUNNING f by (simp add: work_split tgpio_output_desired_get_def wp_bind wp_get_blk flips_pending_def)
  show ?thesis
  proof (cases f)
    case True
    have i: "calm_engine K b ctl compv piv (\<lambda>k. \<not> level k) later calm" using inverted_calm [of True] by simp
    have c: "output_phase (blocks (drv s) b) = TGPIO_OUTPUT_HARDWARE_PERIODIC \<longrightarrow> calm (kst s)"
      using assms(3) True f by (auto simp: hands_off_def)
    show ?thesis unfolding eq
      by (simp add: True wp_when_m)
        (rule wp_mono [OF flip_mok [OF assms(1) c]], rule calm_engine.flipped_rest_mok [OF i],
          use TGPIO_OUTPUT_RUNNING assms(2,3) c in auto)
  next
    case False
    show ?thesis unfolding eq using False f assms TGPIO_OUTPUT_RUNNING
      by (auto simp: wp_when_m wp_return hands_off_def intro!: flipped_rest_mok)
  qed
qed

end

end
