(* ===== verification/Output_Runs.thy ===== *)
theory Output_Runs
  imports Output_Mirror
begin

text \<open>
  The work is the only writer of an output: on hardware where kernel services and the other
  block only let time pass (\<open>board\<close>), every entry point of the driver and the work of the other
  outputs leave an output's registers and its mirror alone. With the work's own invariant this
  gives the level mirror over whole runs of the loaded driver (\<open>calm_board\<close>).
\<close>

section \<open>The board\<close>

text \<open>
  What the driver relies on for the engine of block \<open>b\<close> beyond \<open>toggle_engine\<close>: no kernel service
  and no access to the other block does more than let time pass.
\<close>

locale board = toggle_engine K b ctl compv piv level later
  for K :: "'k kernel" and b :: nat
    and ctl :: "'k \<Rightarrow> u32" and compv :: "'k \<Rightarrow> u64" and piv :: "'k \<Rightarrow> u64"
    and level :: "'k \<Rightarrow> bool" and later :: "'k \<Rightarrow> 'k \<Rightarrow> bool" +
  assumes read_later: "later k (snd (run_state (k_readl K c off) k))"
    and other_write_later: "c \<noteq> b \<Longrightarrow> later k (snd (run_state (k_writel K c off v) k))"
    and raw_later: "later k (snd (run_state (k_get_raw K) k))"
    and base_later: "later k (snd (run_state (k_has_art_base K) k))"
    and crosststamp_later: "later k (snd (run_state (k_crosststamp K art history) k))"
    and adjtimex_later: "later k (snd (run_state (k_adjtimex K req) k))"
    and settime_later: "later k (snd (run_state (k_settimeofday K ts) k))"
begin

text \<open>
  What only the work of an output may change: its registers, and the part of its state the
  mirror and the flips are about.
\<close>

abbreviation spared_part :: "tgpio_mmio_block \<Rightarrow> tgpio_mode \<times> (tgpio_output_phase \<times> u64 \<times> u64 \<times> bool \<times> u64 \<times> u64) \<times> u32" where
  "spared_part m \<equiv> (blk_mode m, mirror_part m, output_applied_flip_gen m)"

definition spared :: "'k sys \<Rightarrow> 'k sys \<Rightarrow> bool" where
  "spared s t \<longleftrightarrow> (blk_mode (blocks (drv s) b) = TGPIO_MODE_OUTPUT \<longrightarrow>
     spared_part (blocks (drv t) b) = spared_part (blocks (drv s) b) \<and> later (kst s) (kst t))"

lemma spared_order: "sys_order spared"
proof
  show "spared s s" for s by (simp add: spared_def later_refl)
  show "spared s t \<Longrightarrow> spared t u \<Longrightarrow> spared s u" for s t u
    by (auto simp: spared_def intro: later_trans)
qed

end

sublocale board \<subseteq> spare: sys_order spared
  by (rule spared_order)

context board
begin

lemma spare_advances:
  assumes "advances m" "keeps drv m"
  shows "takes spared m"
  using assms by (simp add: takes_def spared_def advances_def keeps_def)

lemma spare_liftk: "(\<And>k. later k (snd (run_state m k))) \<Longrightarrow> takes spared (liftk m)"
  by (simp add: takes_def spared_def run_liftk)

lemma spare_upd_blk: "(\<And>m. spared_part (f m) = spared_part m) \<Longrightarrow> takes spared (upd_blk c f)"
  by (simp add: takes_def spared_def upd_blk_def later_refl)

lemma spare_upd_other: "c \<noteq> b \<Longrightarrow> takes spared (upd_blk c f)"
  by (simp add: takes_def spared_def upd_blk_def later_refl)

lemma spare_updates:
  "takes spared (upd_dev f1)" "takes spared (upd_par f2)" "takes spared (upd_cal f3)"
  by (simp_all add: takes_def spared_def upd_dev_def upd_par_def upd_cal_def later_refl)

lemma spare_readers:
  "takes spared (gets g0)" "takes spared (param f1)" "takes spared (get_dev f2)" "takes spared (get_blk c f3)"
  "takes spared (get_cal f4)" "takes spared (tgpio_output_desired_get c)"
  by (simp_all add: takes_def spared_def tgpio_output_desired_get_def later_refl)

lemma spare_clock:
  "takes spared (ktime_get_real K)" "takes spared (tgpio_get_current_art K)" "takes spared (tgpio_clock_now_ns K)"
  "takes spared (tgpio_clock_delta_to_real_ns d)" "takes spared (tgpio_clock_delta_to_art_cycles K d)"
  "takes spared (tgpio_prepare_output_timing K intv p m f)" "takes spared tgpio_clock_uses_model"
  "takes spared (tgpio_clock_phc_art_to_ns art)" "takes spared (tgpio_clock_art_cycles_to_delta_ns K c)"
  "takes spared (tgpio_clock_ns_to_compare_art K ns)" "takes spared tgpio_output_phase_nudge_min_ns"
  "takes spared (tgpio_get_realtime_snapshot K)" "takes spared (ktime_real_to_art K t)"
  "takes spared (tgpio_output_quantization_get K p h)"
  by (rule spare_advances;
      (rule advances_readers advances_kernel advances_current_art advances_now advances_delta advances_convert
        advances_compare advances_prepare advances_log_arm frame))+

lemma spare_samples:
  "takes spared (tgpio_sample_art_raw K)" "takes spared (tgpio_sample_art_real K)" "takes spared tgpio_art_cal_realtime"
  "takes spared tgpio_log_activity_on" "takes spared tgpio_log_rounding_on" "takes spared tgpio_phc_params_get"
  "takes spared (tgpio_clock_art_to_ns K art)"
proof -
  note r = spare.constructs spare_readers spare_clock spare_liftk raw_later
  have "takes spared (sample_art_raw_loop n K)" for n
    by (induction n) (auto simp: ktime_get_raw_ns_def Let_def intro!: r)
  then show "takes spared (tgpio_sample_art_raw K)" by (simp add: tgpio_sample_art_raw_def)
  have "takes spared (sample_art_real_loop n K best w)" for n best w
    by (induction n arbitrary: best w) (auto simp: Let_def intro!: r)
  then show "takes spared (tgpio_sample_art_real K)" by (simp add: tgpio_sample_art_real_def)
qed (auto simp: tgpio_art_cal_realtime_def tgpio_log_activity_on_def tgpio_log_rounding_on_def
      tgpio_phc_params_get_def tgpio_clock_art_to_ns_def tgpio_art_cycles_to_realtime_delta_ns_def tgpio_realtime_anchor_def
      intro!: spare.constructs spare_readers spare_clock)

lemmas spare_rules = spare.constructs spare_readers spare_updates spare_clock spare_samples

lemma spare_reads:
  "takes spared (tgpio_readl K c off)" "takes spared (tgpio_read_ctl K c)" "takes spared (tgpio_read_capture K c)"
  "takes spared (tgpio_read_compv K c)" "takes spared (liftk (k_has_art_base K))" "takes spared (liftk (k_crosststamp K art h))"
proof -
  show r: "takes spared (tgpio_readl K c off)" for off
    by (simp add: tgpio_readl_def spare_liftk read_later)
  then show "takes spared (tgpio_read_ctl K c)" by (simp add: tgpio_read_ctl_def)
  show "takes spared (tgpio_read_capture K c)"
    by (auto simp: tgpio_read_capture_def intro!: spare_rules r)
  have h: "takes spared (modify (hung_update f))" for f
    by (simp add: takes_def spared_def later_refl)
  have "takes spared (tgpio_read_compv_loop n K c hi)" for n hi
    by (induction n arbitrary: hi) (auto intro!: spare_rules r h)
  then show "takes spared (tgpio_read_compv K c)"
    by (auto simp: tgpio_read_compv_def intro!: spare_rules r)
qed (simp_all add: spare_liftk base_later crosststamp_later)

subsection \<open>Every entry point spares the outputs\<close>

lemma spare_publishers:
  "takes spared (schedule_work c)" "takes spared (tgpio_disable_output c)" "takes spared (tgpio_output_publish c r m p h l f)"
  "takes spared (tgpio_output_timer c)" "takes spared tgpio_resync_outputs_after_phc_step"
  "takes spared tgpio_update_outputs_after_phc_freq"
  by (auto simp: publish_defs mirror_part_def intro!: spare_rules spare_upd_blk)

lemmas spared = spare_rules spare_reads spare_publishers

lemma spare_debugfs:
  "takes spared (tgpio_output_invert_write c parsed count)" "takes spared (tgpio_tdc_reset_write parsed count)"
  "takes spared (tgpio_oneshot_write K c pulse count)" "takes spared (tgpio_oneshot_stop_work_fn c)"
  by (auto simp: tgpio_output_invert_write_def tgpio_tdc_reset_write_def tgpio_oneshot_write_def
      tgpio_oneshot_stop_work_fn_def Let_def mirror_part_def intro!: spared spare_upd_blk)

lemma spare_config: "takes spared (tgpio_config_output_values K c p d v f on)" "takes spared (tgpio_config_input c flags on)"
  by (auto simp: tgpio_config_output_values_def trace_defs tgpio_config_input_def mirror_part_def intro!: spared spare_upd_blk)

lemma spare_enable: "takes spared (tgpio_ptp_enable K req on)"
  by (auto simp: tgpio_ptp_enable_def tgpio_config_output_def Let_def intro!: spared spare_config split: ptp_clock_request.split)

lemma spare_clock_ops:
  "takes spared (tgpio_ptp_settime64 K ts)" "takes spared (tgpio_ptp_adjtime K delta)" "takes spared (tgpio_ptp_adjfine K ppm)"
  by (auto simp: tgpio_ptp_settime64_def trace_defs tgpio_ptp_adjtime_def tgpio_ptp_adjfine_def tgpio_realtime_adjtime_def
      tgpio_realtime_adjfine_def Let_def intro!: spared spare_liftk adjtimex_later settime_later)

lemma spare_refine: "takes spared (tgpio_art_refine_work_fn K)"
  by (auto simp: tgpio_art_refine_work_fn_def art_refine_realtime_def art_refine_apply_def intro!: spared)

lemma spare_watchdog: "takes spared (tgpio_watchdog_work_fn K)"
  by (auto simp: tgpio_watchdog_work_fn_def tgpio_watchdog_block_def mirror_part_def intro!: spared spare_upd_blk)

lemma spare_timestamps:
  "takes spared (tgpio_emit_event K c i art)" "takes spared (tgpio_take_crosststamp K)"
  "takes spared (tgpio_pps_emit K c art)" "takes spared (tgpio_tdc_capture K c art ev)" "takes spared tgpio_poll_interval_ms"
  "takes spared (tgpio_auto_polarity_check c ns)" "takes spared (tgpio_input_stats_update K c art)"
  by (auto simp: tgpio_emit_event_def tgpio_take_crosststamp_def tgpio_pps_emit_def tgpio_tdc_capture_def
      tgpio_poll_interval_ms_def tgpio_poll_time_def count_fallback_def trace_defs tgpio_art_to_realtime_ns_def
      tgpio_auto_polarity_check_def tgpio_input_stats_update_def interval_add_def Let_def mirror_part_def
      intro!: spared spare_upd_blk split: polarity_verdict.split)

lemma spare_other_write: "c \<noteq> b \<Longrightarrow> takes spared (tgpio_write_ctl K c v)" "c \<noteq> b \<Longrightarrow> takes spared (tgpio_write_compv K c w)"
  "c \<noteq> b \<Longrightarrow> takes spared (tgpio_write_piv K c w)"
  by (auto simp: tgpio_write_ctl_def tgpio_write_compv_def tgpio_write_piv_def tgpio_writel_def
      intro!: spared spare_liftk other_write_later)

lemma spare_poll_block: "takes spared (tgpio_poll_block K c)"
proof (cases "c = b")
  case True
  show ?thesis unfolding takes_def
  proof
    fix s
    show "spared s (exec_m (tgpio_poll_block K c) s)"
    proof (cases "blk_mode (blocks (drv s) b) = TGPIO_MODE_OUTPUT")
      case out: True
      then have "wp (tgpio_poll_block K c) (\<lambda>_ t. t = s) s"
        using True by (simp add: tgpio_poll_block_def wp_simps)
      from wp_exec [OF this] show ?thesis by (simp add: spare.sys_refl)
    qed (simp add: spared_def)
  qed
next
  case False
  then show ?thesis
    by (auto simp: tgpio_poll_block_def tgpio_poll_capture_def tgpio_apply_input_def mirror_part_def
        intro!: spared spare_timestamps spare_upd_other spare_other_write)
qed

lemma spare_poll: "takes spared (tgpio_poll_work K)"
  by (auto simp: tgpio_poll_work_def intro!: spared spare_poll_block spare_timestamps)

lemma entry_spares: "entry_step K s t \<Longrightarrow> spared s t"
  by (erule entry_step.cases)
    (simp only:, rule takesD, rule spare_debugfs spare_enable spare_clock_ops spare_refine spare_watchdog
      spare_poll spare_publishers spare_updates)+

subsection \<open>The work of the other output spares this one\<close>

lemma spare_other_hw:
  assumes "c \<noteq> b"
  shows "takes spared (tgpio_hw_flop_fold K c)" "takes spared (tgpio_disable_output_hw K c)"
    "takes spared (output_quiesce K c)" "takes spared (tgpio_program_output_edge K c e bits)"
    "takes spared (hrtimer_cancel c)" "takes spared (tgpio_output_wake_at c w)"
proof -
  show f: "takes spared (tgpio_hw_flop_fold K c)"
    by (auto simp: tgpio_hw_flop_fold_def intro!: spared spare_upd_other [OF assms])
  show "takes spared (tgpio_disable_output_hw K c)" "takes spared (output_quiesce K c)"
    "takes spared (tgpio_program_output_edge K c e bits)"
    "takes spared (hrtimer_cancel c)" "takes spared (tgpio_output_wake_at c w)"
    by (auto simp: tgpio_disable_output_hw_def output_quiesce_def tgpio_program_output_edge_def hrtimer_cancel_def
        tgpio_output_wake_at_def intro!: spared f spare_upd_other [OF assms] spare_other_write [OF assms])
qed

lemma spare_phase: "takes spared (tgpio_hw_periodic_phase_get K c g h)" "takes spared (tgpio_log_output_quantization K c f h)"
proof -
  show p: "takes spared (tgpio_hw_periodic_phase_get K c g h)" for g
    by (auto simp: tgpio_hw_periodic_phase_get_def tgpio_hw_phase_refine_def intro!: spared)
  show "takes spared (tgpio_log_output_quantization K c f h)"
    by (auto simp: tgpio_log_output_quantization_def intro!: spared p)
qed

lemma spare_log_arm: "takes spared (tgpio_log_output_arm K c d)" "takes spared (tgpio_log_rounding_interval K v)"
  by (auto simp: tgpio_log_output_arm_def tgpio_log_rounding_interval_def intro!: spared)

lemma spare_other_arm:
  assumes "c \<noteq> b"
  shows "takes spared (tgpio_arm_hardware_periodic K c f h l)" "takes spared (tgpio_arm_output K c f p h l m)"
    "takes spared (tgpio_reconcile_arm K c d)" "takes spared (tgpio_hw_periodic_write_compv_paused K c w)"
proof -
  note r = spared spare_phase spare_log_arm spare_other_hw [OF assms] spare_upd_other [OF assms] spare_other_write [OF assms]
  show "takes spared (tgpio_arm_hardware_periodic K c f h l)" "takes spared (tgpio_hw_periodic_write_compv_paused K c w)"
    by (auto simp: tgpio_arm_hardware_periodic_def arm_hw_program_def output_hw_start_def
        tgpio_hw_periodic_write_compv_paused_def intro!: r)
  have a: "takes spared (tgpio_arm_output K c f p h l m)" for f p h l m
    by (auto simp: tgpio_arm_output_def intro!: r)
  show "takes spared (tgpio_arm_output K c f p h l m)" by (rule a)
  show "takes spared (tgpio_reconcile_arm K c d)"
    by (auto simp: tgpio_reconcile_arm_def intro!: r a)
qed

lemma spare_other_work:
  assumes "c \<noteq> b"
  shows "takes spared (run_output_work K c)"
proof -
  note r = spared spare_phase spare_log_arm spare_other_hw [OF assms] spare_other_arm [OF assms]
    spare_upd_other [OF assms] spare_other_write [OF assms] spare_liftk sleep_later
  have loops: "takes spared (drain_loop n K c)" "takes spared (invert_wait_loop n K c)" for n
    by (induction n) (auto intro!: r)
  have freq: "takes spared (tgpio_hw_periodic_apply_freq K c d)" for d
    by (auto simp: tgpio_hw_periodic_apply_freq_def intro!: r)
  have inv: "takes spared (tgpio_hw_periodic_invert K c)" "takes spared (tgpio_hw_periodic_drain_low K c)"
    by (auto simp: tgpio_hw_periodic_invert_def tgpio_hw_periodic_drain_low_def intro!: r loops)
  have same: "takes spared (tgpio_output_work_same_gen K c)"
    by (auto simp: tgpio_output_work_same_gen_def tgpio_hw_duty_service_def tgpio_output_software_edge_def intro!: r)
  show ?thesis
    by (auto simp: run_output_work_def tgpio_output_work_def intro!: r inv freq same)
qed

end

section \<open>Which flips are applied\<close>

definition flips_of :: "nat \<Rightarrow> driver \<Rightarrow> tgpio_mode \<times> u32" where
  "flips_of b d = (blk_mode (blocks d b), output_applied_flip_gen (blocks d b))"

interpretation kept: memory_order "\<lambda>d d'. flips_of b d' = flips_of b d" for b
  by unfold_locales simp_all

abbreviation keeps_flips :: "nat \<Rightarrow> ('k sys, 'a) state \<Rightarrow> bool" where
  "keeps_flips b \<equiv> moves (\<lambda>d d'. flips_of b d' = flips_of b d)"

lemma kept_upd_blk:
  "(\<And>m. (blk_mode (f m), output_applied_flip_gen (f m)) = (blk_mode m, output_applied_flip_gen m)) \<Longrightarrow> keeps_flips b (upd_blk c f)"
  by (simp add: takes_def flips_of_def upd_blk_def)

lemmas kept_rules = kept.rules kept_upd_blk

lemma kept_hw:
  "keeps_flips b (tgpio_hw_flop_fold K c)" "keeps_flips b (output_quiesce K c)" "keeps_flips b (tgpio_disable_output_hw K c)"
  "keeps_flips b (hrtimer_cancel c)" "keeps_flips b (tgpio_output_wake_at c w)"
proof -
  show f: "keeps_flips b (tgpio_hw_flop_fold K c)"
    by (auto simp: tgpio_hw_flop_fold_def intro!: kept_rules)
  show "keeps_flips b (output_quiesce K c)" "keeps_flips b (tgpio_disable_output_hw K c)"
    "keeps_flips b (hrtimer_cancel c)" "keeps_flips b (tgpio_output_wake_at c w)"
    by (auto simp: output_quiesce_def tgpio_disable_output_hw_def hrtimer_cancel_def tgpio_output_wake_at_def
        intro!: kept_rules f)
qed

lemma kept_arm:
  "keeps_flips b (tgpio_arm_hardware_periodic K c f h l)" "keeps_flips b (tgpio_reconcile_arm K c d)"
  "keeps_flips b (tgpio_hw_periodic_write_compv_paused K c w)"
  by (auto simp: tgpio_arm_hardware_periodic_def arm_hw_program_def output_hw_start_def tgpio_reconcile_arm_def
      tgpio_arm_output_def tgpio_hw_periodic_write_compv_paused_def intro!: kept_rules kept_hw)

lemma kept_work:
  "keeps_flips b (tgpio_hw_periodic_drain_low K c)" "keeps_flips b (tgpio_hw_periodic_invert K c)"
  "keeps_flips b (work_rest K c d)"
proof -
  note r = kept_rules kept_hw kept_arm
  have loops: "keeps_flips b (drain_loop n K c)" "keeps_flips b (invert_wait_loop n K c)" for n
    by (induction n) (auto intro!: r)
  show "keeps_flips b (tgpio_hw_periodic_drain_low K c)" "keeps_flips b (tgpio_hw_periodic_invert K c)"
    by (auto simp: tgpio_hw_periodic_drain_low_def tgpio_hw_periodic_invert_def intro!: r loops)
  show "keeps_flips b (work_rest K c d)"
    by (auto simp: work_rest_def tgpio_hw_periodic_apply_freq_def tgpio_log_rounding_interval_def
        tgpio_output_work_same_gen_def tgpio_hw_duty_service_def tgpio_output_software_edge_def intro!: r)
qed

lemma wp_work_flips:
  "wp (tgpio_output_work K b) (\<lambda>_ t. flips_of b (drv t) = (blk_mode (blocks (drv s) b),
     if des_run (output_desired (blocks (drv s) b)) = TGPIO_OUTPUT_RUNNING
     then des_flip_gen (output_desired (blocks (drv s) b)) else output_applied_flip_gen (blocks (drv s) b))) s"
proof (cases "des_run (output_desired (blocks (drv s) b))")
  case TGPIO_OUTPUT_STOPPED
  have "keeps_flips b (do { hrtimer_cancel b; tgpio_hw_periodic_drain_low K b; tgpio_disable_output_hw K b })"
    by (intro kept.rules kept_hw kept_work)
  then have "wp (do { hrtimer_cancel b; tgpio_hw_periodic_drain_low K b; tgpio_disable_output_hw K b })
      (\<lambda>_ t. flips_of b (drv t) = flips_of b (drv s)) s"
    by (rule wp_takes) simp
  then show ?thesis
    using TGPIO_OUTPUT_STOPPED
    by (simp add: work_split tgpio_output_desired_get_def wp_bind wp_get_blk flips_of_def)
next
  case TGPIO_OUTPUT_RUNNING
  let ?d = "output_desired (blocks (drv s) b)"
  have flip: "keeps_flips b (when_m f (tgpio_hw_periodic_invert K b))" for f
    by (intro kept.rules kept_work)
  have rest: "wp (do { upd_blk b (output_applied_flip_gen_update (\<lambda>_. des_flip_gen ?d)); work_rest K b ?d })
      (\<lambda>_ t. flips_of b (drv t) = (blk_mode (blocks (drv s) b), des_flip_gen ?d)) u"
    if "flips_of b (drv u) = flips_of b (drv s)" for u
    unfolding wp_bind wp_upd_blk
    by (rule wp_takes [OF kept_work(3) [of b]]) (use that in \<open>simp add: flips_of_def\<close>)
  show ?thesis
    using TGPIO_OUTPUT_RUNNING
    by (simp add: work_split tgpio_output_desired_get_def wp_bind [of "get_blk _ _"] wp_get_blk)
      (subst wp_bind, rule wp_takes [OF flip], rule rest, simp)
qed

section \<open>Runs\<close>

text \<open>
  The steps of the loaded driver that the invariant is about: any entry point, the work of the
  other outputs, time passing with any edges (\<open>passes\<close>, also after a quiet moment), and the work
  of block \<open>b\<close>, for stopped outputs and symmetric hardware waveforms, and at a quiet moment when
  it rewrites a free-running block.
\<close>

inductive output_step :: "'k kernel \<Rightarrow> nat \<Rightarrow> ('k \<Rightarrow> 'k \<Rightarrow> bool) \<Rightarrow> ('k \<Rightarrow> bool) \<Rightarrow> 'k sys \<Rightarrow> 'k sys \<Rightarrow> bool"
  for K b passes calm where
  entry: "entry_step K s t \<Longrightarrow> output_step K b passes calm s t"
| other: "c \<noteq> b \<Longrightarrow> output_step K b passes calm s (exec_m (run_output_work K c) s)"
| time: "passes (kst s) k \<Longrightarrow> output_step K b passes calm s (s\<lparr>kst := k\<rparr>)"
| work: "hw_symmetric (output_desired (blocks (drv s) b)) \<Longrightarrow> hands_off (blocks (drv s) b) \<or> calm (kst s) \<Longrightarrow>
    output_step K b passes calm s (exec_m (run_output_work K b) s)"

lemma output_step_driver_step: "output_step K b passes calm s t \<Longrightarrow> driver_step K s t"
  by (erule output_step.cases) (auto intro: driver_step.intros)

text \<open>
  The level of an output is known up to a fixed inversion \<open>e\<close>, the error of the very first
  belief, and the flips applied since.
\<close>

definition level_known :: "bool \<Rightarrow> nat \<Rightarrow> ('k \<Rightarrow> u32) \<Rightarrow> ('k \<Rightarrow> u64) \<Rightarrow> ('k \<Rightarrow> u64) \<Rightarrow> ('k \<Rightarrow> bool) \<Rightarrow> 'k sys \<Rightarrow> bool" where
  "level_known e b ctl compv piv level s \<longleftrightarrow> blk_mode (blocks (drv s) b) = TGPIO_MODE_OUTPUT \<and>
    mirror_ok b ctl compv piv (\<lambda>k. level k \<noteq> (e \<noteq> odd (unat (output_applied_flip_gen (blocks (drv s) b))))) s"

lemma flips_pending_parity:
  "flips_pending m = (odd (unat (des_flip_gen (output_desired m))) \<noteq> odd (unat (output_applied_flip_gen m)))"
proof -
  have o: "odd (unat w) = bit w 0" for w :: u32 by (simp add: bit_0 bit_unsigned_iff flip: bit_0)
  have "(w AND 1 \<noteq> 0) = bit w 0" for w :: u32 by (simp add: and_one_eq mod_2_eq_odd bit_0)
  then show ?thesis unfolding flips_pending_def o by (simp add: bit_0)
qed

text \<open>Edges fire, as many as they like, if the engine runs.\<close>

definition edge_move :: "u32 \<Rightarrow> u64 \<Rightarrow> u64 \<Rightarrow> bool \<Rightarrow> u32 \<Rightarrow> u64 \<Rightarrow> u64 \<Rightarrow> bool \<Rightarrow> bool" where
  "edge_move c cv p lv c' cv' p' lv' \<longleftrightarrow> c' = c \<and> p' = p \<and>
    (\<exists>n. unat cv' = unat cv + n * unat p \<and> lv' = (lv \<noteq> odd n) \<and> (0 < n \<longrightarrow> engine_on c))"

lemma edge_move_mirrored:
  assumes "edge_move c cv p lv c' cv' p' lv'" "mirrored m c cv p (lv \<noteq> f)"
  shows "mirrored m c' cv' p' (lv' \<noteq> f)"
proof -
  obtain n where n: "c' = c" "p' = p" "unat cv' = unat cv + n * unat p" "lv' = (lv \<noteq> odd n)" "0 < n \<longrightarrow> engine_on c"
    using assms(1) by (auto simp: edge_move_def)
  show ?thesis
  proof (cases "output_phase m = TGPIO_OUTPUT_HARDWARE_PERIODIC")
    case True
    then obtain j where j: "unat cv = unat (output_hw_ckpt_compv m) + j * unat p" "(lv \<noteq> f) = (output_hw_flop_high m \<noteq> odd j)"
      "p \<noteq> 0" "output_hw_piv m = p" using assms(2) by (auto simp: mirrored_def tracked_def)
    have "tracked (output_hw_ckpt_compv m) p (output_hw_flop_high m) cv' (lv' \<noteq> f)"
      unfolding tracked_def by (rule exI [of _ "j + n"]) (use n j in \<open>auto simp: algebra_simps\<close>)
    then show ?thesis using True n j by (simp add: mirrored_def)
  next
    case False
    then have "n = 0" using assms(2) n(5) engine_off_EN by (auto simp: mirrored_def)
    then show ?thesis using assms(2) n False by (simp add: mirrored_def)
  qed
qed

locale calm_board = board K b ctl compv piv level later + calm_engine K b ctl compv piv level later calm
  for K :: "'k kernel" and b :: nat
    and ctl :: "'k \<Rightarrow> u32" and compv :: "'k \<Rightarrow> u64" and piv :: "'k \<Rightarrow> u64"
    and level :: "'k \<Rightarrow> bool" and later :: "'k \<Rightarrow> 'k \<Rightarrow> bool" and calm :: "'k \<Rightarrow> bool" +
  fixes passes :: "'k \<Rightarrow> 'k \<Rightarrow> bool"
  assumes passes_edges: "passes k k' \<Longrightarrow> edge_move (ctl k) (compv k) (piv k) (level k) (ctl k') (compv k') (piv k') (level k')"
begin

abbreviation known :: "bool \<Rightarrow> 'k sys \<Rightarrow> bool" where
  "known e \<equiv> level_known e b ctl compv piv level"

lemma known_spared: "spared s t \<Longrightarrow> known e s \<Longrightarrow> known e t"
  using toggle_engine.mok_later [OF inverted, of s t "e \<noteq> odd (unat (output_applied_flip_gen (blocks (drv s) b)))"]
  by (auto simp: spared_def level_known_def)

lemma known_time: "passes (kst s) k \<Longrightarrow> known e s \<Longrightarrow> known e (s\<lparr>kst := k\<rparr>)"
  using edge_move_mirrored [OF passes_edges, of "kst s" k "blocks (drv s) b" "e \<noteq> odd (unat (output_applied_flip_gen (blocks (drv s) b)))"]
  by (auto simp: level_known_def mirror_ok_def)

lemma known_work:
  assumes "known e s" "hw_symmetric (output_desired (blocks (drv s) b))" "hands_off (blocks (drv s) b) \<or> calm (kst s)"
  shows "known e (exec_m (run_output_work K b) s)"
proof (cases "output_work_pending (blocks (drv s) b)")
  case True
  define u where "u = s\<lparr>drv := (drv s)\<lparr>blocks := (blocks (drv s))(b := (blocks (drv s) b)\<lparr>output_work_pending := False\<rparr>)\<rparr>\<rparr>"
  let ?a = "output_applied_flip_gen (blocks (drv s) b)"
  let ?r = "des_run (output_desired (blocks (drv s) b)) = TGPIO_OUTPUT_RUNNING"
  let ?f = "?r \<and> flips_pending (blocks (drv s) b)"
  let ?e = "e \<noteq> odd (unat ?a)"
  have u: "known e u"
    by (rule known_spared [OF _ assms(1)]) (simp add: u_def spared_def mirror_part_def later_refl)
  then have m: "mirror_ok b ctl compv piv (\<lambda>k. level k \<noteq> ?e) u" by (simp add: level_known_def u_def)
  have ub: "output_desired (blocks (drv u) b) = output_desired (blocks (drv s) b)"
    "output_applied_flip_gen (blocks (drv u) b) = ?a" "blk_mode (blocks (drv u) b) = TGPIO_MODE_OUTPUT"
    using assms(1) by (simp_all add: u_def level_known_def)
  from calm_engine.work_mok [OF inverted_calm m, of ?f]
  have "wp (tgpio_output_work K b) (\<lambda>_. mirror_ok b ctl compv piv (\<lambda>k. (level k \<noteq> ?e) \<noteq> ?f)) u"
    using assms(2,3) by (simp add: u_def hands_off_def flips_pending_def)
  moreover have "wp (tgpio_output_work K b) (\<lambda>_ t. flips_of b (drv t) =
      (TGPIO_MODE_OUTPUT, if ?r then des_flip_gen (output_desired (blocks (drv s) b)) else ?a)) u"
    using wp_work_flips [of K b u, unfolded ub] .
  ultimately have "wp (tgpio_output_work K b) (\<lambda>_. known e) u"
  proof (rule wp_and)
    fix t assume m: "mirror_ok b ctl compv piv (\<lambda>k. (level k \<noteq> ?e) \<noteq> ?f) t" and
      f: "flips_of b (drv t) = (TGPIO_MODE_OUTPUT, if ?r then des_flip_gen (output_desired (blocks (drv s) b)) else ?a)"
    have "((l \<noteq> ?e) \<noteq> ?f) = (l \<noteq> (e \<noteq> odd (unat (output_applied_flip_gen (blocks (drv t) b)))))" for l
      using f by (auto simp: flips_of_def flips_pending_parity)
    then show "known e t" using m f by (simp add: level_known_def flips_of_def)
  qed
  then show ?thesis
    using True by (intro wp_exec) (simp add: run_output_work_def wp_simps u_def)
next
  case False
  have "wp (run_output_work K b) (\<lambda>_. known e) s"
    using False assms(1) by (simp add: run_output_work_def wp_simps)
  then show ?thesis by (rule wp_exec)
qed

lemma known_step:
  assumes "output_step K b passes calm s t" "known e s"
  shows "known e t"
  using assms(1)
proof cases
  case entry
  then show ?thesis using known_spared [OF entry_spares] assms(2) by blast
next
  case (other c)
  then show ?thesis using known_spared [OF takesD [OF spare_other_work]] assms(2) by blast
next
  case time
  then show ?thesis using known_time assms(2) by blast
next
  case work
  then show ?thesis using known_work assms(2) by blast
qed

lemma known_run: "(output_step K b passes calm)\<^sup>*\<^sup>* s t \<Longrightarrow> known e s \<Longrightarrow> known e t"
  by (induction rule: rtranclp_induct) (auto intro: known_step)

end

end
