(* ===== verification/Mirror_Props.thy ===== *)
theory Mirror_Props
  imports Output_Runs
begin

text \<open>
  The level mirror over runs of the driver, its only writer, and the window in which an edge
  still escapes it.
\<close>

section \<open>The simulated board\<close>

text \<open>A quiet world: no edge is scheduled any more.\<close>

definition w_calm :: "world \<Rightarrow> bool" where
  "w_calm w \<longleftrightarrow> set (w_edges w) \<subseteq> {0}"

lemma w_calm_pass: "w_calm w \<Longrightarrow> w_calm (pass w) \<and> w_engine (pass w) = w_engine w"
  by (cases "w_edges w") (auto simp: w_calm_def pass_def)

lemma w_calm_later:
  assumes "w_calm w" "w_later b w w'"
  shows "w_calm w' \<and> w_engine w' b = w_engine w b"
proof -
  obtain i where i: "w_edges w' = drop i (w_edges w)"
    "w_engine w' b = fire_edges (sum_list (take i (w_edges w))) (w_engine w b)"
    using assms(2) by (auto simp: w_later_def)
  have "set (take i (w_edges w)) \<subseteq> {0}" "set (drop i (w_edges w)) \<subseteq> {0}"
    using assms(1) set_take_subset [of i "w_edges w"] set_drop_subset [of i "w_edges w"]
    unfolding w_calm_def by (meson order_trans)+
  moreover from this(1) have z: "sum_list (take i (w_edges w)) = 0"
    by (auto simp: sum_list_eq_0_iff)
  have "w_engine w' b = w_engine w b" unfolding i z by simp
  ultimately show ?thesis using i(1) by (simp add: w_calm_def)
qed

lemma sim_calm_write:
  assumes "w_calm w" "w' = exec_m (k_writel (sim_kernel r) b off v) w"
  shows "w_calm w' \<and> w_engine w' b = engine_write (w_engine w b) off v"
  using w_calm_pass [OF assms(1)] assms(2) by (simp add: sim_kernel_def sim_writel_def Let_def w_calm_def)

lemma sim_other_write: "c \<noteq> b \<Longrightarrow> w_later b w (exec_m (k_writel (sim_kernel r) c off v) w)"
  using pass_later [of b w] by (simp add: sim_kernel_def sim_writel_def Let_def w_later_def)

lemma sim_services:
  "w_later b w (exec_m (k_readl (sim_kernel r) c off) w)" "w_later b w (exec_m (k_get_raw (sim_kernel r)) w)"
  "w_later b w (exec_m (k_has_art_base (sim_kernel r)) w)" "w_later b w (exec_m (k_crosststamp (sim_kernel r) art h) w)"
  "w_later b w (exec_m (k_adjtimex (sim_kernel r) req) w)" "w_later b w (exec_m (k_settimeofday (sim_kernel r) ts) w)"
  using pass_later w_later_refl by (simp_all add: sim_kernel_def sim_readl_def Let_def)

text \<open>Outside the driver's accesses edges fire, and what fires during the next ones is open again.\<close>

definition w_passes :: "nat \<Rightarrow> world \<Rightarrow> world \<Rightarrow> bool" where
  "w_passes b w w' \<longleftrightarrow> (\<exists>n. w_engine w' b = fire_edges n (w_engine w b))"

lemma w_passes_fire: "w_passes b w (w\<lparr>w_engine := (\<lambda>c. fire_edges n (w_engine w c)), w_edges := es\<rparr>)"
  by (auto simp: w_passes_def)

lemma w_passes_edges:
  "w_passes b w w' \<Longrightarrow> edge_move (e_ctl (w_engine w b)) (e_compv (w_engine w b)) (e_piv (w_engine w b)) (e_level (w_engine w b))
    (e_ctl (w_engine w' b)) (e_compv (w_engine w' b)) (e_piv (w_engine w' b)) (e_level (w_engine w' b))"
  using fire_edges_effect unfolding w_passes_def edge_move_def by metis

interpretation sim_board: calm_board "sim_kernel (2 ^ 32)" b "\<lambda>w. e_ctl (w_engine w b)"
    "\<lambda>w. e_compv (w_engine w b)" "\<lambda>w. e_piv (w_engine w b)" "\<lambda>w. e_level (w_engine w b)" "w_later b" w_calm "w_passes b"
  for b
proof (rule calm_board.intro [OF board.intro [OF sim.toggle_engine_axioms] calm_engine.intro [OF sim.toggle_engine_axioms]])
  let ?K = "sim_kernel (2 ^ 32)"
  show "board_axioms ?K b (w_later b)"
    by unfold_locales (rule sim_services sim_other_write, assumption?)+
  show "calm_engine_axioms ?K b (\<lambda>w. e_ctl (w_engine w b)) (\<lambda>w. e_compv (w_engine w b)) (\<lambda>w. e_piv (w_engine w b))
      (\<lambda>w. e_level (w_engine w b)) (w_later b) w_calm"
    using w_calm_later sim_calm_write [OF _ refl]
    by unfold_locales (auto simp: engine_write_def)
  show "calm_board_axioms (\<lambda>w. e_ctl (w_engine w b)) (\<lambda>w. e_compv (w_engine w b)) (\<lambda>w. e_piv (w_engine w b))
      (\<lambda>w. e_level (w_engine w b)) (w_passes b)"
    by (rule calm_board_axioms.intro) (rule w_passes_edges)
qed

section \<open>The level mirror\<close>

text \<open>
  C1. The tracked level over whole runs of the loaded driver: whatever requests, captures and
  clock changes come in and whenever edges fire, an output that is only used for symmetric
  hardware waveforms stays mirrored, its level known up to the error of the first belief and the
  calibration flips applied since, provided that no edge fires while the work rewrites the
  registers of the free-running block.
\<close>

theorem output_level_tracked:
  assumes "calm_board K b ctl compv piv level later calm passes"
    and "(output_step K b passes calm)\<^sup>*\<^sup>* s t" and "level_known e b ctl compv piv level s"
  shows "mirrored (blocks (drv t) b) (ctl (kst t)) (compv (kst t)) (piv (kst t))
    (level (kst t) \<noteq> (e \<noteq> odd (unat (output_applied_flip_gen (blocks (drv t) b)))))"
  using calm_board.known_run [OF assms] by (simp add: level_known_def mirror_ok_def)

definition race_desired :: tgpio_output_desired where
  "race_desired = zero_desired\<lparr>des_run := TGPIO_OUTPUT_RUNNING, des_freq_gen := 1, des_mode := TGPIO_OUTPUT_HARDWARE,
     des_period_ns := 1000000000, des_high_time_ns := 500000000, des_low_time_ns := 500000000\<rparr>"

text \<open>
  A running block whose work is scheduled for a new frequency generation at a quiet moment;
  then five edges fire at once and others during the clock tuning that follows.
\<close>

definition refresh_block :: tgpio_mmio_block where
  "refresh_block = running_block\<lparr>output_desired := race_desired, output_work_pending := True\<rparr>"

lemma output_level_tracked_witness:
  "let K = sim_kernel (2 ^ 32); u = exec_m (run_output_work K 0) (sim_sys refresh_block running_engine []);
     v = u\<lparr>kst := (kst u)\<lparr>w_engine := (\<lambda>c. fire_edges 5 (w_engine (kst u) c)), w_edges := [2, 1, 4]\<rparr>\<rparr>;
     t = exec_m (tgpio_ptp_adjfine K 100) v; m = blocks (drv t) 0; e = w_engine (kst t) 0
   in mirrored m (e_ctl e) (e_compv e) (e_piv e) (e_level e \<noteq> odd (unat (output_applied_flip_gen m)))"
proof -
  let ?K = "sim_kernel (2 ^ 32)"
  let ?s = "sim_sys refresh_block running_engine []"
  define u where "u = exec_m (run_output_work ?K 0) ?s"
  define v where "v = u\<lparr>kst := (kst u)\<lparr>w_engine := (\<lambda>c. fire_edges 5 (w_engine (kst u) c)), w_edges := [2, 1, 4]\<rparr>\<rparr>"
  have k: "level_known False 0 (\<lambda>w. e_ctl (w_engine w 0)) (\<lambda>w. e_compv (w_engine w 0))
    (\<lambda>w. e_piv (w_engine w 0)) (\<lambda>w. e_level (w_engine w 0)) ?s"
    by (simp add: level_known_def mirror_ok_def mirrored_def refresh_block_def running_block_def running_engine_def
        output_block_def zero_block_def)
  have w: "output_step ?K 0 (w_passes 0) w_calm ?s u"
    unfolding u_def
    by (rule output_step.work) (simp_all add: refresh_block_def race_desired_def hw_symmetric_def w_calm_def sim_sys_def sim_driver_def sim_world_def)
  have p: "output_step ?K 0 (w_passes 0) w_calm u v"
    unfolding v_def by (rule output_step.time) (rule w_passes_fire)
  have e: "output_step ?K 0 (w_passes 0) w_calm v (exec_m (tgpio_ptp_adjfine ?K 100) v)"
    by (rule output_step.entry) (rule entry_step.adjfine)
  have r: "(output_step ?K 0 (w_passes 0) w_calm)\<^sup>*\<^sup>* ?s (exec_m (tgpio_ptp_adjfine ?K 100) v)"
    by (rule rtranclp.rtrancl_into_rtrancl [OF rtranclp.rtrancl_into_rtrancl [OF r_into_rtranclp [where r = "output_step ?K 0 (w_passes 0) w_calm", OF w] p] e])
  show ?thesis
    using output_level_tracked [OF sim_board.calm_board_axioms [of 0] r k] by (simp add: Let_def u_def v_def)
qed

section \<open>The only writer\<close>

text \<open>
  C2. The work is the only writer of an output: every other entry point of the driver, on
  behalf of any request, leaves the control and interval registers of an output, its tracked
  level and the phase of its waveform alone; only time passes for the block.
\<close>

theorem only_work_touches_output:
  assumes "board K b ctl compv piv level later" and "entry_step K s t"
    and "blk_mode (blocks (drv s) b) = TGPIO_MODE_OUTPUT"
  shows "later (kst s) (kst t) \<and> ctl (kst t) = ctl (kst s) \<and> piv (kst t) = piv (kst s) \<and>
    mirror_part (blocks (drv t) b) = mirror_part (blocks (drv s) b)"
proof -
  have "board.spared b later s t" by (rule board.entry_spares [OF assms(1,2)])
  then have l: "later (kst s) (kst t)" "mirror_part (blocks (drv t) b) = mirror_part (blocks (drv s) b)"
    using assms(3) by (simp_all add: board.spared_def [OF assms(1)])
  have "toggle_engine K b ctl compv piv level later" using assms(1) by (simp add: board_def)
  from mmio_engine.later_ctl_piv [OF toggle_engine.axioms(2) [OF this] l(1)] show ?thesis using l by simp
qed

lemma only_work_touches_output_witness:
  "e_ctl (w_engine (kst (exec_m (tgpio_ptp_adjfine (sim_kernel (2 ^ 32)) 100)
     (sim_sys running_block running_engine [1, 2]))) 0) = 25"
  using only_work_touches_output [OF sim_board.board_axioms [of 0] entry_step.adjfine,
      of "sim_sys running_block running_engine [1, 2]" 100]
  by (simp add: running_block_def output_block_def) (simp add: running_engine_def)

section \<open>An edge in the window of a refresh\<close>

text \<open>
  A free-running block whose interval is refreshed to a slightly longer one; the schedule fires
  one edge right after the fold, before the new interval is written.
\<close>

definition race_block :: tgpio_mmio_block where
  "race_block = running_block\<lparr>output_desired := race_desired, output_hw_piv := 499999990,
     output_hw_ckpt_compv := 1000000008\<rparr>"
definition race_engine :: engine where
  "race_engine = running_engine\<lparr>e_compv := 1000000008, e_piv := 499999990\<rparr>"

lemma race_conv:
  "tgpio_phc_delta_to_art_cycles (tgpio_phc_params_make 0 0 1000000000 0) 500000000 = Inr 500000000"
  "tgpio_phc_art_to_ns (tgpio_phc_params_make 0 0 1000000000 0) 1500000000 = Inr 1500000000"
  "tgpio_phc_art_to_ns (tgpio_phc_params_make 0 0 1000000000 0) 1000000000 = Inr 1000000000"
  by code_simp+

lemma race_edge:
  "fire_edge \<lparr>e_ctl = 25, e_compv = 1000000008, e_piv = 499999990, e_level = False\<rparr> =
     \<lparr>e_ctl = 25, e_compv = 1499999998, e_piv = 499999990, e_level = True\<rparr>"
  "hot_piv_ok 500000000 499999990" "combine_32 (upper_32_bits 500000000) (lower_32_bits 499999990) = 499999990"
  "combine_32 (upper_32_bits 499999990) (lower_32_bits 500000000) = 500000000"
  by (simp add: fire_edge_def engine_on_def, code_simp, code_simp, code_simp)

lemma race_order:
  "tgpio_add_s64 1500000000 0 = Inr 1500000000" "\<not> (1000000000 :: u64) <s 0" "\<not> (1500000000 :: u64) <s 0"
  "\<not> (1500000000 :: u64) <s 500000000" "\<not> (2000000000 :: u64) <s 500000000" "tgpio_abs_s64 0 = 0"
  "s64_max 0 1 = 1" "(-1 :: u64) <s 0" "(0 :: u64) <s 1"
  by code_simp+

lemmas race_run_defs = wp_run_defs
  tgpio_hw_periodic_apply_freq_def [THEN wp_unfold] tgpio_clock_delta_to_art_cycles_def [THEN wp_unfold]
  tgpio_hw_flop_fold_def [THEN wp_unfold] tgpio_read_compv_def [THEN wp_unfold] tgpio_read_compv_loop.simps [THEN wp_unfold]
  tgpio_log_rounding_interval_def [THEN wp_unfold] tgpio_log_rounding_on_def [THEN wp_unfold]
  tgpio_hw_periodic_phase_get_def [THEN wp_unfold] tgpio_clock_art_to_ns_def [THEN wp_unfold]
  tgpio_clock_phc_art_to_ns_def [THEN wp_unfold] tgpio_clock_now_ns_def [THEN wp_unfold]
  tgpio_clock_phc_now_ns_def [THEN wp_unfold] tgpio_get_current_art_def [THEN wp_unfold]
  tgpio_get_realtime_snapshot_def [THEN wp_unfold] tgpio_output_phase_nudge_min_ns_def [THEN wp_unfold]



end
