(* ===== verification/Duty_Service.thy ===== *)
theory Duty_Service
  imports Mirror_Props
begin

text \<open>
  Asymmetric hardware waveforms. The interval register holds the half that follows the pending edge, so the work
  visits the block after every edge and writes the interval of the other half. Armed and visited at
  quiet moments, at most one edge apart, the block always has the interval of the half to come and the mirror
  of its level.
\<close>

section \<open>The block between visits\<close>


definition duty_block :: "nat \<Rightarrow> u64 \<Rightarrow> u64 \<Rightarrow> driver \<Rightarrow> bool" where
  "duty_block b h l d \<longleftrightarrow> (let m = blocks d b; g = output_desired m in
     clock_mode (par d) \<noteq> TGPIO_CLOCK_REALTIME \<and> output_phase m = TGPIO_OUTPUT_HW_DUTY \<and>
     des_run g = TGPIO_OUTPUT_RUNNING \<and> des_gen g = output_applied_gen m \<and>
     des_freq_gen g = output_applied_freq_gen m \<and> des_flip_gen g = output_applied_flip_gen m \<and>
     tgpio_phc_delta_to_art_cycles (phc (dev d)) (output_high_time_ns m) = Inr h \<and>
     tgpio_phc_delta_to_art_cycles (phc (dev d)) (output_low_time_ns m) = Inr l \<and>
     h \<noteq> 0 \<and> l \<noteq> 0 \<and> upper_32_bits h = upper_32_bits l \<and> upper_32_bits (output_hw_piv m) = upper_32_bits l)"

definition duty_ready :: "nat \<Rightarrow> u64 \<Rightarrow> u64 \<Rightarrow> ('k \<Rightarrow> u64) \<Rightarrow> ('k \<Rightarrow> u64) \<Rightarrow> ('k \<Rightarrow> bool) \<Rightarrow> 'k sys \<Rightarrow> bool" where
  "duty_ready b h l compv piv level s \<longleftrightarrow> (let m = blocks (drv s) b in
     duty_block b h l (drv s) \<and> output_work_pending m \<and> output_hw_piv m = piv (kst s) \<and> piv (kst s) \<noteq> 0 \<and>
     (if output_hw_ckpt_compv m = compv (kst s) then output_hw_flop_high m = level (kst s)
      else output_hw_flop_high m = (\<not> level (kst s))))"

text \<open>After a service the checkpoint is the pending edge's, and so is the interval.\<close>

definition duty_set :: "nat \<Rightarrow> u64 \<Rightarrow> u64 \<Rightarrow> ('k \<Rightarrow> u64) \<Rightarrow> ('k \<Rightarrow> u64) \<Rightarrow> ('k \<Rightarrow> bool) \<Rightarrow> 'k sys \<Rightarrow> bool" where
  "duty_set b h l compv piv level s \<longleftrightarrow> (let m = blocks (drv s) b in
     duty_block b h l (drv s) \<and> output_hw_piv m = piv (kst s) \<and> piv (kst s) = (if level (kst s) then l else h) \<and>
     output_hw_ckpt_compv m = compv (kst s) \<and> output_hw_flop_high m = level (kst s))"

text \<open>What the arming of an asymmetric waveform needs: settled generations and convertible halves.\<close>

definition duty_plan :: "nat \<Rightarrow> u64 \<Rightarrow> u64 \<Rightarrow> u64 \<Rightarrow> u64 \<Rightarrow> driver \<Rightarrow> bool" where
  "duty_plan b high_ns low_ns h l d \<longleftrightarrow> (let m = blocks d b; g = output_desired m in
     clock_mode (par d) \<noteq> TGPIO_CLOCK_REALTIME \<and> high_ns \<noteq> low_ns \<and>
     des_run g = TGPIO_OUTPUT_RUNNING \<and> des_gen g = output_applied_gen m \<and>
     des_freq_gen g = output_applied_freq_gen m \<and> des_flip_gen g = output_applied_flip_gen m \<and>
     tgpio_phc_delta_to_art_cycles (phc (dev d)) high_ns = Inr h \<and>
     tgpio_phc_delta_to_art_cycles (phc (dev d)) low_ns = Inr l \<and>
     h \<noteq> 0 \<and> l \<noteq> 0 \<and> upper_32_bits h = upper_32_bits l)"

text \<open>The two parts of a service: the interval, and the next visit.\<close>

definition wake_after :: "'k kernel \<Rightarrow> nat \<Rightarrow> s64 tgpio_result \<Rightarrow> s64 tgpio_result \<Rightarrow> ('k sys, unit) state" where
  "wake_after K b pending now =
     (case (pending, now) of
        (Inr p, Inr n) \<Rightarrow> do {
          delay_clock \<leftarrow> ret (s64_max (p - n + TGPIO_HW_DUTY_SERVICE_DELAY_NS) TGPIO_HW_DUTY_SERVICE_DELAY_NS);
          delay_real \<leftarrow> tgpio_clock_delta_to_real_ns delay_clock;
          real \<leftarrow> ktime_get_real K;
          tgpio_output_wake_at b (real + (case delay_real of Inl e \<Rightarrow> 100 * NSEC_PER_MSEC | Inr d \<Rightarrow> d))
        }
      | _ \<Rightarrow> do {
          real \<leftarrow> ktime_get_real K;
          tgpio_output_wake_at b (real + 100 * NSEC_PER_MSEC)
        })"

definition next_visit :: "'k kernel \<Rightarrow> nat \<Rightarrow> ('k sys, unit) state" where
  "next_visit K b = do {
     compv \<leftarrow> tgpio_read_compv K b;
     if U64_MAX - TGPIO_ART_HW_DELAY_CYCLES < compv then tgpio_disable_output_hw K b
     else do {
       pending \<leftarrow> tgpio_clock_phc_art_to_ns (compv + TGPIO_ART_HW_DELAY_CYCLES);
       now \<leftarrow> tgpio_clock_now_ns K;
       wake_after K b pending now
     }
   }"

definition next_half :: "'k kernel \<Rightarrow> nat \<Rightarrow> ('k sys, unit) state" where
  "next_half K b = do {
     half_ns \<leftarrow> get_blk b (\<lambda>m. if output_hw_flop_high m then output_low_time_ns m else output_high_time_ns m);
     piv \<leftarrow> tgpio_clock_delta_to_art_cycles K half_ns;
     old_piv \<leftarrow> get_blk b output_hw_piv;
     (case piv of
        Inl e \<Rightarrow> ret ()
      | Inr v \<Rightarrow> when_m (hot_piv_ok v old_piv) (do {
          tgpio_write_piv K b v;
          upd_blk b (output_hw_piv_update (\<lambda>_. v))
        }))
   }"

lemma duty_service_split:
  "tgpio_hw_duty_service K b = do { tgpio_hw_flop_fold K b; next_half K b; next_visit K b }"
  unfolding tgpio_hw_duty_service_def next_half_def next_visit_def wake_after_def bind_assoc ..

text \<open>The conversion of a half in the modes with a clock model.\<close>

lemma wp_half_cycles:
  "clock_mode (par (drv s)) \<noteq> TGPIO_CLOCK_REALTIME \<Longrightarrow> tgpio_phc_delta_to_art_cycles (phc (dev (drv s))) ns = Inr c \<Longrightarrow> c \<noteq> 0 \<Longrightarrow>
    wp (tgpio_clock_delta_to_art_cycles K ns) Q s = Q (Inr c) s"
  by (simp add: tgpio_clock_delta_to_art_cycles_def tgpio_clock_uses_model_def tgpio_phc_params_get_def wp_simps)

text \<open>Operations that keep a quiet moment quiet.\<close>

interpretation still: sys_order "\<lambda>s t. c (kst s) \<longrightarrow> c (kst t)" for c :: "'k \<Rightarrow> bool"
  by unfold_locales auto

context calm_engine
begin

lemma duty_set_time:
  "calm (kst s) \<Longrightarrow> later (kst s) k \<Longrightarrow> duty_set b h l compv piv level s \<Longrightarrow> duty_set b h l compv piv level (s\<lparr>kst := k\<rparr>)"
  using calm_later [of "kst s" k] later_ctl_piv [of "kst s" k] by (simp add: duty_set_def Let_def)

lemma wp_fold_duty:
  assumes "output_phase (blocks (drv s) b) = TGPIO_OUTPUT_HW_DUTY" "output_hw_piv (blocks (drv s) b) \<noteq> 0" "calm (kst s)"
    and "if output_hw_ckpt_compv (blocks (drv s) b) = compv (kst s) then output_hw_flop_high (blocks (drv s) b) = level (kst s)
      else output_hw_flop_high (blocks (drv s) b) = (\<not> level (kst s))"
    and Q: "\<And>k'. later (kst s) k' \<Longrightarrow> Q () (s\<lparr>drv := set_mirror b (level (kst s)) (compv (kst s)) (drv s), kst := k'\<rparr>)"
  shows "wp (tgpio_hw_flop_fold K b) Q s"
proof -
  have r: "wp (do {
        ckpt \<leftarrow> get_blk b output_hw_ckpt_compv;
        if compv k1 \<noteq> ckpt then do {
          upd_blk b (output_hw_flop_high_update Not);
          upd_blk b (output_hw_ckpt_compv_update (\<lambda>_. compv k1))
        } else ret () }) Q (s\<lparr>kst := k'\<rparr>)" if k: "later (kst s) k1" "later k1 k'" for k1 k'
  proof (cases "output_hw_ckpt_compv (blocks (drv s) b) = compv (kst s)")
    case True
    then have "set_mirror b (level (kst s)) (compv (kst s)) (drv s) = drv s"
      using assms(4) by (intro set_mirror_same) simp_all
    then have "Q () (s\<lparr>kst := k'\<rparr>)" using Q [OF later_trans [OF k]] by simp
    then show ?thesis using calm_later [OF assms(3) k(1)] True by (simp add: wp_simps)
  next
    case False
    then show ?thesis using calm_later [OF assms(3) k(1)] assms(4) Q [OF later_trans [OF k]]
      by (simp add: wp_simps flop_Not_eq)
  qed
  show ?thesis
    unfolding tgpio_hw_flop_fold_def wp_bind [of "get_blk _ _"] wp_get_blk
    using assms(1,2) r by (simp add: wp_bind [of "tgpio_read_compv _ _"] wp_read_compv)
qed

lemma service_set:
  assumes "calm (kst s)" "duty_set b h l compv piv level s" "compv (kst s) \<le> U64_MAX - TGPIO_ART_HW_DELAY_CYCLES"
    and Q: "\<And>t. calm (kst t) \<Longrightarrow> compv (kst t) = compv (kst s) \<Longrightarrow> level (kst t) = level (kst s) \<Longrightarrow>
      duty_set b h l compv piv level t \<Longrightarrow> output_timer (blocks (drv t) b) \<noteq> None \<Longrightarrow> Q () t"
  shows "wp (next_visit K b) Q s"
proof -
  let ?st = "\<lambda>t. calm (kst t) \<and> compv (kst t) = compv (kst s) \<and> level (kst t) = level (kst s) \<and> duty_set b h l compv piv level t"
  have wake: "wp (tgpio_output_wake_at b w) Q t" if "?st t" for t w
    unfolding tgpio_output_wake_at_def
    by (simp add: wp_simps, rule Q) (use that in \<open>simp_all add: duty_set_def duty_block_def Let_def\<close>)
  have real: "wp (do { real \<leftarrow> ktime_get_real K; tgpio_output_wake_at b (real + w) }) Q t" if "?st t" for t w
    unfolding wp_bind
    by (rule wp_advances [OF advances_kernel(2)]) (use that in \<open>auto intro!: frame wake duty_set_time dest: calm_later\<close>)
  have after: "wp (wake_after K b p n) Q t" if "?st t" for t p n
    using real [OF that]
    by (simp add: wake_after_def tgpio_clock_delta_to_real_ns_def tgpio_clock_uses_model_def tgpio_phc_params_get_def
        wp_bind [of "ret _"] wp_bind [of "param _"] wp_bind [of "get_dev _"] wp_return wp_param wp_get_dev
        wp_bind [of "State_Monad.bind _ _"] split: sum.split)
  have now: "wp (do { now \<leftarrow> tgpio_clock_now_ns K; wake_after K b p now }) Q t" if "?st t" for t p
    unfolding wp_bind
    by (rule wp_advances [OF advances_now(1)]) (use that in \<open>auto intro!: frame after duty_set_time dest: calm_later\<close>)
  show ?thesis
    unfolding next_visit_def wp_bind [of "tgpio_read_compv _ _"]
  proof (rule wp_read_compv)
    fix k1 k' assume k: "later (kst s) k1" "later k1 k'"
    note c = calm_later [OF assms(1) k(1)] calm_later [OF assms(1) later_trans [OF k]]
      duty_set_time [OF assms(1) later_trans [OF k] assms(2)]
    show "wp (if U64_MAX - TGPIO_ART_HW_DELAY_CYCLES < compv k1 then tgpio_disable_output_hw K b
     else do {
       pending \<leftarrow> tgpio_clock_phc_art_to_ns (compv k1 + TGPIO_ART_HW_DELAY_CYCLES);
       now \<leftarrow> tgpio_clock_now_ns K;
       wake_after K b pending now
     }) Q (s\<lparr>kst := k'\<rparr>)"
      using c(1) leD [OF assms(3)] now [of "s\<lparr>kst := k'\<rparr>"] c
      by (simp add: tgpio_clock_phc_art_to_ns_def tgpio_phc_params_get_def wp_bind [of "State_Monad.bind _ _"]
          wp_bind [of "get_dev _"] wp_bind [of "ret _"] wp_return wp_get_dev)
  qed
qed

lemma half_set:
  assumes "calm (kst s)" "duty_block b h l (drv s)" "output_hw_piv (blocks (drv s) b) = piv (kst s)"
    "output_hw_ckpt_compv (blocks (drv s) b) = compv (kst s)" "output_hw_flop_high (blocks (drv s) b) = level (kst s)"
    and Q: "\<And>t. calm (kst t) \<Longrightarrow> compv (kst t) = compv (kst s) \<Longrightarrow> level (kst t) = level (kst s) \<Longrightarrow>
      duty_set b h l compv piv level t \<Longrightarrow> Q () t"
  shows "wp (next_half K b) Q s"
proof -
  let ?m = "blocks (drv s) b" and ?v = "if level (kst s) then l else h"
  have d: "clock_mode (par (drv s)) \<noteq> TGPIO_CLOCK_REALTIME" "?v \<noteq> 0" "upper_32_bits ?v = upper_32_bits (output_hw_piv ?m)"
    "tgpio_phc_delta_to_art_cycles (phc (dev (drv s))) (if level (kst s) then output_low_time_ns ?m else output_high_time_ns ?m) = Inr ?v"
    using assms(2) by (simp_all add: duty_block_def Let_def)
  have conv: "wp (tgpio_clock_delta_to_art_cycles K (if level (kst s) then output_low_time_ns ?m else output_high_time_ns ?m)) R s = R (Inr ?v) s" for R
    by (rule wp_half_cycles) (use d in simp_all)
  have hot: "wp (do { tgpio_write_piv K b ?v; upd_blk b (output_hw_piv_update (\<lambda>_. ?v)) }) Q s"
    unfolding wp_bind
    by (rule wp_calm_write_piv [OF assms(1)], simp only: wp_upd_blk, rule Q)
      (use d assms in \<open>simp_all add: duty_set_def duty_block_def Let_def\<close>)
  have same: "Q () s" if "\<not> hot_piv_ok ?v (output_hw_piv ?m)"
    by (rule Q) (use d assms that in \<open>auto simp: duty_set_def hot_piv_ok_def Let_def\<close>)
  show ?thesis
    unfolding next_half_def wp_bind [of "get_blk _ _"] wp_get_blk wp_bind [of "tgpio_clock_delta_to_art_cycles _ _"]
      assms(5) conv sum.case
    by (rule wp_when_mI [OF hot same])
qed

lemma service_duty:
  assumes "calm (kst s)" "duty_block b h l (drv s)" "output_hw_piv (blocks (drv s) b) = piv (kst s)" "piv (kst s) \<noteq> 0"
    and e: "if output_hw_ckpt_compv (blocks (drv s) b) = compv (kst s) then output_hw_flop_high (blocks (drv s) b) = level (kst s)
      else output_hw_flop_high (blocks (drv s) b) = (\<not> level (kst s))"
    and "compv (kst s) \<le> U64_MAX - TGPIO_ART_HW_DELAY_CYCLES"
    and Q: "\<And>t. calm (kst t) \<Longrightarrow> compv (kst t) = compv (kst s) \<Longrightarrow> level (kst t) = level (kst s) \<Longrightarrow>
      duty_set b h l compv piv level t \<Longrightarrow> output_timer (blocks (drv t) b) \<noteq> None \<Longrightarrow> Q () t"
  shows "wp (tgpio_hw_duty_service K b) Q s"
  unfolding duty_service_split wp_bind
proof (rule wp_fold_duty [OF _ _ assms(1) e])
  show "output_phase (blocks (drv s) b) = TGPIO_OUTPUT_HW_DUTY" "output_hw_piv (blocks (drv s) b) \<noteq> 0"
    using assms(2-4) by (simp_all add: duty_block_def Let_def)
  fix k' assume k: "later (kst s) k'"
  note c = calm_later [OF assms(1) k] later_ctl_piv [OF k]
  show "wp (next_half K b) (\<lambda>_. wp (next_visit K b) Q)
      (s\<lparr>drv := set_mirror b (level (kst s)) (compv (kst s)) (drv s), kst := k'\<rparr>)"
  proof (rule half_set)
    fix t assume "calm (kst t)" "duty_set b h l compv piv level t"
      "compv (kst t) = compv (kst (s\<lparr>drv := set_mirror b (level (kst s)) (compv (kst s)) (drv s), kst := k'\<rparr>))"
      "level (kst t) = level (kst (s\<lparr>drv := set_mirror b (level (kst s)) (compv (kst s)) (drv s), kst := k'\<rparr>))"
    then show "wp (next_visit K b) Q t"
      using c assms(6) Q by (intro service_set) simp_all
  qed (use c assms(2,3) in \<open>simp_all add: duty_block_def Let_def\<close>)
qed

lemma work_duty:
  assumes "calm (kst s)" "duty_ready b h l compv piv level s" "compv (kst s) \<le> U64_MAX - TGPIO_ART_HW_DELAY_CYCLES"
  shows "wp (run_output_work K b) (\<lambda>_ t. compv (kst t) = compv (kst s) \<and> level (kst t) = level (kst s) \<and>
    duty_set b h l compv piv level t \<and> output_timer (blocks (drv t) b) \<noteq> None) s"
proof -
  define u where "u = s\<lparr>drv := (drv s)\<lparr>blocks := (blocks (drv s))(b := (blocks (drv s) b)\<lparr>output_work_pending := False\<rparr>)\<rparr>\<rparr>"
  have r: "output_work_pending (blocks (drv s) b)" "duty_block b h l (drv u)" "output_hw_piv (blocks (drv s) b) = piv (kst s)"
    "piv (kst s) \<noteq> 0" "if output_hw_ckpt_compv (blocks (drv s) b) = compv (kst s) then output_hw_flop_high (blocks (drv s) b) = level (kst s)
      else output_hw_flop_high (blocks (drv s) b) = (\<not> level (kst s))"
    using assms(2) unfolding duty_ready_def duty_block_def u_def Let_def by auto
  have d: "output_phase (blocks (drv u) b) = TGPIO_OUTPUT_HW_DUTY"
    "des_run (output_desired (blocks (drv u) b)) = TGPIO_OUTPUT_RUNNING"
    "des_gen (output_desired (blocks (drv u) b)) = output_applied_gen (blocks (drv u) b)"
    "des_freq_gen (output_desired (blocks (drv u) b)) = output_applied_freq_gen (blocks (drv u) b)"
    "des_flip_gen (output_desired (blocks (drv u) b)) = output_applied_flip_gen (blocks (drv u) b)"
    using r(2) by (simp_all add: duty_block_def Let_def)
  have same: "u\<lparr>drv := (drv u)\<lparr>blocks := (blocks (drv u))(b := output_applied_flip_gen_update (\<lambda>_. output_applied_flip_gen (blocks (drv u) b)) (blocks (drv u) b))\<rparr>\<rparr> = u"
    by simp
  have "wp (tgpio_output_work K b) Q u = wp (tgpio_hw_duty_service K b) Q u" for Q
    using d same
    by (simp add: tgpio_output_work_def tgpio_output_work_same_gen_def tgpio_output_desired_get_def wp_bind [of "get_blk _ _"]
        wp_bind [of "when_m _ _"] wp_bind [of "upd_blk _ _"] wp_get_blk wp_upd_blk wp_when_m wp_return)
  moreover have "wp (tgpio_hw_duty_service K b) (\<lambda>_ t. compv (kst t) = compv (kst s) \<and> level (kst t) = level (kst s) \<and>
    duty_set b h l compv piv level t \<and> output_timer (blocks (drv t) b) \<noteq> None) u"
    by (rule service_duty [OF _ r(2)]) (use r assms(1,3) in \<open>simp_all add: u_def\<close>)
  ultimately show ?thesis
    using r(1) by (simp add: run_output_work_def wp_bind [of "get_blk _ _"] wp_bind [of "upd_blk _ _"] wp_get_blk wp_upd_blk wp_when_m u_def)
qed

text \<open>Arming at a quiet moment.\<close>

lemma still_advances: "advances m \<Longrightarrow> takes (\<lambda>s t. calm (kst s) \<longrightarrow> calm (kst t)) m"
  using calm_time by (auto simp: advances_def takes_def)

lemma advances_read_ctl: "advances (tgpio_read_ctl K b)"
proof -
  have "wp (tgpio_read_ctl K b) (\<lambda>_ t. later (kst s) (kst t)) s" for s
    by (rule wp_read_ctl) (simp, rule later_trans)
  then show ?thesis by (simp add: advances_def wp_def split_beta)
qed

lemma still_write:
  "takes (\<lambda>s t. calm (kst s) \<longrightarrow> calm (kst t)) (tgpio_write_ctl K b v)"
  "takes (\<lambda>s t. calm (kst s) \<longrightarrow> calm (kst t)) (tgpio_write_compv K b w)"
  "takes (\<lambda>s t. calm (kst s) \<longrightarrow> calm (kst t)) (tgpio_write_piv K b w)"
  "takes (\<lambda>s t. calm (kst s) \<longrightarrow> calm (kst t)) (upd_blk b f)"
  by (auto simp: takes_def access_defs run_liftk split_beta calm_write upd_blk_def)

lemma still_quiesce: "takes (\<lambda>s t. calm (kst s) \<longrightarrow> calm (kst t)) (output_quiesce K b)"
  unfolding output_quiesce_def tgpio_hw_flop_fold_def
  by (intro still.constructs still_write still_advances [OF advances_read_compv] still_advances [OF advances_readers(3)]
      still_advances [OF advances_read_ctl])

lemma start_duty:
  assumes ctrl: "\<not> bit ctrl 0" "\<not> bit ctrl 2" "ctl (kst s) = ctrl" and "calm (kst s)" "p \<noteq> 0" "high_ns \<noteq> low_ns"
    and Q: "\<And>k' m. calm k' \<Longrightarrow> piv k' = p \<Longrightarrow> compv k' = start \<Longrightarrow> level k' = level (kst s) \<Longrightarrow>
        m = (blocks (drv s) b)\<lparr>output_high_time_ns := high_ns, output_low_time_ns := low_ns, output_next_edge := first,
           output_phase := TGPIO_OUTPUT_HW_DUTY, output_hw_first_art := start, output_hw_piv := p, output_hw_ckpt_compv := start,
           output_wake_at_time := output_wake_at_time m, output_timer := output_timer m\<rparr> \<Longrightarrow>
        output_timer m \<noteq> None \<Longrightarrow>
        Q () (s\<lparr>drv := (drv s)\<lparr>blocks := (blocks (drv s))(b := m)\<rparr>, kst := k'\<rparr>)"
  shows "wp (output_hw_start K b ctrl start p first high_ns low_ns) Q s"
proof -
  let ?c1 = "tgpio_ctl_with ctrl (TGPIOCTL_EP_TOGGLE OR TGPIOCTL_PM)"
  have off: "\<not> engine_on ?c1" by (rule engine_off_EN) (use ctrl in \<open>simp add: tgpio_ctl_with_def bit_simps\<close>)
  let ?m = "(blocks (drv s) b)\<lparr>output_high_time_ns := high_ns, output_low_time_ns := low_ns, output_next_edge := first,
           output_phase := TGPIO_OUTPUT_HW_DUTY, output_hw_first_art := start, output_hw_piv := p, output_hw_ckpt_compv := start\<rparr>"
  let ?t = "s\<lparr>drv := (drv s)\<lparr>blocks := (blocks (drv s))(b := ?m)\<rparr>\<rparr>"
  have wake: "wp (do { now \<leftarrow> ktime_get_real K; tgpio_output_wake_at b (now + TGPIO_HW_DUTY_SERVICE_DELAY_NS) }) Q (?t\<lparr>kst := k\<rparr>)"
    if k: "calm k" "piv k = p" "compv k = start" "level k = level (kst s)" for k
    unfolding wp_bind
  proof (rule wp_advances [OF advances_kernel(2)])
    fix r k' assume "later (kst (?t\<lparr>kst := k\<rparr>)) k'"
    then have "later k k'" by simp
    note c = calm_later [OF k(1) this] later_ctl_piv [OF this]
    show "wp (tgpio_output_wake_at b (r + TGPIO_HW_DUTY_SERVICE_DELAY_NS)) Q (?t\<lparr>kst := k\<rparr>\<lparr>kst := k'\<rparr>)"
      using Q [of k' "?m\<lparr>output_wake_at_time := r + TGPIO_HW_DUTY_SERVICE_DELAY_NS,
        output_timer := Some (r + TGPIO_HW_DUTY_SERVICE_DELAY_NS)\<rparr>"] c k
      by (simp add: tgpio_output_wake_at_def wp_simps)
  qed (rule frame)+
  have fin: "wp (tgpio_write_ctl K b v) (\<lambda>_. wp (do { now \<leftarrow> ktime_get_real K;
      tgpio_output_wake_at b (now + TGPIO_HW_DUTY_SERVICE_DELAY_NS) }) Q) (?t\<lparr>kst := k\<rparr>)"
    if "calm k" "piv k = p" "compv k = start" "level k = level (kst s)" for k v
    by (rule wp_calm_write_ctl) (use that wake in simp_all)
  show ?thesis
    unfolding output_hw_start_def wp_bind wp_return
  proof (rule wp_calm_write_ctl [OF assms(4)], rule wp_calm_write_piv, simp, rule wp_calm_write_compv, simp)
    fix k1 k2 assume "ctl k1 = ?c1" "ctl k2 = ctl (kst (s\<lparr>kst := k1\<rparr>))"
    then show "\<not> engine_on (ctl (kst (s\<lparr>kst := k1\<rparr>\<lparr>kst := k2\<rparr>)))" using off by simp
  next
    fix k1 k2 k3 assume h: "level k1 = level (kst s)" "level k2 = level (kst (s\<lparr>kst := k1\<rparr>))" "piv k2 = p"
      "calm k3" "compv k3 = start" "piv k3 = piv (kst (s\<lparr>kst := k1\<rparr>\<lparr>kst := k2\<rparr>))" "level k3 = level (kst (s\<lparr>kst := k1\<rparr>\<lparr>kst := k2\<rparr>))"
    then have k3: "calm k3" "piv k3 = p" "compv k3 = start" "level k3 = level (kst s)" by simp_all
    have log: "wp (tgpio_clock_art_cycles_to_delta_ns K p) (\<lambda>_. wp (ret ()) (\<lambda>_. wp (tgpio_write_ctl K b v) (\<lambda>_. wp (do { now \<leftarrow> ktime_get_real K;
      tgpio_output_wake_at b (now + TGPIO_HW_DUTY_SERVICE_DELAY_NS) }) Q))) (?t\<lparr>kst := k3\<rparr>)" for v
    proof (rule wp_advances [OF advances_delta(2)])
      fix r k' assume "later (kst (?t\<lparr>kst := k3\<rparr>)) k'"
      then have "later k3 k'" by simp
      then show "wp (ret ()) (\<lambda>_. wp (tgpio_write_ctl K b v) (\<lambda>_. wp (do { now \<leftarrow> ktime_get_real K;
          tgpio_output_wake_at b (now + TGPIO_HW_DUTY_SERVICE_DELAY_NS) }) Q)) (?t\<lparr>kst := k3\<rparr>\<lparr>kst := k'\<rparr>)"
        unfolding wp_return using fin [of k' v] calm_later [OF k3(1)] later_ctl_piv [of k3 k'] k3 by simp
    qed (rule frame)+
    show "wp (upd_blk b (\<lambda>m. m\<lparr>output_high_time_ns := high_ns, output_low_time_ns := low_ns, output_next_edge := first,
           output_phase := (if high_ns \<noteq> low_ns then TGPIO_OUTPUT_HW_DUTY else TGPIO_OUTPUT_HARDWARE_PERIODIC), output_hw_first_art := start,
           output_hw_piv := p, output_hw_ckpt_compv := start\<rparr>)) (\<lambda>a. wp tgpio_log_activity_on (\<lambda>activity.
         wp (when_m activity (do { _ \<leftarrow> tgpio_clock_art_cycles_to_delta_ns K p; ret () })) (\<lambda>a.
         wp (tgpio_write_ctl K b (tgpio_ctl_with ?c1 TGPIOCTL_EN)) (\<lambda>a.
         wp (if high_ns = low_ns then tgpio_log_output_quantization K b first high_ns
             else do { now \<leftarrow> ktime_get_real K; tgpio_output_wake_at b (now + TGPIO_HW_DUTY_SERVICE_DELAY_NS) }) Q))))
        (s\<lparr>kst := k1\<rparr>\<lparr>kst := k2\<rparr>\<lparr>kst := k3\<rparr>)"
      using assms(6) fin [OF k3] log
      by (simp add: wp_upd_blk tgpio_log_activity_on_def wp_param wp_when_m wp_return wp_bind [of "State_Monad.bind _ _"]
          wp_bind [of "tgpio_clock_art_cycles_to_delta_ns _ _"])
  qed
qed

lemma quiesce_calm:
  assumes "mirrored (blocks (drv s) b) (ctl (kst s)) (compv (kst s)) (piv (kst s)) (level (kst s))" "calm (kst s)"
    and Q: "\<And>ctrl c l k'. \<not> bit ctrl 0 \<Longrightarrow> \<not> bit ctrl 2 \<Longrightarrow> calm k' \<Longrightarrow> ctl k' = ctrl \<Longrightarrow> level k' = l \<Longrightarrow>
      Q ctrl (s\<lparr>drv := set_mirror b l c (drv s), kst := k'\<rparr>)"
  shows "wp (output_quiesce K b) Q s"
proof -
  have "wp (output_quiesce K b) (\<lambda>_ t. calm (kst t)) s"
    by (rule wp_takes [OF still_quiesce]) (use assms(2) in simp)
  moreover have "wp (output_quiesce K b) (\<lambda>ctrl t. \<exists>c. \<not> bit ctrl 0 \<and> \<not> bit ctrl 2 \<and> ctl (kst t) = ctrl \<and>
      t = s\<lparr>drv := set_mirror b (level (kst t)) c (drv s), kst := kst t\<rparr>) s"
    by (rule wp_quiesce [OF assms(1)]) auto
  ultimately show ?thesis
    by (rule wp_and) (metis Q)
qed

lemma program_duty:
  assumes "mirrored (blocks (drv s) b) (ctl (kst s)) (compv (kst s)) (piv (kst s)) (level (kst s))" "calm (kst s)"
    and "duty_plan b high_ns low_ns h l (drv s)"
  shows "wp (arm_hw_program K b first h l first_ns high_ns low_ns)
    (\<lambda>r t. r = 0 \<longrightarrow> duty_set b h l compv piv level t \<and> output_timer (blocks (drv t) b) \<noteq> None) s" (is "wp _ ?Q s")
  unfolding arm_hw_program_def wp_bind [of "output_quiesce _ _"] wp_bind [of "get_blk _ _"] wp_get_blk wp_bind [of "ret _"] wp_return
proof (rule quiesce_calm [OF assms(1,2)])
  fix ctrl c lv k1 assume k1: "\<not> bit ctrl 0" "\<not> bit ctrl 2" "calm k1" "ctl k1 = ctrl" "level k1 = lv"
  let ?s = "\<lambda>k. s\<lparr>drv := set_mirror b lv c (drv s), kst := k\<rparr>"
  have start: "wp (do { output_hw_start K b ctrl start (if lv then l else h) first_ns high_ns low_ns; ret 0 }) ?Q (?s k)"
    if k: "later k1 k" for start k
    unfolding wp_bind wp_return
  proof (rule start_duty [OF k1(1,2)])
    note c = calm_later [OF k1(3) k] later_ctl_piv [OF k]
    show "ctl (kst (?s k)) = ctrl" "calm (kst (?s k))" "(if lv then l else h) \<noteq> 0" "high_ns \<noteq> low_ns"
      using c k1 assms(3) by (simp_all add: duty_plan_def Let_def)
    fix k' m assume h: "piv k' = (if lv then l else h)" "compv k' = start" "level k' = level (kst (?s k))"
      "m = (blocks (drv (?s k)) b)\<lparr>output_high_time_ns := high_ns, output_low_time_ns := low_ns, output_next_edge := first_ns,
           output_phase := TGPIO_OUTPUT_HW_DUTY, output_hw_first_art := start, output_hw_piv := if lv then l else h,
           output_hw_ckpt_compv := start, output_wake_at_time := output_wake_at_time m, output_timer := output_timer m\<rparr>"
      "output_timer m \<noteq> None"
    have m: "output_high_time_ns m = high_ns" "output_low_time_ns m = low_ns" "output_phase m = TGPIO_OUTPUT_HW_DUTY"
      "output_hw_piv m = (if lv then l else h)" "output_hw_ckpt_compv m = start" "output_hw_flop_high m = lv"
      "output_desired m = output_desired (blocks (drv s) b)" "output_applied_gen m = output_applied_gen (blocks (drv s) b)"
      "output_applied_freq_gen m = output_applied_freq_gen (blocks (drv s) b)"
      "output_applied_flip_gen m = output_applied_flip_gen (blocks (drv s) b)"
      by (subst h(4), simp)+
    show "0 = (0 :: int) \<longrightarrow> duty_set b h l compv piv level (?s k\<lparr>drv := (drv (?s k))\<lparr>blocks := (blocks (drv (?s k)))(b := m)\<rparr>, kst := k'\<rparr>) \<and>
      output_timer (blocks (drv (?s k\<lparr>drv := (drv (?s k))\<lparr>blocks := (blocks (drv (?s k)))(b := m)\<rparr>, kst := k'\<rparr>)) b) \<noteq> None"
      using m h(1-3,5) c k1 assms(3) by (simp add: duty_set_def duty_block_def duty_plan_def Let_def)
  qed
  have pushed: "wp (case pushed of None \<Rightarrow> ret (- ENODEV)
      | Some start \<Rightarrow> do { output_hw_start K b ctrl start (if lv then l else h) first_ns high_ns low_ns; ret 0 }) ?Q (?s k)"
    if "later k1 k" for pushed k
    using start [OF that] by (cases pushed) (simp_all add: wp_return)
  have flop: "output_hw_flop_high (blocks (drv (?s k1)) b) = lv" by simp
  show "wp (do {
     now_art \<leftarrow> tgpio_get_current_art K;
     margin \<leftarrow> tgpio_clock_delta_to_art_cycles K (2 * NSEC_PER_MSEC);
     pushed \<leftarrow> ret (case (now_art, margin) of
         (Inr now, Inr mgn) \<Rightarrow>
           if now \<le> U64_MAX - mgn then hw_late_push (hw_first_slot (output_hw_flop_high (blocks (drv (?s k1)) b)) first h l) (now + mgn) (h + l)
           else Some (hw_first_slot (output_hw_flop_high (blocks (drv (?s k1)) b)) first h l)
       | _ \<Rightarrow> Some (hw_first_slot (output_hw_flop_high (blocks (drv (?s k1)) b)) first h l));
     (case pushed of None \<Rightarrow> ret (- ENODEV)
      | Some start \<Rightarrow> do { output_hw_start K b ctrl start (if output_hw_flop_high (blocks (drv (?s k1)) b) then l else h)
          first_ns high_ns low_ns; ret 0 })
    }) ?Q (?s k1)"
    unfolding wp_bind [of "tgpio_get_current_art _"] wp_bind [of "tgpio_clock_delta_to_art_cycles _ _"] wp_bind [of "ret _"] wp_return flop
  proof (rule wp_advances [OF advances_current_art], (rule frame)+, rule wp_advances [OF advances_delta(1)], (rule frame)+)
    fix now k2 margin k3 assume "later (kst (?s k1)) k2" "later (kst (?s k1\<lparr>kst := k2\<rparr>)) k3"
    then have l: "later k1 k3" using later_trans by simp
    have e: "?s k1\<lparr>kst := k2\<rparr>\<lparr>kst := k3\<rparr> = ?s k3" by simp
    show "wp (case (case (now, margin) of
         (Inr now, Inr mgn) \<Rightarrow>
           if now \<le> U64_MAX - mgn then hw_late_push (hw_first_slot lv first h l) (now + mgn) (h + l)
           else Some (hw_first_slot lv first h l)
       | _ \<Rightarrow> Some (hw_first_slot lv first h l)) of None \<Rightarrow> ret (- ENODEV)
      | Some start \<Rightarrow> do { output_hw_start K b ctrl start (if lv then l else h) first_ns high_ns low_ns; ret 0 })
      ?Q (?s k1\<lparr>kst := k2\<rparr>\<lparr>kst := k3\<rparr>)"
      unfolding e by (rule pushed [OF l])
  qed
qed

lemma arm_duty:
  assumes "mirrored (blocks (drv s) b) (ctl (kst s)) (compv (kst s)) (piv (kst s)) (level (kst s))" "calm (kst s)"
    and "duty_plan b high_ns low_ns h l (drv s)"
  shows "wp (tgpio_arm_hardware_periodic K b first_ns high_ns low_ns)
    (\<lambda>r t. r = 0 \<longrightarrow> duty_set b h l compv piv level t \<and> output_timer (blocks (drv t) b) \<noteq> None) s" (is "wp _ ?Q s")
  unfolding tgpio_arm_hardware_periodic_def wp_bind [of "tgpio_clock_ns_to_compare_art _ _"]
proof (rule wp_advances [OF advances_compare(1) keeps_compare_drv])
  fix first_art k assume k: "later (kst s) k"
  let ?s = "s\<lparr>kst := k\<rparr>"
  have d: "clock_mode (par (drv s)) \<noteq> TGPIO_CLOCK_REALTIME" "h \<noteq> 0" "l \<noteq> 0"
    "tgpio_phc_delta_to_art_cycles (phc (dev (drv s))) high_ns = Inr h" "tgpio_phc_delta_to_art_cycles (phc (dev (drv s))) low_ns = Inr l"
    using assms(3) by (simp_all add: duty_plan_def Let_def)
  have conv: "wp (tgpio_clock_delta_to_art_cycles K high_ns) R ?s = R (Inr h) ?s" "wp (tgpio_clock_delta_to_art_cycles K low_ns) R ?s = R (Inr l) ?s" for R
    by (rule wp_half_cycles; use d in simp)+
  have err: "wp (ret (- ENODEV)) ?Q ?s" by (simp add: wp_return)
  have "wp (arm_hw_program K b first h l first_ns high_ns low_ns) ?Q ?s" for first
    by (rule program_duty) (use later_mirrored [OF k assms(1)] calm_later [OF assms(2) k] assms(3) in simp_all)
  then show "wp (do {
     high_art \<leftarrow> tgpio_clock_delta_to_art_cycles K high_ns;
     low_art \<leftarrow> tgpio_clock_delta_to_art_cycles K low_ns;
     (case (first_art, high_art, low_art) of
        (Inr first, Inr high, Inr low) \<Rightarrow>
          if high = 0 \<or> low = 0 \<or> U64_MAX div 4 < high \<or> U64_MAX div 4 < low
          then ret (- ENODEV)
          else arm_hw_program K b first high low first_ns high_ns low_ns
      | _ \<Rightarrow> ret (- ENODEV))
    }) ?Q ?s"
    unfolding wp_bind [of "tgpio_clock_delta_to_art_cycles _ _"] conv using err by (cases first_art) simp_all
qed

text \<open>The next visit only lets time pass and sets the timer.\<close>

lemma visit_waits:
  assumes "clock_mode (par (drv s)) \<noteq> TGPIO_CLOCK_REALTIME" "calm (kst s)" "compv (kst s) \<le> U64_MAX - TGPIO_ART_HW_DELAY_CYCLES"
  shows "wp (next_visit K b) (\<lambda>_ t. later (kst s) (kst t)) s"
proof -
  have w: "wp (wake_after K b p n) (\<lambda>_ t. later (kst s) (kst t)) t" if "later (kst s) (kst t)" for t p n
  proof -
    have r: "wp (do { real \<leftarrow> ktime_get_real K; tgpio_output_wake_at b (real + d) }) (\<lambda>_ t. later (kst s) (kst t)) u"
      if "later (kst s) (kst u)" for u d
      unfolding wp_bind by (rule wp_advances [OF advances_kernel(2)])
        (use later_trans [OF that] in \<open>auto intro!: frame simp: tgpio_output_wake_at_def wp_simps\<close>)
    show ?thesis
      using r [OF that]
      by (simp add: wake_after_def tgpio_clock_delta_to_real_ns_def tgpio_clock_uses_model_def tgpio_phc_params_get_def
          wp_bind [of "ret _"] wp_bind [of "param _"] wp_bind [of "get_dev _"] wp_return wp_param wp_get_dev
          wp_bind [of "State_Monad.bind _ _"] split: sum.split)
  qed
  have now: "wp (do { now \<leftarrow> tgpio_clock_now_ns K; wake_after K b p now }) (\<lambda>_ t. later (kst s) (kst t)) t"
    if "later (kst s) (kst t)" for t p
    unfolding wp_bind by (rule wp_advances [OF advances_now(1)]) (use later_trans [OF that] in \<open>auto intro!: frame w\<close>)
  show ?thesis
    unfolding next_visit_def wp_bind [of "tgpio_read_compv _ _"]
  proof (rule wp_read_compv)
    fix k1 k' assume k: "later (kst s) k1" "later k1 k'"
    show "wp (if U64_MAX - TGPIO_ART_HW_DELAY_CYCLES < compv k1 then tgpio_disable_output_hw K b
     else do {
       pending \<leftarrow> tgpio_clock_phc_art_to_ns (compv k1 + TGPIO_ART_HW_DELAY_CYCLES);
       now \<leftarrow> tgpio_clock_now_ns K;
       wake_after K b pending now
     }) (\<lambda>_ t. later (kst s) (kst t)) (s\<lparr>kst := k'\<rparr>)"
      using calm_later [OF assms(2) k(1)] leD [OF assms(3)] now [of "s\<lparr>kst := k'\<rparr>"] later_trans [OF k]
      by (simp add: tgpio_clock_phc_art_to_ns_def tgpio_phc_params_get_def wp_bind [of "State_Monad.bind _ _"]
          wp_bind [of "get_dev _"] wp_bind [of "ret _"] wp_return wp_get_dev)
  qed
qed

lemma service_stuck:
  assumes "calm (kst s)" "compv (kst s) \<le> U64_MAX - TGPIO_ART_HW_DELAY_CYCLES" "clock_mode (par (drv s)) \<noteq> TGPIO_CLOCK_REALTIME"
    and m: "m = blocks (drv s) b" "output_phase m = TGPIO_OUTPUT_HW_DUTY" "output_hw_piv m = piv (kst s)"
    and conv: "tgpio_phc_delta_to_art_cycles (phc (dev (drv s))) (output_high_time_ns m) = Inr h"
      "tgpio_phc_delta_to_art_cycles (phc (dev (drv s))) (output_low_time_ns m) = Inr l"
    and "upper_32_bits h \<noteq> upper_32_bits l" "piv (kst s) \<in> {h, l}" "h \<noteq> 0" "l \<noteq> 0"
    and e: "if output_hw_ckpt_compv m = compv (kst s) then output_hw_flop_high m = level (kst s)
      else output_hw_flop_high m = (\<not> level (kst s))"
  shows "wp (tgpio_hw_duty_service K b) (\<lambda>_ t. piv (kst t) = piv (kst s)) s"
  unfolding duty_service_split wp_bind
proof (rule wp_fold_duty [OF _ _ assms(1)])
  show "output_phase (blocks (drv s) b) = TGPIO_OUTPUT_HW_DUTY" "output_hw_piv (blocks (drv s) b) \<noteq> 0"
    using m assms(10-12) by auto
  show "if output_hw_ckpt_compv (blocks (drv s) b) = compv (kst s) then output_hw_flop_high (blocks (drv s) b) = level (kst s)
      else output_hw_flop_high (blocks (drv s) b) = (\<not> level (kst s))" using e unfolding m(1) .
  fix k' assume k: "later (kst s) k'"
  let ?t = "s\<lparr>drv := set_mirror b (level (kst s)) (compv (kst s)) (drv s), kst := k'\<rparr>"
  have "wp (next_visit K b) (\<lambda>_ t. later (kst ?t) (kst t)) ?t"
    by (rule visit_waits) (use assms(2,3) calm_later [OF assms(1) k] in simp_all)
  then have v: "wp (next_visit K b) (\<lambda>_ t. piv (kst t) = piv (kst s)) ?t"
    by (rule wp_mono) (use later_ctl_piv [OF k] later_ctl_piv in simp)
  let ?v = "if level (kst s) then l else h"
  have half: "wp (tgpio_clock_delta_to_art_cycles K (if level (kst s) then output_low_time_ns m else output_high_time_ns m)) Q ?t = Q (Inr ?v) ?t" for Q
    by (rule wp_half_cycles) (use conv assms(3,11,12) in simp_all)
  have n: "\<not> hot_piv_ok ?v (piv (kst s))" using assms(9,10) by (auto simp: hot_piv_ok_def)
  have f: "output_hw_flop_high (blocks (drv ?t) b) = level (kst s)" "output_low_time_ns (blocks (drv ?t) b) = output_low_time_ns m"
    "output_high_time_ns (blocks (drv ?t) b) = output_high_time_ns m" "output_hw_piv (blocks (drv ?t) b) = piv (kst s)"
    using m by simp_all
  show "wp (next_half K b) (\<lambda>_. wp (next_visit K b) (\<lambda>_ t. piv (kst t) = piv (kst s))) ?t"
    unfolding next_half_def wp_bind [of "get_blk _ _"] wp_get_blk wp_bind [of "tgpio_clock_delta_to_art_cycles _ _"] f half sum.case
    by (rule wp_when_mI) (use n v in simp_all)
qed

end

section \<open>Runs of services\<close>

text \<open>
  The serviced block between two visits of its work: none or one edge fires, the timer of the
  block expires, and the work runs at a quiet moment. The number counts the edges.
\<close>

inductive duty_run :: "'k kernel \<Rightarrow> nat \<Rightarrow> ('k \<Rightarrow> u64) \<Rightarrow> ('k \<Rightarrow> u64) \<Rightarrow> ('k \<Rightarrow> 'k \<Rightarrow> bool) \<Rightarrow> ('k \<Rightarrow> bool) \<Rightarrow> 'k sys \<Rightarrow> nat \<Rightarrow> 'k sys \<Rightarrow> bool"
  for K b compv piv passes calm s where
  start: "duty_run K b compv piv passes calm s 0 s"
| visit: "duty_run K b compv piv passes calm s n t \<Longrightarrow> passes (kst t) k \<Longrightarrow> e \<le> 1 \<Longrightarrow>
    unat (compv k) = unat (compv (kst t)) + e * unat (piv (kst t)) \<Longrightarrow>
    output_timer (blocks (drv t) b) = Some w \<Longrightarrow> calm k \<Longrightarrow> compv k \<le> U64_MAX - TGPIO_ART_HW_DELAY_CYCLES \<Longrightarrow>
    duty_run K b compv piv passes calm s (n + e)
      (exec_m (run_output_work K b) (exec_m (tgpio_output_timer b) (t\<lparr>kst := k\<rparr>)))"

context calm_board
begin

lemma counted_edges:
  assumes "passes k k'" "unat (compv k') = unat (compv k) + e * unat (piv k)" "piv k \<noteq> 0"
  shows "level k' = (level k \<noteq> odd e) \<and> piv k' = piv k"
proof -
  obtain n where n: "unat (compv k') = unat (compv k) + n * unat (piv k)" "level k' = (level k \<noteq> odd n)" "piv k' = piv k"
    using passes_edges [OF assms(1)] by (auto simp: edge_move_def)
  then have "n = e" using assms(2,3) by (simp add: unat_eq_0)
  then show ?thesis using n by simp
qed

lemma visit_duty:
  assumes "passes (kst s) k" "e \<le> 1" "unat (compv k) = unat (compv (kst s)) + e * unat (piv (kst s))"
    "calm k" "compv k \<le> U64_MAX - TGPIO_ART_HW_DELAY_CYCLES" "duty_set b h l compv piv level s"
    and t: "t = exec_m (run_output_work K b) (exec_m (tgpio_output_timer b) (s\<lparr>kst := k\<rparr>))"
  shows "duty_set b h l compv piv level t \<and> output_timer (blocks (drv t) b) \<noteq> None \<and> level (kst t) = (level (kst s) \<noteq> odd e) \<and>
    unat (compv (kst t)) = unat (compv (kst s)) + e * (if level (kst s) then unat l else unat h)"
proof -
  have p: "piv (kst s) = (if level (kst s) then l else h)" "piv (kst s) \<noteq> 0"
    using assms(6) by (simp_all add: duty_set_def duty_block_def Let_def)
  note c = counted_edges [OF assms(1,3) p(2)]
  have "e = 0 \<and> compv (kst s) = compv k \<or> e = 1 \<and> compv (kst s) \<noteq> compv k"
  proof (cases "e = 0")
    case True
    then show ?thesis using assms(3) by (simp add: word_unat_eq_iff)
  next
    case False
    then have "e = 1" "0 < unat (piv (kst s))" using assms(2) p(2) by (simp_all add: unat_gt_0)
    then show ?thesis using assms(3) by auto
  qed
  then have "duty_ready b h l compv piv level (exec_m (tgpio_output_timer b) (s\<lparr>kst := k\<rparr>))"
    using assms(6) c p(2)
    by (elim disjE) (simp_all add: duty_set_def duty_ready_def duty_block_def tgpio_output_timer_def schedule_work_def upd_blk_def Let_def)
  moreover have "kst (exec_m (tgpio_output_timer b) (s\<lparr>kst := k\<rparr>)) = k"
    by (simp add: tgpio_output_timer_def schedule_work_def upd_blk_def)
  ultimately show ?thesis
    using wp_exec [OF work_duty, of "exec_m (tgpio_output_timer b) (s\<lparr>kst := k\<rparr>)"] assms(3-5) c p(1)
    unfolding t by simp
qed

lemma half_sum: "c + (n div 2) * (x + y) + (if odd n then if v then y else x else 0) + (if v \<noteq> odd n then y else x) =
    c + (n + 1) div 2 * (x + y) + (if odd (n + 1) then if v then y else x else (0 :: nat))"
proof (cases "even n")
  case True
  then obtain k where "n = 2 * k" by (rule evenE)
  then show ?thesis by (cases v) simp_all
next
  case False
  then obtain k where "n = 2 * k + 1" by (rule oddE)
  then show ?thesis by (cases v) simp_all
qed

lemma run_duty:
  "duty_run K b compv piv passes calm s n t \<Longrightarrow> duty_set b h l compv piv level s \<Longrightarrow> output_timer (blocks (drv s) b) \<noteq> None \<Longrightarrow>
    duty_set b h l compv piv level t \<and> output_timer (blocks (drv t) b) \<noteq> None \<and> level (kst t) = (level (kst s) \<noteq> odd n) \<and>
    unat (compv (kst t)) = unat (compv (kst s)) + (n div 2) * (unat h + unat l) +
      (if odd n then if level (kst s) then unat l else unat h else 0)"
proof (induction rule: duty_run.induct)
  case (visit n t k e w)
  show ?case
  proof -
    note ih = visit(8) [OF visit(9,10)]
    note v = visit_duty [OF visit(2,3,4,6,7) conjunct1 [OF ih] refl]
    show ?thesis
    proof (cases "e = 0")
      case True
      then show ?thesis using v ih by simp
    next
      case False
      then have e: "e = 1" using visit(3) by simp
      have l: "level (kst t) = (level (kst s) \<noteq> odd n)" and c: "unat (compv (kst t)) = unat (compv (kst s)) +
          (n div 2) * (unat h + unat l) + (if odd n then if level (kst s) then unat l else unat h else 0)"
        using ih by blast+
      show ?thesis using v unfolding e l c mult_1 half_sum by simp
    qed
  qed
qed simp

end

end
