(* ===== verification/Duty_Props.thy ===== *)
theory Duty_Props
  imports Duty_Service
begin

text \<open>
  What asymmetric hardware waveforms look like at the pin, and the halves for which the service does
  not work.
\<close>

section \<open>The waveform\<close>

text \<open>
  C3. An asymmetric hardware waveform is exact: armed at a moment when no edge is due, and visited
  by its work at least once per edge at such moments, it has after \<open>n\<close> edges the level of the
  parity of \<open>n\<close> and its next edge pending where \<open>n\<close> halves of exactly the requested cycles, low and high in
  turn, put it; the timer of the next visit is set.
\<close>

theorem duty_cycle_exact:
  assumes "calm_board K b ctl compv piv level later calm passes"
    and "mirrored (blocks (drv s0) b) (ctl (kst s0)) (compv (kst s0)) (piv (kst s0)) (level (kst s0))" and "calm (kst s0)"
    and "duty_plan b high_ns low_ns h l (drv s0)"
    and "run_state (tgpio_arm_hardware_periodic K b first_ns high_ns low_ns) s0 = (0, s)"
    and "duty_run K b compv piv passes calm s n t"
  shows "let high = level (kst s) in
    level (kst t) = (high \<noteq> odd n) \<and> output_timer (blocks (drv t) b) \<noteq> None \<and>
    unat (compv (kst t)) = unat (compv (kst s)) + (n div 2) * (unat h + unat l) +
      (if odd n then if high then unat l else unat h else 0)"
proof -
  have c: "calm_engine K b ctl compv piv level later calm" using assms(1) by (simp add: calm_board_def)
  have "duty_set b h l compv piv level s \<and> output_timer (blocks (drv s) b) \<noteq> None"
    using calm_engine.arm_duty [OF c assms(2-4), of first_ns] assms(5) by (simp add: wp_def)
  then show ?thesis
    using calm_board.run_duty [OF assms(1,6), of h l] by (simp add: Let_def)
qed

text \<open>A block to be armed for a high time of 0.3 s and a low time of 0.7 s at 1 GHz.\<close>

definition asym_sys :: "world sys" where
  "asym_sys = sim_sys (output_block\<lparr>output_phase := TGPIO_OUTPUT_ARM_PERIODIC, output_desired := zero_desired\<lparr>des_run := TGPIO_OUTPUT_RUNNING\<rparr>\<rparr>)
     idle_engine []"

lemma asym_conv:
  "tgpio_phc_delta_to_art_cycles (tgpio_phc_params_make 0 0 1000000000 0) 300000000 = Inr 300000000"
  "tgpio_phc_delta_to_art_cycles (tgpio_phc_params_make 0 0 1000000000 0) 700000000 = Inr 700000000"
  "tgpio_phc_delta_to_art_cycles (tgpio_phc_params_make 0 0 1000000000 0) 2000000 = Inr 2000000"
  "tgpio_phc_ns_to_art (tgpio_phc_params_make 0 0 1000000000 0) 1500000000 = Inr 1500000000"
  by code_simp+

text \<open>Register accesses of the simulated world when no edge is scheduled.\<close>

definition put_engine :: "nat \<Rightarrow> (engine \<Rightarrow> engine) \<Rightarrow> world sys \<Rightarrow> world sys" where
  "put_engine b f s = s\<lparr>kst := (kst s)\<lparr>w_engine := (w_engine (kst s))(b := f (w_engine (kst s) b))\<rparr>\<rparr>"

lemma put_engine_simps [simp]:
  "drv (put_engine b f s) = drv s" "w_edges (kst (put_engine b f s)) = w_edges (kst s)" "w_art (kst (put_engine b f s)) = w_art (kst s)"
  "w_real (kst (put_engine b f s)) = w_real (kst s)" "w_engine (kst (put_engine b f s)) b = f (w_engine (kst s) b)"
  "put_engine b g (put_engine b f s) = put_engine b (\<lambda>e. g (f e)) s"
  by (simp_all add: put_engine_def)

lemma quiet_access:
  assumes "w_edges (kst s) = []"
  shows "wp (tgpio_read_ctl (sim_kernel r) b) P s = P (e_ctl (w_engine (kst s) b)) s"
    and "wp (tgpio_write_ctl (sim_kernel r) b v) Q s = Q () (put_engine b (e_ctl_update (\<lambda>_. v)) s)"
    and "wp (tgpio_write_piv (sim_kernel r) b p) Q s = Q () (put_engine b (e_piv_update (\<lambda>_. p)) s)"
    and "wp (tgpio_write_compv (sim_kernel r) b p) Q s = Q () (put_engine b (e_compv_update (\<lambda>_. p)) s)"
    and "wp (tgpio_get_current_art (sim_kernel r)) R s = R (Inr (w_art (kst s))) s"
    and "wp (ktime_get_real (sim_kernel r)) Z s = Z (w_real (kst s)) s"
proof -
  have p: "pass (kst s) = kst s" using assms by (simp add: pass_def)
  note d = access_defs sim_kernel_def sim_readl_def sim_writel_def engine_read_def engine_write_def Let_def run_liftk wp_def put_engine_def
    ktime_get_real_def tgpio_get_current_art_def tgpio_get_realtime_snapshot_def tgpio_snapshot_art_cycles_def sim_snapshot_def
  show "wp (tgpio_read_ctl (sim_kernel r) b) P s = P (e_ctl (w_engine (kst s) b)) s" using p by (simp add: d)
  show "wp (tgpio_write_ctl (sim_kernel r) b v) Q s = Q () (put_engine b (e_ctl_update (\<lambda>_. v)) s)" using p by (simp add: d)
  show "wp (tgpio_write_piv (sim_kernel r) b p) Q s = Q () (put_engine b (e_piv_update (\<lambda>_. p)) s)"
    using p assms by (simp add: d pass_def)
  show "wp (tgpio_write_compv (sim_kernel r) b p) Q s = Q () (put_engine b (e_compv_update (\<lambda>_. p)) s)"
    using p assms by (simp add: d pass_def)
  show "wp (tgpio_get_current_art (sim_kernel r)) R s = R (Inr (w_art (kst s))) s" by (simp add: d)
  show "wp (ktime_get_real (sim_kernel r)) Z s = Z (w_real (kst s)) s" by (simp add: d)
qed

lemma quiet_start:
  assumes "w_edges (kst s) = []" "high_ns \<noteq> low_ns" "\<not> verbose (par (drv s))" "\<not> activity_log (par (drv s))"
  shows "wp (output_hw_start (sim_kernel r) b ctrl start p first high_ns low_ns)
    (\<lambda>_ t. output_timer (blocks (drv t) b) = Some (w_real (kst s) + TGPIO_HW_DUTY_SERVICE_DELAY_NS) \<and>
      e_compv (w_engine (kst t) b) = start \<and> e_piv (w_engine (kst t) b) = p \<and>
      e_ctl (w_engine (kst t) b) = tgpio_ctl_with (tgpio_ctl_with ctrl (TGPIOCTL_EP_TOGGLE OR TGPIOCTL_PM)) TGPIOCTL_EN) s"
  using assms(2-4)
  by (simp add: output_hw_start_def wp_bind [of "ret _"] wp_bind [of "tgpio_write_ctl _ _ _"] wp_bind [of "tgpio_write_piv _ _ _"]
    wp_bind [of "tgpio_write_compv _ _ _"] wp_bind [of "upd_blk _ _"] wp_bind [of "when_m _ _"] wp_bind [of "tgpio_log_activity_on"]
    wp_bind [of "ktime_get_real _"] wp_upd_blk wp_when_m wp_return
    quiet_access assms(1) tgpio_log_activity_on_def wp_param wp_bind [of "param _"] tgpio_output_wake_at_def)

lemma quiet_quiesce:
  assumes "w_edges (kst s) = []" "output_hw_piv (blocks (drv s) b) = 0" "w_engine (kst s) b = idle_engine"
  shows "wp (output_quiesce (sim_kernel r) b) Q s = Q 0 (put_engine b (\<lambda>_. idle_engine) s)"
  using assms
  by (simp add: output_quiesce_def wp_bind wp_return quiet_access tgpio_hw_flop_fold_def wp_get_blk idle_engine_def tgpio_ctl_without_def)
    (simp add: put_engine_def)

lemma asym_arm: "wp (tgpio_arm_hardware_periodic (sim_kernel r) 0 1500000000 300000000 700000000)
    (\<lambda>r t. r = 0 \<and> output_timer (blocks (drv t) 0) = Some 1010000000 \<and> e_compv (w_engine (kst t) 0) = 1499999998 \<and>
      e_piv (w_engine (kst t) 0) = 300000000 \<and> e_ctl (w_engine (kst t) 0) = 25) asym_sys"
proof -
  have e: "w_edges (kst asym_sys) = []" "w_engine (kst asym_sys) 0 = idle_engine" "w_art (kst asym_sys) = 1000000000"
    "w_real (kst asym_sys) = 1000000000" "clock_mode (par (drv asym_sys)) \<noteq> TGPIO_CLOCK_REALTIME"
    "phc (dev (drv asym_sys)) = tgpio_phc_params_make 0 0 1000000000 0" "\<not> verbose (par (drv asym_sys))"
    "\<not> activity_log (par (drv asym_sys))" "output_hw_piv (blocks (drv asym_sys) 0) = 0" "output_hw_flop_high (blocks (drv asym_sys) 0) = False"
    by (simp_all add: asym_sys_def sim_sys_def sim_world_def sim_driver_def default_params_def zero_device_def output_block_def zero_block_def)
  have half: "wp (tgpio_clock_delta_to_art_cycles (sim_kernel r) c) Q s = Q (Inr c) s" if "drv s = drv asym_sys" "c \<in> {300000000, 700000000, 2000000}"
    for c Q s by (rule wp_half_cycles) (use that e(5,6) asym_conv in auto)
  have compare: "wp (tgpio_clock_ns_to_compare_art (sim_kernel r) 1500000000) Q asym_sys = Q (Inr 1499999998) asym_sys" for Q
    using e(5,6) by (simp add: wp_run_defs wp_simps asym_conv race_order asym_sys_def sim_sys_def sim_driver_def default_params_def)
  have bits: "tgpio_ctl_with (tgpio_ctl_with 0 (TGPIOCTL_EP_TOGGLE OR TGPIOCTL_PM)) TGPIOCTL_EN = 25" by code_simp
  have late: "hw_late_push (hw_first_slot False 1499999998 300000000 700000000) 1002000000 1000000000 = Some 1499999998" by code_simp
  have start: "wp (output_hw_start (sim_kernel r) 0 0 1499999998 300000000 1500000000 300000000 700000000)
      (\<lambda>_. wp (ret 0) (\<lambda>r t. r = 0 \<and> output_timer (blocks (drv t) 0) = Some 1010000000 \<and> e_compv (w_engine (kst t) 0) = 1499999998 \<and>
      e_piv (w_engine (kst t) 0) = 300000000 \<and> e_ctl (w_engine (kst t) 0) = 25)) (put_engine 0 (\<lambda>_. idle_engine) asym_sys)"
    by (rule wp_mono, rule quiet_start) (use e bits in \<open>simp_all add: wp_return\<close>)
  show ?thesis
    unfolding tgpio_arm_hardware_periodic_def arm_hw_program_def wp_bind [of "tgpio_clock_ns_to_compare_art _ _"] compare
      wp_bind [of "tgpio_clock_delta_to_art_cycles _ _"]
    using start e late
    by (simp add: half wp_bind wp_return wp_get_blk quiet_quiesce quiet_access split: option.split)
qed

text \<open>The first visit after the first rising edge.\<close>

lemma duty_cycle_exact_witness:
  "let K = sim_kernel (2 ^ 32); s = exec_m (tgpio_arm_hardware_periodic K 0 1500000000 300000000 700000000) asym_sys;
     k = (kst s)\<lparr>w_engine := (\<lambda>c. fire_edges 1 (w_engine (kst s) c)), w_edges := []\<rparr>;
     t = exec_m (run_output_work K 0) (exec_m (tgpio_output_timer 0) (s\<lparr>kst := k\<rparr>))
   in e_level (w_engine (kst t) 0) \<noteq> e_level (w_engine (kst s) 0) \<and>
     unat (e_compv (w_engine (kst t) 0)) = 1499999998 + (if e_level (w_engine (kst s) 0) then 700000000 else 300000000)"
proof -
  let ?K = "sim_kernel (2 ^ 32)"
  define s where "s = exec_m (tgpio_arm_hardware_periodic ?K 0 1500000000 300000000 700000000) asym_sys"
  define k where "k = (kst s)\<lparr>w_engine := (\<lambda>c. fire_edges 1 (w_engine (kst s) c)), w_edges := []\<rparr>"
  let ?t = "exec_m (run_output_work ?K 0) (exec_m (tgpio_output_timer 0) (s\<lparr>kst := k\<rparr>))"
  have a: "fst (run_state (tgpio_arm_hardware_periodic ?K 0 1500000000 300000000 700000000) asym_sys) = 0"
    "output_timer (blocks (drv s) 0) = Some 1010000000" "e_compv (w_engine (kst s) 0) = 1499999998"
    "e_piv (w_engine (kst s) 0) = 300000000" "e_ctl (w_engine (kst s) 0) = 25"
    using asym_arm [of "2 ^ 32"] by (simp_all add: wp_def s_def split_beta)
  have on: "engine_on 25" by code_simp
  have f: "e_compv (w_engine k 0) = 1799999998" using a(3-5) on by (simp add: k_def fire_edge_def)
  have pass: "w_passes 0 (kst s) k" unfolding k_def by (rule w_passes_fire)
  have run: "duty_run ?K 0 (\<lambda>w. e_compv (w_engine w 0)) (\<lambda>w. e_piv (w_engine w 0)) (w_passes 0) w_calm s (0 + 1) ?t"
    by (rule duty_run.visit [OF duty_run.start, where w = 1010000000])
      (use a f pass in \<open>simp_all add: w_calm_def\<close>, simp add: k_def)
  have m: "mirrored (blocks (drv asym_sys) 0) (e_ctl (w_engine (kst asym_sys) 0)) (e_compv (w_engine (kst asym_sys) 0))
      (e_piv (w_engine (kst asym_sys) 0)) (e_level (w_engine (kst asym_sys) 0))" "w_calm (kst asym_sys)"
    by (simp_all add: asym_sys_def sim_sys_def sim_world_def sim_driver_def output_block_def zero_block_def idle_engine_def mirrored_def w_calm_def)
  have p: "duty_plan 0 300000000 700000000 300000000 700000000 (drv asym_sys)"
    using asym_conv by (simp add: duty_plan_def asym_sys_def sim_sys_def sim_driver_def zero_device_def output_block_def zero_block_def zero_desired_def)
      code_simp
  have r: "run_state (tgpio_arm_hardware_periodic ?K 0 1500000000 300000000 700000000) asym_sys = (0, s)"
    using a(1) by (simp add: s_def prod_eq_iff)
  show ?thesis
    unfolding Let_def s_def [symmetric] k_def [symmetric]
    using duty_cycle_exact [OF sim_board.calm_board_axioms [of 0] m p r run] a(3) by (simp add: Let_def)
qed

text \<open>
  C34. The interval of an asymmetric waveform whose halves differ in the upper 32 bits of their cycle counts is
  never rewritten: the service refuses the other half, so the block keeps running with equal halves although the
  request was accepted.
\<close>

theorem duty_interval_stuck:
  assumes "calm_engine K b ctl compv piv level later calm" and "calm (kst s)"
    and "compv (kst s) \<le> U64_MAX - TGPIO_ART_HW_DELAY_CYCLES" and "clock_mode (par (drv s)) \<noteq> TGPIO_CLOCK_REALTIME"
    and "m = blocks (drv s) b" and "output_phase m = TGPIO_OUTPUT_HW_DUTY" and "output_hw_piv m = piv (kst s)"
    and "tgpio_phc_delta_to_art_cycles (phc (dev (drv s))) (output_high_time_ns m) = Inr h"
    and "tgpio_phc_delta_to_art_cycles (phc (dev (drv s))) (output_low_time_ns m) = Inr l"
    and "upper_32_bits h \<noteq> upper_32_bits l" and "piv (kst s) \<in> {h, l}" and "h \<noteq> 0" and "l \<noteq> 0"
    and "if output_hw_ckpt_compv m = compv (kst s) then output_hw_flop_high m = level (kst s)
      else output_hw_flop_high m = (\<not> level (kst s))"
  shows "piv (kst (exec_m (tgpio_hw_duty_service K b) s)) = piv (kst s)"
  by (rule wp_exec, rule calm_engine.service_stuck [OF assms])

text \<open>
  A waveform of 5 s high and 1 s low at 1 GHz: the times are accepted for a hardware output, but in the high half the
  service leaves the interval at 5 s.
\<close>

definition stuck_sys :: "world sys" where
  "stuck_sys = sim_sys (output_block\<lparr>output_phase := TGPIO_OUTPUT_HW_DUTY, output_high_time_ns := 5000000000,
     output_low_time_ns := 1000000000, output_hw_piv := 5000000000, output_hw_ckpt_compv := 7000000000, output_hw_flop_high := True\<rparr>)
     (running_engine\<lparr>e_compv := 7000000000, e_piv := 5000000000, e_level := True\<rparr>) []"

lemma stuck_conv:
  "tgpio_phc_delta_to_art_cycles (tgpio_phc_params_make 0 0 1000000000 0) 5000000000 = Inr 5000000000"
  "tgpio_phc_delta_to_art_cycles (tgpio_phc_params_make 0 0 1000000000 0) 1000000000 = Inr 1000000000"
  "upper_32_bits (5000000000 :: u64) \<noteq> upper_32_bits 1000000000"
  by code_simp+

lemma duty_interval_stuck_witness:
  "(case tgpio_output_times_get 6000000000 5000000000 True of Inl e \<Rightarrow> False | Inr tms \<Rightarrow> tgpio_output_can_use_hardware tms) \<and>
   e_piv (w_engine (kst (exec_m (tgpio_hw_duty_service (sim_kernel (2 ^ 32)) 0) stuck_sys)) 0) = 5000000000"
proof
  show "case tgpio_output_times_get 6000000000 5000000000 True of Inl e \<Rightarrow> False | Inr tms \<Rightarrow> tgpio_output_can_use_hardware tms"
    by code_simp
  have c: "calm_engine (sim_kernel (2 ^ 32)) 0 (\<lambda>w. e_ctl (w_engine w 0)) (\<lambda>w. e_compv (w_engine w 0))
      (\<lambda>w. e_piv (w_engine w 0)) (\<lambda>w. e_level (w_engine w 0)) (w_later 0) w_calm"
    using sim_board.calm_board_axioms [of 0] by (simp add: calm_board_def)
  from duty_interval_stuck [OF c, where s = stuck_sys, OF _ _ _ refl, of 5000000000 1000000000] stuck_conv show "e_piv (w_engine (kst (exec_m (tgpio_hw_duty_service (sim_kernel (2 ^ 32)) 0) stuck_sys)) 0) = 5000000000"
    by (simp add: stuck_sys_def sim_sys_def sim_world_def sim_driver_def w_calm_def zero_device_def running_engine_def output_block_def zero_block_def)
qed

end
