(* ===== verification/Tdc_Props.thy ===== *)
theory Tdc_Props
  imports Output_Control
begin

text \<open>
  The time-to-digital conversion against a reference: a list of captures is paired up, each pair
  is measured, and the statistics of the device are those of the list of durations.
\<close>

section \<open>The reference\<close>

text \<open>
  A capture is a block, an ART value and the number of edges since the last one. The reference
  pairs them: \<open>start\<close> is the block that starts a measurement, \<open>pend\<close> the capture that waits for the
  other block; each pair is the ART value at the start and at the stop.
\<close>

fun tdc_pairs :: "nat \<Rightarrow> (nat \<times> u64) option \<Rightarrow> (nat \<times> u64 \<times> u64) list \<Rightarrow> (u64 \<times> u64) list" where
  "tdc_pairs start pend [] = []"
| "tdc_pairs start None ((b, a, n) # cs) = tdc_pairs start (Some (b, a)) cs"
| "tdc_pairs start (Some (b', a')) ((b, a, n) # cs) =
    (if b' = b then tdc_pairs start (Some (b, a)) cs
     else (if b = start then (a, a') else (a', a)) # tdc_pairs start None cs)"

text \<open>The signed duration, where it can be expressed.\<close>

definition tdc_duration :: "tgpio_phc_params \<Rightarrow> u64 \<times> u64 \<Rightarrow> s64 option" where
  "tdc_duration p = (\<lambda>(start, stop).
     case tgpio_phc_art_cycles_to_delta_ns p (if stop < start then start - stop else stop - start) of
       Inl e \<Rightarrow> None
     | Inr ns \<Rightarrow> if ns \<le> S64_MAX then Some (if stop < start then - ns else ns) else None)"

definition tdc_measured :: "tgpio_phc_params \<Rightarrow> nat \<Rightarrow> (nat \<times> u64) option \<Rightarrow> (nat \<times> u64 \<times> u64) list \<Rightarrow> s64 list" where
  "tdc_measured p start pend cs = List.map_filter (tdc_duration p) (tdc_pairs start pend cs)"

definition tdc_missed :: "(nat \<times> u64 \<times> u64) list \<Rightarrow> u64" where
  "tdc_missed cs = sum_list (map (\<lambda>(b, a, n). if 1 < n \<and> n \<le> 4096 then n - 1 else 0) cs)"

definition tdc_waiting :: "tgpio_device \<Rightarrow> (nat \<times> u64) option" where
  "tdc_waiting d = (if tdc_pending d then Some (tdc_pending_block d, tdc_pending_art d) else None)"

section \<open>The converter\<close>

definition tdc_step :: "tgpio_phc_params \<Rightarrow> nat \<Rightarrow> nat \<times> u64 \<times> u64 \<Rightarrow> tgpio_device \<Rightarrow> tgpio_device" where
  "tdc_step p start = (\<lambda>(b, a, n) d0.
    let d = tdc_lost_update (\<lambda>l. if 1 < n \<and> n \<le> 4096 then l + (n - 1) else l) d0 in
    case tdc_waiting d of
      None \<Rightarrow> d\<lparr>tdc_pending := True, tdc_pending_block := b, tdc_pending_art := a\<rparr>
    | Some (b', a') \<Rightarrow>
        if b' = b then d\<lparr>tdc_pending := True, tdc_pending_block := b, tdc_pending_art := a\<rparr>
        else let pair = (if b = start then (a, a') else (a', a)) in
          (case tdc_duration p pair of
             None \<Rightarrow> tdc_pending_update (\<lambda>_. False) d
           | Some ns \<Rightarrow> tdc_add (if snd pair < fst pair then fst pair - snd pair else snd pair - fst pair) ns
               (tdc_pending_update (\<lambda>_. False) d)))"

abbreviation tdc_mode :: "'k sys \<Rightarrow> tgpio_phc_params \<Rightarrow> nat \<Rightarrow> bool" where
  "tdc_mode s p start \<equiv> clock_mode (par (drv s)) \<noteq> TGPIO_CLOCK_REALTIME \<and> tdc (par (drv s)) \<and>
     phc (dev (drv s)) = p \<and> unat (tdc_start (par (drv s)) AND 1) = start"

lemma wp_tdc_capture:
  assumes "tdc_mode s p start"
  shows "wp (tgpio_tdc_capture K b a n) Q s = Q () (s\<lparr>drv := (drv s)\<lparr>dev := tdc_step p start (b, a, n) (dev (drv s))\<rparr>\<rparr>)"
  using assms
  apply (cases s, cases "drv s", cases "dev (drv s)")
  apply (simp add: tgpio_tdc_capture_def wp_simps tgpio_clock_art_cycles_to_delta_ns_def tgpio_clock_uses_model_def
      tgpio_phc_params_get_def tdc_step_def tdc_waiting_def tdc_duration_def Let_def split: sum.splits)
  done

lemma tdc_step_phc [simp]: "phc (tdc_step p start c d) = phc d"
  by (cases c) (simp add: tdc_step_def tdc_add_def Let_def split: option.split)

lemma wp_tdc_captures:
  "tdc_mode s p start \<Longrightarrow> wp (for_each cs (\<lambda>(b, a, n). tgpio_tdc_capture K b a n)) Q s =
    Q () (s\<lparr>drv := (drv s)\<lparr>dev := fold (tdc_step p start) cs (dev (drv s))\<rparr>\<rparr>)"
proof (induction cs arbitrary: s)
  case Nil
  then show ?case by (simp add: wp_return)
next
  case (Cons c cs)
  obtain b a n where c: "c = (b, a, n)" by (cases c)
  show ?case
    using Cons.prems Cons.IH [of "s\<lparr>drv := (drv s)\<lparr>dev := tdc_step p start c (dev (drv s))\<rparr>\<rparr>"]
    by (simp add: c wp_bind wp_tdc_capture [OF Cons.prems])
qed

section \<open>They agree\<close>

text \<open>The statistics of the durations \<open>ms\<close>.\<close>

definition tdc_summary :: "s64 list \<Rightarrow> tgpio_device \<Rightarrow> bool" where
  "tdc_summary ms d \<longleftrightarrow> tdc_count d = of_nat (length ms) \<and> tdc_sum_ns d = sum_list ms \<and>
    (ms = [] \<or> tdc_last_ns d = last ms \<and> tdc_min_ns d \<in> set ms \<and> tdc_max_ns d \<in> set ms \<and>
      (\<forall>m \<in> set ms. tdc_min_ns d \<le>s m \<and> m \<le>s tdc_max_ns d))"

lemma summary_add:
  assumes "tdc_summary ms d" "length ms < 18446744073709551615"
  shows "tdc_summary (ms @ [m]) (tdc_add cycles m d)"
proof -
  have "(of_nat (length ms) :: u64) = 0 \<longleftrightarrow> ms = []"
    using assms(2) by (auto simp: word_of_nat_eq_0_iff dest: dvd_imp_le)
  then have one: "tdc_count d + 1 = 1 \<longleftrightarrow> ms = []"
    using assms(1) by (simp add: tdc_summary_def)
  show ?thesis
    using assms(1) unfolding tdc_summary_def tdc_add_def Let_def one
    by (auto simp: word_sless_alt word_sle_eq)
qed

lemma tdc_step_measures:
  assumes "tdc_summary ms d" "length ms < 18446744073709551615"
  shows "\<exists>ms'. length ms' \<le> 1 \<and> tdc_summary (ms @ ms') (tdc_step p start c d) \<and>
    tdc_measured p start (tdc_waiting d) (c # cs) = ms' @ tdc_measured p start (tdc_waiting (tdc_step p start c d)) cs"
proof -
  obtain b a n where c: "c = (b, a, n)" by (cases c)
  let ?d = "tdc_lost_update (\<lambda>l. if 1 < n \<and> n \<le> 4096 then l + (n - 1) else l) d"
  have wait: "tdc_waiting ?d = tdc_waiting d" by (simp add: tdc_waiting_def)
  consider (arm) "\<And>b' a'. tdc_waiting d = Some (b', a') \<Longrightarrow> b' = b"
    | (pair) b' a' where "tdc_waiting d = Some (b', a')" "b' \<noteq> b" by fastforce
  then show ?thesis
  proof cases
    case arm
    have "tdc_step p start c d = ?d\<lparr>tdc_pending := True, tdc_pending_block := b, tdc_pending_art := a\<rparr>"
      using arm by (auto simp: tdc_step_def c Let_def wait split: option.split)
    moreover have "tdc_pairs start (tdc_waiting d) (c # cs) = tdc_pairs start (Some (b, a)) cs"
      using arm by (cases "tdc_waiting d") (auto simp: c)
    ultimately show ?thesis using assms(1)
      by (intro exI [of _ "[]"]) (simp add: tdc_measured_def tdc_waiting_def tdc_summary_def)
  next
    case pair
    define pr where "pr = (if b = start then (a, a') else (a', a))"
    let ?e = "tdc_pending_update (\<lambda>_. False) ?d"
    let ?cycles = "if snd pr < fst pr then fst pr - snd pr else snd pr - fst pr"
    have e: "tdc_summary ms ?e" "tdc_waiting ?e = None" using assms(1) by (simp_all add: tdc_summary_def tdc_waiting_def)
    have step: "tdc_step p start c d = (case tdc_duration p pr of None \<Rightarrow> ?e | Some m \<Rightarrow> tdc_add ?cycles m ?e)"
      using pair(2) unfolding tdc_step_def c prod.case Let_def wait pair(1) option.case pr_def [symmetric] by (rule if_not_P)
    have measured: "tdc_measured p start (tdc_waiting d) (c # cs) =
        (case tdc_duration p pr of None \<Rightarrow> [] | Some m \<Rightarrow> [m]) @ tdc_measured p start None cs"
      using pair by (simp add: c tdc_measured_def map_filter_simps pr_def split: option.split)
    show ?thesis
    proof (cases "tdc_duration p pr")
      case None
      show ?thesis unfolding measured step None option.case
        by (rule exI [of _ "[]"]) (use e in simp)
    next
      case (Some m)
      have w: "tdc_waiting (tdc_add ?cycles m ?e) = None"
        using e(2) by (simp add: tdc_waiting_def tdc_add_def Let_def)
      show ?thesis unfolding measured step Some option.case w
        by (rule exI [of _ "[m]"]) (use summary_add [OF e(1) assms(2)] in simp)
    qed
  qed
qed

lemma fold_tdc:
  "tdc_summary ms d \<Longrightarrow> length ms + length cs < 18446744073709551616 \<Longrightarrow>
    tdc_summary (ms @ tdc_measured p start (tdc_waiting d) cs) (fold (tdc_step p start) cs d)"
proof (induction cs arbitrary: ms d)
  case Nil
  then show ?case by (simp add: tdc_measured_def)
next
  case (Cons c cs)
  have "length ms < 18446744073709551615" using Cons.prems(2) by simp
  from tdc_step_measures [OF Cons.prems(1) this, of p start c cs] obtain ms' where
    m: "length ms' \<le> 1" "tdc_summary (ms @ ms') (tdc_step p start c d)"
    "tdc_measured p start (tdc_waiting d) (c # cs) = ms' @ tdc_measured p start (tdc_waiting (tdc_step p start c d)) cs"
    by blast
  have "length (ms @ ms') + length cs < 18446744073709551616" using m(1) Cons.prems(2) by simp
  from Cons.IH [OF m(2) this] show ?case by (simp only: m(3) fold_simps append_assoc)
qed

lemma tdc_missed_Cons: "tdc_missed ((b, a, n) # cs) = (if 1 < n \<and> n \<le> 4096 then n - 1 else 0) + tdc_missed cs"
  by (simp add: tdc_missed_def)

lemma tdc_add_lost: "tdc_lost (tdc_add cycles m d) = tdc_lost d"
  by (simp add: tdc_add_def Let_def)

lemma tdc_step_lost: "tdc_lost (tdc_step p start (b, a, n) d) = tdc_lost d + (if 1 < n \<and> n \<le> 4096 then n - 1 else 0)"
proof -
  define e where "e = tdc_lost_update (\<lambda>l. if 1 < n \<and> n \<le> 4096 then l + (n - 1) else l) d"
  have "tdc_lost (tdc_step p start (b, a, n) d) = tdc_lost e"
    unfolding tdc_step_def prod.case Let_def e_def [symmetric]
    by (cases "tdc_waiting e") (auto simp: tdc_add_lost split: option.split prod.split)
  then show ?thesis by (simp add: e_def)
qed

lemma fold_tdc_lost: "tdc_lost (fold (tdc_step p start) cs d) = tdc_lost d + tdc_missed cs"
proof (induction cs arbitrary: d)
  case Nil
  show ?case by (simp add: tdc_missed_def)
next
  case (Cons c cs)
  obtain b a n where c: "c = (b, a, n)" by (cases c)
  show ?case unfolding c fold_simps Cons.IH tdc_step_lost tdc_missed_Cons by (rule add.assoc)
qed

text \<open>
  C21. The time-to-digital converter, driven through any sequence of captures, keeps exactly the
  statistics of a reference: captures of the start block are paired with the next capture of the other
  block, in either order, a repeated block replaces the waiting capture, each pair contributes
  its signed duration, unless it cannot be converted or does not fit, and every capture that
  stands for several edges counts the others as lost.
\<close>

theorem tdc_matches_reference:
  assumes "clock_mode (par (drv s)) \<noteq> TGPIO_CLOCK_REALTIME" and "tdc (par (drv s))"
    and "tdc_count (dev (drv s)) = 0" and "tdc_sum_ns (dev (drv s)) = 0"
    and "length cs < 18446744073709551616"
  shows "let d = dev (drv s); start = unat (tdc_start (par (drv s)) AND 1);
      ms = tdc_measured (phc d) start (tdc_waiting d) cs;
      d' = dev (drv (exec_m (for_each cs (\<lambda>(b, a, n). tgpio_tdc_capture K b a n)) s))
    in tdc_summary ms d' \<and> tdc_lost d' = tdc_lost d + tdc_missed cs"
proof -
  let ?start = "unat (tdc_start (par (drv s)) AND 1)"
  have z: "tdc_summary [] (dev (drv s))" using assms(3,4) by (simp add: tdc_summary_def)
  have "dev (drv (exec_m (for_each cs (\<lambda>(b, a, n). tgpio_tdc_capture K b a n)) s)) =
      fold (tdc_step (phc (dev (drv s))) ?start) cs (dev (drv s))"
    by (rule wp_exec) (simp add: wp_tdc_captures [of s "phc (dev (drv s))" ?start] assms(1,2))
  then show ?thesis
    using fold_tdc [OF z, of cs "phc (dev (drv s))" ?start] assms(5) by (simp add: Let_def fold_tdc_lost)
qed

text \<open>Three captures of the start block, one of which stands for three edges, and two of the other.\<close>

definition sim_captures :: "(nat \<times> u64 \<times> u64) list" where
  "sim_captures = [(0, 1000, 1), (0, 1500, 3), (1, 1750, 1), (1, 4900, 1), (0, 5000, 1)]"

definition sim_tdc :: "world sys" where
  "sim_tdc = (let s = sim_mode TGPIO_CLOCK_PHC in s\<lparr>drv := (drv s)\<lparr>par := (par (drv s))\<lparr>tdc := True\<rparr>\<rparr>\<rparr>)"

lemma tdc_matches_reference_witness:
  "let d = dev (drv (exec_m (for_each sim_captures (\<lambda>(b, a, n). tgpio_tdc_capture (sim_kernel 3) b a n)) sim_tdc))
   in tdc_count d = 2 \<and> tdc_last_ns d = - 100 \<and> tdc_sum_ns d = 150 \<and> tdc_lost d = 2"
proof -
  have ms: "tdc_measured (phc (dev (drv sim_tdc))) (unat (tdc_start (par (drv sim_tdc)) AND 1))
      (tdc_waiting (dev (drv sim_tdc))) sim_captures = [250, - 100]" by code_simp
  have l: "tdc_missed sim_captures = 2" "tdc_lost (dev (drv sim_tdc)) = 0" by code_simp+
  show ?thesis
    using tdc_matches_reference [of sim_tdc sim_captures "sim_kernel 3"]
    unfolding Let_def ms l tdc_summary_def
    by (simp add: sim_tdc_def sim_captures_def sim_mode_def Let_def sim_sys_def sim_driver_def zero_device_def)
qed

end
