(* ===== verification/Config_Props.thy ===== *)
theory Config_Props
  imports Ptp_Props
begin

text \<open>
  Properties of the requests for outputs: a request is all or nothing, and three ways in which
  the checks at the request and the later work disagree (a refused request ends the stop of a
  one-shot pulse, a persistent output is refused before the realtime rate is known, a short
  lead makes a pulse vanish).
\<close>

section \<open>Configuring an output\<close>

abbreviation set_blk :: "nat \<Rightarrow> (tgpio_mmio_block \<Rightarrow> tgpio_mmio_block) \<Rightarrow> driver \<Rightarrow> driver" where
  "set_blk b f d \<equiv> d\<lparr>blocks := (blocks d)(b := f (blocks d b))\<rparr>"

definition published_as :: "tgpio_output_times \<Rightarrow> tgpio_output_mode \<Rightarrow> s64 \<Rightarrow> tgpio_output_desired \<Rightarrow> tgpio_output_desired" where
  "published_as tms mode first_edge d =
    \<lparr>des_flip_gen = des_flip_gen d, des_gen = des_gen d + 1, des_freq_gen = des_freq_gen d,
     des_run = TGPIO_OUTPUT_RUNNING, des_mode = mode, des_period_ns = tm_period_ns tms,
     des_high_time_ns = tm_high_time_ns tms, des_low_time_ns = tm_low_time_ns tms,
     des_first_edge_ns = first_edge\<rparr>"

lemma status_code_nonzero: "status_code e = 0 \<longleftrightarrow> e = TGPIO_OK"
  by (cases e) simp_all

lemma output_times_get_err: "tgpio_output_times_get p d v = Inl e \<Longrightarrow> e \<noteq> TGPIO_OK"
  by (auto simp: tgpio_output_times_get_def Let_def split: if_splits)

lemma find_channel_err: "tgpio_find_mmio_block_for_channel d f c = Inl e \<Longrightarrow> e \<noteq> 0"
  by (auto simp: tgpio_find_mmio_block_for_channel_def split: if_splits option.splits)

definition config_mode :: "driver \<Rightarrow> tgpio_output_times \<Rightarrow> tgpio_output_mode" where
  "config_mode d tms = (if hardware_periodic_output (par d) \<and> tgpio_output_can_use_hardware tms
     then TGPIO_OUTPUT_HARDWARE else TGPIO_OUTPUT_SOFTWARE)"

text \<open>Publishing a configuration: the last step of a request that was accepted.\<close>

lemma wp_publish [wp_simps]:
  "wp (tgpio_output_publish b TGPIO_OUTPUT_RUNNING mode (tm_period_ns tms) (tm_high_time_ns tms) (tm_low_time_ns tms) first) Q s =
    Q () (s\<lparr>drv := set_blk b (\<lambda>m. (output_desired_update (published_as tms mode first) m)\<lparr>output_work_pending := True\<rparr>) (drv s)\<rparr>)"
  by (simp add: tgpio_output_publish_def schedule_work_def wp_simps published_as_def [abs_def])

text \<open>The memory after a tracepoint.\<close>

definition traced :: "trace_event \<Rightarrow> driver \<Rightarrow> driver" where
  "traced e d = d\<lparr>dev := (dev d)\<lparr>traces := traces (dev d) @ [e]\<rparr>\<rparr>"

lemma wp_config_tail:
  assumes "\<And>r t. r \<noteq> 0 \<Longrightarrow> drv t = drv u \<or> drv t = traced (TGPIO_BASE_CLOCK_LOST b) (drv u) \<Longrightarrow> Q r t"
    and "\<And>t. drv t = set_blk b (\<lambda>m. (output_desired_update (published_as tms (config_mode (drv u) tms) first_edge_ns) m)
        \<lparr>output_work_pending := True\<rparr>) (drv u) \<Longrightarrow> Q 0 t"
  shows "wp (do {
      has_base \<leftarrow> liftk (k_has_art_base K);
      if \<not> has_base then do { trace_tgpio_base_clock_lost b; ret (- ENODEV) }
      else do {
        hw \<leftarrow> param hardware_periodic_output;
        out_mode \<leftarrow> ret (if hw \<and> tgpio_output_can_use_hardware tms
                         then TGPIO_OUTPUT_HARDWARE else TGPIO_OUTPUT_SOFTWARE);
        cycles \<leftarrow> (if out_mode = TGPIO_OUTPUT_HARDWARE
                   then tgpio_clock_delta_to_art_cycles K (tm_high_time_ns tms)
                   else ret (tgpio_ok 0));
        (case cycles of
           Inl e \<Rightarrow> ret (- ENODEV)
         | Inr c \<Rightarrow> do {
             timing \<leftarrow> tgpio_prepare_output_timing K
               (tgpio_output_min_interval_ns (tm_high_time_ns tms) (tm_low_time_ns tms))
               (tm_period_ns tms) out_mode first_edge_ns;
             (case timing of
                Inl e \<Rightarrow> ret (- ENODEV)
              | Inr t \<Rightarrow> do {
                  tgpio_output_publish b TGPIO_OUTPUT_RUNNING out_mode
                    (tm_period_ns tms) (tm_high_time_ns tms) (tm_low_time_ns tms) first_edge_ns;
                  ret 0
                })
           })
      }
    }) Q u"
proof -
  have timing: "wp (do {
             timing \<leftarrow> tgpio_prepare_output_timing K i p m f;
             (case timing of
                Inl e \<Rightarrow> ret (- ENODEV)
              | Inr t \<Rightarrow> do {
                  tgpio_output_publish b TGPIO_OUTPUT_RUNNING (config_mode (drv u) tms)
                    (tm_period_ns tms) (tm_high_time_ns tms) (tm_low_time_ns tms) first_edge_ns;
                  ret 0 }) }) Q v" if "drv v = drv u" for i p m f v
    unfolding wp_bind
    by (rule wp_keeps [OF keeps_prepare]) (simp add: wp_simps assms that split: sum.split)
  have cycles: "wp (case cycles of Inl e \<Rightarrow> ret (- ENODEV) | Inr c \<Rightarrow> do {
             timing \<leftarrow> tgpio_prepare_output_timing K i p m f;
             (case timing of
                Inl e \<Rightarrow> ret (- ENODEV)
              | Inr t \<Rightarrow> do {
                  tgpio_output_publish b TGPIO_OUTPUT_RUNNING (config_mode (drv u) tms)
                    (tm_period_ns tms) (tm_high_time_ns tms) (tm_low_time_ns tms) first_edge_ns;
                  ret 0 }) }) Q v" if "drv v = drv u" for cycles :: "u64 tgpio_result" and i p m f v
    using timing [OF that] by (simp add: wp_return assms that split: sum.split)
  show ?thesis
    unfolding wp_bind [of "liftk _"]
  proof (rule wp_keeps [OF keeps_liftk_drv])
    fix base and t :: "'a sys" assume t: "drv t = drv u"
    have mode: "(if hardware_periodic_output (par (drv t)) \<and> tgpio_output_can_use_hardware tms
        then TGPIO_OUTPUT_HARDWARE else TGPIO_OUTPUT_SOFTWARE) = config_mode (drv u) tms"
      by (simp add: config_mode_def t)
    show "wp (if \<not> base then do { trace_tgpio_base_clock_lost b; ret (- ENODEV) }
      else do {
        hw \<leftarrow> param hardware_periodic_output;
        out_mode \<leftarrow> ret (if hw \<and> tgpio_output_can_use_hardware tms
                         then TGPIO_OUTPUT_HARDWARE else TGPIO_OUTPUT_SOFTWARE);
        cycles \<leftarrow> (if out_mode = TGPIO_OUTPUT_HARDWARE
                   then tgpio_clock_delta_to_art_cycles K (tm_high_time_ns tms)
                   else ret (tgpio_ok 0));
        (case cycles of
           Inl e \<Rightarrow> ret (- ENODEV)
         | Inr c \<Rightarrow> do {
             timing \<leftarrow> tgpio_prepare_output_timing K
               (tgpio_output_min_interval_ns (tm_high_time_ns tms) (tm_low_time_ns tms))
               (tm_period_ns tms) out_mode first_edge_ns;
             (case timing of
                Inl e \<Rightarrow> ret (- ENODEV)
              | Inr t \<Rightarrow> do {
                  tgpio_output_publish b TGPIO_OUTPUT_RUNNING out_mode
                    (tm_period_ns tms) (tm_high_time_ns tms) (tm_low_time_ns tms) first_edge_ns;
                  ret 0
                })
           })
      }) Q t"
      unfolding wp_if wp_bind [of "param _"] wp_param wp_bind [of "ret _"] wp_return mode
        wp_bind [of "if _ then _ else _"] wp_bind [of "trace_tgpio_base_clock_lost _"] wp_trace
      by (auto simp: assms t traced_def intro!: wp_keeps [OF keeps_clock_convert(3), of t] timing cycles)
  qed
qed

lemma wp_config_output_values:
  "wp (tgpio_config_output_values K channel period_ns duty_ns duty_valid first_edge on) (\<lambda>r t.
    case tgpio_find_mmio_block_for_channel (drv s) PTP_PF_PEROUT channel of
      Inl e \<Rightarrow> r = e \<and> drv t = drv s
    | Inr b \<Rightarrow>
        if r \<noteq> 0 then (\<exists>d \<in> {drv s, set_blk b (oneshot_stop_work_update (\<lambda>_. None)) (drv s)}. drv t = d \<or> drv t = traced (TGPIO_BASE_CLOCK_LOST b) d)
        else \<exists>bump. drv t = set_blk b (\<lambda>m. (output_desired_update bump m)
            \<lparr>oneshot_stop_work := None, output_work_pending := True\<rparr>) (drv s) \<and>
          (if on then \<exists>tms. tgpio_output_times_get period_ns duty_ns duty_valid = Inr tms \<and>
             bump = published_as tms (config_mode (drv s) tms) first_edge
           else bump = stopped_desired)) s"
proof (cases "tgpio_find_mmio_block_for_channel (drv s) PTP_PF_PEROUT channel")
  case (Inl e)
  then show ?thesis by (simp add: tgpio_config_output_values_def wp_simps)
next
  case (Inr b)
  let ?bad = "blk_mode (blocks (drv s) b) \<noteq> TGPIO_MODE_OUTPUT \<or> \<not> regs (blocks (drv s) b)"
  note head = tgpio_config_output_values_def wp_bind [of "gets _"] wp_gets wp_bind [of "get_blk _ _"] wp_get_blk Inr sum.case
    wp_if wp_return wp_bind [of "upd_blk _ _"] wp_upd_blk
  consider "?bad" | "\<not> ?bad" "\<not> on" | e where "\<not> ?bad" "on" "tgpio_output_times_get period_ns duty_ns duty_valid = Inl e"
    | tms where "\<not> ?bad" "on" "tgpio_output_times_get period_ns duty_ns duty_valid = Inr tms"
    by (cases "tgpio_output_times_get period_ns duty_ns duty_valid") auto
  then show ?thesis
  proof cases
    case 1
    then show ?thesis unfolding head by simp
  next
    case 2
    then show ?thesis unfolding head
      by (simp add: tgpio_disable_output_def schedule_work_def wp_simps)
        (cases s, cases "drv s", cases "blocks (drv s) b", simp)
  next
    case 3
    then show ?thesis unfolding head
      by (auto simp: wp_return status_code_nonzero dest: output_times_get_err)
  next
    case 4
    then show ?thesis unfolding head
      apply (simp only: if_False sum.case not_True_eq_False)
      apply (rule wp_config_tail)
       apply simp
      apply (cases s, cases "drv s", cases "blocks (drv s) b", auto simp: config_mode_def)
      done
  qed
qed


text \<open>
  C14. A request for an output is all or nothing: when it succeeds, the block of the channel has
  exactly the requested configuration under a new generation and its work is scheduled; when it
  fails, the driver's memory is unchanged, except that a block may have lost the pending stop
  of a one-shot pulse and the loss of the base clock may have been traced.
\<close>

theorem config_output_all_or_nothing:
  assumes "run_state (tgpio_config_output_values K channel period_ns duty_ns duty_valid first_edge on) s = (r, t)"
  shows "if r = 0
    then \<exists>b bump. tgpio_find_mmio_block_for_channel (drv s) PTP_PF_PEROUT channel = Inr b \<and>
      drv t = set_blk b (\<lambda>m. (output_desired_update bump m)\<lparr>oneshot_stop_work := None, output_work_pending := True\<rparr>) (drv s) \<and>
      (if on then \<exists>tms. tgpio_output_times_get period_ns duty_ns duty_valid = Inr tms \<and>
          bump = published_as tms (config_mode (drv s) tms) first_edge
       else bump = stopped_desired)
    else \<exists>b. \<exists>d \<in> {drv s, set_blk b (oneshot_stop_work_update (\<lambda>_. None)) (drv s)}.
      drv t = d \<or> drv t = traced (TGPIO_BASE_CLOCK_LOST b) d"
proof (cases "tgpio_find_mmio_block_for_channel (drv s) PTP_PF_PEROUT channel")
  case (Inl e)
  with wp_run [OF wp_config_output_values assms] find_channel_err [OF Inl] show ?thesis by simp
next
  case (Inr b)
  with wp_run [OF wp_config_output_values assms] show ?thesis by (cases "r = 0") auto
qed

text \<open>
  C31. A refused request turns a one-shot pulse into an endless waveform: the pending stop of the
  pulse is cancelled before the request is checked, and the pulse stays published as running.
\<close>

theorem refused_request_unstops_pulse:
  assumes "tgpio_find_mmio_block_for_channel (drv s) PTP_PF_PEROUT channel = Inr b"
    and "blk_mode (blocks (drv s) b) = TGPIO_MODE_OUTPUT" and "regs (blocks (drv s) b)"
    and "tgpio_output_times_get period_ns duty_ns duty_valid = Inl e"
  shows "run_state (tgpio_config_output_values K channel period_ns duty_ns duty_valid first_edge True) s =
    (status_code e, s\<lparr>drv := set_blk b (oneshot_stop_work_update (\<lambda>_. None)) (drv s)\<rparr>)"
proof -
  have "wp (tgpio_config_output_values K channel period_ns duty_ns duty_valid first_edge True)
      (\<lambda>r t. (r, t) = (status_code e, s\<lparr>drv := set_blk b (oneshot_stop_work_update (\<lambda>_. None)) (drv s)\<rparr>)) s"
    unfolding tgpio_config_output_values_def wp_bind [of "gets _"] wp_gets wp_bind [of "get_blk _ _"] wp_get_blk assms sum.case
      wp_if wp_return wp_bind [of "upd_blk _ _"] wp_upd_blk
    by (simp add: assms)
  then show ?thesis by (simp add: wp_def split_beta prod_eq_iff)
qed

lemma delta_cycles_unmeasured:
  assumes "clock_mode (par (drv s)) = TGPIO_CLOCK_REALTIME"
    and "\<not> experimental_instantaneous_realtime_projection (par (drv s))"
    and "realtime_rate_art_cycles (cal (drv s)) = 0"
  shows "wp (tgpio_clock_delta_to_art_cycles K d) (\<lambda>r t. drv t = drv s \<and> (\<exists>e. r = Inl e)) s"
  using assms
  by (simp add: tgpio_clock_delta_to_art_cycles_def tgpio_clock_uses_model_def tgpio_phc_params_get_def
      tgpio_clock_delta_to_real_ns_def tgpio_realtime_delta_to_art_cycles_def wp_simps)

text \<open>
  In realtime mode a hardware output cannot be started before the rate is measured, although
  the load starts the measurement only after the persistent outputs: such an output makes the
  load fail with ENODEV.
\<close>

theorem realtime_persistent_output_fails:
  assumes "clock_mode (par (drv s)) = TGPIO_CLOCK_REALTIME"
    and "\<not> experimental_instantaneous_realtime_projection (par (drv s))"
    and "realtime_rate_art_cycles (cal (drv s)) = 0" and "hardware_periodic_output (par (drv s))"
    and "output_start_delay_ns (par (drv s)) = 0"
    and "tgpio_find_mmio_block_for_channel (drv s) PTP_PF_PEROUT (tgpio_persistent_output_channel (par (drv s)) i) = Inr b"
    and "blk_mode (blocks (drv s) b) = TGPIO_MODE_OUTPUT" and "regs (blocks (drv s) b)"
    and "tgpio_output_times_get (tgpio_persistent_output_period_ns (par (drv s)) i) (tgpio_persistent_output_duty_ns (par (drv s)) i)
      (tgpio_persistent_output_duty_ns (par (drv s)) i \<noteq> 0) = Inr tms"
    and "tgpio_output_can_use_hardware tms"
  shows "result_of (tgpio_start_persistent_output K i) s = - ENODEV"
proof -
  have "wp (tgpio_start_persistent_output K i) (\<lambda>r _. r = - ENODEV) s"
    unfolding tgpio_start_persistent_output_def wp_bind [of "param _"] wp_param assms(5)
    apply (simp add: wp_bind wp_return)
    unfolding tgpio_config_output_values_def wp_bind [of "gets _"] wp_gets wp_bind [of "get_blk _ _"] wp_get_blk assms(6-9) sum.case
      wp_if wp_return wp_bind [of "upd_blk _ _"] wp_upd_blk
    apply (simp add: assms wp_bind)
    apply (rule wp_keeps [OF keeps_liftk_drv])
    apply (simp add: wp_return wp_param assms wp_if wp_bind)
    apply (rule conjI, simp add: wp_trace wp_return)
    apply (rule impI, rule wp_mono, rule delta_cycles_unmeasured)
    using assms apply (simp_all add: wp_return)
    apply (auto simp: wp_return)
    done
  then show ?thesis by (simp add: wp_def split_beta)
qed

section \<open>One-shot pulses\<close>

lemma oneshot_timing:
  fixes n start :: s64 and width :: u64
  assumes n: "0 \<le> sint n" "sint n + 50000000 \<le> sint start" "sint start < sint n + 60000000"
    and w: "50000000 \<le> uint width" "uint width \<le> 2305843009213693951"
    and fits: "sint start + 2 * uint width < 9223372036854775808"
  shows "sint (tgpio_output_align_first_edge start (n + 3 * TGPIO_OUTPUT_SAFE_TIME_NS) (2 * width)) = sint start + 2 * uint width"
    and "0 < sint (oneshot_stop_delta start n width)"
    and "sint n + sint (oneshot_stop_delta start n width) < sint start + 2 * uint width"
proof -
  have m: "sint (n + 60000000) = sint n + 60000000" using n w fits by (simp add: exact)
  have p: "uint (2 * width) = 2 * uint width" using w by (simp add: exact)
  have sp: "sint (2 * width) = 2 * uint width" using w p sint_eq_uint64 [of "2 * width"] by simp
  have d: "sint (n + 60000000 - start) = sint n + 60000000 - sint start" using m n by (simp add: exact)
  have ud: "uint (n + 60000000 - start) = sint n + 60000000 - sint start"
    using d n uint_eq_sint64 [of "n + 60000000 - start"] by simp
  have lt: "n + 60000000 - start < 2 * width" using ud p n w by (simp add: word_less_def)
  have nz: "n + 60000000 - start \<noteq> 0" using ud n by auto
  have q: "(n + 60000000 - start) mod (2 * width) = n + 60000000 - start" "(n + 60000000 - start) div (2 * width) = 0"
    using lt n ud p by (intro word_uint_eqI; simp add: uint_mod uint_div word_less_def)+
  have c: "\<not> n + 60000000 \<le>s start" "2 * width \<noteq> 0" "\<not> S64_MAX < 2 * width" "\<not> start <s 0"
    using m n w p by (auto simp: word_sle_eq word_less_def word_sless_alt)
  have "(1 :: int) \<le> 9223372036854775807 div (2 * uint width)"
    using zdiv_mono1 [of "2 * uint width" 9223372036854775807 "2 * uint width"] w by simp
  then have one: "\<not> S64_MAX div (2 * width) < 1" using p by (simp add: word_less_def uint_div)
  have sum: "sint (start + 2 * width) = sint start + 2 * uint width" using sp n w fits by (simp add: exact)
  have "word_of_int (sint start + 2 * uint width) = start + 2 * width"
    by (rule signed_word_eqI) (use n w fits in \<open>simp add: sum sint_of_int64\<close>)
  then have "tgpio_add_s64 start (2 * width) = Inr (start + 2 * width)"
    using sp n w fits by (simp add: add_s64_checked checked_s64_def in_s64_def)
  then show "sint (tgpio_output_align_first_edge start (n + 3 * TGPIO_OUTPUT_SAFE_TIME_NS) (2 * width)) = sint start + 2 * uint width"
    using c q nz one sum by (simp add: tgpio_output_align_first_edge_def Let_def)
  define x where "x = (min (width div 2) 100000000 :: u64)"
  have x: "uint x \<le> 100000000" "2 * uint x \<le> uint width"
    using w by (auto simp: x_def min_def word_le_def uint_div not_le)
  have sw: "sint width = uint width" "sint x = uint x" using w x sint_eq_uint64 [of width] sint_eq_uint64 [of x] by simp_all
  have sd: "sint (start - n) = sint start - sint n" using n by (simp add: exact)
  have y: "sint (start - n + width) = sint start - sint n + uint width" using sd sw n w by (simp add: exact)
  then have "sint (oneshot_stop_delta start n width) = sint start - sint n + uint width + uint x"
    using sint_add64 [of "start - n + width" x] y sw n w x fits uint_ge_0 [of x]
    by (simp add: oneshot_stop_delta_def flip: x_def)
  then show "0 < sint (oneshot_stop_delta start n width)"
    "sint n + sint (oneshot_stop_delta start n width) < sint start + 2 * uint width"
    using n x w uint_ge_0 [of x] by linarith+
qed


section \<open>Watchdog\<close>

lemma next_ten: "(x :: int) < n * 10 \<and> n * 10 \<le> x + 10 \<longleftrightarrow> n = x div 10 + 1"
  by presburger

text \<open>
  The watchdog warns exactly once in a stall: at the first check at which the output has
  stood still for more than 30 s and more than three of its periods.
\<close>

theorem watchdog_warns_once:
  assumes "uint stalls < 429496729"
  shows "watchdog_warns stalls high_time_ns \<longleftrightarrow>
    uint stalls = max 30 (3 * (uint (2 * high_time_ns) div 1000000000)) div 10 + 1"
proof -
  define p where "p = (2 * high_time_ns) div NSEC_PER_SEC"
  have p: "uint p = uint (2 * high_time_ns) div 1000000000" by (simp add: p_def uint_div)
  moreover have "uint (2 * high_time_ns) div 1000000000 \<le> 18446744073"
    using zdiv_mono1 [of "uint (2 * high_time_ns)" 18446744073709551615 1000000000] uint_lt64 [of "2 * high_time_ns"] by simp
  ultimately have p3: "uint (3 * p) = 3 * uint p" "uint p \<le> 18446744073" by (simp_all add: exact)
  define l where "l = (max 30 (3 * p) :: u64)"
  have l: "uint l = max 30 (3 * uint p)" by (simp add: l_def max_def word_le_def p3)
  have l10: "uint (l + 10) = uint l + 10" using l p3 by (simp add: exact)
  have u: "uint (ucast stalls :: u64) = uint stalls"
    using uint_lt2p [of stalls] by (simp add: unsigned_ucast_eq take_bit_int_eq_self)
  have s64: "uint (ucast stalls * 10 :: u64) = uint stalls * 10" using assms u by (simp add: exact)
  have s32: "uint (stalls * 10) = uint stalls * 10" using assms by (simp add: uint_word_ariths)
  then have s32': "uint (ucast (stalls * 10) :: u64) = uint stalls * 10"
    using uint_lt2p [of "stalls * 10"] by (simp add: unsigned_ucast_eq take_bit_int_eq_self)
  have "watchdog_warns stalls high_time_ns \<longleftrightarrow> uint l < uint stalls * 10 \<and> uint stalls * 10 \<le> uint l + 10"
    by (simp add: watchdog_warns_def Let_def word_less_def word_le_def s64 s32' l10 flip: p_def l_def)
  also have "\<dots> \<longleftrightarrow> uint stalls = uint l div 10 + 1" by (rule next_ten)
  finally show ?thesis by (simp add: l p)
qed

lemma watchdog_warns_once_witness:
  "watchdog_warns 4 500000000 \<and> \<not> watchdog_warns 5 500000000"
  using watchdog_warns_once [of 4 500000000] watchdog_warns_once [of 5 500000000] by simp

section \<open>Instances\<close>

lemma config_output_all_or_nothing_witness:
  "let m = tgpio_config_output_values (sim_kernel 3) 1 1000000000 0 False 3000000000 True;
     t = exec_m m (sim_sys output_block idle_engine [])
   in \<exists>b. des_run (output_desired (blocks (drv t) b)) = TGPIO_OUTPUT_RUNNING \<and> output_work_pending (blocks (drv t) b)"
proof -
  let ?s = "sim_sys output_block idle_engine []"
  let ?m = "tgpio_config_output_values (sim_kernel 3) 1 1000000000 0 False 3000000000 True"
  have r: "run_state ?m ?s = (0, exec_m ?m ?s)"
    by (rule prod_eqI, simp_all only: fst_conv snd_conv) code_simp
  have p: "des_run (published_as tms mode f d) = TGPIO_OUTPUT_RUNNING" for tms mode f d by (simp add: published_as_def)
  show ?thesis using config_output_all_or_nothing [OF r] p by (fastforce simp: Let_def)
qed

text \<open>A block with a one-shot pulse under way.\<close>

definition pulse_block :: tgpio_mmio_block where
  "pulse_block = armed_block\<lparr>oneshot_stop_work := Some 100000000\<rparr>"

lemma pulse_block_simps:
  "blk_mode pulse_block = TGPIO_MODE_OUTPUT" "regs pulse_block"
  "des_run (output_desired pulse_block) = TGPIO_OUTPUT_RUNNING"
  by (simp_all add: pulse_block_def armed_block_def configured_block_def output_block_def)

lemma refused_request_unstops_pulse_witness:
  "let t = exec_m (tgpio_config_output_values (sim_kernel 3) 0 0 0 False 0 True) (sim_sys pulse_block idle_engine [])
   in oneshot_stop_work (blocks (drv t) 0) = None \<and>
      des_run (output_desired (blocks (drv t) 0)) = TGPIO_OUTPUT_RUNNING"
proof -
  let ?s = "sim_sys pulse_block idle_engine []"
  have "tgpio_find_mmio_block_for_channel (drv ?s) PTP_PF_PEROUT 0 = Inr 0" by code_simp
  moreover have "tgpio_output_times_get 0 0 False = Inl TGPIO_E_INVAL" by code_simp
  ultimately show ?thesis
    using refused_request_unstops_pulse [of ?s 0 0 0 0 False TGPIO_E_INVAL "sim_kernel 3" 0] 
    by (simp add: Let_def pulse_block_simps)
qed

definition sim_persistent :: "world sys" where
  "sim_persistent = (let s = sim_mode TGPIO_CLOCK_REALTIME in
     s\<lparr>drv := (drv s)\<lparr>par := (par (drv s))\<lparr>output_period_ns := (\<lambda>_. 1000000000)\<rparr>\<rparr>\<rparr>)"

lemma realtime_persistent_output_fails_witness:
  "result_of (tgpio_start_persistent_output (sim_kernel 3) 0) sim_persistent = - ENODEV"
proof -
  have find: "tgpio_find_mmio_block_for_channel (drv sim_persistent) PTP_PF_PEROUT (tgpio_persistent_output_channel (par (drv sim_persistent)) 0) = Inr 0"
    and tms: "tgpio_output_times_get (tgpio_persistent_output_period_ns (par (drv sim_persistent)) 0) (tgpio_persistent_output_duty_ns (par (drv sim_persistent)) 0)
      (tgpio_persistent_output_duty_ns (par (drv sim_persistent)) 0 \<noteq> 0) =
      Inr \<lparr>tm_period_ns = 1000000000, tm_high_time_ns = 500000000, tm_low_time_ns = 500000000\<rparr>"
    by code_simp+
  show ?thesis
    by (rule realtime_persistent_output_fails [OF _ _ _ _ _ find _ _ tms])
      (simp_all add: sim_persistent_def sim_mode_def Let_def sim_sys_def sim_driver_def default_params_def
        zero_calibration_def output_block_def tgpio_output_can_use_hardware_def)
qed


end
