(* ===== verification/Input_Props.thy ===== *)
theory Input_Props
  imports Output_Control
begin

text \<open>
  Properties of the capture side: what a poll reports, the consistency of the statistics, and
  when the automatic polarity check inverts an output. Two more instances of
  \<open>memory_order\<close> carry the frames.
\<close>

section \<open>Statistics\<close>

text \<open>
  The recorded extremes enclose the latest value, the polarity counters stay in range, and the
  fallback counter is the number of fallbacks traced.
\<close>

definition encloses :: "u64 \<Rightarrow> s64 \<Rightarrow> s64 \<Rightarrow> s64 \<Rightarrow> bool" where
  "encloses count least latest most \<longleftrightarrow> count = 0 \<or> least \<le>s latest \<and> latest \<le>s most"

definition interval_ok :: "tgpio_mmio_block \<Rightarrow> bool" where
  "interval_ok m \<longleftrightarrow> encloses (interval_count m) (interval_min_ns m) (interval_last_ns m) (interval_max_ns m)"

fun fallback_trace :: "trace_event \<Rightarrow> bool" where
  "fallback_trace (TGPIO_TIMESTAMP_FALLBACK b art) = True"
| "fallback_trace _ = False"

definition fallbacks_traced :: "tgpio_device \<Rightarrow> bool" where
  "fallbacks_traced d \<longleftrightarrow> stats_fallbacks d = of_nat (length (filter fallback_trace (traces d)))"

definition stats_ok :: "driver \<Rightarrow> bool" where
  "stats_ok d \<longleftrightarrow>
    encloses (tdc_count (dev d)) (tdc_min_ns (dev d)) (tdc_last_ns (dev d)) (tdc_max_ns (dev d)) \<and>
    autopol_streak (dev d) < 3 \<and> autopol_cooldown (dev d) \<le> 3 \<and> fallbacks_traced (dev d) \<and>
    (\<forall>b. interval_ok (blocks d b))"

interpretation recorded: memory_order "\<lambda>d d'. stats_ok d \<longrightarrow> stats_ok d'"
  by unfold_locales auto

abbreviation keeps_stats :: "('k sys, 'a) state \<Rightarrow> bool" where
  "keeps_stats \<equiv> moves (\<lambda>d d'. stats_ok d \<longrightarrow> stats_ok d')"

named_theorems stats \<open>operations that keep the statistics consistent\<close>

lemmas [stats] = recorded.rules

lemma encloses_next:
  "encloses count least latest most \<Longrightarrow> encloses (count + 1)
    (if count = 0 \<or> v <s least then v else least) v (if count = 0 \<or> most <s v then v else most)"
  by (auto simp: encloses_def word_sless_alt word_sle_eq)

lemma stats_dev [stats]:
  assumes "\<And>d. (tdc_count (f d), tdc_min_ns (f d), tdc_last_ns (f d), tdc_max_ns (f d), autopol_streak (f d), autopol_cooldown (f d),
       stats_fallbacks (f d), traces (f d)) =
     (tdc_count d, tdc_min_ns d, tdc_last_ns d, tdc_max_ns d, autopol_streak d, autopol_cooldown d, stats_fallbacks d, traces d)"
  shows "keeps_stats (upd_dev f)"
  using assms by (simp add: takes_def stats_ok_def upd_dev_def fallbacks_traced_def)

text \<open>A fallback is traced before it is counted.\<close>

lemma stats_fallback [stats]:
  assumes "keeps_stats m"
  shows "keeps_stats (do { trace_tgpio_timestamp_fallback b art; count_fallback; m })"
proof (rule moves_wp)
  fix s :: "'a sys"
  show "wp (do { trace_tgpio_timestamp_fallback b art; count_fallback; m }) (\<lambda>_ t. stats_ok (drv s) \<longrightarrow> stats_ok (drv t)) s"
    unfolding wp_bind wp_trace count_fallback_def wp_upd_dev
    by (rule wp_moves [OF assms]) (simp add: stats_ok_def fallbacks_traced_def)
qed

lemma stats_traces [stats]: "keeps_stats (trace_tgpio_phc_step old new)" "keeps_stats (trace_tgpio_base_clock_lost b)"
  by (simp_all add: takes_def stats_ok_def fallbacks_traced_def trace_tgpio_phc_step_def trace_tgpio_base_clock_lost_def upd_dev_def)

lemma stats_blk [stats]:
  assumes "\<And>m. (interval_count (f m), interval_min_ns (f m), interval_last_ns (f m), interval_max_ns (f m)) =
     (interval_count m, interval_min_ns m, interval_last_ns m, interval_max_ns m)"
  shows "keeps_stats (upd_blk b f)"
proof -
  have "interval_ok (f m) = interval_ok m" for m using assms [of m] by (simp add: interval_ok_def)
  then show ?thesis by (simp add: takes_def stats_ok_def upd_blk_def)
qed

lemma interval_add_ok: "interval_ok m \<Longrightarrow> interval_ok (interval_add ns m)"
  by (simp add: interval_ok_def interval_add_def Let_def encloses_next)

lemma stats_interval [stats]: "keeps_stats (upd_blk b (interval_add ns))"
  by (simp add: takes_def stats_ok_def upd_blk_def interval_add_ok)

lemma stats_tdc_add [stats]: "keeps_stats (upd_dev (tdc_add cycles ns))"
  by (auto simp: takes_def stats_ok_def fallbacks_traced_def upd_dev_def tdc_add_def Let_def encloses_next split del: if_split)

lemma stats_tdc_reset [stats]: "keeps_stats (tgpio_tdc_reset_write parsed count)"
  by (auto simp: tgpio_tdc_reset_write_def takes_def stats_ok_def fallbacks_traced_def upd_dev_def encloses_def split: sum.split)

lemma wp_auto_polarity:
  "wp (tgpio_auto_polarity_check b ns) Q s =
    (let d = drv s; out = other_block b; m = blocks d out; des = output_desired m;
       verdict = polarity_verdict_of ((ns - des_first_edge_ns des) mod des_period_ns des) (des_period_ns des);
       streak = autopol_streak (dev d) + 1;
       mod_dev = (\<lambda>f. s\<lparr>drv := d\<lparr>dev := f (dev d)\<rparr>\<rparr>)
     in if \<not> auto_polarity (par d) \<or> clock_mode (par d) = TGPIO_CLOCK_REALTIME \<or>
          blk_mode m \<noteq> TGPIO_MODE_OUTPUT \<or> output_phase m \<noteq> TGPIO_OUTPUT_HARDWARE_PERIODIC \<or>
          des_run des \<noteq> TGPIO_OUTPUT_RUNNING \<or> des_period_ns des = 0 \<or> des_high_time_ns des \<noteq> des_low_time_ns des \<or>
          des_first_edge_ns des <s 0 \<or> ns <s des_first_edge_ns des then Q () s
        else if autopol_cooldown (dev d) \<noteq> 0 then Q () (mod_dev (autopol_cooldown_update (\<lambda>n. n - 1)))
        else if verdict \<noteq> HALF_SLOT then Q () (mod_dev (autopol_streak_update (\<lambda>_. 0)))
        else if streak < 3 then Q () (mod_dev (autopol_streak_update (\<lambda>_. streak)))
        else Q () (s\<lparr>drv := d\<lparr>dev := (dev d)\<lparr>autopol_streak := 0, autopol_cooldown := 3\<rparr>,
               blocks := (blocks d)(out := (output_desired_update (des_flip_gen_update (\<lambda>g. g + 1)) m)
                 \<lparr>output_work_pending := True\<rparr>)\<rparr>\<rparr>))"
  apply (simp add: tgpio_auto_polarity_check_def tgpio_clock_uses_model_def tgpio_output_desired_get_def wp_simps Let_def
      schedule_work_def split: polarity_verdict.split)
  apply (cases s, cases "drv s", cases "dev (drv s)")
  apply auto
  done

lemma stats_auto_polarity [stats]: "keeps_stats (tgpio_auto_polarity_check b ns)"
proof (rule moves_wp)
  fix s :: "'a sys"
  have "c - 1 \<le> 3" if "c \<le> 3" "c \<noteq> 0" for c :: u32
    using that by unat_arith
  then show "wp (tgpio_auto_polarity_check b ns) (\<lambda>_ t. stats_ok (drv s) \<longrightarrow> stats_ok (drv t)) s"
    by (auto simp: wp_auto_polarity Let_def stats_ok_def interval_ok_def fallbacks_traced_def)
qed

lemma stats_emit [stats]:
  "keeps_stats (tgpio_emit_event K b i art)" "keeps_stats (tgpio_take_crosststamp K)" "keeps_stats (tgpio_apply_input K b d)"
  "keeps_stats (tgpio_pps_emit K b art)" "keeps_stats (tgpio_tdc_capture K b art ev)" "keeps_stats tgpio_poll_interval_ms"
  by (auto simp: tgpio_emit_event_def tgpio_take_crosststamp_def tgpio_apply_input_def tgpio_pps_emit_def
      tgpio_tdc_capture_def tgpio_poll_interval_ms_def tgpio_poll_time_def tgpio_art_to_realtime_ns_def
      tgpio_get_realtime_snapshot_def intro!: stats)

lemma stats_poll: "keeps_stats (tgpio_poll_work K)"
  by (auto simp: tgpio_poll_work_def tgpio_poll_block_def tgpio_poll_capture_def tgpio_input_stats_update_def intro!: stats)


text \<open>The rest of the driver leaves the statistics alone.\<close>

lemma stats_updates [stats]: "keeps_stats (upd_par f2)" "keeps_stats (upd_cal f3)"
  by (simp_all add: takes_def stats_ok_def upd_par_def upd_cal_def)

lemma stats_machine [stats]: "keeps_stats (modify (hung_update f))"
  by (simp add: takes_def)

lemma stats_publish [stats]: 
  "keeps_stats (schedule_work b)" "keeps_stats (tgpio_disable_output b)" "keeps_stats (tgpio_output_publish b r m p h l f)"
  "keeps_stats (tgpio_output_timer b)" "keeps_stats tgpio_resync_outputs_after_phc_step"
  "keeps_stats tgpio_update_outputs_after_phc_freq"
  by (auto simp: publish_defs intro!: stats)

lemma stats_entry:
  "keeps_stats (tgpio_ptp_enable K req on)" "keeps_stats (tgpio_ptp_settime64 K ts)" "keeps_stats (tgpio_ptp_adjtime K delta)"
  "keeps_stats (tgpio_ptp_adjfine K ppm)" "keeps_stats (tgpio_output_invert_write b parsed count)"
  "keeps_stats (tgpio_oneshot_write K b pulse count)" "keeps_stats (tgpio_oneshot_stop_work_fn b)"
  "keeps_stats (tgpio_art_refine_work_fn K)" "keeps_stats (tgpio_watchdog_work_fn K)"
  by (auto simp: tgpio_ptp_enable_def tgpio_config_output_def tgpio_config_output_values_def tgpio_config_input_def
      tgpio_ptp_settime64_def tgpio_ptp_adjtime_def tgpio_ptp_adjfine_def tgpio_realtime_adjtime_def
      tgpio_realtime_adjfine_def tgpio_output_invert_write_def tgpio_oneshot_write_def tgpio_oneshot_stop_work_fn_def
      tgpio_art_refine_work_fn_def art_refine_realtime_def art_refine_apply_def tgpio_watchdog_work_fn_def
      tgpio_watchdog_block_def Let_def
      intro!: stats split: ptp_clock_request.split)

lemma entry_stats: "entry_step K s t \<Longrightarrow> stats_ok (drv s) \<longrightarrow> stats_ok (drv t)"
  by (erule entry_step.cases)
    (simp only:, rule movesD [where R = "\<lambda>d d'. stats_ok d \<longrightarrow> stats_ok d'"], rule stats_entry stats_poll stats_tdc_reset stats_updates stats_publish)+

lemma stats_work: "keeps_stats (run_output_work K b)"
proof -
  have loops: "keeps_stats (drain_loop n K b)" "keeps_stats (invert_wait_loop n K b)" for n
    by (induction n) (auto simp: tgpio_hw_flop_fold_def intro!: stats)
  show ?thesis
    by (auto simp: run_output_work_def tgpio_output_work_def tgpio_hw_periodic_apply_freq_def tgpio_hw_periodic_invert_def
      tgpio_hw_periodic_drain_low_def tgpio_output_work_same_gen_def tgpio_hw_duty_service_def tgpio_output_software_edge_def
      tgpio_reconcile_arm_def tgpio_arm_output_def tgpio_arm_hardware_periodic_def arm_hw_program_def output_hw_start_def
        tgpio_hw_periodic_write_compv_paused_def tgpio_disable_output_hw_def output_quiesce_def hrtimer_cancel_def tgpio_hw_flop_fold_def
        tgpio_output_wake_at_def tgpio_log_rounding_interval_def
        intro!: stats loops)
qed


lemma driver_step_stats: "driver_step K s t \<Longrightarrow> stats_ok (drv s) \<longrightarrow> stats_ok (drv t)"
proof (erule driver_step.cases)
  show "s = u \<Longrightarrow> t = exec_m (run_output_work K b) u \<Longrightarrow> ?thesis" for u b
    using movesD [OF stats_work, of u K b] by simp
qed (use entry_stats in auto)

text \<open>
  C20. The statistics stay consistent in every run of the loaded driver: the extremes recorded for
  the intervals of each input and for the time-to-digital conversion enclose the last value,
  the counters of the polarity check stay in range, and the fallback counter a reader sees in sysfs
  is the number of timestamp fallbacks that were traced.
\<close>

theorem statistics_consistent:
  assumes "driver_run K s t" and "stats_ok (drv s)"
  shows "stats_ok (drv t)"
  using assms by (induction rule: rtranclp_induct) (use driver_step_stats in blast)+

section \<open>Automatic polarity\<close>

lemma half_slot_iff:
  "polarity_verdict_of r period = HALF_SLOT \<longleftrightarrow>
    \<not> min r (period - r) < period div 8 \<and>
    (if period div 2 < r then r - period div 2 else period div 2 - r) < period div 8"
  by (auto simp: polarity_verdict_of_def Let_def)

text \<open>
  C19. The automatic polarity check inverts an output only on the third half-slot capture in a
  row: whenever it changes the other block's configuration, that block is a running symmetric
  hardware output, the capture lies within an eighth of a period of the half slot, two
  captures before it did too, and the change is one flip, scheduled, with the check paused for
  the next three captures.
\<close>

theorem auto_polarity_flips_on_third:
  assumes "stats_ok (drv s)"
  shows "let t = exec_m (tgpio_auto_polarity_check b ns) s; out = other_block b;
      d = output_desired (blocks (drv s) out); r = (ns - des_first_edge_ns d) mod des_period_ns d
    in if output_desired (blocks (drv t) out) = d then True
       else output_desired (blocks (drv t) out) = d\<lparr>des_flip_gen := des_flip_gen d + 1\<rparr> \<and>
         output_work_pending (blocks (drv t) out) \<and>
         autopol_streak (dev (drv s)) = 2 \<and> autopol_cooldown (dev (drv s)) = 0 \<and>
         autopol_streak (dev (drv t)) = 0 \<and> autopol_cooldown (dev (drv t)) = 3 \<and>
         auto_polarity (par (drv s)) \<and> des_run d = TGPIO_OUTPUT_RUNNING \<and>
         output_phase (blocks (drv s) out) = TGPIO_OUTPUT_HARDWARE_PERIODIC \<and>
         polarity_verdict_of r (des_period_ns d) = HALF_SLOT"
proof -
  have three: "c = 2" if "\<not> c + 1 < 3" "c < 3" for c :: u32
    using that by unat_arith
  have flip: "des_flip_gen_update (\<lambda>g. g + 1) d = d\<lparr>des_flip_gen := des_flip_gen d + 1\<rparr>" for d
    by (cases d) simp
  have "wp (tgpio_auto_polarity_check b ns) (\<lambda>_ t. let out = other_block b;
      d = output_desired (blocks (drv s) out); r = (ns - des_first_edge_ns d) mod des_period_ns d
    in if output_desired (blocks (drv t) out) = d then True
       else output_desired (blocks (drv t) out) = d\<lparr>des_flip_gen := des_flip_gen d + 1\<rparr> \<and>
         output_work_pending (blocks (drv t) out) \<and>
         autopol_streak (dev (drv s)) = 2 \<and> autopol_cooldown (dev (drv s)) = 0 \<and>
         autopol_streak (dev (drv t)) = 0 \<and> autopol_cooldown (dev (drv t)) = 3 \<and>
         auto_polarity (par (drv s)) \<and> des_run d = TGPIO_OUTPUT_RUNNING \<and>
         output_phase (blocks (drv s) out) = TGPIO_OUTPUT_HARDWARE_PERIODIC \<and>
         polarity_verdict_of r (des_period_ns d) = HALF_SLOT) s"
    using assms three [of "autopol_streak (dev (drv s))"]
    by (auto simp: wp_auto_polarity Let_def stats_ok_def flip)
  from wp_exec [OF this] show ?thesis unfolding Let_def .
qed


section \<open>Polling\<close>

text \<open>What a poll reports: the PTP events, their number, and each block's last event count.\<close>

definition reported :: "driver \<Rightarrow> ptp_clock_event list \<times> u64 \<times> (nat \<Rightarrow> u64)" where
  "reported d = (ptp_events (dev d), stats_events (dev d), \<lambda>b. last_event_count (blocks d b))"

definition reports_nothing :: "driver \<Rightarrow> driver \<Rightarrow> bool" where
  "reports_nothing d d' \<longleftrightarrow> reported d' = reported d"

interpretation quiet: memory_order reports_nothing
  by unfold_locales (auto simp: reports_nothing_def)

named_theorems quiet \<open>operations that report nothing\<close>

lemmas [quiet] = quiet.rules

lemma quiet_dev [quiet]:
  "(\<And>d. (ptp_events (f d), stats_events (f d)) = (ptp_events d, stats_events d)) \<Longrightarrow> moves reports_nothing (upd_dev f)"
  by (simp add: takes_def upd_dev_def reports_nothing_def reported_def)

lemma quiet_blk [quiet]:
  "(\<And>m. last_event_count (f m) = last_event_count m) \<Longrightarrow> moves reports_nothing (upd_blk b f)"
  by (auto simp: takes_def upd_blk_def reports_nothing_def reported_def)

lemma quiet_ops [quiet]:
  "moves reports_nothing (tgpio_tdc_capture K b art ev)" "moves reports_nothing (tgpio_pps_emit K b art)"
  "moves reports_nothing (tgpio_auto_polarity_check b ns)" "moves reports_nothing (tgpio_poll_time K)"
  "moves reports_nothing (tgpio_art_to_realtime_ns K b art)" "moves reports_nothing count_fallback" "moves reports_nothing (trace_tgpio_timestamp_fallback b art)"
  "moves reports_nothing (tgpio_take_crosststamp K)"
  by (auto simp: tgpio_tdc_capture_def tdc_add_def Let_def tgpio_pps_emit_def tgpio_auto_polarity_check_def tgpio_poll_time_def
      tgpio_art_to_realtime_ns_def count_fallback_def trace_defs schedule_work_def tgpio_take_crosststamp_def
      tgpio_get_realtime_snapshot_def intro!: quiet split: polarity_verdict.split)

lemma quiet_stats [quiet]: "moves reports_nothing (tgpio_input_stats_update K b art)"
  by (auto simp: tgpio_input_stats_update_def interval_add_def Let_def intro!: quiet)

lemma wp_emit:
  assumes "ptp_clock (dev (drv s))"
  shows "wp (tgpio_emit_event K b index art) (\<lambda>_ t. \<exists>ts. reported (drv t) =
    (ptp_events (dev (drv s)) @ [\<lparr>ev_index = index, ev_timestamp = ts\<rparr>], stats_events (dev (drv s)) + 1,
     \<lambda>b. last_event_count (blocks (drv s) b))) s"
proof -
  have ts: "wp (if \<not> hw then tgpio_poll_time K
          else if model then do {
            phc_ns \<leftarrow> tgpio_clock_phc_art_to_ns art;
            (case usable_ns phc_ns of
               Some v \<Rightarrow> ret v
             | None \<Rightarrow> do { trace_tgpio_timestamp_fallback b art; count_fallback; tgpio_poll_time K })
          }
          else if rt_mode then do {
            rt \<leftarrow> tgpio_art_to_realtime_ns K b art;
            (case rt of
               Inl e \<Rightarrow> do { trace_tgpio_timestamp_fallback b art; count_fallback; ktime_get_real K }
             | Inr v \<Rightarrow> ret v)
          }
          else ret ns) Q s" if "\<And>v t. reported (drv t) = reported (drv s) \<Longrightarrow> Q v t" for hw model rt_mode ns Q
    by (rule wp_moves [of reports_nothing], auto intro!: quiet that) (auto simp: reports_nothing_def that)
  show ?thesis
    unfolding tgpio_emit_event_def wp_bind [of "get_dev _"] wp_get_dev wp_bind [of "param _"] wp_param
      wp_bind [of tgpio_clock_uses_model] tgpio_clock_uses_model_def
    apply (simp only: assms not_True_eq_False if_False wp_bind [of "if _ then _ else _"])
    apply (rule ts)
    apply (simp add: wp_simps reported_def)
    done
qed

lemma wp_poll_capture:
  assumes "ptp_clock (dev (drv s))"
  shows "wp (tgpio_poll_capture K i cap) (\<lambda>_ t. \<exists>ts. reported (drv t) =
    (if cap_event_count cap = last_event_count (blocks (drv s) i) then reported (drv s) else
      (ptp_events (dev (drv s)) @ [\<lparr>ev_index = tgpio_channel_for_mmio_block (drv s) i PTP_PF_EXTTS, ev_timestamp = ts\<rparr>],
       stats_events (dev (drv s)) + 1, (\<lambda>b. last_event_count (blocks (drv s) b))(i := cap_event_count cap)))) s"
proof (cases "cap_event_count cap = last_event_count (blocks (drv s) i)")
  case True
  then show ?thesis by (simp add: tgpio_poll_capture_def wp_simps)
next
  case False
  let ?s = "s\<lparr>drv := (drv s)\<lparr>blocks := (blocks (drv s))(i := (blocks (drv s) i)\<lparr>last_event_count := cap_event_count cap\<rparr>)\<rparr>\<rparr>"
  have rest: "wp (do { tgpio_input_stats_update K i a; tgpio_tdc_capture K i a e; tgpio_pps_emit K i a }) Q t"
    if "\<And>u. reported (drv u) = reported (drv t) \<Longrightarrow> Q () u" for a e Q t
    by (rule wp_moves [of reports_nothing], auto intro!: quiet that) (auto simp: reports_nothing_def that)
  show ?thesis
    using False
    unfolding tgpio_poll_capture_def wp_bind [of "get_blk _ _"] wp_get_blk wp_when_m
    apply (simp add: wp_bind [of "ret _"] wp_return wp_bind [of "upd_blk _ _"] wp_upd_blk wp_bind [of "gets _"] wp_gets
        wp_bind [of "tgpio_emit_event _ _ _ _"])
    apply (rule wp_mono, rule wp_emit)
     apply (simp add: assms)
    apply (elim exE)
    apply (rule rest)
    apply (auto simp: tgpio_channel_for_mmio_block_def fun_upd_def reported_def if_distrib)
    done
qed


lemma wp_eq: "wp m Q s = Q (result_of m s) (exec_m m s)"
  by (simp add: wp_def split_beta)

text \<open>
  C18. A poll of an active input reports exactly the change of its event counter: one PTP event
  on the channel of the block's pin when the captured count differs from the last one, none
  when it does not, and the count is remembered.
\<close>

theorem poll_reports_change_once:
  assumes "blk_mode (blocks (drv s) i) = TGPIO_MODE_INPUT"
    and "input_applied (blocks (drv s) i) = input_desired (blocks (drv s) i)"
    and "tgpio_input_desired_state (input_desired (blocks (drv s) i)) = TGPIO_CAPTURE_ON"
    and "ptp_clock (dev (drv s))"
  shows "let d = drv s; t = exec_m (tgpio_poll_block K i) s;
      count = cap_event_count (result_of (do { _ \<leftarrow> tgpio_take_crosststamp K; tgpio_read_capture K i }) s)
    in \<exists>ts. ptp_events (dev (drv t)) = ptp_events (dev d) @
        (if count = last_event_count (blocks d i) then []
         else [\<lparr>ev_index = tgpio_channel_for_mmio_block d i PTP_PF_EXTTS, ev_timestamp = ts\<rparr>]) \<and>
      last_event_count (blocks (drv t) i) = count"
proof -
  define s1 where "s1 = exec_m (tgpio_take_crosststamp K) s"
  define s2 where "s2 = exec_m (tgpio_read_capture K i) s1"
  define cap where "cap = result_of (tgpio_read_capture K i) s1"
  have "keeps drv (tgpio_take_crosststamp K)"
    by (auto simp: tgpio_take_crosststamp_def intro!: frame)
  then have d: "drv s1 = drv s" "drv s2 = drv s1"
    unfolding s1_def s2_def by (auto intro: keepsD keeps_read_capture_drv)
  have cap_eq: "result_of (do { _ \<leftarrow> tgpio_take_crosststamp K; tgpio_read_capture K i }) s = cap"
    by (cases "run_state (tgpio_take_crosststamp K) s") (simp add: cap_def s1_def)
  define P where "P d' \<longleftrightarrow> (\<exists>ts. reported d' =
    (if cap_event_count cap = last_event_count (blocks (drv s) i) then reported (drv s) else
      (ptp_events (dev (drv s)) @ [\<lparr>ev_index = tgpio_channel_for_mmio_block (drv s) i PTP_PF_EXTTS, ev_timestamp = ts\<rparr>],
       stats_events (dev (drv s)) + 1, (\<lambda>b. last_event_count (blocks (drv s) b))(i := cap_event_count cap))))" for d'
  have captured: "wp (tgpio_poll_capture K i cap) (\<lambda>_ t. P (drv t)) s2"
    unfolding P_def by (rule wp_poll_capture [of s2 K i cap, unfolded d, OF assms(4)])
  have idle: "P (d'\<lparr>blocks := (blocks d')(i := (blocks d' i)\<lparr>crosststamp_snapshot := x\<rparr>)\<rparr>)" if "P d'" for d' x
  proof -
    have "reported (d'\<lparr>blocks := (blocks d')(i := (blocks d' i)\<lparr>crosststamp_snapshot := x\<rparr>)\<rparr>) = reported d'"
      by (simp add: reported_def fun_eq_iff)
    with that show ?thesis by (simp add: P_def)
  qed
  have "wp (tgpio_poll_block K i) (\<lambda>_ t. P (drv t)) s"
    unfolding tgpio_poll_block_def
    apply (simp add: assms wp_bind [of "get_blk _ _"] wp_get_blk wp_bind [of "when_m _ _"] wp_when_m
        wp_bind [of "tgpio_take_crosststamp _"] wp_bind [of "tgpio_read_capture _ _"]
        wp_eq [of "tgpio_take_crosststamp _"] wp_eq [of "tgpio_read_capture _ _"]
        wp_bind [of "tgpio_poll_capture _ _ _"] flip: s1_def s2_def cap_def)
    apply (rule wp_mono [OF captured])
    apply (simp add: wp_bind wp_upd_blk wp_return idle)
    done
  from wp_exec [OF this] show ?thesis unfolding Let_def cap_eq
    by (auto simp: P_def reported_def fun_eq_iff split: if_splits)
qed


section \<open>Instances\<close>

lemma sim_stats_ok: "stats_ok (drv (sim_mode mode))"
  by (simp add: stats_ok_def fallbacks_traced_def interval_ok_def encloses_def sim_mode_def Let_def sim_sys_def sim_driver_def
      zero_device_def output_block_def zero_block_def)

lemma statistics_consistent_witness:
  "stats_ok (drv (exec_m (tgpio_poll_work (sim_kernel 3)) (sim_mode TGPIO_CLOCK_PHC)))"
  using statistics_consistent [OF r_into_rtranclp [where r = "driver_step (sim_kernel 3)", OF driver_step.entry [OF entry_step.poll]] sim_stats_ok] .

text \<open>Two half-slot captures have been seen of a running output; block 1 captures its edges.\<close>

definition sim_half_slot :: "world sys" where
  "sim_half_slot = (let s = sim_sys (armed_block\<lparr>output_phase := TGPIO_OUTPUT_HARDWARE_PERIODIC\<rparr>) running_engine [] in
     s\<lparr>drv := (drv s)\<lparr>par := (par (drv s))\<lparr>auto_polarity := True\<rparr>,
                       dev := (dev (drv s))\<lparr>autopol_streak := 2\<rparr>\<rparr>\<rparr>)"

lemma auto_polarity_flips_on_third_witness:
  "let t = exec_m (tgpio_auto_polarity_check 1 5500000000) sim_half_slot
   in des_flip_gen (output_desired (blocks (drv t) 0)) = 1 \<and> autopol_cooldown (dev (drv t)) = 3"
proof -
  let ?t = "exec_m (tgpio_auto_polarity_check 1 5500000000) sim_half_slot"
  have ok: "stats_ok (drv sim_half_slot)"
    by (simp add: stats_ok_def fallbacks_traced_def interval_ok_def encloses_def sim_half_slot_def Let_def sim_sys_def sim_driver_def
        zero_device_def armed_block_def configured_block_def output_block_def zero_block_def)
  have d: "des_flip_gen (output_desired (blocks (drv sim_half_slot) (other_block 1))) = 0" "other_block 1 = 0"
    by (simp_all add: sim_half_slot_def Let_def sim_sys_def sim_driver_def other_block_def
        armed_block_def configured_block_def output_block_def zero_block_def zero_desired_def)
  have "des_flip_gen (output_desired (blocks (drv ?t) 0)) = 1" by code_simp
  then have ne: "output_desired (blocks (drv ?t) 0) \<noteq> output_desired (blocks (drv sim_half_slot) 0)" using d by auto
  show ?thesis using auto_polarity_flips_on_third [OF ok, of 1 5500000000] ne d by (simp add: Let_def split: if_splits)
qed

text \<open>An active input whose counter moved from 3 to 5.\<close>

definition sim_capture :: "world sys" where
  "sim_capture = (let s = sim_sys (zero_block\<lparr>blk_mode := TGPIO_MODE_INPUT, regs := True, last_event_count := 3,
       input_desired := tgpio_input_desired TGPIO_CAPTURE_ON 0, input_applied := tgpio_input_desired TGPIO_CAPTURE_ON 0\<rparr>)
       idle_engine [] in
     s\<lparr>drv := (drv s)\<lparr>dev := (dev (drv s))\<lparr>ptp_clock := True\<rparr>\<rparr>,
       kst := (kst s)\<lparr>w_capture := (\<lambda>_. (5, 900000000))\<rparr>\<rparr>)"

lemma poll_reports_change_once_witness:
  "let t = exec_m (tgpio_poll_block (sim_kernel 3) 0) sim_capture
   in \<exists>ts. ptp_events (dev (drv t)) = [\<lparr>ev_index = 0, ev_timestamp = ts\<rparr>] \<and> last_event_count (blocks (drv t) 0) = 5"
proof -
  have c: "cap_event_count (result_of (do { _ \<leftarrow> tgpio_take_crosststamp (sim_kernel 3); tgpio_read_capture (sim_kernel 3) 0 }) sim_capture) = 5"
    "tgpio_channel_for_mmio_block (drv sim_capture) 0 PTP_PF_EXTTS = 0"
    "tgpio_input_desired_state (input_desired (blocks (drv sim_capture) 0)) = TGPIO_CAPTURE_ON"
    by code_simp+
  have s: "blk_mode (blocks (drv sim_capture) 0) = TGPIO_MODE_INPUT" "last_event_count (blocks (drv sim_capture) 0) = 3"
    "input_applied (blocks (drv sim_capture) 0) = input_desired (blocks (drv sim_capture) 0)" "ptp_clock (dev (drv sim_capture))"
    "ptp_events (dev (drv sim_capture)) = []"
    by (simp_all add: sim_capture_def Let_def sim_sys_def sim_driver_def zero_device_def)
  from poll_reports_change_once [OF s(1,3) c(3) s(4), of "sim_kernel 3", unfolded Let_def c s]
  show ?thesis by (simp add: Let_def)
qed

end
