(* ===== verification/Init_Props.thy ===== *)
theory Init_Props
  imports Output_Control
begin

text \<open>
  Properties of loading and unloading: a configured device is safe to look channels up in, a
  failed load leaves the watchdog's work queued on the freed device, an unload leaves nothing.
\<close>

section \<open>Mapping the blocks\<close>

text \<open>A loaded device: at most two pins, and every block that is in use is mapped and below them.\<close>

definition device_ok :: "driver \<Rightarrow> bool" where
  "device_ok d \<longleftrightarrow> n_ptp_pins (dev d) \<le> 2 \<and>
    (\<forall>i\<in>{0, 1}. blk_mode (blocks d i) = TGPIO_MODE_OFF \<or>
      regs (blocks d i) \<and> mem_region (blocks d i) \<and> i < unat (n_ptp_pins (dev d)))"

lemma wp_bind_fun: "wp (State_Monad.bind m f) Q = wp m (\<lambda>a. wp (f a) Q)"
  by (simp add: fun_eq_iff wp_bind)

lemma wp_early: "wp (if r \<noteq> 0 then ret r else m) Q = (\<lambda>t. if r \<noteq> (0 :: int) then Q r t else wp m Q t)"
  by (auto simp: fun_eq_iff wp_return)

lemma wp_for_each_int2:
  "wp (for_each_int all_blocks f) Q s =
    wp (f 0) (\<lambda>r t. if r \<noteq> 0 then Q r t else wp (f 1) (\<lambda>r u. if r \<noteq> 0 then Q r u else Q 0 u) t) s"
  by (simp only: for_each_int.simps wp_bind wp_bind_fun wp_early wp_return_fun)

lemma wp_liftk_eq: "wp (liftk m) P s = P (result_of m (kst s)) (s\<lparr>kst := exec_m m (kst s)\<rparr>)"
  by (simp add: wp_def run_liftk)

lemma wp_map_mmio_block:
  assumes "\<And>r t. r \<noteq> 0 \<Longrightarrow> Q r t"
    and "\<And>t. drv t = (drv s)\<lparr>dev := (dev (drv s))\<lparr>n_ptp_pins := max (n_ptp_pins (dev (drv s))) (word_of_nat i + 1)\<rparr>,
        blocks := (blocks (drv s))(i := (blocks (drv s) i)\<lparr>mem_region := True, regs := True\<rparr>)\<rparr> \<Longrightarrow> Q 0 t"
  shows "wp (tgpio_map_mmio_block K i) Q s"
proof -
  have Q: "wp m Q s" if "wp m (\<lambda>r t. r = 0 \<longrightarrow> drv t = (drv s)\<lparr>dev := (dev (drv s))\<lparr>n_ptp_pins := max (n_ptp_pins (dev (drv s))) (word_of_nat i + 1)\<rparr>,
        blocks := (blocks (drv s))(i := (blocks (drv s) i)\<lparr>mem_region := True, regs := True\<rparr>)\<rparr>) s" for m
    by (rule wp_mono [OF that], rename_tac r t, case_tac "r = 0") (auto intro: assms)
  show ?thesis
    by (rule Q) (auto simp: tgpio_map_mmio_block_def wp_simps wp_liftk_eq)
qed

text \<open>The first loop of \<open>tgpio_configure_mmio_blocks\<close> only fills in the parameters.\<close>

definition unmapped :: "driver \<Rightarrow> bool" where
  "unmapped d \<longleftrightarrow> n_ptp_pins (dev d) = 0"

lemma wp_configure:
  assumes "unmapped (drv s)"
  shows "wp (tgpio_configure_mmio_blocks K) (\<lambda>r t. r = 0 \<longrightarrow> device_ok (drv t)) s"
proof -
  have parse: "wp (do {
            base \<leftarrow> param (\<lambda>p. addr p i);
            mode_str \<leftarrow> param (\<lambda>p. tgpio_param p i);
            edge_str \<leftarrow> param (\<lambda>p. edge_param p i);
            upd_blk i (mmio_phys_update (\<lambda>_. base));
            (case tgpio_parse_mode mode_str of
               Inl e \<Rightarrow> ret (status_code e)
             | Inr mode \<Rightarrow> do {
                 upd_blk i (blk_mode_update (\<lambda>_. mode));
                 (case tgpio_parse_edge edge_str of
                    Inl e \<Rightarrow> ret (status_code e)
                  | Inr edge_bits \<Rightarrow> do {
                      upd_blk i (input_edge_bits_update (\<lambda>_. edge_bits));
                      ret 0
                    })
               }) }) (\<lambda>_ t. unmapped (drv t)) t" if "unmapped (drv t)" for i t
    using that by (simp add: wp_simps unmapped_def split: sum.split)
  have map: "wp (do { mode \<leftarrow> get_blk i blk_mode; if mode = TGPIO_MODE_OFF then ret 0 else tgpio_map_mmio_block K i }) Q t"
    if "\<And>r u. r \<noteq> 0 \<Longrightarrow> Q r u" 
      and "\<And>u. drv u = (if blk_mode (blocks (drv t) i) = TGPIO_MODE_OFF then drv t else
        (drv t)\<lparr>dev := (dev (drv t))\<lparr>n_ptp_pins := max (n_ptp_pins (dev (drv t))) (word_of_nat i + 1)\<rparr>,
        blocks := (blocks (drv t))(i := (blocks (drv t) i)\<lparr>mem_region := True, regs := True\<rparr>)\<rparr>) \<Longrightarrow> Q 0 u" for Q i t
    using that by (auto simp: wp_simps intro!: wp_map_mmio_block)
  have maps: "wp (for_each_int all_blocks (\<lambda>i. do {
         mode \<leftarrow> get_blk i blk_mode;
         if mode = TGPIO_MODE_OFF then ret 0 else tgpio_map_mmio_block K i
       })) (\<lambda>r t. r = 0 \<longrightarrow> device_ok (drv t)) t" if "unmapped (drv t)" for t
    unfolding wp_for_each_int2
    apply (rule map)
     apply simp
    apply (simp only: simp_thms if_False)
    apply (rule map)
     apply simp
    using that
    apply (auto simp: device_ok_def unmapped_def max_def)
    done
  have rest: "wp (if r \<noteq> 0 then ret r
     else do {
       second \<leftarrow> param use_second;
       when_m (\<not> second) (upd_blk 1 (blk_mode_update (\<lambda>_. TGPIO_MODE_OFF)));
       for_each_int all_blocks (\<lambda>i. do {
         mode \<leftarrow> get_blk i blk_mode;
         if mode = TGPIO_MODE_OFF then ret 0 else tgpio_map_mmio_block K i
       })
     }) (\<lambda>r t. r = 0 \<longrightarrow> device_ok (drv t)) t" if "unmapped (drv t)" for r :: int and t
    unfolding wp_if wp_return wp_bind [of "param _"] wp_param wp_bind [of "when_m _ _"] wp_when_m wp_upd_blk
    apply (simp only: if_bool_eq_conj simp_thms, intro conjI impI)
      apply (erule notE, assumption)
     apply (rule maps)
    using that apply (simp add: unmapped_def)
    apply (rule maps)
    using that apply simp
    done
  show ?thesis
    unfolding tgpio_configure_mmio_blocks_def wp_bind [of "for_each_int _ _"] wp_for_each_int2
    apply (rule wp_mono, rule parse, rule assms)
    apply (simp only: if_bool_eq_conj, intro conjI impI)
     apply (rule rest, assumption)
    apply (rule wp_mono, erule parse)
    apply (intro conjI impI)
     apply (rule rest, assumption)
    apply (rule rest, assumption)
    done
qed

lemma find_channel_sound:
  assumes "tgpio_find_mmio_block_for_channel d func channel = Inr b"
  shows "b < unat (n_ptp_pins (dev d)) \<and> tgpio_mmio_block_supports_func d (word_of_nat b) func = TGPIO_SUPPORTED"
proof (cases "List.find (bound_pin d func channel) [0 ..< unat (n_ptp_pins (dev d))]")
  case None
  then have b: "b = unat channel" "channel < n_ptp_pins (dev d)"
    "tgpio_mmio_block_supports_func d channel func = TGPIO_SUPPORTED"
    using assms by (simp_all add: tgpio_find_mmio_block_for_channel_def not_le split: if_splits)
  then show ?thesis by (simp add: word_less_nat_alt)
next
  case (Some i)
  then have "b = i" using assms by (simp add: tgpio_find_mmio_block_for_channel_def split: if_splits)
  moreover have "bound_pin d func channel i" "i < unat (n_ptp_pins (dev d))"
    using Some by (auto simp: find_Some_iff)
  ultimately have i: "b = i" "bound_pin d func channel i" "i < unat (n_ptp_pins (dev d))" by auto
  have "tgpio_mmio_block_supports_func d (word_of_nat i) func = TGPIO_SUPPORTED"
    using i(2) by (cases "tgpio_mmio_block_supports_func d (word_of_nat i) func") (simp_all add: bound_pin_def)
  with i show ?thesis by simp
qed

section \<open>What a load keeps\<close>

text \<open>Everything of the load that follows the mapping.\<close>

definition after_mapping :: "'k kernel \<Rightarrow> ('k sys, int) state" where
  "after_mapping K = do {
       tgpio_pps_register K;
       r \<leftarrow> gets (\<lambda>s. tgpio_validate_persistent_operations (drv s));
       if r \<noteq> 0 then ret r
       else do {
         mode \<leftarrow> param clock_mode;
         when_m (mode = TGPIO_CLOCK_REALTIME) (do {
           resolved \<leftarrow> liftk (k_resolve_adjtimex K);
           upd_par (have_do_adjtimex_update (\<lambda>_. resolved))
         });
         r \<leftarrow> init_clock K;
         if r \<noteq> 0 then ret r
         else do {
           r \<leftarrow> tgpio_register_ptp_clock K;
           if r \<noteq> 0 then ret r
           else do {
             tgpio_observability_init K;
             tgpio_start_persistent_operations K
           }
         }
       }}"

lemma init_device_split:
  "init_device K = do { r \<leftarrow> tgpio_configure_mmio_blocks K; if r \<noteq> 0 then ret r else after_mapping K }"
  unfolding init_device_def after_mapping_def ..

text \<open>
  What the operations of a load after the mapping may not change, on any of the preorders below: the kept part of
  the device and the kept part of every block.
\<close>

abbreviation dev_kept :: "tgpio_device \<Rightarrow> u64 option \<times> u32" where
  "dev_kept d \<equiv> (watchdog_work d, n_ptp_pins d)"

abbreviation blk_shape :: "tgpio_mmio_block \<Rightarrow> tgpio_mode \<times> bool \<times> bool" where
  "blk_shape m \<equiv> (blk_mode m, regs m, mem_region m)"

locale load_order = memory_order R for R :: "driver \<Rightarrow> driver \<Rightarrow> bool" +
  assumes load_dev: "(\<And>d. dev_kept (f d) = dev_kept d) \<Longrightarrow> R e (dev_update f e)"
    and load_blk: "(\<And>m. blk_shape (f' m) = blk_shape m) \<Longrightarrow> R e (blocks_update (\<lambda>bs. bs(b := f' (bs b))) e)"
    and load_rest: "R e (par_update g e)" "R e (cal_update h e)" "R e (tgpio_debugfs_dir_update k e)" "R e (tgpio_sysfs_kobj_update l e)"
begin

lemma load_updates:
  "(\<And>d. dev_kept (f d) = dev_kept d) \<Longrightarrow> moves R (upd_dev f)" "(\<And>m. blk_shape (f' m) = blk_shape m) \<Longrightarrow> moves R (upd_blk b f')"
  "moves R (upd_par g)" "moves R (upd_cal h)"
  by (simp_all add: takes_def upd_dev_def upd_blk_def upd_par_def upd_cal_def load_dev load_blk load_rest)

lemma load_for_each_int: "(\<And>i. moves R (g i)) \<Longrightarrow> moves R (for_each_int is g)"
  by (induction "is") (auto intro!: rules)

lemma load_publish:
  "moves R (schedule_work b)" "moves R (hrtimer_cancel b)" "moves R (tgpio_disable_output b)"
  "moves R (tgpio_output_publish b r m p h l f)" "moves R (tgpio_output_wake_at b w)"
  by (auto simp: schedule_work_def hrtimer_cancel_def tgpio_disable_output_def tgpio_output_publish_def
      tgpio_output_wake_at_def intro!: rules load_updates)

lemmas load_rules = rules load_updates load_for_each_int load_publish

lemma load_requests: "moves R (tgpio_config_output_values K c p d v f on)" "moves R (tgpio_config_input c flags on)"
  by (auto simp: tgpio_config_output_values_def trace_defs tgpio_config_input_def intro!: load_rules)

lemma load_start: "moves R (tgpio_start_persistent_operations K)"
  by (auto simp: tgpio_start_persistent_operations_def tgpio_start_persistent_input_def tgpio_start_persistent_output_def
      intro!: load_rules load_requests)

lemma load_art:
  "moves R (tgpio_detect_cpuid_art_frequency K)" "moves R (tgpio_realtime_anchor K)" "moves R (tgpio_realtime_delta_to_art_cycles K d)"
  by (auto simp: tgpio_detect_cpuid_art_frequency_def split: prod.split
      intro!: load_rules keeps [OF keeps_clock_now(5)] keeps [OF keeps_realtime_delta(1)])

lemma load_clock: "moves R (init_clock K)"
  by (auto simp: init_clock_def tgpio_art_init_clock_def tgpio_phc_init_clock_def tgpio_probe_art_parameters_for_status_def
      tgpio_resolve_art_frequency_def Let_def intro!: load_rules load_art)

lemma load_observability: "moves R (tgpio_observability_init K)" "moves R (tgpio_observability_exit K)"
proof -
  have u: "moves R (upd_drv (tgpio_sysfs_kobj_update f))" "moves R (upd_drv (tgpio_debugfs_dir_update f'))"
    "moves R (upd_drv (\<lambda>d. d\<lparr>tgpio_debugfs_dir := g d\<rparr>))" for f f' g
    using load_rest(3,4) by (auto simp: takes_def)
  show "moves R (tgpio_observability_init K)" "moves R (tgpio_observability_exit K)"
    by (auto simp: tgpio_observability_init_def tgpio_observability_exit_def tgpio_debugfs_init_def tgpio_debugfs_exit_def
        tgpio_sysfs_init_def tgpio_sysfs_exit_def intro!: rules u)
qed

lemma load_register: "moves R (tgpio_pps_register K)" "moves R (tgpio_register_ptp_clock K)" "moves R (unregister_ptp K)"
  by (auto simp: tgpio_pps_register_def tgpio_register_ptp_clock_def tgpio_setup_pin_descs_def unregister_ptp_def intro!: load_rules)

lemma load_after_mapping: "moves R (after_mapping K)"
  unfolding after_mapping_def
  by (intro load_rules load_clock load_observability load_register load_start)

end

definition same_shape :: "driver \<Rightarrow> driver \<Rightarrow> bool" where
  "same_shape d d' \<longleftrightarrow> n_ptp_pins (dev d') = n_ptp_pins (dev d) \<and> (\<forall>i. blk_shape (blocks d' i) = blk_shape (blocks d i))"

interpretation shape: load_order same_shape
  by unfold_locales (auto simp: same_shape_def)

lemma wp_moved: "moves R m \<Longrightarrow> wp m (\<lambda>_ t. R (drv s) (drv t)) s"
  by (simp add: takes_def wp_def split_beta)

lemma device_ok_shape: "same_shape d d' \<Longrightarrow> device_ok d \<Longrightarrow> device_ok d'"
  by (auto simp: same_shape_def device_ok_def)

lemma parse_errors:
  "tgpio_parse_clock_mode str = Inl e \<Longrightarrow> status_code e \<noteq> 0" "tgpio_parse_timestamp_mode str = Inl e \<Longrightarrow> status_code e \<noteq> 0"
  "tgpio_parse_output_polarity str = Inl e \<Longrightarrow> status_code e \<noteq> 0"
  by (auto simp: tgpio_parse_clock_mode_def tgpio_parse_timestamp_mode_def tgpio_parse_output_polarity_def split: if_splits)

lemma wp_init_params: "unmapped (drv s) \<Longrightarrow> wp (init_params K) (\<lambda>r t. r = 0 \<longrightarrow> device_ok (drv t)) s"
proof -
  have dev: "wp (init_device K) (\<lambda>r t. r = 0 \<longrightarrow> device_ok (drv t)) t" if "unmapped (drv t)" for t
    unfolding init_device_split wp_bind
    by (rule wp_mono, rule wp_configure [OF that])
      (auto simp: wp_return intro!: wp_moves [OF shape.load_after_mapping] elim: device_ok_shape)
  assume "unmapped (drv s)"
  then show ?thesis
    by (auto simp: init_params_def wp_simps unmapped_def parse_errors intro!: dev split: sum.split)
qed

lemma wp_input_init: "wp (tgpio_input_init K) (\<lambda>r t. r = 0 \<longrightarrow> device_ok (drv t)) s" (is "wp _ ?Q s")
proof -
  have fin: "wp (if r \<noteq> 0 then do { init_err_cleanup K; ret r }
         else do {
           mode \<leftarrow> param clock_mode;
           when_m (mode = TGPIO_CLOCK_REALTIME) (upd_dev (art_refine_work_update (queue_delayed 0)));
           ret 0
         }) ?Q t" if "r = 0 \<longrightarrow> device_ok (drv t)" for r t
  proof (cases "r = 0")
    case True
    then show ?thesis using that by (simp add: wp_simps device_ok_def)
  next
    case False
    have "wp (init_err_cleanup K) (\<lambda>_ _. True) t" by (simp add: wp_def split_beta)
    then show ?thesis using False by (simp add: wp_bind wp_return_fun)
  qed
  have "wp (init_params K) (\<lambda>r. wp (if r \<noteq> 0 then do { init_err_cleanup K; ret r }
         else do {
           mode \<leftarrow> param clock_mode;
           when_m (mode = TGPIO_CLOCK_REALTIME) (upd_dev (art_refine_work_update (queue_delayed 0)));
           ret 0
         }) ?Q) t" if "unmapped (drv t)" for t
    by (rule wp_mono, rule wp_init_params [OF that], rule fin)
  then show ?thesis
    unfolding tgpio_input_init_def wp_bind [of "param _"] wp_param wp_if wp_bind [of "liftk _"] wp_liftk_eq wp_return
      wp_bind [of "upd_drv _"] wp_upd_drv wp_bind [of "upd_dev _"] wp_upd_dev wp_bind [of "init_params _"]
    by (auto simp: unmapped_def zero_device_def)
qed

text \<open>
  C28. A load that succeeds leaves a device whose channel look-ups are safe: at most two pins, every
  block in use mapped, and any block a look-up for a capture or an output returns is one of the
  two, is mapped and has the right mode.
\<close>

theorem loaded_lookups_safe:
  assumes "run_state (tgpio_input_init K) s = (0, t)"
    and "tgpio_find_mmio_block_for_channel (drv t) func channel = Inr b"
  shows "b < 2 \<and> device_ok (drv t) \<and> regs (blocks (drv t) b) \<and> mem_region (blocks (drv t) b) \<and>
    (func = PTP_PF_EXTTS \<and> blk_mode (blocks (drv t) b) = TGPIO_MODE_INPUT \<or>
     func = PTP_PF_PEROUT \<and> blk_mode (blocks (drv t) b) = TGPIO_MODE_OUTPUT)"
proof -
  have ok: "device_ok (drv t)"
    using wp_run [OF wp_input_init assms(1)] by simp
  then have n: "unat (n_ptp_pins (dev (drv t))) \<le> 2"
    by (simp add: device_ok_def word_le_nat_alt)
  from find_channel_sound [OF assms(2)] n have b: "b < 2" "b < unat (n_ptp_pins (dev (drv t)))"
    and f: "tgpio_mmio_block_supports_func (drv t) (word_of_nat b) func = TGPIO_SUPPORTED" by auto
  have "unat (word_of_nat b :: u32) = b" using b(1) by (auto simp: less_2_cases_iff)
  then have "func = PTP_PF_EXTTS \<and> blk_mode (blocks (drv t) b) = TGPIO_MODE_INPUT \<or>
     func = PTP_PF_PEROUT \<and> blk_mode (blocks (drv t) b) = TGPIO_MODE_OUTPUT"
    using f by (auto simp: tgpio_mmio_block_supports_func_def split: if_splits ptp_pin_function.splits)
  moreover have "b \<in> {0, 1}" using b(1) by auto
  ultimately show ?thesis using ok b(1) by (fastforce simp: device_ok_def)
qed


section \<open>The delayed works of a device that goes away\<close>

text \<open>The watchdog's work, which only the watchdog itself and the unload touch.\<close>

definition same_watchdog :: "driver \<Rightarrow> driver \<Rightarrow> bool" where
  "same_watchdog d d' \<longleftrightarrow> watchdog_work (dev d') = watchdog_work (dev d)"

interpretation watchdog: load_order same_watchdog
  by unfold_locales (auto simp: same_watchdog_def)

named_theorems wdog \<open>operations that leave the watchdog's work alone\<close>

lemmas [wdog] = watchdog.load_rules

lemma wdog_blk [wdog]: "moves same_watchdog (upd_blk b f)"
  by (simp add: takes_def same_watchdog_def upd_blk_def)

lemma wdog_dev [wdog]: "(\<And>d. watchdog_work (f d) = watchdog_work d) \<Longrightarrow> moves same_watchdog (upd_dev f)"
  by (simp add: takes_def same_watchdog_def upd_dev_def)

lemma wdog_init [wdog]: "moves same_watchdog (init_params K)"
proof -
  have "moves same_watchdog (tgpio_configure_mmio_blocks K)"
    by (auto simp: tgpio_configure_mmio_blocks_def tgpio_map_mmio_block_def intro!: wdog)
  then show ?thesis
    by (auto simp: init_params_def init_device_split intro!: wdog watchdog.load_after_mapping)
qed

lemma wdog_fold [wdog]: "moves same_watchdog (tgpio_hw_flop_fold K b)"
  by (auto simp: tgpio_hw_flop_fold_def intro!: wdog)

lemma wdog_drain [wdog]: "moves same_watchdog (tgpio_hw_periodic_drain_low K b)"
proof -
  have "moves same_watchdog (drain_loop n K b)" for n by (induction n) (auto intro!: wdog)
  then show ?thesis by (auto simp: tgpio_hw_periodic_drain_low_def intro!: wdog)
qed

lemma wdog_teardown [wdog]:
  "moves same_watchdog (tgpio_disable_mmio_blocks K)" "moves same_watchdog (tgpio_unmap_mmio_blocks K)"
  by (auto simp: tgpio_disable_mmio_blocks_def tgpio_disable_inputs_def tgpio_disable_outputs_def
      tgpio_disable_output_hw_def cancel_output_work_def tgpio_unmap_mmio_blocks_def intro!: wdog)

lemma wp_unmap:
  "wp (tgpio_unmap_mmio_blocks K) (\<lambda>_ t. \<forall>i\<in>{0, 1}. \<not> regs (blocks (drv t) i) \<and> \<not> mem_region (blocks (drv t) i)) s"
  by (auto simp: tgpio_unmap_mmio_blocks_def wp_simps wp_liftk_eq)

text \<open>
  C29. A load that fails leaves the watchdog behind: the device is freed and its blocks unmapped,
  but the delayed work scheduled right after the allocation is still pending and will run on
  freed memory ten seconds later.
\<close>

theorem failed_load_leaves_watchdog:
  assumes "run_state (tgpio_input_init K) s = (r, t)" and "r \<noteq> 0"
    and "TGPIO_MIN_MMIO_SIZE \<le> mmio_size (par (drv s))" and "result_of (k_alloc K) (kst s)"
  shows "\<not> allocated (drv t) \<and> watchdog_work (dev (drv t)) = Some 10 \<and>
    \<not> regs (blocks (drv t) 0) \<and> \<not> regs (blocks (drv t) 1)"
proof -
  let ?Q = "\<lambda>r t. r = 0 \<or> \<not> allocated (drv t) \<and> watchdog_work (dev (drv t)) = Some 10 \<and>
    \<not> regs (blocks (drv t) 0) \<and> \<not> regs (blocks (drv t) 1)"
  have cleanup: "wp (do { init_err_cleanup K; ret r }) ?Q t" if "watchdog_work (dev (drv t)) = Some 10" for r t
  proof -
    have "wp (init_err_cleanup K) (\<lambda>_. ?Q r) t"
      unfolding init_err_cleanup_def wp_bind
      apply (rule wp_moves [OF watchdog.load_observability(2)])
      apply (rule wp_moves [OF watchdog.load_register(3)])
      apply (rule wp_moves [OF wdog_teardown(1)])
      apply (rule wp_mono)
       apply (subst wp_conj, rule conjI, rule wp_unmap, rule wp_moved [OF wdog_teardown(2)])
      using that apply (auto simp: wp_upd_drv same_watchdog_def)
      done
    then show ?thesis by (simp add: wp_bind wp_return_fun)
  qed
  have "wp (tgpio_input_init K) ?Q s"
    unfolding tgpio_input_init_def wp_bind [of "param _"] wp_param wp_if wp_bind [of "liftk _"] wp_liftk_eq wp_return
      wp_bind [of "upd_drv _"] wp_upd_drv wp_bind [of "upd_dev _"] wp_upd_dev wp_bind [of "init_params _"]
    apply (simp only: assms(4) not_less [THEN iffD2, OF assms(3)] if_False not_True_eq_False)
    apply (rule wp_moves [OF wdog_init])
    apply (simp only: if_bool_eq_conj, intro conjI impI)
     apply (rule cleanup)
     apply (simp add: same_watchdog_def queue_delayed_def zero_device_def)
    apply (simp add: wp_bind wp_param wp_when_m wp_upd_dev wp_return)
    done
  from wp_run [OF this assms(1)] assms(2) show ?thesis by simp
qed

text \<open>The unload queues nothing and creates no file.\<close>

abbreviation queued_works :: "driver \<Rightarrow> u64 option \<times> u64 option \<times> u64 option" where
  "queued_works d \<equiv> (watchdog_work (dev d), art_refine_work (dev d), poll_work (dev d))"

abbreviation files :: "driver \<Rightarrow> (string \<times> nat) list option \<times> string list option" where
  "files d \<equiv> (tgpio_debugfs_dir d, tgpio_sysfs_kobj d)"

definition same_works :: "driver \<Rightarrow> driver \<Rightarrow> bool" where
  "same_works d d' \<longleftrightarrow> queued_works d' = queued_works d \<and> files d' = files d"

interpretation unqueued: memory_order same_works
  by unfold_locales (auto simp: same_works_def)

named_theorems unq \<open>operations that queue no delayed work of the device\<close>

lemmas [unq] = unqueued.rules

lemma unq_updates [unq]: "moves same_works (upd_blk b f)"
  by (simp add: takes_def same_works_def upd_blk_def)

lemma unq_fold [unq]: "moves same_works (tgpio_hw_flop_fold K b)"
  by (auto simp: tgpio_hw_flop_fold_def intro!: unq)

lemma unq_drain [unq]: "moves same_works (tgpio_hw_periodic_drain_low K b)"
proof -
  have "moves same_works (drain_loop n K b)" for n by (induction n) (auto intro!: unq)
  then show ?thesis by (auto simp: tgpio_hw_periodic_drain_low_def intro!: unq)
qed

lemma unq_teardown [unq]:
  "moves same_works (tgpio_disable_outputs K)" "moves same_works (tgpio_unmap_mmio_blocks K)"
  "moves same_works (tgpio_pps_unregister K)" "moves same_works (unregister_ptp K)"
  by (auto simp: tgpio_disable_outputs_def hrtimer_cancel_def unregister_ptp_def tgpio_pps_unregister_def
      tgpio_disable_output_hw_def cancel_output_work_def tgpio_unmap_mmio_blocks_def intro!: unq)

lemma wp_disable_inputs:
  "wp (tgpio_disable_inputs K) (\<lambda>_ t. queued_works (drv t) = (watchdog_work (dev (drv s)), art_refine_work (dev (drv s)), None) \<and>
     files (drv t) = files (drv s)) s"
  unfolding tgpio_disable_inputs_def wp_bind [of "upd_dev _"] wp_upd_dev
  by (rule wp_moves [of same_works], auto intro!: unq) (auto simp: same_works_def)



section \<open>Instances\<close>

text \<open>Before a load with the given clock mode; everything else as by default.\<close>

definition sim_unloaded :: "string \<Rightarrow> world sys" where
  "sim_unloaded mode = (let s = sim_sys zero_block idle_engine [] in
     s\<lparr>drv := (drv s)\<lparr>allocated := False, par := default_params\<lparr>clock_mode_param := mode\<rparr>, dev := zero_device\<rparr>\<rparr>)"

text \<open>A load in realtime mode without hardware timestamps: the first block captures, the second is off.\<close>

definition sim_load :: "world sys" where
  "sim_load = (let s = sim_unloaded ''real'' in s\<lparr>drv := (drv s)\<lparr>par := (par (drv s))\<lparr>tgpio_param := (\<lambda>i. if i = 0 then ''in'' else ''off''), hardware_timestamps := False\<rparr>\<rparr>\<rparr>)"


definition sim_plain :: "world kernel" where
  "sim_plain = (sim_kernel 3)\<lparr>k_debugfs_create_dir := State_Monad.return False\<rparr>"

lemma sim_load_parse: "tgpio_parse_clock_mode ''real'' = Inr TGPIO_CLOCK_REALTIME"
  "tgpio_parse_timestamp_mode ''realtime'' = Inr TGPIO_TIMESTAMP_REALTIME" "tgpio_parse_output_polarity ''normal'' = Inr TGPIO_OUTPUT_NORMAL"
  "tgpio_parse_mode ''in'' = Inr TGPIO_MODE_INPUT" "tgpio_parse_mode ''off'' = Inr TGPIO_MODE_OFF" "tgpio_parse_edge ''rising'' = Inr 0"
  "tgpio_check_addr 0x38 0xFE001210 = 0"
  by code_simp+

lemmas load_run_defs = tgpio_input_init_def [THEN wp_unfold] init_params_def [THEN wp_unfold] init_device_def [THEN wp_unfold]
  tgpio_configure_mmio_blocks_def [THEN wp_unfold] tgpio_map_mmio_block_def [THEN wp_unfold] tgpio_pps_register_def [THEN wp_unfold]
  init_clock_def [THEN wp_unfold] tgpio_register_ptp_clock_def [THEN wp_unfold] tgpio_setup_pin_descs_def [THEN wp_unfold]
  tgpio_observability_init_def [THEN wp_unfold] tgpio_debugfs_init_def [THEN wp_unfold] tgpio_sysfs_init_def [THEN wp_unfold]
  tgpio_start_persistent_operations_def [THEN wp_unfold] tgpio_start_persistent_input_def [THEN wp_unfold]
  tgpio_start_persistent_output_def [THEN wp_unfold]


lemma sim_load_times: "tgpio_output_times_get 0 0 False = Inl TGPIO_E_INVAL" by code_simp

lemma sim_load_init: "wp (tgpio_input_init (sim_kernel 3)) (\<lambda>r t. r = 0 \<and> n_ptp_pins (dev (drv t)) = 1 \<and> blk_mode (blocks (drv t) 0) = TGPIO_MODE_INPUT \<and> pin_func (pin_config (dev (drv t)) 0) = PTP_PF_NONE) sim_load"
  by (simp add: load_run_defs wp_liftk_eq wp_simps sim_load_def sim_unloaded_def Let_def default_params_def zero_device_def sim_load_parse sim_kernel_def
   sim_sys_def sim_driver_def tgpio_validate_persistent_operations_def validate_block_def sim_load_times setup_pin_def
   tgpio_persistent_input_enabled_def tgpio_persistent_output_period_ns_def tgpio_persistent_output_duty_ns_def tgpio_persistent_input_channel_def
   tgpio_needs_art_frequency_def tgpio_needs_art_base_clock_def)
lemma loaded_lookups_safe_witness:
  "let t = exec_m (tgpio_input_init (sim_kernel 3)) sim_load in regs (blocks (drv t) 0) \<and> mem_region (blocks (drv t) 0)"
proof -
  let ?m = "tgpio_input_init (sim_kernel 3)"
  define t where "t = exec_m ?m sim_load"
  have r: "run_state ?m sim_load = (0, t)" and p: "n_ptp_pins (dev (drv t)) = 1" "blk_mode (blocks (drv t) 0) = TGPIO_MODE_INPUT"
    "pin_func (pin_config (dev (drv t)) 0) = PTP_PF_NONE"
    using sim_load_init by (simp_all add: wp_def split_beta t_def prod_eq_iff)
  have "tgpio_find_mmio_block_for_channel (drv t) PTP_PF_EXTTS 0 = Inr 0"
    using p by (simp add: tgpio_find_mmio_block_for_channel_def bound_pin_def tgpio_mmio_block_supports_func_def)
  from loaded_lookups_safe [OF r this] show ?thesis by (simp add: t_def)
qed

lemma failed_load_leaves_watchdog_witness:
  "let t = exec_m (tgpio_input_init (sim_kernel 3)) (sim_unloaded ''sundial'')
   in \<not> allocated (drv t) \<and> watchdog_work (dev (drv t)) = Some 10"
proof -
  let ?m = "tgpio_input_init (sim_kernel 3)" and ?s = "sim_unloaded ''sundial''"
  have r: "run_state ?m ?s = (- EINVAL, exec_m ?m ?s)"
    by (rule prod_eqI, simp_all only: fst_conv snd_conv) code_simp
  have m: "TGPIO_MIN_MMIO_SIZE \<le> mmio_size (par (drv ?s))" "result_of (k_alloc (sim_kernel 3)) (kst ?s)"
    by (simp_all add: sim_unloaded_def Let_def default_params_def sim_kernel_def)
  show ?thesis using failed_load_leaves_watchdog [OF r _ m] by (simp add: Let_def)
qed


end
