(* ===== verification/Win_State.thy ===== *)
theory Win_State
  imports Engine_Bus
begin

text \<open>
  The Windows driver's data (\<open>driver/tgpio.h\<close>, \<open>include/tgpio_ioctl.h\<close>) and its environment.
  The kernel and KMDF are the record \<open>nt_kernel\<close> of operations on an abstract world \<open>'k\<close>.
  Requests carry their input as bytes, laid out as the packed C structs.

  The spin lock and the IRQL raise are not modelled: the queue is sequential, so one request
  runs at a time, and each handler is a sequence of steps between which edges may fire.
\<close>

section \<open>Status codes\<close>

type_synonym ntstatus = "32 word"

abbreviation STATUS_SUCCESS :: ntstatus where "STATUS_SUCCESS \<equiv> 0"
abbreviation STATUS_INVALID_PARAMETER :: ntstatus where "STATUS_INVALID_PARAMETER \<equiv> 0xC000000D"
abbreviation STATUS_INVALID_DEVICE_REQUEST :: ntstatus where "STATUS_INVALID_DEVICE_REQUEST \<equiv> 0xC0000010"
abbreviation STATUS_INTEGER_OVERFLOW :: ntstatus where "STATUS_INTEGER_OVERFLOW \<equiv> 0xC0000095"
abbreviation STATUS_INSUFFICIENT_RESOURCES :: ntstatus where "STATUS_INSUFFICIENT_RESOURCES \<equiv> 0xC000009A"
abbreviation STATUS_NOT_SUPPORTED :: ntstatus where "STATUS_NOT_SUPPORTED \<equiv> 0xC00000BB"

definition nt_success :: "ntstatus \<Rightarrow> bool" where
  "nt_success st \<longleftrightarrow> 0 \<le>s st"

section \<open>The device\<close>

datatype tgpio_win_block_mode = TGPIO_WIN_BLOCK_OFF | TGPIO_WIN_BLOCK_INPUT | TGPIO_WIN_BLOCK_OUTPUT

text \<open>\<open>wb_regs\<close> tells whether the block's registers are mapped.\<close>

record tgpio_win_block =
  wb_regs :: bool
  wb_phys :: u64
  wb_mmio_size :: u32
  wb_mode :: tgpio_win_block_mode
  wb_flop_high :: bool
  wb_hw_piv :: u64
  wb_ckpt_compv :: u64
  wb_high_cycles :: u64
  wb_low_cycles :: u64

record tgpio_win_device =
  wd_block :: "nat \<Rightarrow> tgpio_win_block"
  wd_block_count :: u32
  wd_art_frequency_hz :: u64
  wd_tsc_art_numerator :: u32
  wd_tsc_art_denominator :: u32
  wd_tsc_adjust :: u64

abbreviation TGPIO_ARM_MARGIN_NS :: u64 where "TGPIO_ARM_MARGIN_NS \<equiv> 2000000"
abbreviation TGPIO_AUTO_START_NS :: u64 where "TGPIO_AUTO_START_NS \<equiv> 50000000"
abbreviation TGPIO_DEFAULT_ADDR0 :: u64 where "TGPIO_DEFAULT_ADDR0 \<equiv> 0xFE001210"
abbreviation TGPIO_DEFAULT_ADDR1 :: u64 where "TGPIO_DEFAULT_ADDR1 \<equiv> 0xFE001310"
abbreviation TGPIO_DEFAULT_MMIO_SIZE :: u32 where "TGPIO_DEFAULT_MMIO_SIZE \<equiv> 0x38"
abbreviation TGPIO_WIN_MAX_BLOCKS :: nat where "TGPIO_WIN_MAX_BLOCKS \<equiv> 2"

section \<open>The environment\<close>

text \<open>
  \<open>n_readl b off\<close> and \<open>n_writel b off v\<close> are \<open>READ_REGISTER_ULONG\<close> and
  \<open>WRITE_REGISTER_ULONG\<close> at block \<open>b\<close>; \<open>n_cpuid leaf\<close> is the quadruple (eax, ebx, ecx, edx) at
  subleaf 0; \<open>n_input min len\<close> and \<open>n_output min len\<close> are the statuses with which
  \<open>WdfRequestRetrieveInputBuffer\<close> and \<open>WdfRequestRetrieveOutputBuffer\<close> answer a demand for
  \<open>min\<close> bytes of a buffer of \<open>len\<close>; \<open>n_reg_query\<close> is the value of a registry parameter;
  \<open>n_retries\<close> bounds the retry loop of the COMPV read.
\<close>

record 'k nt_kernel =
  n_readl :: "nat \<Rightarrow> u32 \<Rightarrow> ('k, u32) state"
  n_writel :: "nat \<Rightarrow> u32 \<Rightarrow> u32 \<Rightarrow> ('k, unit) state"
  n_rdtsc :: "('k, u64) state"
  n_systime :: "('k, u64) state"
  n_cpuid :: "u32 \<Rightarrow> u32 \<times> u32 \<times> u32 \<times> u32"
  n_readmsr :: "u32 \<Rightarrow> u64"
  n_map_io :: "nat \<Rightarrow> u64 \<Rightarrow> u32 \<Rightarrow> ('k, bool) state"
  n_unmap_io :: "nat \<Rightarrow> ('k, unit) state"
  n_input :: "nat \<Rightarrow> nat \<Rightarrow> ntstatus"
  n_output :: "nat \<Rightarrow> nat \<Rightarrow> ntstatus"
  n_reg_open :: "('k, bool) state"
  n_reg_query :: "string \<Rightarrow> ('k, u32 option) state"
  n_device_create :: "('k, ntstatus) state"
  n_lock_create :: "('k, ntstatus) state"
  n_queue_create :: "('k, ntstatus) state"
  n_symlink_create :: "('k, ntstatus) state"
  n_retries :: nat

type_synonym 'k nt = "(tgpio_win_device, 'k) machine"

section \<open>Reading and updating the device context\<close>

definition win_get :: "(tgpio_win_device \<Rightarrow> 'a) \<Rightarrow> ('k nt, 'a) state" where
  "win_get f = gets (\<lambda>s. f (drv s))"

definition win_get_blk :: "nat \<Rightarrow> (tgpio_win_block \<Rightarrow> 'a) \<Rightarrow> ('k nt, 'a) state" where
  "win_get_blk b f = gets (\<lambda>s. f (wd_block (drv s) b))"

definition win_upd_blk :: "nat \<Rightarrow> (tgpio_win_block \<Rightarrow> tgpio_win_block) \<Rightarrow> ('k nt, unit) state" where
  "win_upd_blk b f = upd_drv (wd_block_update (\<lambda>bs. bs(b := f (bs b))))"

lemma wp_win_get [wp_simps]: "wp (win_get f) Q s = Q (f (drv s)) s"
  by (simp add: win_get_def wp_simps)

lemma wp_win_get_blk [wp_simps]: "wp (win_get_blk b f) Q s = Q (f (wd_block (drv s) b)) s"
  by (simp add: win_get_blk_def wp_simps)

lemma wp_win_upd_blk [wp_simps]:
  "wp (win_upd_blk b f) Q s =
    Q () (s\<lparr>drv := (drv s)\<lparr>wd_block := (wd_block (drv s))(b := f (wd_block (drv s) b))\<rparr>\<rparr>)"
  by (cases "drv s") (simp add: win_upd_blk_def wp_simps)

lemma run_win_get [simp]: "run_state (win_get f) s = (f (drv s), s)"
  by (simp add: win_get_def)

lemma keeps_win_readers [frame]: "keeps g (win_get f1)" "keeps g (win_get_blk b f2)"
  by (simp_all add: keeps_def win_get_def win_get_blk_def)

lemma keeps_win_upd [frame]: "keeps kst (win_upd_blk b f)" "keeps hung (win_upd_blk b f)"
  by (simp_all add: keeps_def win_upd_blk_def)

section \<open>The control interface's data\<close>

type_synonym bytes = "8 word list"

text \<open>Little-endian integers at a byte offset, and their encoding.\<close>

primrec le_nat :: "nat \<Rightarrow> bytes \<Rightarrow> nat" where
  "le_nat 0 bs = 0"
| "le_nat (Suc n) bs = (case bs of [] \<Rightarrow> 0 | x # xs \<Rightarrow> unat x + 256 * le_nat n xs)"

definition get_u32 :: "bytes \<Rightarrow> nat \<Rightarrow> u32" where
  "get_u32 bs off = of_nat (le_nat 4 (drop off bs))"

definition get_u64 :: "bytes \<Rightarrow> nat \<Rightarrow> u64" where
  "get_u64 bs off = of_nat (le_nat 8 (drop off bs))"

primrec le_bytes :: "nat \<Rightarrow> nat \<Rightarrow> bytes" where
  "le_bytes 0 n = []"
| "le_bytes (Suc k) n = of_nat n # le_bytes k (n div 256)"

definition put_u32 :: "u32 \<Rightarrow> bytes" where
  "put_u32 w = le_bytes 4 (unat w)"

definition put_u64 :: "u64 \<Rightarrow> bytes" where
  "put_u64 w = le_bytes 8 (unat w)"

lemma length_le_bytes [simp]: "length (le_bytes k n) = k"
  by (induction k arbitrary: n) simp_all

lemma length_put [simp]: "length (put_u32 w) = 4" "length (put_u64 v) = 8"
  by (simp_all add: put_u32_def put_u64_def)

lemma le_nat_bytes: "n < 256 ^ k \<Longrightarrow> le_nat k (le_bytes k n @ r) = n"
proof (induction k arbitrary: n)
  case 0
  then show ?case by simp
next
  case (Suc k)
  have "unat (of_nat n :: 8 word) = n mod 256" by (simp add: unat_of_nat)
  moreover have "n div 256 < 256 ^ k" using Suc.prems by (simp add: div_less_iff_less_mult mult.commute)
  ultimately show ?case using Suc.IH [of "n div 256"] by simp
qed

lemma get_put_u32 [simp]: "off = length p \<Longrightarrow> get_u32 (p @ put_u32 w @ r) off = w"
  using le_nat_bytes [of "unat w" 4 r] unsigned_less [of w, where ?'a = nat] by (simp add: get_u32_def put_u32_def)

lemma get_put_u64 [simp]: "off = length p \<Longrightarrow> get_u64 (p @ put_u64 w @ r) off = w"
  using le_nat_bytes [of "unat w" 8 r] unsigned_less [of w, where ?'a = nat] by (simp add: get_u64_def put_u64_def)

datatype tgpio_win_edge = TGPIO_WIN_EDGE_RISING | TGPIO_WIN_EDGE_FALLING | TGPIO_WIN_EDGE_BOTH

text \<open>The number of the C enum, and the edge a number stands for.\<close>

primrec win_edge_code :: "tgpio_win_edge \<Rightarrow> u32" where
  "win_edge_code TGPIO_WIN_EDGE_RISING = 0"
| "win_edge_code TGPIO_WIN_EDGE_FALLING = 1"
| "win_edge_code TGPIO_WIN_EDGE_BOTH = 2"

definition win_edge_of :: "u32 \<Rightarrow> tgpio_win_edge option" where
  "win_edge_of c = (if c = 0 then Some TGPIO_WIN_EDGE_RISING else if c = 1 then Some TGPIO_WIN_EDGE_FALLING
     else if c = 2 then Some TGPIO_WIN_EDGE_BOTH else None)"

primrec win_mode_code :: "tgpio_win_block_mode \<Rightarrow> u32" where
  "win_mode_code TGPIO_WIN_BLOCK_OFF = 0"
| "win_mode_code TGPIO_WIN_BLOCK_INPUT = 1"
| "win_mode_code TGPIO_WIN_BLOCK_OUTPUT = 2"

record tgpio_win_info =
  wi_art_frequency_hz :: u64
  wi_tsc_art_numerator :: u32
  wi_tsc_art_denominator :: u32
  wi_tsc_adjust :: u64
  wi_block_count :: u32
  wi_mmio_base :: "u64 list"

record tgpio_win_crosststamp =
  xt_tsc_before :: u64
  xt_tsc_after :: u64
  xt_systime_100ns :: u64
  xt_art_cycles :: u64

record tgpio_win_set_input =
  si_block :: u32
  si_enable :: u32
  si_edge :: u32

record tgpio_win_capture =
  wc_event_count :: u64
  wc_art_cycles :: u64
  wc_tsc_now :: u64
  wc_systime_100ns :: u64

record tgpio_win_start_output =
  so_block :: u32
  so_high_cycles :: u64
  so_low_cycles :: u64
  so_first_edge_art :: u64

record tgpio_win_block_status =
  bs_mode :: u32
  bs_ctl :: u32
  bs_compv :: u64
  bs_piv :: u64
  bs_event_count :: u64
  bs_flop_high :: u32

abbreviation sizeof_win_info :: nat where "sizeof_win_info \<equiv> 48"
abbreviation sizeof_win_crosststamp :: nat where "sizeof_win_crosststamp \<equiv> 32"
abbreviation sizeof_win_set_input :: nat where "sizeof_win_set_input \<equiv> 16"
abbreviation sizeof_win_capture :: nat where "sizeof_win_capture \<equiv> 32"
abbreviation sizeof_win_start_output :: nat where "sizeof_win_start_output \<equiv> 32"
abbreviation sizeof_win_block_status :: nat where "sizeof_win_block_status \<equiv> 40"
abbreviation sizeof_ULONG :: nat where "sizeof_ULONG \<equiv> 4"

text \<open>Input structs at their packed offsets; the \<open>reserved\<close> words are not read.\<close>

definition get_set_input :: "bytes \<Rightarrow> tgpio_win_set_input" where
  "get_set_input bs = \<lparr>si_block = get_u32 bs 0, si_enable = get_u32 bs 4, si_edge = get_u32 bs 8\<rparr>"

definition put_set_input :: "tgpio_win_set_input \<Rightarrow> bytes" where
  "put_set_input r = put_u32 (si_block r) @ put_u32 (si_enable r) @ put_u32 (si_edge r) @ put_u32 0"

definition get_start_output :: "bytes \<Rightarrow> tgpio_win_start_output" where
  "get_start_output bs = \<lparr>so_block = get_u32 bs 0, so_high_cycles = get_u64 bs 8,
     so_low_cycles = get_u64 bs 16, so_first_edge_art = get_u64 bs 24\<rparr>"

definition put_start_output :: "tgpio_win_start_output \<Rightarrow> bytes" where
  "put_start_output r = put_u32 (so_block r) @ put_u32 0 @ put_u64 (so_high_cycles r)
     @ put_u64 (so_low_cycles r) @ put_u64 (so_first_edge_art r)"

text \<open>What a handler leaves in the output buffer.\<close>

datatype win_reply =
    Reply_Info tgpio_win_info
  | Reply_Crosststamp tgpio_win_crosststamp
  | Reply_Capture tgpio_win_capture
  | Reply_Block tgpio_win_block_status

text \<open>A device-control request: its input bytes and the size of its output buffer.\<close>

record win_request =
  rq_input :: bytes
  rq_output_len :: nat

text \<open>The control codes, by the index given to \<open>TGPIO_IOCTL\<close>.\<close>

definition TGPIO_IOCTL :: "u32 \<Rightarrow> u32" where
  "TGPIO_IOCTL index = push_bit 16 0x22 OR push_bit 2 (0x800 + index)"

abbreviation TGPIO_IOCTL_GET_INFO :: u32 where "TGPIO_IOCTL_GET_INFO \<equiv> TGPIO_IOCTL 0"
abbreviation TGPIO_IOCTL_CROSSTSTAMP :: u32 where "TGPIO_IOCTL_CROSSTSTAMP \<equiv> TGPIO_IOCTL 1"
abbreviation TGPIO_IOCTL_SET_INPUT :: u32 where "TGPIO_IOCTL_SET_INPUT \<equiv> TGPIO_IOCTL 2"
abbreviation TGPIO_IOCTL_READ_CAPTURE :: u32 where "TGPIO_IOCTL_READ_CAPTURE \<equiv> TGPIO_IOCTL 3"
abbreviation TGPIO_IOCTL_START_OUTPUT :: u32 where "TGPIO_IOCTL_START_OUTPUT \<equiv> TGPIO_IOCTL 4"
abbreviation TGPIO_IOCTL_STOP_OUTPUT :: u32 where "TGPIO_IOCTL_STOP_OUTPUT \<equiv> TGPIO_IOCTL 5"
abbreviation TGPIO_IOCTL_INVERT_OUTPUT :: u32 where "TGPIO_IOCTL_INVERT_OUTPUT \<equiv> TGPIO_IOCTL 6"
abbreviation TGPIO_IOCTL_GET_BLOCK :: u32 where "TGPIO_IOCTL_GET_BLOCK \<equiv> TGPIO_IOCTL 7"

end
