(* ===== verification/Win_Hw.thy ===== *)
theory Win_Hw
  imports Win_State
begin

text \<open>
  The Windows driver's time base (\<open>driver/art.c\<close>) and hardware layer (\<open>driver/hw.c\<close>),
  function by function; the names carry \<open>win_\<close> where the Linux driver has the same one.
\<close>

section \<open>ART from the TSC\<close>

text \<open>The compiler's 128-bit intrinsics \<open>_umul128\<close> (high and low half) and \<open>_udiv128\<close> (quotient).\<close>

definition umul128 :: "u64 \<Rightarrow> u64 \<Rightarrow> u64 \<times> u64" where
  "umul128 a b = (let p = ucast a * ucast b :: 128 word in (ucast (drop_bit 64 p), ucast p))"

definition udiv128 :: "u64 \<Rightarrow> u64 \<Rightarrow> u64 \<Rightarrow> u64" where
  "udiv128 hi lo d = ucast ((push_bit 64 (ucast hi) OR ucast lo :: 128 word) div ucast d)"

definition tgpio_muldiv :: "u64 \<Rightarrow> u64 \<Rightarrow> u64 \<Rightarrow> u64" where
  "tgpio_muldiv value mul div' = (case umul128 value mul of (hi, lo) \<Rightarrow>
     if div' \<le> hi then U64_MAX else udiv128 hi lo div')"

definition tgpio_art_detect :: "'k nt_kernel \<Rightarrow> ('k nt, ntstatus) state" where
  "tgpio_art_detect N = (
     let (max_leaf, _, _, _) = n_cpuid N 0; (eax, ebx, ecx, _) = n_cpuid N 0x15; (_, ebx7, _, _) = n_cpuid N 7 in
     if max_leaf < 0x15 then ret STATUS_NOT_SUPPORTED
     else if eax = 0 \<or> ebx = 0 then ret STATUS_NOT_SUPPORTED
     else do {
       upd_drv (\<lambda>d. d\<lparr>wd_tsc_art_denominator := eax, wd_tsc_art_numerator := ebx,
         wd_art_frequency_hz := ucast ecx,
         wd_tsc_adjust := (if ebx7 AND 2 \<noteq> 0 then n_readmsr N 0x3b else 0)\<rparr>);
       ret STATUS_SUCCESS
     })"

definition tgpio_art_from_tsc :: "tgpio_win_device \<Rightarrow> u64 \<Rightarrow> u64" where
  "tgpio_art_from_tsc wdev tsc =
    tgpio_muldiv (tsc - wd_tsc_adjust wdev) (ucast (wd_tsc_art_denominator wdev)) (ucast (wd_tsc_art_numerator wdev))"

definition tgpio_art_now :: "'k nt_kernel \<Rightarrow> ('k nt, u64) state" where
  "tgpio_art_now N = do {
     wdev \<leftarrow> win_get (\<lambda>d. d);
     tsc \<leftarrow> liftk (n_rdtsc N);
     ret (tgpio_art_from_tsc wdev tsc)
   }"

definition tgpio_art_ns_to_cycles :: "tgpio_win_device \<Rightarrow> u64 \<Rightarrow> u64" where
  "tgpio_art_ns_to_cycles wdev ns = tgpio_muldiv ns (wd_art_frequency_hz wdev) 1000000000"

definition tgpio_art_crosststamp :: "'k nt_kernel \<Rightarrow> ('k nt, tgpio_win_crosststamp) state" where
  "tgpio_art_crosststamp N = do {
     wdev \<leftarrow> win_get (\<lambda>d. d);
     before \<leftarrow> liftk (n_rdtsc N);
     systime \<leftarrow> liftk (n_systime N);
     after \<leftarrow> liftk (n_rdtsc N);
     ret \<lparr>xt_tsc_before = before, xt_tsc_after = after, xt_systime_100ns = systime,
          xt_art_cycles = tgpio_art_from_tsc wdev (before + (after - before) div 2)\<rparr>
   }"

section \<open>Register access\<close>

definition win_readl :: "'k nt_kernel \<Rightarrow> nat \<Rightarrow> u32 \<Rightarrow> ('k nt, u32) state" where
  "win_readl N b offset = liftk (n_readl N b offset)"

definition win_writel :: "'k nt_kernel \<Rightarrow> nat \<Rightarrow> u32 \<Rightarrow> u32 \<Rightarrow> ('k nt, unit) state" where
  "win_writel N b offset value = liftk (n_writel N b offset value)"

definition tgpio_hw_read_ctl :: "'k nt_kernel \<Rightarrow> nat \<Rightarrow> ('k nt, u32) state" where
  "tgpio_hw_read_ctl N b = win_readl N b TGPIOCTL"

definition win_write_ctl :: "'k nt_kernel \<Rightarrow> nat \<Rightarrow> u32 \<Rightarrow> ('k nt, unit) state" where
  "win_write_ctl N b value = win_writel N b TGPIOCTL value"

definition win_write_compv :: "'k nt_kernel \<Rightarrow> nat \<Rightarrow> u64 \<Rightarrow> ('k nt, unit) state" where
  "win_write_compv N b value = do {
     win_writel N b TGPIOCOMPV63_32 (ucast (drop_bit 32 value));
     win_writel N b TGPIOCOMPV31_0 (ucast value)
   }"

definition win_write_piv :: "'k nt_kernel \<Rightarrow> nat \<Rightarrow> u64 \<Rightarrow> ('k nt, unit) state" where
  "win_write_piv N b value = do {
     win_writel N b TGPIOPIV63_32 (ucast (drop_bit 32 value));
     win_writel N b TGPIOPIV31_0 (ucast value)
   }"

text \<open>\<open>(unsigned __int64)hi << 32 | lo\<close>\<close>

abbreviation win_join :: "u32 \<Rightarrow> u32 \<Rightarrow> u64" where
  "win_join hi lo \<equiv> push_bit 32 (ucast hi) OR ucast lo"

primrec hw_read_compv_loop :: "nat \<Rightarrow> 'k nt_kernel \<Rightarrow> nat \<Rightarrow> u32 \<Rightarrow> ('k nt, u64) state" where
  "hw_read_compv_loop 0 N b prev_hi = do { modify (hung_update (\<lambda>_. True)); ret 0 }"
| "hw_read_compv_loop (Suc n) N b prev_hi = do {
     lo \<leftarrow> win_readl N b TGPIOCOMPV31_0;
     hi \<leftarrow> win_readl N b TGPIOCOMPV63_32;
     if hi \<noteq> prev_hi then hw_read_compv_loop n N b hi
     else ret (win_join hi lo)
   }"

definition tgpio_hw_read_compv :: "'k nt_kernel \<Rightarrow> nat \<Rightarrow> ('k nt, u64) state" where
  "tgpio_hw_read_compv N b = do {
     hi \<leftarrow> win_readl N b TGPIOCOMPV63_32;
     hw_read_compv_loop (n_retries N) N b hi
   }"

definition tgpio_hw_read_piv :: "'k nt_kernel \<Rightarrow> nat \<Rightarrow> ('k nt, u64) state" where
  "tgpio_hw_read_piv N b = do {
     lo \<leftarrow> win_readl N b TGPIOPIV31_0;
     hi \<leftarrow> win_readl N b TGPIOPIV63_32;
     ret (win_join hi lo)
   }"

text \<open>The event count and the capture timestamp.\<close>

definition tgpio_hw_read_capture :: "'k nt_kernel \<Rightarrow> nat \<Rightarrow> ('k nt, u64 \<times> u64) state" where
  "tgpio_hw_read_capture N b = do {
     tcv_lo \<leftarrow> win_readl N b TGPIOTCV31_0;
     count_hi \<leftarrow> win_readl N b TGPIOECCV63_32;
     count_lo \<leftarrow> win_readl N b TGPIOECCV31_0;
     tcv_hi \<leftarrow> win_readl N b TGPIOTCV63_32;
     ret (win_join count_hi count_lo, win_join tcv_hi tcv_lo)
   }"

definition tgpio_hw_read_event_count :: "'k nt_kernel \<Rightarrow> nat \<Rightarrow> ('k nt, u64) state" where
  "tgpio_hw_read_event_count N b = do { cap \<leftarrow> tgpio_hw_read_capture N b; ret (fst cap) }"

section \<open>The level mirror, inputs and outputs\<close>

definition win_hw_flop_fold :: "'k nt_kernel \<Rightarrow> nat \<Rightarrow> ('k nt, unit) state" where
  "win_hw_flop_fold N b = do {
     hw_piv \<leftarrow> win_get_blk b wb_hw_piv;
     if hw_piv = 0 then ret ()
     else do {
       compv \<leftarrow> tgpio_hw_read_compv N b;
       ckpt \<leftarrow> win_get_blk b wb_ckpt_compv;
       if compv < ckpt then ret ()
       else do {
         events \<leftarrow> ret ((compv - ckpt) div hw_piv);
         when_m (events AND 1 \<noteq> 0) (win_upd_blk b (wb_flop_high_update Not));
         win_upd_blk b (wb_ckpt_compv_update (\<lambda>_. compv))
       }
     }
   }"

definition tgpio_hw_set_input :: "'k nt_kernel \<Rightarrow> nat \<Rightarrow> bool \<Rightarrow> u32 \<Rightarrow> ('k nt, unit) state" where
  "tgpio_hw_set_input N b enable edge_bits = do {
     ctl \<leftarrow> tgpio_hw_read_ctl N b;
     ctrl \<leftarrow> ret (ctl AND NOT TGPIOCTL_EN);
     win_write_ctl N b ctrl;
     if \<not> enable then ret ()
     else do {
       ctrl \<leftarrow> ret (((ctrl AND NOT TGPIOCTL_EP) OR (edge_bits AND TGPIOCTL_EP)) OR TGPIOCTL_DIR);
       win_write_ctl N b ctrl;
       win_write_ctl N b (ctrl OR TGPIOCTL_EN)
     }
   }"

definition tgpio_hw_write_compv_paused :: "'k nt_kernel \<Rightarrow> nat \<Rightarrow> u64 \<Rightarrow> ('k nt, unit) state" where
  "tgpio_hw_write_compv_paused N b compv = do {
     ctrl \<leftarrow> tgpio_hw_read_ctl N b;
     win_write_ctl N b (ctrl AND NOT TGPIOCTL_PM);
     win_write_compv N b compv;
     win_write_ctl N b ctrl;
     win_upd_blk b (wb_ckpt_compv_update (\<lambda>_. compv))
   }"

text \<open>
  The compare of the first toggle: the requested edge (50 ms from now when none is given)
  less the hardware delay, one low time earlier when the tracked level is high, and pushed by
  whole periods past the arming deadline.
\<close>

definition win_first_slot :: "tgpio_win_device \<Rightarrow> bool \<Rightarrow> u64 \<Rightarrow> u64 \<Rightarrow> u64 \<Rightarrow> u64 \<Rightarrow> u64" where
  "win_first_slot wdev flop_high now_art high_cycles low_cycles first_edge_art =
    (let first_edge = (if first_edge_art = 0
           then now_art + tgpio_art_ns_to_cycles wdev TGPIO_AUTO_START_NS else first_edge_art);
         first = (if TGPIO_ART_HW_DELAY_CYCLES < first_edge
           then first_edge - TGPIO_ART_HW_DELAY_CYCLES else first_edge)
     in if flop_high
        then if low_cycles < first then first - low_cycles else first + high_cycles
        else first)"

definition win_late_push :: "tgpio_win_device \<Rightarrow> u64 \<Rightarrow> u64 \<Rightarrow> u64 \<Rightarrow> u64 option" where
  "win_late_push wdev now_art period_cycles first =
    (let deadline = now_art + tgpio_art_ns_to_cycles wdev TGPIO_ARM_MARGIN_NS in
     if first < deadline then
       let periods = (deadline - first) div period_cycles + 1 in
       if (U64_MAX - first) div period_cycles < periods then None
       else Some (first + periods * period_cycles)
     else Some first)"

definition tgpio_hw_start_output ::
    "'k nt_kernel \<Rightarrow> nat \<Rightarrow> u64 \<Rightarrow> u64 \<Rightarrow> u64 \<Rightarrow> ('k nt, ntstatus) state" where
  "tgpio_hw_start_output N b high_cycles low_cycles first_edge_art =
    (if high_cycles = 0 \<or> low_cycles = 0 \<or> U64_MAX div 4 < high_cycles \<or> U64_MAX div 4 < low_cycles
     then ret STATUS_INVALID_PARAMETER
     else do {
       ctl \<leftarrow> tgpio_hw_read_ctl N b;
       ctrl \<leftarrow> ret (ctl AND NOT TGPIOCTL_EN);
       win_write_ctl N b ctrl;
       win_hw_flop_fold N b;
       win_write_compv N b 0;
       win_write_piv N b 0;
       ctrl \<leftarrow> ret (ctrl AND NOT (TGPIOCTL_DIR OR TGPIOCTL_EP OR TGPIOCTL_PM));
       win_write_ctl N b ctrl;
       now_art \<leftarrow> tgpio_art_now N;
       wdev \<leftarrow> win_get (\<lambda>d. d);
       flop_high \<leftarrow> win_get_blk b wb_flop_high;
       (case win_late_push wdev now_art (high_cycles + low_cycles)
               (win_first_slot wdev flop_high now_art high_cycles low_cycles first_edge_art) of
          None \<Rightarrow> ret STATUS_INTEGER_OVERFLOW
        | Some first \<Rightarrow> do {
            initial_piv \<leftarrow> ret (if flop_high then low_cycles else high_cycles);
            ctrl \<leftarrow> ret (ctrl OR (TGPIOCTL_EP_TOGGLE OR TGPIOCTL_PM));
            win_write_ctl N b ctrl;
            win_write_piv N b initial_piv;
            win_write_compv N b first;
            win_upd_blk b (\<lambda>m. m\<lparr>wb_high_cycles := high_cycles, wb_low_cycles := low_cycles,
              wb_hw_piv := initial_piv, wb_ckpt_compv := first\<rparr>);
            win_write_ctl N b (ctrl OR TGPIOCTL_EN);
            ret STATUS_SUCCESS
          })
     })"

definition tgpio_hw_stop_output :: "'k nt_kernel \<Rightarrow> nat \<Rightarrow> ('k nt, unit) state" where
  "tgpio_hw_stop_output N b = do {
     ctrl \<leftarrow> tgpio_hw_read_ctl N b;
     win_write_ctl N b (ctrl AND NOT TGPIOCTL_EN);
     win_hw_flop_fold N b;
     win_write_compv N b 0;
     win_write_piv N b 0;
     win_write_ctl N b (ctrl AND NOT (TGPIOCTL_EN OR TGPIOCTL_PM));
     win_upd_blk b (wb_hw_piv_update (\<lambda>_. 0));
     win_upd_blk b (wb_ckpt_compv_update (\<lambda>_. 0))
   }"

definition tgpio_hw_invert_output :: "'k nt_kernel \<Rightarrow> nat \<Rightarrow> ('k nt, unit) state" where
  "tgpio_hw_invert_output N b = do {
     win_upd_blk b (wb_flop_high_update Not);
     hw_piv \<leftarrow> win_get_blk b wb_hw_piv;
     if hw_piv = 0 then ret ()
     else do {
       win_hw_flop_fold N b;
       compv \<leftarrow> tgpio_hw_read_compv N b;
       if U64_MAX - hw_piv < compv then ret ()
       else tgpio_hw_write_compv_paused N b (compv + hw_piv)
     }
   }"

end
