(* ===== verification/Win_Ioctl.thy ===== *)
theory Win_Ioctl
  imports Win_Hw
begin

text \<open>
  The Windows driver's request dispatch (\<open>driver/ioctl.c\<close>) and its setup and cleanup
  (\<open>driver/driver.c\<close>). A handler returns its status and, where it wrote its output buffer, the
  reply and the number of bytes written.
\<close>

section \<open>Handlers\<close>

type_synonym win_result = "ntstatus \<times> nat \<times> win_reply option"

abbreviation win_fail :: "ntstatus \<Rightarrow> ('k nt, win_result) state" where
  "win_fail st \<equiv> ret (st, 0, None)"

abbreviation win_done :: "('k nt, win_result) state" where
  "win_done \<equiv> ret (STATUS_SUCCESS, 0, None)"

definition tgpio_block_from_index :: "tgpio_win_device \<Rightarrow> u32 \<Rightarrow> nat option" where
  "tgpio_block_from_index wdev index =
    (if wd_block_count wdev \<le> index \<or> \<not> wb_regs (wd_block wdev (unat index)) then None
     else Some (unat index))"

text \<open>The input bytes, or the status of the failed retrieval; likewise for the output buffer.\<close>

definition retrieve_input :: "'k nt_kernel \<Rightarrow> win_request \<Rightarrow> nat \<Rightarrow> ntstatus + bytes" where
  "retrieve_input N rq size' =
    (let status = n_input N size' (length (rq_input rq)) in
     if nt_success status then Inr (rq_input rq) else Inl status)"

definition retrieve_output :: "'k nt_kernel \<Rightarrow> win_request \<Rightarrow> nat \<Rightarrow> ntstatus + unit" where
  "retrieve_output N rq size' =
    (let status = n_output N size' (rq_output_len rq) in
     if nt_success status then Inr () else Inl status)"

definition tgpio_ioctl_get_info :: "'k nt_kernel \<Rightarrow> win_request \<Rightarrow> ('k nt, win_result) state" where
  "tgpio_ioctl_get_info N rq = (case retrieve_output N rq sizeof_win_info of
     Inl status \<Rightarrow> win_fail status
   | Inr _ \<Rightarrow> do {
       wdev \<leftarrow> win_get (\<lambda>d. d);
       ret (STATUS_SUCCESS, sizeof_win_info, Some (Reply_Info
         \<lparr>wi_art_frequency_hz = wd_art_frequency_hz wdev,
          wi_tsc_art_numerator = wd_tsc_art_numerator wdev,
          wi_tsc_art_denominator = wd_tsc_art_denominator wdev,
          wi_tsc_adjust = wd_tsc_adjust wdev, wi_block_count = wd_block_count wdev,
          wi_mmio_base = map (\<lambda>i. if i < unat (wd_block_count wdev) then wb_phys (wd_block wdev i) else 0)
            [0..<TGPIO_WIN_MAX_BLOCKS]\<rparr>))
     })"

definition tgpio_ioctl_crosststamp :: "'k nt_kernel \<Rightarrow> win_request \<Rightarrow> ('k nt, win_result) state" where
  "tgpio_ioctl_crosststamp N rq = (case retrieve_output N rq sizeof_win_crosststamp of
     Inl status \<Rightarrow> win_fail status
   | Inr _ \<Rightarrow> do {
       xt \<leftarrow> tgpio_art_crosststamp N;
       ret (STATUS_SUCCESS, sizeof_win_crosststamp, Some (Reply_Crosststamp xt))
     })"

primrec win_edge_bits :: "tgpio_win_edge \<Rightarrow> u32" where
  "win_edge_bits TGPIO_WIN_EDGE_RISING = TGPIOCTL_EP_RISING"
| "win_edge_bits TGPIO_WIN_EDGE_FALLING = TGPIOCTL_EP_FALLING"
| "win_edge_bits TGPIO_WIN_EDGE_BOTH = TGPIOCTL_EP_TOGGLE"

definition tgpio_ioctl_set_input :: "'k nt_kernel \<Rightarrow> win_request \<Rightarrow> ('k nt, win_result) state" where
  "tgpio_ioctl_set_input N rq = (case retrieve_input N rq sizeof_win_set_input of
     Inl status \<Rightarrow> win_fail status
   | Inr bytes \<Rightarrow> do {
       input \<leftarrow> ret (get_set_input bytes);
       wdev \<leftarrow> win_get (\<lambda>d. d);
       (case tgpio_block_from_index wdev (si_block input) of
          None \<Rightarrow> win_fail STATUS_INVALID_PARAMETER
        | Some b \<Rightarrow> (case win_edge_of (si_edge input) of
            None \<Rightarrow> win_fail STATUS_INVALID_PARAMETER
          | Some edge \<Rightarrow> do {
              mode \<leftarrow> win_get_blk b wb_mode;
              when_m (mode = TGPIO_WIN_BLOCK_OUTPUT) (tgpio_hw_stop_output N b);
              tgpio_hw_set_input N b (si_enable input \<noteq> 0) (win_edge_bits edge);
              win_upd_blk b (wb_mode_update (\<lambda>_. if si_enable input \<noteq> 0
                then TGPIO_WIN_BLOCK_INPUT else TGPIO_WIN_BLOCK_OFF));
              win_done
            }))
     })"

definition tgpio_read_block_index :: "'k nt_kernel \<Rightarrow> win_request \<Rightarrow> ntstatus + u32" where
  "tgpio_read_block_index N rq = (case retrieve_input N rq sizeof_ULONG of
     Inl status \<Rightarrow> Inl status
   | Inr bytes \<Rightarrow> Inr (get_u32 bytes 0))"

definition tgpio_ioctl_read_capture :: "'k nt_kernel \<Rightarrow> win_request \<Rightarrow> ('k nt, win_result) state" where
  "tgpio_ioctl_read_capture N rq = (case tgpio_read_block_index N rq of
     Inl status \<Rightarrow> win_fail status
   | Inr index \<Rightarrow> (case retrieve_output N rq sizeof_win_capture of
       Inl status \<Rightarrow> win_fail status
     | Inr _ \<Rightarrow> do {
         wdev \<leftarrow> win_get (\<lambda>d. d);
         (case tgpio_block_from_index wdev index of
            None \<Rightarrow> win_fail STATUS_INVALID_PARAMETER
          | Some b \<Rightarrow> do {
              cap \<leftarrow> tgpio_hw_read_capture N b;
              tsc \<leftarrow> liftk (n_rdtsc N);
              systime \<leftarrow> liftk (n_systime N);
              ret (STATUS_SUCCESS, sizeof_win_capture, Some (Reply_Capture
                \<lparr>wc_event_count = fst cap, wc_art_cycles = snd cap, wc_tsc_now = tsc,
                 wc_systime_100ns = systime\<rparr>))
            })
       }))"

definition tgpio_ioctl_start_output :: "'k nt_kernel \<Rightarrow> win_request \<Rightarrow> ('k nt, win_result) state" where
  "tgpio_ioctl_start_output N rq = (case retrieve_input N rq sizeof_win_start_output of
     Inl status \<Rightarrow> win_fail status
   | Inr bytes \<Rightarrow> do {
       input \<leftarrow> ret (get_start_output bytes);
       wdev \<leftarrow> win_get (\<lambda>d. d);
       (case tgpio_block_from_index wdev (so_block input) of
          None \<Rightarrow> win_fail STATUS_INVALID_PARAMETER
        | Some b \<Rightarrow>
            if so_high_cycles input = 0 then win_fail STATUS_INVALID_PARAMETER
            else do {
              low_cycles \<leftarrow> ret (if so_low_cycles input \<noteq> 0 then so_low_cycles input
                else so_high_cycles input);
              if low_cycles \<noteq> so_high_cycles input then win_fail STATUS_NOT_SUPPORTED
              else do {
                status \<leftarrow> tgpio_hw_start_output N b (so_high_cycles input) low_cycles
                  (so_first_edge_art input);
                win_upd_blk b (wb_mode_update (\<lambda>_. if nt_success status
                  then TGPIO_WIN_BLOCK_OUTPUT else TGPIO_WIN_BLOCK_OFF));
                ret (status, 0, None)
              }
            })
     })"

definition tgpio_ioctl_stop_output :: "'k nt_kernel \<Rightarrow> win_request \<Rightarrow> ('k nt, win_result) state" where
  "tgpio_ioctl_stop_output N rq = (case tgpio_read_block_index N rq of
     Inl status \<Rightarrow> win_fail status
   | Inr index \<Rightarrow> do {
       wdev \<leftarrow> win_get (\<lambda>d. d);
       (case tgpio_block_from_index wdev index of
          None \<Rightarrow> win_fail STATUS_INVALID_PARAMETER
        | Some b \<Rightarrow> do {
            tgpio_hw_stop_output N b;
            win_upd_blk b (wb_mode_update (\<lambda>_. TGPIO_WIN_BLOCK_OFF));
            win_done
          })
     })"

definition tgpio_ioctl_invert_output :: "'k nt_kernel \<Rightarrow> win_request \<Rightarrow> ('k nt, win_result) state" where
  "tgpio_ioctl_invert_output N rq = (case tgpio_read_block_index N rq of
     Inl status \<Rightarrow> win_fail status
   | Inr index \<Rightarrow> do {
       wdev \<leftarrow> win_get (\<lambda>d. d);
       (case tgpio_block_from_index wdev index of
          None \<Rightarrow> win_fail STATUS_INVALID_PARAMETER
        | Some b \<Rightarrow> do { tgpio_hw_invert_output N b; win_done })
     })"

definition tgpio_ioctl_get_block :: "'k nt_kernel \<Rightarrow> win_request \<Rightarrow> ('k nt, win_result) state" where
  "tgpio_ioctl_get_block N rq = (case tgpio_read_block_index N rq of
     Inl status \<Rightarrow> win_fail status
   | Inr index \<Rightarrow> (case retrieve_output N rq sizeof_win_block_status of
       Inl status \<Rightarrow> win_fail status
     | Inr _ \<Rightarrow> do {
         wdev \<leftarrow> win_get (\<lambda>d. d);
         (case tgpio_block_from_index wdev index of
            None \<Rightarrow> win_fail STATUS_INVALID_PARAMETER
          | Some b \<Rightarrow> do {
              win_hw_flop_fold N b;
              mode \<leftarrow> win_get_blk b wb_mode;
              ctl \<leftarrow> tgpio_hw_read_ctl N b;
              compv \<leftarrow> tgpio_hw_read_compv N b;
              piv \<leftarrow> tgpio_hw_read_piv N b;
              cap \<leftarrow> tgpio_hw_read_capture N b;
              flop_high \<leftarrow> win_get_blk b wb_flop_high;
              ret (STATUS_SUCCESS, sizeof_win_block_status, Some (Reply_Block
                \<lparr>bs_mode = win_mode_code mode, bs_ctl = ctl, bs_compv = compv, bs_piv = piv,
                 bs_event_count = fst cap, bs_flop_high = (if flop_high then 1 else 0)\<rparr>))
            })
       }))"

text \<open>The dispatch; the result is what the request is completed with.\<close>

definition tgpio_evt_ioctl :: "'k nt_kernel \<Rightarrow> win_request \<Rightarrow> u32 \<Rightarrow> ('k nt, win_result) state" where
  "tgpio_evt_ioctl N rq code =
    (if code = TGPIO_IOCTL_GET_INFO then tgpio_ioctl_get_info N rq
     else if code = TGPIO_IOCTL_CROSSTSTAMP then tgpio_ioctl_crosststamp N rq
     else if code = TGPIO_IOCTL_SET_INPUT then tgpio_ioctl_set_input N rq
     else if code = TGPIO_IOCTL_READ_CAPTURE then tgpio_ioctl_read_capture N rq
     else if code = TGPIO_IOCTL_START_OUTPUT then tgpio_ioctl_start_output N rq
     else if code = TGPIO_IOCTL_STOP_OUTPUT then tgpio_ioctl_stop_output N rq
     else if code = TGPIO_IOCTL_INVERT_OUTPUT then tgpio_ioctl_invert_output N rq
     else if code = TGPIO_IOCTL_GET_BLOCK then tgpio_ioctl_get_block N rq
     else win_fail STATUS_INVALID_DEVICE_REQUEST)"

section \<open>Setup and cleanup\<close>

definition tgpio_reg_read_ulong :: "'k nt_kernel \<Rightarrow> string \<Rightarrow> u32 \<Rightarrow> ('k nt, u32) state" where
  "tgpio_reg_read_ulong N name fallback = do {
     value \<leftarrow> liftk (n_reg_query N name);
     ret (case value of Some v \<Rightarrow> v | None \<Rightarrow> fallback)
   }"

definition tgpio_reg_read_addr :: "'k nt_kernel \<Rightarrow> string \<Rightarrow> string \<Rightarrow> u64 \<Rightarrow> ('k nt, u64) state" where
  "tgpio_reg_read_addr N low_name high_name fallback = do {
     low \<leftarrow> tgpio_reg_read_ulong N low_name (ucast fallback);
     high \<leftarrow> tgpio_reg_read_ulong N high_name (ucast (drop_bit 32 fallback));
     ret (win_join high low)
   }"

definition win_map_block :: "'k nt_kernel \<Rightarrow> nat \<Rightarrow> u64 \<Rightarrow> u32 \<Rightarrow> ('k nt, ntstatus) state" where
  "win_map_block N b phys_addr size' = do {
     win_upd_blk b (\<lambda>m. m\<lparr>wb_phys := phys_addr, wb_mmio_size := size'\<rparr>);
     mapped \<leftarrow> liftk (n_map_io N b phys_addr size');
     win_upd_blk b (wb_regs_update (\<lambda>_. mapped));
     if \<not> mapped then ret STATUS_INSUFFICIENT_RESOURCES
     else do {
       win_upd_blk b (wb_mode_update (\<lambda>_. TGPIO_WIN_BLOCK_OFF));
       ret STATUS_SUCCESS
     }
   }"

definition zero_win_block :: tgpio_win_block where
  "zero_win_block = \<lparr>wb_regs = False, wb_phys = 0, wb_mmio_size = 0, wb_mode = TGPIO_WIN_BLOCK_OFF,
     wb_flop_high = False, wb_hw_piv = 0, wb_ckpt_compv = 0, wb_high_cycles = 0, wb_low_cycles = 0\<rparr>"

definition zero_win_device :: tgpio_win_device where
  "zero_win_device = \<lparr>wd_block = (\<lambda>_. zero_win_block), wd_block_count = 0, wd_art_frequency_hz = 0,
     wd_tsc_art_numerator = 0, wd_tsc_art_denominator = 0, wd_tsc_adjust = 0\<rparr>"

text \<open>The registry parameters: the two bases, the mapping size and whether there is a second block.\<close>

definition win_read_params :: "'k nt_kernel \<Rightarrow> ('k nt, u64 \<times> u64 \<times> u32 \<times> u32) state" where
  "win_read_params N = do {
     opened \<leftarrow> liftk (n_reg_open N);
     if \<not> opened then ret (TGPIO_DEFAULT_ADDR0, TGPIO_DEFAULT_ADDR1, TGPIO_DEFAULT_MMIO_SIZE, 1)
     else do {
       addr0 \<leftarrow> tgpio_reg_read_addr N ''Addr0Low'' ''Addr0High'' TGPIO_DEFAULT_ADDR0;
       addr1 \<leftarrow> tgpio_reg_read_addr N ''Addr1Low'' ''Addr1High'' TGPIO_DEFAULT_ADDR1;
       size' \<leftarrow> tgpio_reg_read_ulong N ''MmioSize'' TGPIO_DEFAULT_MMIO_SIZE;
       second \<leftarrow> tgpio_reg_read_ulong N ''UseSecond'' 1;
       freq \<leftarrow> tgpio_reg_read_ulong N ''ArtFrequencyHz'' 0;
       when_m (freq \<noteq> 0) (upd_drv (wd_art_frequency_hz_update (\<lambda>_. ucast freq)));
       ret (addr0, addr1, size', second)
     }
   }"

text \<open>Mapping the blocks; the block count follows the mappings that succeeded.\<close>

definition win_map_blocks :: "'k nt_kernel \<Rightarrow> u64 \<Rightarrow> u64 \<Rightarrow> u32 \<Rightarrow> bool \<Rightarrow> ('k nt, ntstatus) state" where
  "win_map_blocks N addr0 addr1 size' second = do {
     status \<leftarrow> win_map_block N 0 addr0 size';
     if \<not> nt_success status then ret status
     else do {
       upd_drv (wd_block_count_update (\<lambda>_. 1));
       if \<not> second then ret STATUS_SUCCESS
       else do {
         status \<leftarrow> win_map_block N 1 addr1 size';
         if \<not> nt_success status then ret status
         else do {
           upd_drv (wd_block_count_update (\<lambda>_. 2));
           ret STATUS_SUCCESS
         }
       }
     }
   }"

definition tgpio_evt_device_add :: "'k nt_kernel \<Rightarrow> ('k nt, ntstatus) state" where
  "tgpio_evt_device_add N = do {
     status \<leftarrow> liftk (n_device_create N);
     if \<not> nt_success status then ret status
     else do {
       upd_drv (\<lambda>_. zero_win_device);
       status \<leftarrow> tgpio_art_detect N;
       if \<not> nt_success status then ret status
       else do {
         p \<leftarrow> win_read_params N;
         freq \<leftarrow> win_get wd_art_frequency_hz;
         (case p of (addr0, addr1, size', second) \<Rightarrow>
           if freq = 0 then ret STATUS_NOT_SUPPORTED
           else do {
             status \<leftarrow> liftk (n_lock_create N);
             if \<not> nt_success status then ret status
             else do {
               status \<leftarrow> win_map_blocks N addr0 addr1
                 (if size' < TGPIO_DEFAULT_MMIO_SIZE then TGPIO_DEFAULT_MMIO_SIZE else size')
                 (second \<noteq> 0);
               if \<not> nt_success status then ret status
               else do {
                 status \<leftarrow> liftk (n_queue_create N);
                 if \<not> nt_success status then ret status
                 else liftk (n_symlink_create N)
               }
             }
           })
       }
     }
   }"

definition win_cleanup_block :: "'k nt_kernel \<Rightarrow> nat \<Rightarrow> ('k nt, unit) state" where
  "win_cleanup_block N b = do {
     regs \<leftarrow> win_get_blk b wb_regs;
     if \<not> regs then ret ()
     else do {
       mode \<leftarrow> win_get_blk b wb_mode;
       (if mode = TGPIO_WIN_BLOCK_OUTPUT then tgpio_hw_stop_output N b
        else when_m (mode = TGPIO_WIN_BLOCK_INPUT) (tgpio_hw_set_input N b False 0));
       liftk (n_unmap_io N b);
       win_upd_blk b (wb_regs_update (\<lambda>_. False))
     }
   }"

definition tgpio_evt_device_cleanup :: "'k nt_kernel \<Rightarrow> ('k nt, unit) state" where
  "tgpio_evt_device_cleanup N = for_each [0..<TGPIO_WIN_MAX_BLOCKS] (win_cleanup_block N)"

end
