(* ===== verification/Win_Tool.thy ===== *)
theory Win_Tool
  imports Win_Ioctl Decimal
begin

text \<open>
  The command-line tool \<open>tools/tgpioctl/tgpioctl.c\<close> on top of the driver: its parsers, its
  conversions and its commands, each running the driver's dispatch on the bytes it sends.
  What a command prints is its result where it carries data; the formatting is left out.
\<close>

section \<open>Numbers from the command line\<close>

definition is_space :: "char \<Rightarrow> bool" where
  "is_space c \<longleftrightarrow> c \<in> {CHR '' '', CHR 0x09, CHR 0x0A, CHR 0x0B, CHR 0x0C, CHR 0x0D}"

text \<open>
  The library's \<open>strtoul\<close> family in base 10 for a type with the given maximum: white space, a
  sign, digits; no digits is no conversion, too large a value is the maximum.
\<close>

definition strtou :: "nat \<Rightarrow> string \<Rightarrow> (nat \<times> string) option" where
  "strtou limit str = (let s = dropWhile is_space str;
     negative = (s \<noteq> [] \<and> hd s = CHR ''-'');
     s = (if s \<noteq> [] \<and> hd s \<in> {CHR ''-'', CHR ''+''} then tl s else s) in
     if s = [] \<or> digit_of (hd s) = None then None
     else case read_digits 0 s of (n, rest) \<Rightarrow>
       Some (if limit < n then limit else if negative then (limit + 1 - n) mod (limit + 1) else n, rest))"

definition parse_period_ns :: "string \<Rightarrow> u64" where
  "parse_period_ns arg = (case strtou (2 ^ 64 - 1) arg of
     None \<Rightarrow> 0
   | Some (n, rest) \<Rightarrow> let value = of_nat n in
       if rest = ''s'' then value * 1000000000
       else if rest = ''ms'' then value * 1000000
       else if rest = ''us'' then value * 1000
       else if rest = ''ns'' \<or> rest = [] then value
       else 0)"

section \<open>Conversions\<close>

abbreviation HNS_PER_SEC :: u64 where "HNS_PER_SEC \<equiv> 10000000"

definition muldiv_u64 :: "u64 \<Rightarrow> u64 \<Rightarrow> u64 \<Rightarrow> u64" where
  "muldiv_u64 value mul div' = (case umul128 value mul of (hi, lo) \<Rightarrow>
     if div' \<le> hi then U64_MAX else udiv128 hi lo div')"

definition art_to_hns :: "tgpio_win_info \<Rightarrow> tgpio_win_crosststamp \<Rightarrow> u64 \<Rightarrow> u64" where
  "art_to_hns info xt art =
    (if xt_art_cycles xt \<le> art
     then xt_systime_100ns xt + muldiv_u64 (art - xt_art_cycles xt) HNS_PER_SEC (wi_art_frequency_hz info)
     else xt_systime_100ns xt - muldiv_u64 (xt_art_cycles xt - art) HNS_PER_SEC (wi_art_frequency_hz info))"

section \<open>Commands\<close>

text \<open>\<open>DeviceIoControl\<close> on the driver: \<open>None\<close> when it fails, else the reply.\<close>

definition tgpio_ioctl :: "'k nt_kernel \<Rightarrow> u32 \<Rightarrow> bytes \<Rightarrow> nat \<Rightarrow> ('k nt, win_reply option option) state" where
  "tgpio_ioctl N code input out_len = do {
     r \<leftarrow> tgpio_evt_ioctl N \<lparr>rq_input = input, rq_output_len = out_len\<rparr> code;
     ret (if nt_success (fst r) then Some (snd (snd r)) else None)
   }"

definition get_info :: "'k nt_kernel \<Rightarrow> ('k nt, tgpio_win_info option) state" where
  "get_info N = do {
     r \<leftarrow> tgpio_ioctl N TGPIO_IOCTL_GET_INFO [] sizeof_win_info;
     ret (case r of Some (Some (Reply_Info info)) \<Rightarrow> Some info | _ \<Rightarrow> None)
   }"

definition get_crosststamp :: "'k nt_kernel \<Rightarrow> ('k nt, tgpio_win_crosststamp option) state" where
  "get_crosststamp N = do {
     r \<leftarrow> tgpio_ioctl N TGPIO_IOCTL_CROSSTSTAMP [] sizeof_win_crosststamp;
     ret (case r of Some (Some (Reply_Crosststamp xt)) \<Rightarrow> Some xt | _ \<Rightarrow> None)
   }"

text \<open>\<open>get_info(h, &info) || get_crosststamp(h, &xt)\<close>\<close>

definition get_clock :: "'k nt_kernel \<Rightarrow> ('k nt, (tgpio_win_info \<times> tgpio_win_crosststamp) option) state" where
  "get_clock N = do {
     i \<leftarrow> get_info N;
     (case i of
        None \<Rightarrow> ret None
      | Some info \<Rightarrow> do {
          x \<leftarrow> get_crosststamp N;
          ret (map_option (\<lambda>xt. (info, xt)) x)
        })
   }"

definition cmd_info :: "'k nt_kernel \<Rightarrow> ('k nt, (tgpio_win_info \<times> tgpio_win_crosststamp) option \<times> int) state" where
  "cmd_info N = do {
     c \<leftarrow> get_clock N;
     ret (c, if c = None then 1 else 0)
   }"

definition cmd_status :: "'k nt_kernel \<Rightarrow> u32 \<Rightarrow> ('k nt, tgpio_win_block_status option \<times> int) state" where
  "cmd_status N block = do {
     r \<leftarrow> tgpio_ioctl N TGPIO_IOCTL_GET_BLOCK (put_u32 block) sizeof_win_block_status;
     ret (case r of
        None \<Rightarrow> (None, 1)
      | Some reply \<Rightarrow> (case reply of Some (Reply_Block st) \<Rightarrow> Some st | _ \<Rightarrow> None, 0))
   }"

definition input_edge :: "string option \<Rightarrow> tgpio_win_edge option" where
  "input_edge edge_arg = (case edge_arg of
     None \<Rightarrow> Some TGPIO_WIN_EDGE_RISING
   | Some arg \<Rightarrow>
       if arg = ''falling'' then Some TGPIO_WIN_EDGE_FALLING
       else if arg = ''both'' then Some TGPIO_WIN_EDGE_BOTH
       else if arg = ''rising'' then Some TGPIO_WIN_EDGE_RISING
       else None)"

definition cmd_input :: "'k nt_kernel \<Rightarrow> u32 \<Rightarrow> string option \<Rightarrow> ('k nt, int) state" where
  "cmd_input N block edge_arg = (case input_edge edge_arg of
     None \<Rightarrow> ret 1
   | Some edge \<Rightarrow> do {
       r \<leftarrow> tgpio_ioctl N TGPIO_IOCTL_SET_INPUT
         (put_set_input \<lparr>si_block = block, si_enable = 1, si_edge = win_edge_code edge\<rparr>) 0;
       ret (if r = None then 1 else 0)
     })"

text \<open>One round of the watch loop: the last count and whether this is the first round.\<close>

record watch_event =
  ev_count :: u64
  ev_delta :: u64
  ev_art :: u64
  ev_hns :: u64

definition cmd_watch_round :: "'k nt_kernel \<Rightarrow> u32 \<Rightarrow> tgpio_win_info \<Rightarrow> tgpio_win_crosststamp \<Rightarrow>
    u64 option \<Rightarrow> ('k nt, (u64 option \<times> watch_event option) option) state" where
  "cmd_watch_round N block info xt last_count = do {
     r \<leftarrow> tgpio_ioctl N TGPIO_IOCTL_READ_CAPTURE (put_u32 block) sizeof_win_capture;
     ret (case r of
        Some (Some (Reply_Capture cap)) \<Rightarrow> (case last_count of
           None \<Rightarrow> Some (Some (wc_event_count cap), None)
         | Some count \<Rightarrow>
             if wc_event_count cap \<noteq> count
             then Some (Some (wc_event_count cap), Some \<lparr>ev_count = wc_event_count cap,
               ev_delta = wc_event_count cap - count, ev_art = wc_art_cycles cap,
               ev_hns = art_to_hns info xt (wc_art_cycles cap)\<rparr>)
             else Some (last_count, None))
      | _ \<Rightarrow> None)
   }"

text \<open>
  The watch command for at most the given number of rounds: its events, and the exit code once
  a request has failed (the C loop has no other end).
\<close>

primrec watch_rounds :: "nat \<Rightarrow> 'k nt_kernel \<Rightarrow> u32 \<Rightarrow> tgpio_win_info \<Rightarrow> tgpio_win_crosststamp \<Rightarrow>
    u64 option \<Rightarrow> ('k nt, watch_event list \<times> int option) state" where
  "watch_rounds 0 N block info xt last_count = ret ([], None)"
| "watch_rounds (Suc n) N block info xt last_count = do {
     r \<leftarrow> cmd_watch_round N block info xt last_count;
     (case r of
        None \<Rightarrow> ret ([], Some 1)
      | Some (count, event) \<Rightarrow> do {
          rest \<leftarrow> watch_rounds n N block info xt count;
          ret ((case event of Some e \<Rightarrow> [e] | None \<Rightarrow> []) @ fst rest, snd rest)
        })
   }"

definition cmd_watch :: "nat \<Rightarrow> 'k nt_kernel \<Rightarrow> u32 \<Rightarrow> ('k nt, watch_event list \<times> int option) state" where
  "cmd_watch rounds N block = do {
     c \<leftarrow> get_clock N;
     (case c of
        None \<Rightarrow> ret ([], Some 1)
      | Some (info, xt) \<Rightarrow> watch_rounds rounds N block info xt None)
   }"

text \<open>The second boundary an aligned output starts at: the next one at least 100 ms away.\<close>

definition align_target :: "u64 \<Rightarrow> u64" where
  "align_target systime =
    (let target = (systime div HNS_PER_SEC + 1) * HNS_PER_SEC in
     if target - systime < HNS_PER_SEC div 10 then target + HNS_PER_SEC else target)"

definition output_request ::
    "tgpio_win_info \<Rightarrow> tgpio_win_crosststamp \<Rightarrow> u32 \<Rightarrow> u64 \<Rightarrow> bool \<Rightarrow> tgpio_win_start_output" where
  "output_request info xt block period_cycles align_second =
    \<lparr>so_block = block, so_high_cycles = period_cycles div 2, so_low_cycles = period_cycles div 2,
     so_first_edge_art = (if align_second
       then xt_art_cycles xt + muldiv_u64 (align_target (xt_systime_100ns xt) - xt_systime_100ns xt)
              (wi_art_frequency_hz info) HNS_PER_SEC
       else 0)\<rparr>"

definition cmd_output :: "'k nt_kernel \<Rightarrow> u32 \<Rightarrow> string \<Rightarrow> bool \<Rightarrow> ('k nt, int) state" where
  "cmd_output N block period_arg align_second = (
     let period_ns = parse_period_ns period_arg in
     if period_ns = 0 then ret 1
     else do {
       c \<leftarrow> get_clock N;
       (case c of
          None \<Rightarrow> ret 1
        | Some (info, xt) \<Rightarrow>
            let period_cycles = muldiv_u64 period_ns (wi_art_frequency_hz info) 1000000000 in
            if period_cycles < 2 then ret 1
            else do {
              r \<leftarrow> tgpio_ioctl N TGPIO_IOCTL_START_OUTPUT
                (put_start_output (output_request info xt block period_cycles align_second)) 0;
              ret (if r = None then 1 else 0)
            })
     })"

definition cmd_simple :: "'k nt_kernel \<Rightarrow> u32 \<Rightarrow> u32 \<Rightarrow> ('k nt, int) state" where
  "cmd_simple N code block = do {
     r \<leftarrow> tgpio_ioctl N code (put_u32 block) 0;
     ret (if r = None then 1 else 0)
   }"

text \<open>
  \<open>main\<close> once the device is open: \<open>argv\<close> holds the arguments after the program's name,
  \<open>usage\<close> exits with 2, and the result is \<open>None\<close> while the watch command still runs.
\<close>

definition win_main :: "nat \<Rightarrow> 'k nt_kernel \<Rightarrow> string list \<Rightarrow> ('k nt, int option) state" where
  "win_main rounds N argv = (case argv of
     [] \<Rightarrow> ret (Some 2)
   | cmd # args \<Rightarrow>
       if cmd = ''info'' then do { r \<leftarrow> cmd_info N; ret (Some (snd r)) }
       else (case args of
          [] \<Rightarrow> ret (Some 2)
        | arg # opts \<Rightarrow>
            let block = of_nat (case strtou (2 ^ 32 - 1) arg of Some (n, _) \<Rightarrow> n | None \<Rightarrow> 0) in
            if cmd = ''status'' then do { r \<leftarrow> cmd_status N block; ret (Some (snd r)) }
            else if cmd = ''input'' then do {
              r \<leftarrow> cmd_input N block (case opts of [] \<Rightarrow> None | edge # _ \<Rightarrow> Some edge);
              ret (Some r) }
            else if cmd = ''watch'' then do { r \<leftarrow> cmd_watch rounds N block; ret (snd r) }
            else if cmd = ''output'' \<and> opts \<noteq> [] then do {
              r \<leftarrow> cmd_output N block (hd opts) (tl opts \<noteq> [] \<and> hd (tl opts) = ''align'');
              ret (Some r) }
            else if cmd = ''stop'' then do { r \<leftarrow> cmd_simple N TGPIO_IOCTL_STOP_OUTPUT block; ret (Some r) }
            else if cmd = ''invert'' then do { r \<leftarrow> cmd_simple N TGPIO_IOCTL_INVERT_OUTPUT block; ret (Some r) }
            else ret (Some 2)))"

end
