(* ===== verification/Win_Engine.thy ===== *)
theory Win_Engine
  imports Win_Ioctl
begin

text \<open>
  The hardware as the Windows driver relies on it: the register interface of \<open>Engine_Bus\<close> on
  one block's accesses, with clock reads and accesses to other blocks letting time pass. Inside
  it every hardware sequence is shown to keep the level mirror of the block.
\<close>

section \<open>The interface\<close>

locale win_engine = mmio_engine "n_readl N b" "n_writel N b" ctl compv piv level later
  for N :: "'k nt_kernel" and b :: nat
    and ctl :: "'k \<Rightarrow> u32" and compv :: "'k \<Rightarrow> u64" and piv :: "'k \<Rightarrow> u64"
    and level :: "'k \<Rightarrow> bool" and later :: "'k \<Rightarrow> 'k \<Rightarrow> bool" +
  assumes any_read_later: "later k (snd (run_state (n_readl N c off) k))"
    and other_write_later: "c \<noteq> b \<Longrightarrow> later k (snd (run_state (n_writel N c off v) k))"
    and tsc_later: "later k (snd (run_state (n_rdtsc N) k))"
    and systime_later: "later k (snd (run_state (n_systime N) k))"
    and win_retries: "2 ^ 32 \<le> n_retries N"

section \<open>Register access under the interface\<close>

lemma win_join_combine: "win_join hi lo = combine_32 hi lo"
  by (simp add: combine_32_def)

lemma win_loop_eq: "hw_read_compv_loop n N b hi = compv_loop n (n_readl N b) hi"
  by (induction n arbitrary: hi)
    (simp_all only: hw_read_compv_loop.simps compv_loop.simps win_readl_def win_join_combine)

lemma win_read_compv_eq: "tgpio_hw_read_compv N b =
    do { hi \<leftarrow> liftk (n_readl N b TGPIOCOMPV63_32); compv_loop (n_retries N) (n_readl N b) hi }"
  by (simp only: tgpio_hw_read_compv_def win_readl_def win_loop_eq)

lemmas win_access_defs = tgpio_hw_read_ctl_def win_write_ctl_def win_write_compv_def win_write_piv_def
  win_readl_def win_writel_def

context win_engine begin

lemma wp_win_read_ctl:
  "(\<And>k1 k'. later (kst s) k1 \<Longrightarrow> later k1 k' \<Longrightarrow> Q (ctl k1) (s\<lparr>kst := k'\<rparr>)) \<Longrightarrow>
    wp (tgpio_hw_read_ctl N b) Q s"
  unfolding win_access_defs by (rule wp_rd_ctl)

lemma wp_win_write_ctl:
  "(\<And>k1 k2 k'. later (kst s) k1 \<Longrightarrow> later k2 k' \<Longrightarrow> ctl k2 = v \<Longrightarrow> compv k2 = compv k1 \<Longrightarrow>
     piv k2 = piv k1 \<Longrightarrow> level k2 = level k1 \<Longrightarrow> Q () (s\<lparr>kst := k'\<rparr>)) \<Longrightarrow>
    wp (win_write_ctl N b v) Q s"
  unfolding win_access_defs by (rule wp_wr_ctl)

lemma wp_win_write_ctl_stop:
  "\<not> engine_on v \<Longrightarrow> (\<And>k1 k'. later (kst s) k1 \<Longrightarrow> ctl k' = v \<Longrightarrow> compv k' = compv k1 \<Longrightarrow>
     piv k' = piv k1 \<Longrightarrow> level k' = level k1 \<Longrightarrow> Q () (s\<lparr>kst := k'\<rparr>)) \<Longrightarrow>
    wp (win_write_ctl N b v) Q s"
  unfolding win_access_defs by (rule wp_wr_ctl_stop)

lemma wp_win_write_compv:
  "\<not> engine_on (ctl (kst s)) \<Longrightarrow> (\<And>k'. ctl k' = ctl (kst s) \<Longrightarrow> compv k' = v \<Longrightarrow>
     piv k' = piv (kst s) \<Longrightarrow> level k' = level (kst s) \<Longrightarrow> Q () (s\<lparr>kst := k'\<rparr>)) \<Longrightarrow>
    wp (win_write_compv N b v) Q s"
  unfolding win_access_defs unfolding upper_32_bits_def [symmetric] unfolding lower_32_bits_def [symmetric]
  by (rule wp_wr_compv_stopped)

lemma wp_win_write_piv:
  assumes "\<And>k'. ctl k' = ctl (kst s) \<Longrightarrow> piv k' = v \<Longrightarrow>
      (\<not> engine_on (ctl (kst s)) \<Longrightarrow> compv k' = compv (kst s) \<and> level k' = level (kst s)) \<Longrightarrow>
      Q () (s\<lparr>kst := k'\<rparr>)"
  shows "wp (win_write_piv N b v) Q s"
  unfolding win_access_defs unfolding upper_32_bits_def [symmetric] unfolding lower_32_bits_def [symmetric]
  by (rule wp_wr_piv, rule assms)

lemma wp_win_read_compv:
  assumes "\<And>k1 k'. later (kst s) k1 \<Longrightarrow> later k1 k' \<Longrightarrow> Q (compv k1) (s\<lparr>kst := k'\<rparr>)"
  shows "wp (tgpio_hw_read_compv N b) Q s"
  unfolding win_read_compv_eq by (rule wp_rd_compv [OF win_retries], rule assms)

end

section \<open>The level mirror\<close>

text \<open>
  A block whose tracked level is right: either its interval is live and the edges since the
  checkpoint are accounted for by COMPV, or the periodic engine is off and the level known
  (the interval may then be stale, with COMPV not past the checkpoint, so that a fold is idle).
\<close>

definition win_mirrored :: "tgpio_win_block \<Rightarrow> u32 \<Rightarrow> u64 \<Rightarrow> u64 \<Rightarrow> bool \<Rightarrow> bool" where
  "win_mirrored m c cv p lv \<longleftrightarrow>
    wb_hw_piv m \<noteq> 0 \<and> wb_hw_piv m = p \<and> tracked (wb_ckpt_compv m) p (wb_flop_high m) cv lv \<or>
    \<not> bit c 4 \<and> lv = wb_flop_high m \<and> (wb_hw_piv m = 0 \<or> cv \<le> wb_ckpt_compv m)"

abbreviation win_set_mirror :: "nat \<Rightarrow> bool \<Rightarrow> u64 \<Rightarrow> tgpio_win_device \<Rightarrow> tgpio_win_device" where
  "win_set_mirror b flop ckpt d \<equiv> d\<lparr>wd_block := (wd_block d)(b := (wd_block d b)
     \<lparr>wb_flop_high := flop, wb_ckpt_compv := ckpt\<rparr>)\<rparr>"

lemma win_set_mirror_same:
  "wb_flop_high (wd_block d b) = f \<Longrightarrow> wb_ckpt_compv (wd_block d b) = c \<Longrightarrow> win_set_mirror b f c d = d"
  by (cases d; cases "wd_block d b") (auto simp: fun_upd_idem)

lemma win_flop_Not_eq: "wb_flop_high_update Not m = m\<lparr>wb_flop_high := \<not> wb_flop_high m\<rparr>"
  by (cases m) simp

lemma win_flop_same: "wb_flop_high m = v \<Longrightarrow> m\<lparr>wb_flop_high := v\<rparr> = m"
  by (cases m) simp

lemma engine_off_PM: "\<not> bit c 4 \<Longrightarrow> \<not> engine_on c"
  using engine_on_bits by blast

text \<open>The level the fold computes from a COMPV value, by either case of the mirror.\<close>

lemma win_mirrored_fold:
  assumes "win_mirrored m c cv p lv" "wb_hw_piv m \<noteq> 0"
  shows "(if cv < wb_ckpt_compv m then wb_flop_high m
     else if ((cv - wb_ckpt_compv m) div wb_hw_piv m) AND 1 \<noteq> 0 then \<not> wb_flop_high m
     else wb_flop_high m) = lv"
  using assms(1) unfolding win_mirrored_def
proof
  assume live: "wb_hw_piv m \<noteq> 0 \<and> wb_hw_piv m = p \<and> tracked (wb_ckpt_compv m) p (wb_flop_high m) cv lv"
  then have t: "tracked (wb_ckpt_compv m) (wb_hw_piv m) (wb_flop_high m) cv lv" by auto
  from tracked_fold [OF t assms(2)] show ?thesis by simp
next
  assume "\<not> bit c 4 \<and> lv = wb_flop_high m \<and> (wb_hw_piv m = 0 \<or> cv \<le> wb_ckpt_compv m)"
  then have c: "lv = wb_flop_high m" "cv \<le> wb_ckpt_compv m" using assms(2) by auto
  show ?thesis
  proof (cases "cv = wb_ckpt_compv m")
    case True
    then show ?thesis using c by simp
  next
    case False
    then show ?thesis using c by simp
  qed
qed

context win_engine begin

lemma later_win_mirrored:
  assumes "later k k'" "win_mirrored m (ctl k) (compv k) (piv k) (level k)"
  shows "win_mirrored m (ctl k') (compv k') (piv k') (level k')"
  using assms(2) unfolding win_mirrored_def
proof
  assume "wb_hw_piv m \<noteq> 0 \<and> wb_hw_piv m = piv k \<and>
    tracked (wb_ckpt_compv m) (piv k) (wb_flop_high m) (compv k) (level k)"
  then show "wb_hw_piv m \<noteq> 0 \<and> wb_hw_piv m = piv k' \<and>
      tracked (wb_ckpt_compv m) (piv k') (wb_flop_high m) (compv k') (level k') \<or>
      \<not> bit (ctl k') 4 \<and> level k' = wb_flop_high m \<and> (wb_hw_piv m = 0 \<or> compv k' \<le> wb_ckpt_compv m)"
    using later_tracked [OF assms(1)] later_ctl_piv [OF assms(1)] by auto
next
  assume s: "\<not> bit (ctl k) 4 \<and> level k = wb_flop_high m \<and> (wb_hw_piv m = 0 \<or> compv k \<le> wb_ckpt_compv m)"
  then show "wb_hw_piv m \<noteq> 0 \<and> wb_hw_piv m = piv k' \<and>
      tracked (wb_ckpt_compv m) (piv k') (wb_flop_high m) (compv k') (level k') \<or>
      \<not> bit (ctl k') 4 \<and> level k' = wb_flop_high m \<and> (wb_hw_piv m = 0 \<or> compv k' \<le> wb_ckpt_compv m)"
    using later_stopped [OF assms(1)] engine_off_PM by metis
qed

text \<open>The fold: the mirror is moved to a moment during the call, or left alone.\<close>

lemma wp_win_fold:
  assumes m: "win_mirrored (wd_block (drv s) b) (ctl (kst s)) (compv (kst s)) (piv (kst s)) (level (kst s))"
    and Q: "\<And>k1 k' c. later (kst s) k1 \<Longrightarrow> later k1 k' \<Longrightarrow>
      wb_hw_piv (wd_block (drv s) b) = 0 \<and> k1 = kst s \<and> level k1 = wb_flop_high (wd_block (drv s) b) \<or>
      wb_hw_piv (wd_block (drv s) b) \<noteq> 0 \<and> compv k1 \<le> c \<and>
        (wb_hw_piv (wd_block (drv s) b) = piv k1 \<and> bit (ctl k1) 4 \<longrightarrow> c = compv k1) \<Longrightarrow>
      Q () (s\<lparr>drv := win_set_mirror b (level k1) c (drv s), kst := k'\<rparr>)"
  shows "wp (win_hw_flop_fold N b) Q s"
proof (cases "wb_hw_piv (wd_block (drv s) b) = 0")
  case True
  then have "level (kst s) = wb_flop_high (wd_block (drv s) b)" using m by (auto simp: win_mirrored_def)
  with Q [OF later_refl later_refl, of "wb_ckpt_compv (wd_block (drv s) b)"] True
  show ?thesis by (simp add: win_hw_flop_fold_def wp_simps win_set_mirror_same)
next
  case False
  let ?m = "wd_block (drv s) b"
  have fold: "wp (do { ckpt \<leftarrow> win_get_blk b wb_ckpt_compv;
       if compv k1 < ckpt then ret ()
       else do {
         events \<leftarrow> ret ((compv k1 - ckpt) div wb_hw_piv ?m);
         when_m (events AND 1 \<noteq> 0) (win_upd_blk b (wb_flop_high_update Not));
         win_upd_blk b (wb_ckpt_compv_update (\<lambda>_. compv k1))
       }}) Q (s\<lparr>kst := k'\<rparr>)" if k: "later (kst s) k1" "later k1 k'" for k1 k'
  proof -
    have mk: "win_mirrored ?m (ctl k1) (compv k1) (piv k1) (level k1)" by (rule later_win_mirrored [OF k(1) m])
    note f = win_mirrored_fold [OF mk False]
    show ?thesis
    proof (cases "compv k1 < wb_ckpt_compv ?m")
      case True
      then have "\<not> (wb_hw_piv ?m = piv k1 \<and> bit (ctl k1) 4)"
        using mk False tracked_fold(1) [of "wb_ckpt_compv ?m" "wb_hw_piv ?m"] by (auto simp: win_mirrored_def)
      then have "Q () (s\<lparr>drv := win_set_mirror b (level k1) (wb_ckpt_compv ?m) (drv s), kst := k'\<rparr>)"
        by (intro Q [OF k]) (use True False in auto)
      moreover have "win_set_mirror b (level k1) (wb_ckpt_compv ?m) (drv s) = drv s"
        by (rule win_set_mirror_same) (use f True in simp_all)
      ultimately have "Q () (s\<lparr>drv := drv s, kst := k'\<rparr>)" by (simp only:)
      then show ?thesis using True by (simp add: wp_simps)
    next
      case le: False
      have "Q () (s\<lparr>drv := win_set_mirror b (level k1) (compv k1) (drv s), kst := k'\<rparr>)"
        by (rule Q [OF k]) (use False in simp)
      then show ?thesis using f le
        by (cases "((compv k1 - wb_ckpt_compv ?m) div wb_hw_piv ?m) AND 1 = 0")
          (simp_all add: wp_simps win_flop_Not_eq win_flop_same)
    qed
  qed
  have "wp (win_hw_flop_fold N b) Q s = wp (tgpio_hw_read_compv N b) (\<lambda>cv. wp (do {
       ckpt \<leftarrow> win_get_blk b wb_ckpt_compv;
       if cv < ckpt then ret ()
       else do {
         events \<leftarrow> ret ((cv - ckpt) div wb_hw_piv ?m);
         when_m (events AND 1 \<noteq> 0) (win_upd_blk b (wb_flop_high_update Not));
         win_upd_blk b (wb_ckpt_compv_update (\<lambda>_. cv))
       }}) Q) s"
    using False by (simp add: win_hw_flop_fold_def wp_simps cong: if_cong)
  then show ?thesis using wp_win_read_compv fold by simp
qed

end

section \<open>Operations that keep the mirror\<close>

lemma bit_ctl_masks:
  "\<not> bit (c AND NOT TGPIOCTL_EN :: u32) 0" "\<not> bit (c AND NOT (TGPIOCTL_EN OR TGPIOCTL_PM) :: u32) 0"
  "\<not> bit (c AND NOT (TGPIOCTL_EN OR TGPIOCTL_PM) :: u32) 4"
  "bit (c AND NOT TGPIOCTL_EN :: u32) 4 = bit c 4"
  by (simp_all add: bit_simps)

text \<open>The timing of a start depends on the device's clock only.\<close>

lemma win_timing_blocks:
  "win_late_push (d\<lparr>wd_block := bs\<rparr>) = win_late_push d" "win_first_slot (d\<lparr>wd_block := bs\<rparr>) = win_first_slot d"
  by (simp_all add: fun_eq_iff win_late_push_def win_first_slot_def tgpio_art_ns_to_cycles_def)

context win_engine begin

definition good :: "'k nt \<Rightarrow> bool" where
  "good s \<longleftrightarrow> win_mirrored (wd_block (drv s) b) (ctl (kst s)) (compv (kst s)) (piv (kst s)) (level (kst s))"

definition sound :: "('k nt, 'a) state \<Rightarrow> bool" where
  "sound m \<longleftrightarrow> (\<forall>s. good s \<longrightarrow> good (exec_m m s))"

lemma soundI: "(\<And>s. good s \<Longrightarrow> wp m (\<lambda>_. good) s) \<Longrightarrow> sound m"
  by (auto simp: sound_def intro: wp_exec)

lemma good_later: "good s \<Longrightarrow> later (kst s) k' \<Longrightarrow> good (s\<lparr>kst := k'\<rparr>)"
  by (simp add: good_def later_win_mirrored)

lemma sound_return: "sound (State_Monad.return a)"
  by (simp add: sound_def)

lemma sound_bind: "sound m \<Longrightarrow> (\<And>a. sound (f a)) \<Longrightarrow> sound (State_Monad.bind m f)"
  by (simp add: sound_def split_beta)

lemma sound_liftk: "(\<And>k. later k (snd (run_state m k))) \<Longrightarrow> sound (liftk m)"
  by (simp add: sound_def run_liftk good_later)

lemma sound_if: "sound m \<Longrightarrow> sound n \<Longrightarrow> sound (if c then m else n)"
  by simp

lemma sound_when: "sound m \<Longrightarrow> sound (when_m c m)"
  by (simp add: sound_def)

lemma sound_case_option: "sound f \<Longrightarrow> (\<And>v. sound (g v)) \<Longrightarrow> sound (case r of None \<Rightarrow> f | Some v \<Rightarrow> g v)"
  by (simp split: option.splits)

lemma sound_case_sum: "(\<And>e. sound (f e)) \<Longrightarrow> (\<And>v. sound (g v)) \<Longrightarrow>
    sound (case r of Inl e \<Rightarrow> f e | Inr v \<Rightarrow> g v)"
  by (simp split: sum.splits)

lemma sound_keeps: "keeps kst m \<Longrightarrow> keeps (\<lambda>s. wd_block (drv s) b) m \<Longrightarrow> sound m"
  by (simp add: sound_def good_def keeps_def)

lemma sound_readers: "sound (win_get f)" "sound (win_get_blk c g)"
  by (auto intro!: sound_keeps frame)

lemma sound_upd_other: "c \<noteq> b \<Longrightarrow> sound (win_upd_blk c f)"
  by (rule sound_keeps) (auto simp: keeps_def win_upd_blk_def)

lemma sound_upd_mode: "sound (win_upd_blk c (wb_mode_update f))"
  by (rule soundI, cases "c = b") (simp_all add: wp_simps good_def win_mirrored_def)

lemma sound_upd_regs: "sound (win_upd_blk c (wb_regs_update f))"
  by (rule soundI, cases "c = b") (simp_all add: wp_simps good_def win_mirrored_def)

lemma sound_hung: "sound (modify (hung_update f))"
  by (simp add: sound_def good_def)

lemma sound_win_readl: "sound (win_readl N c off)"
  unfolding win_readl_def by (rule sound_liftk) (rule any_read_later)

lemma sound_win_writel: "c \<noteq> b \<Longrightarrow> sound (win_writel N c off v)"
  unfolding win_writel_def by (rule sound_liftk) (rule other_write_later)

lemma sound_clocks: "sound (liftk (n_rdtsc N))" "sound (liftk (n_systime N))"
  by (rule sound_liftk, rule tsc_later, rule sound_liftk, rule systime_later)

lemmas sound_intros = sound_return sound_bind sound_if sound_when sound_case_option sound_case_sum
  sound_readers sound_upd_mode sound_upd_regs sound_hung sound_win_readl sound_clocks

lemma sound_reads: "sound (tgpio_hw_read_ctl N c)" "sound (tgpio_hw_read_piv N c)"
  "sound (tgpio_hw_read_capture N c)" "sound (tgpio_art_now N)" "sound (tgpio_art_crosststamp N)"
  by (auto simp: tgpio_hw_read_ctl_def tgpio_hw_read_piv_def tgpio_hw_read_capture_def tgpio_art_now_def
      tgpio_art_crosststamp_def intro!: sound_intros)

lemma sound_compv_loop: "sound (hw_read_compv_loop n N c hi)"
  by (induction n arbitrary: hi) (auto intro!: sound_intros)

lemma sound_read_compv: "sound (tgpio_hw_read_compv N c)"
  by (auto simp: tgpio_hw_read_compv_def intro!: sound_intros sound_compv_loop)

subsection \<open>On the block itself\<close>

lemma sound_fold: "sound (win_hw_flop_fold N b)"
proof (rule soundI)
  fix s assume g: "good s"
  show "wp (win_hw_flop_fold N b) (\<lambda>_. good) s"
  proof (rule wp_win_fold [OF g [unfolded good_def]])
    fix k1 k' c
    assume k: "later (kst s) k1" "later k1 k'" and h:
      "wb_hw_piv (wd_block (drv s) b) = 0 \<and> k1 = kst s \<and> level k1 = wb_flop_high (wd_block (drv s) b) \<or>
      wb_hw_piv (wd_block (drv s) b) \<noteq> 0 \<and> compv k1 \<le> c \<and>
        (wb_hw_piv (wd_block (drv s) b) = piv k1 \<and> bit (ctl k1) 4 \<longrightarrow> c = compv k1)"
    have "win_mirrored (wd_block (drv s) b) (ctl k1) (compv k1) (piv k1) (level k1)"
      by (rule later_win_mirrored [OF k(1) g [unfolded good_def]])
    then have "win_mirrored (wd_block (win_set_mirror b (level k1) c (drv s)) b) (ctl k1) (compv k1) (piv k1) (level k1)"
      using h by (auto simp: win_mirrored_def)
    from later_win_mirrored [OF k(2) this]
    show "good (s\<lparr>drv := win_set_mirror b (level k1) c (drv s), kst := k'\<rparr>)"
      by (simp add: good_def)
  qed
qed

text \<open>The sequence that stops a block: EN off, fold, compare and interval cleared.\<close>

lemma wp_win_quiesce:
  assumes g: "good s"
    and Q: "\<And>ctrl c l k'. ctl k' = (ctrl AND NOT TGPIOCTL_EN) \<Longrightarrow> compv k' = 0 \<Longrightarrow> piv k' = 0 \<Longrightarrow> level k' = l \<Longrightarrow>
      R ctrl (s\<lparr>drv := win_set_mirror b l c (drv s), kst := k'\<rparr>)"
  shows "wp (tgpio_hw_read_ctl N b) (\<lambda>ctrl. wp (win_write_ctl N b (ctrl AND NOT TGPIOCTL_EN))
     (\<lambda>_. wp (win_hw_flop_fold N b) (\<lambda>_. wp (win_write_compv N b 0) (\<lambda>_. wp (win_write_piv N b 0)
     (\<lambda>_. R ctrl))))) s"
proof (rule wp_win_read_ctl, rule wp_win_write_ctl_stop, rule engine_off_EN, rule bit_ctl_masks(1), rule wp_win_fold)
  fix k1 k2 k3 k4
  assume k: "later (kst s) k1" "later k1 k2" "later (kst (s\<lparr>kst := k2\<rparr>)) k3"
    "ctl k4 = ctl k1 AND NOT TGPIOCTL_EN"
    "compv k4 = compv k3" "piv k4 = piv k3" "level k4 = level k3"
  let ?s = "s\<lparr>kst := k2\<rparr>\<lparr>kst := k4\<rparr>"
  have l3: "later (kst s) k3" using later_trans [OF later_trans [OF k(1,2)]] k(3) by simp
  have "ctl k3 = ctl k1" using later_ctl_piv [OF l3] later_ctl_piv [OF k(1)] by simp
  moreover have b4: "bit (ctl k4) 4 = bit (ctl k1) 4" unfolding k(4) by (rule bit_ctl_masks)
  moreover note later_win_mirrored [OF l3 g [unfolded good_def]]
  ultimately show "win_mirrored (wd_block (drv ?s) b) (ctl (kst ?s)) (compv (kst ?s)) (piv (kst ?s)) (level (kst ?s))"
    using b4 k(5-7) by (simp add: win_mirrored_def)
next
  fix k1 k2 k3 k4 k5 k6 c
  assume k: "ctl k4 = ctl k1 AND NOT TGPIOCTL_EN"
    "later (kst (s\<lparr>kst := k2\<rparr>\<lparr>kst := k4\<rparr>)) k5" "later k5 k6"
  have off: "\<not> engine_on (ctl k4)" unfolding k(1) by (rule engine_off_EN, rule bit_ctl_masks(1))
  have k5: "ctl k5 = ctl k4" "level k5 = level k4"
    using later_stopped [of k4 k5] k(2) off by simp_all
  have k6: "ctl k6 = ctl k4" "level k6 = level k4"
    using later_stopped [of k5 k6] k(3) off k5 by simp_all
  show "wp (win_write_compv N b 0) (\<lambda>_. wp (win_write_piv N b 0) (\<lambda>_. R (ctl k1)))
     (s\<lparr>kst := k2\<rparr>\<lparr>kst := k4\<rparr>\<lparr>drv := win_set_mirror b (level k5) c (drv (s\<lparr>kst := k2\<rparr>\<lparr>kst := k4\<rparr>)), kst := k6\<rparr>)"
    by (intro wp_win_write_compv wp_win_write_piv) (use k5 k6 off k(1) Q [of _ "ctl k1"] in auto)
qed

lemma ctl_off_masks: "\<not> bit ((c AND NOT TGPIOCTL_EN) AND NOT (TGPIOCTL_DIR OR TGPIOCTL_EP OR TGPIOCTL_PM) :: u32) n" if "n \<le> 4"
  using that by (auto simp: bit_simps le_Suc_eq numeral_eq_Suc)

lemma wp_win_stop:
  assumes "good s"
  shows "wp (tgpio_hw_stop_output N b) (\<lambda>_ t. let m = wd_block (drv t) b in
      m = (wd_block (drv s) b)\<lparr>wb_flop_high := level (kst t), wb_hw_piv := 0, wb_ckpt_compv := 0\<rparr> \<and>
      \<not> bit (ctl (kst t)) 0 \<and> \<not> bit (ctl (kst t)) 4 \<and> compv (kst t) = 0 \<and> piv (kst t) = 0) s"
  unfolding tgpio_hw_stop_output_def wp_bind
proof (rule wp_win_quiesce [OF assms])
  fix ctrl c l k'
  assume k: "ctl k' = ctrl AND NOT TGPIOCTL_EN" "compv k' = 0" "piv k' = 0" "level k' = l"
  have off: "\<not> engine_on (ctl k')" unfolding k(1) by (rule engine_off_EN, rule bit_ctl_masks(1))
  show "wp (win_write_ctl N b (ctrl AND NOT (TGPIOCTL_EN OR TGPIOCTL_PM)))
      (\<lambda>_. wp (win_upd_blk b (wb_hw_piv_update (\<lambda>_. 0))) (\<lambda>_. wp (win_upd_blk b (wb_ckpt_compv_update (\<lambda>_. 0)))
      (\<lambda>_ t. let m = wd_block (drv t) b in
      m = (wd_block (drv s) b)\<lparr>wb_flop_high := level (kst t), wb_hw_piv := 0, wb_ckpt_compv := 0\<rparr> \<and>
      \<not> bit (ctl (kst t)) 0 \<and> \<not> bit (ctl (kst t)) 4 \<and> compv (kst t) = 0 \<and> piv (kst t) = 0)))
     (s\<lparr>drv := win_set_mirror b l c (drv s), kst := k'\<rparr>)"
  proof (rule wp_win_write_ctl_stop, rule engine_off_EN, rule bit_ctl_masks(2))
    fix k1 k2 assume h: "later (kst (s\<lparr>drv := win_set_mirror b l c (drv s), kst := k'\<rparr>)) k1"
      "ctl k2 = ctrl AND NOT (TGPIOCTL_EN OR TGPIOCTL_PM)" "compv k2 = compv k1" "piv k2 = piv k1" "level k2 = level k1"
    have "\<not> bit (ctl k2) 0" "\<not> bit (ctl k2) 4" unfolding h(2) by (rule bit_ctl_masks(2), rule bit_ctl_masks(3))
    with later_stopped [of k' k1] off h(1,3-5) k
    show "wp (win_upd_blk b (wb_hw_piv_update (\<lambda>_. 0))) (\<lambda>_. wp (win_upd_blk b (wb_ckpt_compv_update (\<lambda>_. 0)))
      (\<lambda>_ t. let m = wd_block (drv t) b in
      m = (wd_block (drv s) b)\<lparr>wb_flop_high := level (kst t), wb_hw_piv := 0, wb_ckpt_compv := 0\<rparr> \<and>
      \<not> bit (ctl (kst t)) 0 \<and> \<not> bit (ctl (kst t)) 4 \<and> compv (kst t) = 0 \<and> piv (kst t) = 0))
     (s\<lparr>drv := win_set_mirror b l c (drv s), kst := k'\<rparr>\<lparr>kst := k2\<rparr>)"
      by (cases "wd_block (drv s) b") (simp add: wp_simps Let_def)
  qed
qed

lemma sound_stop: "sound (tgpio_hw_stop_output N b)"
  by (rule soundI, rule wp_mono [OF wp_win_stop]) (auto simp: good_def win_mirrored_def Let_def)

text \<open>Changing the control word alone keeps the mirror when it does not set PM.\<close>

lemma sound_set_input: "sound (tgpio_hw_set_input N b enable edge_bits)"
proof (rule soundI)
  fix s assume g: "good s"
  have step: "wp (win_write_ctl N b v) Q t" if t: "good t" "bit (ctl (kst t)) 4 = bit v 4"
    and Q: "\<And>k'. good (t\<lparr>kst := k'\<rparr>) \<Longrightarrow> bit (ctl k') 4 = bit v 4 \<Longrightarrow> Q () (t\<lparr>kst := k'\<rparr>)" for t v Q
  proof (rule wp_win_write_ctl)
    fix k1 k2 k' assume k: "later (kst t) k1" "later k2 k'" "ctl k2 = v" "compv k2 = compv k1"
      "piv k2 = piv k1" "level k2 = level k1"
    have "win_mirrored (wd_block (drv t) b) (ctl k1) (compv k1) (piv k1) (level k1)"
      by (rule later_win_mirrored [OF k(1) t(1) [unfolded good_def]])
    then have "win_mirrored (wd_block (drv t) b) (ctl k2) (compv k2) (piv k2) (level k2)"
      using k(3-6) t(2) later_ctl_piv [OF k(1)] by (simp add: win_mirrored_def)
    from later_win_mirrored [OF k(2) this] show "Q () (t\<lparr>kst := k'\<rparr>)"
      using later_ctl_piv [OF k(2)] k(3) by (intro Q) (simp_all add: good_def)
  qed
  show "wp (tgpio_hw_set_input N b enable edge_bits) (\<lambda>_. good) s"
    unfolding tgpio_hw_set_input_def wp_bind wp_return
  proof (rule wp_win_read_ctl, rule step)
    fix k1 k' assume k: "later (kst s) k1" "later k1 k'"
    show g': "good (s\<lparr>kst := k'\<rparr>)" by (rule good_later [OF g later_trans [OF k]])
    show "bit (ctl (kst (s\<lparr>kst := k'\<rparr>))) 4 = bit (ctl k1 AND NOT TGPIOCTL_EN) 4"
      using later_ctl_piv [OF k(2)] by (simp only: bit_ctl_masks) simp
  next
    fix k1 k' k2 assume k: "good (s\<lparr>kst := k'\<rparr>\<lparr>kst := k2\<rparr>)"
      "bit (ctl k2) 4 = bit (ctl k1 AND NOT TGPIOCTL_EN) 4"
    let ?c = "(((ctl k1 AND NOT TGPIOCTL_EN) AND NOT TGPIOCTL_EP) OR (edge_bits AND TGPIOCTL_EP)) OR TGPIOCTL_DIR"
    have b: "bit ?c 4 = bit (ctl k1 AND NOT TGPIOCTL_EN) 4" "bit (?c OR TGPIOCTL_EN) 4 = bit ?c 4"
      by (simp_all add: bit_simps)
    have "wp (do { win_write_ctl N b ?c; win_write_ctl N b (?c OR TGPIOCTL_EN) }) (\<lambda>_. good) (s\<lparr>kst := k'\<rparr>\<lparr>kst := k2\<rparr>)"
      unfolding wp_bind by (rule step [OF k(1)], use k(2) b in simp, rule step) (use b in simp_all)
    then show "wp (if \<not> enable then ret () else do { ctrl \<leftarrow> ret ?c; win_write_ctl N b ctrl; win_write_ctl N b (ctrl OR TGPIOCTL_EN) })
       (\<lambda>_. good) (s\<lparr>kst := k'\<rparr>\<lparr>kst := k2\<rparr>)"
      using k(1) by (simp add: wp_simps)
  qed
qed

text \<open>What a successful start leaves: the waveform programmed from the tracked level, and enabled.\<close>

definition started :: "tgpio_win_device \<Rightarrow> u64 \<Rightarrow> u64 \<Rightarrow> u64 \<Rightarrow> 'k nt \<Rightarrow> bool" where
  "started d high low edge t \<longleftrightarrow> (let m = wd_block (drv t) b in
    engine_on (ctl (kst t)) \<and> \<not> bit (ctl (kst t)) 1 \<and>
    wb_hw_piv m = (if wb_flop_high m then low else high) \<and> wb_high_cycles m = high \<and> wb_low_cycles m = low \<and>
    (\<exists>now. win_late_push d now (high + low) (win_first_slot d (wb_flop_high m) now high low edge)
       = Some (wb_ckpt_compv m)))"

lemma wp_win_program:
  assumes ctrl: "\<not> bit ctrl 0" "\<not> bit ctrl 1" "\<not> bit ctrl 2" "ctl (kst s) = ctrl" and p: "p \<noteq> 0"
    and lv: "level (kst s) = wb_flop_high (wd_block (drv s) b)"
    and Q: "\<And>t. good t \<Longrightarrow> engine_on (ctl (kst t)) \<Longrightarrow> \<not> bit (ctl (kst t)) 1 \<Longrightarrow>
      drv t = (drv s)\<lparr>wd_block := (wd_block (drv s))(b := (wd_block (drv s) b)
        \<lparr>wb_high_cycles := high, wb_low_cycles := low, wb_hw_piv := p, wb_ckpt_compv := first\<rparr>)\<rparr> \<Longrightarrow> Q STATUS_SUCCESS t"
  shows "wp (do {
       ctrl \<leftarrow> ret (ctrl OR (TGPIOCTL_EP_TOGGLE OR TGPIOCTL_PM));
       win_write_ctl N b ctrl;
       win_write_piv N b p;
       win_write_compv N b first;
       win_upd_blk b (\<lambda>m. m\<lparr>wb_high_cycles := high, wb_low_cycles := low, wb_hw_piv := p, wb_ckpt_compv := first\<rparr>);
       win_write_ctl N b (ctrl OR TGPIOCTL_EN);
       ret STATUS_SUCCESS }) Q s"
proof -
  let ?c1 = "ctrl OR (TGPIOCTL_EP_TOGGLE OR TGPIOCTL_PM)"
  let ?d = "(drv s)\<lparr>wd_block := (wd_block (drv s))(b := (wd_block (drv s) b)
        \<lparr>wb_high_cycles := high, wb_low_cycles := low, wb_hw_piv := p, wb_ckpt_compv := first\<rparr>)\<rparr>"
  have off: "\<not> engine_on ?c1" by (rule engine_off_EN) (use ctrl in \<open>simp add: bit_simps\<close>)
  have off0: "\<not> engine_on (ctl (kst s))" by (rule engine_off_EN) (use ctrl in simp)
  note on = engine_on_armed [OF ctrl(2,3), unfolded tgpio_ctl_with_def]
  show ?thesis
    unfolding wp_bind wp_return
  proof (rule wp_win_write_ctl_stop [OF off], rule wp_win_write_piv, rule wp_win_write_compv)
    fix k1 k2 k3 assume "ctl k3 = ctl (kst (s\<lparr>kst := k2\<rparr>))" "ctl k2 = ?c1"
    then show "\<not> engine_on (ctl (kst (s\<lparr>kst := k2\<rparr>\<lparr>kst := k3\<rparr>)))" using off by simp
  next
    fix k1 k2 k3 k4 assume k: "later (kst s) k1" "ctl k2 = ?c1" "level k2 = level k1"
      "ctl k3 = ctl (kst (s\<lparr>kst := k2\<rparr>))" "piv k3 = p"
      "\<not> engine_on (ctl (kst (s\<lparr>kst := k2\<rparr>))) \<Longrightarrow> compv k3 = compv (kst (s\<lparr>kst := k2\<rparr>)) \<and> level k3 = level (kst (s\<lparr>kst := k2\<rparr>))"
      "ctl k4 = ctl (kst (s\<lparr>kst := k2\<rparr>\<lparr>kst := k3\<rparr>))" "compv k4 = first"
      "piv k4 = piv (kst (s\<lparr>kst := k2\<rparr>\<lparr>kst := k3\<rparr>))" "level k4 = level (kst (s\<lparr>kst := k2\<rparr>\<lparr>kst := k3\<rparr>))"
    have k4: "ctl k4 = ?c1" "compv k4 = first" "piv k4 = p" "level k4 = level (kst s)"
      using k off later_stopped [OF k(1) off0] by simp_all
    have fin: "wp (win_write_ctl N b (?c1 OR TGPIOCTL_EN)) (\<lambda>_. Q STATUS_SUCCESS) (s\<lparr>drv := ?d, kst := k4\<rparr>)"
    proof (rule wp_win_write_ctl)
      fix k6 k7 k8
      assume h: "later (kst (s\<lparr>drv := ?d, kst := k4\<rparr>)) k6" "later k7 k8" "ctl k7 = ?c1 OR TGPIOCTL_EN"
        "compv k7 = compv k6" "piv k7 = piv k6" "level k7 = level k6"
      have k6: "compv k6 = first" "piv k6 = p" "level k6 = level (kst s)"
        using later_stopped [of k4 k6] h(1) k4 off by simp_all
      have "tracked first p (level (kst s)) (compv k8) (level k8)"
        using later_tracked [OF h(2), of first "level (kst s)"] h k6 by simp
      moreover have "ctl k8 = ?c1 OR TGPIOCTL_EN" "piv k8 = p" using later_ctl_piv [OF h(2)] h(3,5) k6 by simp_all
      moreover have "engine_on (ctl k8)" "\<not> bit (ctl k8) 1" unfolding calculation(2) by (rule on)+
      ultimately show "Q STATUS_SUCCESS (s\<lparr>drv := ?d, kst := k4\<rparr>\<lparr>kst := k8\<rparr>)"
        using p lv by (intro Q) (simp_all add: good_def win_mirrored_def)
    qed
    then show "wp (win_upd_blk b (\<lambda>m. m\<lparr>wb_high_cycles := high, wb_low_cycles := low, wb_hw_piv := p, wb_ckpt_compv := first\<rparr>))
       (\<lambda>_. wp (win_write_ctl N b (?c1 OR TGPIOCTL_EN)) (\<lambda>_. Q STATUS_SUCCESS)) (s\<lparr>kst := k2\<rparr>\<lparr>kst := k3\<rparr>\<lparr>kst := k4\<rparr>)"
      by (simp add: wp_simps)
  qed
qed

lemma wp_art_now:
  "(\<And>v k'. later (kst s) k' \<Longrightarrow> Q v (s\<lparr>kst := k'\<rparr>)) \<Longrightarrow> wp (tgpio_art_now N) Q s"
  using tsc_later [of "kst s"] by (simp add: tgpio_art_now_def wp_simps wp_liftk) (simp add: wp_def split_beta)

lemma wp_win_start:
  assumes "good s"
  shows "wp (tgpio_hw_start_output N b high low edge) (\<lambda>r t. good t \<and>
     (r \<noteq> STATUS_INVALID_PARAMETER \<and> r \<noteq> STATUS_SUCCESS \<longrightarrow> \<not> bit (ctl (kst t)) 0 \<and> compv (kst t) = 0 \<and> piv (kst t) = 0) \<and>
     (r = STATUS_SUCCESS \<longrightarrow> started (drv t) high low edge t)) s" (is "wp _ ?Q s")
proof (cases "high = 0 \<or> low = 0 \<or> U64_MAX div 4 < high \<or> U64_MAX div 4 < low")
  case True
  then have eq: "tgpio_hw_start_output N b high low edge = ret STATUS_INVALID_PARAMETER"
    unfolding tgpio_hw_start_output_def by (rule if_P)
  show ?thesis unfolding eq wp_return using assms by simp
next
  case False
  then have nz: "high \<noteq> 0" "low \<noteq> 0" by auto
  show ?thesis
    unfolding tgpio_hw_start_output_def if_not_P [OF False] wp_bind wp_return
  proof (rule wp_win_quiesce [OF assms], rule wp_win_write_ctl_stop, rule engine_off_EN, rule ctl_off_masks, simp,
      rule wp_art_now, unfold wp_win_get wp_win_get_blk)
    fix ctrl c l k1 k2 k3 now k4
    let ?ctrl = "(ctrl AND NOT TGPIOCTL_EN) AND NOT (TGPIOCTL_DIR OR TGPIOCTL_EP OR TGPIOCTL_PM)"
    let ?s = "s\<lparr>drv := win_set_mirror b l c (drv s), kst := k1\<rparr>\<lparr>kst := k3\<rparr>\<lparr>kst := k4\<rparr>"
    assume k: "ctl k1 = ctrl AND NOT TGPIOCTL_EN" "compv k1 = 0" "piv k1 = 0" "level k1 = l"
      "later (kst (s\<lparr>drv := win_set_mirror b l c (drv s), kst := k1\<rparr>)) k2" "ctl k3 = ?ctrl" "compv k3 = compv k2"
      "piv k3 = piv k2" "level k3 = level k2"
      "later (kst (s\<lparr>drv := win_set_mirror b l c (drv s), kst := k1\<rparr>\<lparr>kst := k3\<rparr>)) k4"
    have off1: "\<not> engine_on (ctl k1)" unfolding k(1) by (rule engine_off_EN, rule bit_ctl_masks(1))
    have off3: "\<not> engine_on (ctl k3)" unfolding k(6) by (rule engine_off_EN, rule ctl_off_masks) simp
    have k4: "ctl k4 = ?ctrl" "compv k4 = 0" "piv k4 = 0" "level k4 = l"
      using later_stopped [of k1 k2] later_stopped [of k3 k4] off1 off3 k by simp_all
    have bits: "\<not> bit (ctl k4) n" if "n \<le> 4" for n unfolding k4(1) by (rule ctl_off_masks [OF that])
    have lv: "wb_flop_high (wd_block (drv ?s) b) = l" by simp
    have g: "good ?s" using bits [of 4] k4 by (simp add: good_def win_mirrored_def)
    have p: "(if l then low else high) \<noteq> 0" using nz by simp
    show "wp (case win_late_push (drv ?s) now (high + low)
            (win_first_slot (drv ?s) (wb_flop_high (wd_block (drv ?s) b)) now high low edge) of
         None \<Rightarrow> ret STATUS_INTEGER_OVERFLOW
       | Some first \<Rightarrow> do {
            initial_piv \<leftarrow> ret (if wb_flop_high (wd_block (drv ?s) b) then low else high);
            ctrl \<leftarrow> ret (?ctrl OR (TGPIOCTL_EP_TOGGLE OR TGPIOCTL_PM));
            win_write_ctl N b ctrl;
            win_write_piv N b initial_piv;
            win_write_compv N b first;
            win_upd_blk b (\<lambda>m. m\<lparr>wb_high_cycles := high, wb_low_cycles := low,
              wb_hw_piv := initial_piv, wb_ckpt_compv := first\<rparr>);
            win_write_ctl N b (ctrl OR TGPIOCTL_EN);
            ret STATUS_SUCCESS
          }) ?Q ?s"
    proof (cases "win_late_push (drv ?s) now (high + low)
            (win_first_slot (drv ?s) (wb_flop_high (wd_block (drv ?s) b)) now high low edge)")
      case None
      show ?thesis unfolding None option.case wp_return using g k4 bits [of 0] by simp
    next
      case (Some first)
      note push = Some [unfolded lv]
      have "wp (do {
            ctrl \<leftarrow> ret (?ctrl OR (TGPIOCTL_EP_TOGGLE OR TGPIOCTL_PM));
            win_write_ctl N b ctrl;
            win_write_piv N b (if l then low else high);
            win_write_compv N b first;
            win_upd_blk b (\<lambda>m. m\<lparr>wb_high_cycles := high, wb_low_cycles := low,
              wb_hw_piv := (if l then low else high), wb_ckpt_compv := first\<rparr>);
            win_write_ctl N b (ctrl OR TGPIOCTL_EN);
            ret STATUS_SUCCESS
          }) ?Q ?s"
      proof (rule wp_win_program [OF ctl_off_masks ctl_off_masks ctl_off_masks _ p])
        fix t
        assume t: "good t" "engine_on (ctl (kst t))" "\<not> bit (ctl (kst t)) 1"
          "drv t = (drv ?s)\<lparr>wd_block := (wd_block (drv ?s))(b := (wd_block (drv ?s) b)
             \<lparr>wb_high_cycles := high, wb_low_cycles := low, wb_hw_piv := (if l then low else high), wb_ckpt_compv := first\<rparr>)\<rparr>"
        have "win_late_push (drv t) now (high + low) (win_first_slot (drv t) l now high low edge) = Some first"
          using push unfolding t(4) win_timing_blocks by simp
        then have "started (drv t) high low edge t"
          using t by (auto simp: started_def Let_def)
        then show "good t \<and> (STATUS_SUCCESS \<noteq> STATUS_INVALID_PARAMETER \<and> STATUS_SUCCESS \<noteq> STATUS_SUCCESS \<longrightarrow>
            \<not> bit (ctl (kst t)) 0 \<and> compv (kst t) = 0 \<and> piv (kst t) = 0) \<and>
           (STATUS_SUCCESS = STATUS_SUCCESS \<longrightarrow> started (drv t) high low edge t)" using t(1) by simp
      qed (use k4 in simp_all)
      then show ?thesis unfolding lv push option.case wp_bind wp_return .
    qed
  qed
qed

lemma sound_start: "sound (tgpio_hw_start_output N b high low edge)"
  by (rule soundI, rule wp_mono [OF wp_win_start]) auto

end

section \<open>Requests\<close>

context win_engine begin

lemma sound_write_other: "c \<noteq> b \<Longrightarrow> sound (win_write_ctl N c v)" "c \<noteq> b \<Longrightarrow> sound (win_write_compv N c w)"
  "c \<noteq> b \<Longrightarrow> sound (win_write_piv N c w)"
  by (auto simp: win_write_ctl_def win_write_compv_def win_write_piv_def intro!: sound_bind sound_win_writel)

lemmas sound_other = sound_intros sound_reads sound_read_compv sound_write_other sound_upd_other

lemma sound_fold_any: "sound (win_hw_flop_fold N c)"
  by (cases "c = b", simp add: sound_fold) (auto simp: win_hw_flop_fold_def intro!: sound_other)

lemma sound_stop_any: "sound (tgpio_hw_stop_output N c)"
  by (cases "c = b", simp add: sound_stop) (auto simp: tgpio_hw_stop_output_def intro!: sound_other sound_fold_any)

lemma sound_set_input_any: "sound (tgpio_hw_set_input N c enable bits)"
  by (cases "c = b", simp add: sound_set_input) (auto simp: tgpio_hw_set_input_def intro!: sound_other)

lemma sound_start_any: "sound (tgpio_hw_start_output N c high low edge)"
  by (cases "c = b", simp add: sound_start) (auto simp: tgpio_hw_start_output_def intro!: sound_other sound_fold_any)

lemmas sound_request = sound_intros sound_reads sound_read_compv sound_fold_any sound_stop_any
  sound_set_input_any sound_start_any

lemma sound_handlers: "sound (tgpio_ioctl_get_info N rq)" "sound (tgpio_ioctl_crosststamp N rq)"
  "sound (tgpio_ioctl_set_input N rq)" "sound (tgpio_ioctl_read_capture N rq)"
  "sound (tgpio_ioctl_start_output N rq)" "sound (tgpio_ioctl_stop_output N rq)" "sound (tgpio_ioctl_get_block N rq)"
  by (auto simp: tgpio_ioctl_get_info_def tgpio_ioctl_crosststamp_def tgpio_ioctl_set_input_def
      tgpio_ioctl_read_capture_def tgpio_ioctl_start_output_def tgpio_ioctl_stop_output_def
      tgpio_ioctl_get_block_def intro!: sound_request)

lemma sound_dispatch: "code \<noteq> TGPIO_IOCTL_INVERT_OUTPUT \<Longrightarrow> sound (tgpio_evt_ioctl N rq code)"
  unfolding tgpio_evt_ioctl_def by (simp add: sound_handlers sound_return)

end

text \<open>
  A run of the driver: requests other than an inversion, which is a correction of the belief,
  and time passing between them.
\<close>

inductive win_step :: "'k nt_kernel \<Rightarrow> ('k \<Rightarrow> 'k \<Rightarrow> bool) \<Rightarrow> 'k nt \<Rightarrow> 'k nt \<Rightarrow> bool"
  for N :: "'k nt_kernel" and elapse :: "'k \<Rightarrow> 'k \<Rightarrow> bool" where
  request: "code \<noteq> TGPIO_IOCTL_INVERT_OUTPUT \<Longrightarrow> run_state (tgpio_evt_ioctl N rq code) s = (r, t) \<Longrightarrow>
    win_step N elapse s t"
| time: "elapse (kst s) k \<Longrightarrow> win_step N elapse s (s\<lparr>kst := k\<rparr>)"

inductive win_reachable :: "'k nt_kernel \<Rightarrow> ('k \<Rightarrow> 'k \<Rightarrow> bool) \<Rightarrow> 'k nt \<Rightarrow> 'k nt \<Rightarrow> bool"
  for N :: "'k nt_kernel" and elapse :: "'k \<Rightarrow> 'k \<Rightarrow> bool" and s0 :: "'k nt" where
  start: "win_reachable N elapse s0 s0"
| step: "win_reachable N elapse s0 s \<Longrightarrow> win_step N elapse s t \<Longrightarrow> win_reachable N elapse s0 t"

inductive_cases win_stepE: "win_step N elapse s t"

context win_engine begin

lemma step_good: "win_step N later s t \<Longrightarrow> good s \<Longrightarrow> good t"
proof (induction rule: win_step.induct)
  case (request code rq s r t)
  then show ?case using sound_dispatch [of code rq] by (metis sound_def snd_conv)
next
  case (time s k)
  then show ?case by (simp add: good_later)
qed

lemma reachable_good: "win_reachable N later s t \<Longrightarrow> good s \<Longrightarrow> good t"
  by (induction rule: win_reachable.induct) (auto intro: step_good)

end

end
