(* ===== verification/Win_Sim.thy ===== *)
theory Win_Sim
  imports Win_Engine Sim_Hw
begin

text \<open>
  The Windows driver in the simulated world of \<open>Sim_Hw\<close>, which provides the interface
  \<open>win_engine\<close> for every schedule of edges.
\<close>

section \<open>A simulated machine\<close>

text \<open>
  The world of \<open>Sim_Hw\<close> under Windows: the TSC is the ART counter, a buffer is accepted when it
  is long enough, and every resource is granted.
\<close>

definition sim_nt :: "nat \<Rightarrow> world nt_kernel" where
  "sim_nt retries = \<lparr>n_readl = sim_readl, n_writel = sim_writel, n_rdtsc = gets w_art,
     n_systime = gets w_real,
     n_cpuid = (\<lambda>leaf. if leaf = 0 then (0x15, 0, 0, 0) else (1, 1, 38400000, 0)),
     n_readmsr = (\<lambda>_. 0), n_map_io = (\<lambda>_ _ _. State_Monad.return True),
     n_unmap_io = (\<lambda>_. State_Monad.return ()),
     n_input = (\<lambda>size' len. if size' \<le> len then STATUS_SUCCESS else 0xC0000023),
     n_output = (\<lambda>size' len. if size' \<le> len then STATUS_SUCCESS else 0xC0000023),
     n_reg_open = State_Monad.return False, n_reg_query = (\<lambda>_. State_Monad.return None),
     n_device_create = State_Monad.return STATUS_SUCCESS, n_lock_create = State_Monad.return STATUS_SUCCESS,
     n_queue_create = State_Monad.return STATUS_SUCCESS, n_symlink_create = State_Monad.return STATUS_SUCCESS,
     n_retries = retries\<rparr>"

lemma sim_nt_bus: "n_readl (sim_nt r) = sim_readl" "n_writel (sim_nt r) = sim_writel"
  "k_readl (sim_kernel q) = sim_readl" "k_writel (sim_kernel q) = sim_writel"
  by (simp_all add: sim_nt_def sim_kernel_def)

lemma sim_mmio_engine: "mmio_engine (sim_readl b) (sim_writel b) (\<lambda>w. e_ctl (w_engine w b))
    (\<lambda>w. e_compv (w_engine w b)) (\<lambda>w. e_piv (w_engine w b)) (\<lambda>w. e_level (w_engine w b)) (w_later b)"
  using sim.mmio_engine_axioms [of b] by (simp add: sim_nt_bus)

lemma sim_win_engine:
  assumes "2 ^ 32 \<le> retries"
  shows "win_engine (sim_nt retries) b (\<lambda>w. e_ctl (w_engine w b))
    (\<lambda>w. e_compv (w_engine w b)) (\<lambda>w. e_piv (w_engine w b)) (\<lambda>w. e_level (w_engine w b)) (w_later b)"
proof (rule win_engine.intro)
  show "mmio_engine (n_readl (sim_nt retries) b) (n_writel (sim_nt retries) b) (\<lambda>w. e_ctl (w_engine w b))
    (\<lambda>w. e_compv (w_engine w b)) (\<lambda>w. e_piv (w_engine w b)) (\<lambda>w. e_level (w_engine w b)) (w_later b)"
    using sim_mmio_engine by (simp add: sim_nt_bus)
  have other: "w_later b k (snd (run_state (sim_writel c off v) k))" if "c \<noteq> b" for c off v k
    using pass_later [of b k] that by (simp add: sim_writel_def Let_def w_later_def)
  show "win_engine_axioms (sim_nt retries) b (w_later b)"
    using assms by (intro win_engine_axioms.intro)
      (simp_all add: sim_nt_bus other, simp_all add: sim_nt_def w_later_refl sim_readl_def Let_def pass_later)
qed

interpretation winsim: win_engine "sim_nt (2 ^ 32)" b "\<lambda>w. e_ctl (w_engine w b)"
    "\<lambda>w. e_compv (w_engine w b)" "\<lambda>w. e_piv (w_engine w b)" "\<lambda>w. e_level (w_engine w b)" "w_later b"
  for b
  by (rule sim_win_engine) simp

text \<open>A device with two mapped blocks, its clock at 38.4 MHz.\<close>

definition sim_win_block :: tgpio_win_block where
  "sim_win_block = zero_win_block\<lparr>wb_regs := True, wb_mmio_size := 0x38\<rparr>"

definition running_win_block :: tgpio_win_block where
  "running_win_block = sim_win_block\<lparr>wb_mode := TGPIO_WIN_BLOCK_OUTPUT, wb_hw_piv := 500000000,
     wb_ckpt_compv := 2000000000, wb_high_cycles := 500000000, wb_low_cycles := 500000000\<rparr>"

definition sim_win_sys :: "tgpio_win_block \<Rightarrow> engine \<Rightarrow> nat list \<Rightarrow> world nt" where
  "sim_win_sys m e edges = \<lparr>drv = zero_win_device\<lparr>wd_block := (\<lambda>_. m), wd_block_count := 2,
     wd_art_frequency_hz := 38400000, wd_tsc_art_numerator := 1, wd_tsc_art_denominator := 1\<rparr>,
     kst = sim_world e edges, hung = False\<rparr>"

end
