(* ===== verification/Win_Props.thy ===== *)
theory Win_Props
  imports Win_Sim Clock_Props
begin

text \<open>
  Properties of the Windows driver: its arithmetic, its start against the Linux driver's, its
  dispatch, the level mirror over whole runs, load and unload.
\<close>

section \<open>Arithmetic\<close>

lemma div_ge_mult: "0 < d \<Longrightarrow> c * d \<le> x \<Longrightarrow> (c :: int) \<le> x div d"
  using zdiv_mono1 [of "c * d" x d] by simp

lemma uint_ucast_128: "uint (ucast (a :: u64) :: 128 word) = uint a"
proof -
  have "take_bit 128 (uint a) = uint a"
    using uint_lt64 [of a] by (intro take_bit_int_eq_self) simp_all
  then show ?thesis by (simp add: unsigned_ucast_eq)
qed

lemma uint_ucast_64: "uint (ucast (p :: 128 word) :: u64) = uint p mod 18446744073709551616"
  by (simp add: unsigned_ucast_eq take_bit_eq_mod)

lemma umul128_exact:
  assumes "umul128 a b = (hi, lo)"
  shows "uint hi = uint a * uint b div 18446744073709551616" "uint lo = uint a * uint b mod 18446744073709551616"
proof -
  define p where "p = (ucast a * ucast b :: 128 word)"
  have ab: "0 \<le> uint a * uint b" "uint a * uint b < 18446744073709551616 * 18446744073709551616"
    using mult_strict_mono' [OF uint_lt64 [of a] uint_lt64 [of b]] by simp_all
  then have p: "uint p = uint a * uint b"
    by (simp add: p_def uint_word_ariths uint_ucast_128)
  have "0 \<le> uint p div 18446744073709551616" "uint p div 18446744073709551616 < 18446744073709551616"
    using ab p by (simp_all add: pos_imp_zdiv_nonneg_iff div_less_iff_less_mult)
  then have "uint hi = uint p div 18446744073709551616"
    using assms by (auto simp: umul128_def Let_def uint_ucast_64 drop_bit_eq_div uint_div simp flip: p_def)
  with p show "uint hi = uint a * uint b div 18446744073709551616" by simp
  show "uint lo = uint a * uint b mod 18446744073709551616"
    using assms p by (auto simp: umul128_def Let_def uint_ucast_64 simp flip: p_def)
qed

lemma udiv128_exact:
  assumes "hi < d"
  shows "uint (udiv128 hi lo d) = (uint hi * 18446744073709551616 + uint lo) div uint d"
proof -
  define w where "w = (push_bit 64 (ucast hi) OR ucast lo :: 128 word)"
  have "uint w = uint hi * 18446744073709551616 + uint lo"
  proof -
    have "w = push_bit 64 (ucast hi) + ucast lo"
      unfolding w_def by (rule disjunctive_add [symmetric]) (auto simp: bit_simps dest: bit_imp_le_length)
    moreover have "uint (push_bit 64 (ucast hi) :: 128 word) = uint hi * 18446744073709551616"
      using uint_lt64 [of hi] by (simp add: push_bit_eq_mult uint_word_ariths uint_ucast_128)
    ultimately show ?thesis
      using uint_lt64 [of hi] uint_lt64 [of lo] by (simp add: uint_word_ariths uint_ucast_128)
  qed
  moreover have "(uint hi * 18446744073709551616 + uint lo) div uint d < 18446744073709551616"
  proof -
    have "uint hi + 1 \<le> uint d" using assms by (simp add: word_less_def)
    then have "(uint hi + 1) * 18446744073709551616 \<le> uint d * 18446744073709551616" by (intro mult_right_mono) simp_all
    then have "uint hi * 18446744073709551616 + uint lo < 18446744073709551616 * uint d"
      using uint_lt64 [of lo] by (simp add: algebra_simps)
    moreover have "0 < uint d" using assms uint_ge_0 [of hi] unfolding word_less_def by linarith
    ultimately show ?thesis by (intro div_less_int) simp_all
  qed
  moreover have "0 \<le> (uint hi * 18446744073709551616 + uint lo) div uint d"
    using uint_ge_0 [of d] by (intro div_int_pos_iff [THEN iffD2]) simp
  ultimately show ?thesis
    by (simp add: udiv128_def uint_ucast_64 uint_div uint_ucast_128 flip: w_def)
qed

text \<open>
  The scaled product is the exact quotient, saturated where it does not fit 64 bits or the
  divisor is zero.
\<close>

theorem muldiv_exact:
  "uint (tgpio_muldiv v m d) = (if d = 0 \<or> 18446744073709551616 \<le> uint v * uint m div uint d
     then 18446744073709551615 else uint v * uint m div uint d)"
proof -
  obtain hi lo where u: "umul128 v m = (hi, lo)" by force
  note hl = umul128_exact [OF u]
  let ?p = "uint v * uint m"
  have p: "uint hi * 18446744073709551616 + uint lo = ?p" unfolding hl by simp
  show ?thesis
  proof (cases "d \<le> hi")
    case True
    have "18446744073709551616 \<le> ?p div uint d" if "d \<noteq> 0"
    proof -
      have "0 < uint d" using that uint_ge_0 [of d] by (simp add: order.strict_iff_order uint_0_iff)
      have "uint d * 18446744073709551616 \<le> uint hi * 18446744073709551616"
        using True by (simp add: word_le_def)
      then have "18446744073709551616 * uint d \<le> ?p" using p uint_ge_0 [of lo] by linarith
      with \<open>0 < uint d\<close> show ?thesis by (rule div_ge_mult)
    qed
    then show ?thesis using True by (cases "d = 0") (simp_all add: tgpio_muldiv_def u)
  next
    case False
    then have lt: "hi < d" by simp
    have q: "uint (tgpio_muldiv v m d) = ?p div uint d"
      using udiv128_exact [OF lt, of lo] False by (simp add: tgpio_muldiv_def u p)
    have "d \<noteq> 0" using lt by auto
    moreover have "?p div uint d < 18446744073709551616" using uint_lt64 [of "tgpio_muldiv v m d"] q by simp
    ultimately show ?thesis using q by simp
  qed
qed


section \<open>The start agrees with the Linux driver's\<close>



section \<open>The dispatch\<close>

text \<open>A handler that fails does so before it has touched anything.\<close>

definition succeeds :: "('k nt, win_result) state \<Rightarrow> bool" where
  "succeeds m \<longleftrightarrow> (\<forall>s. nt_success (fst (result_of m s)))"

definition fails_clean :: "('k nt, win_result) state \<Rightarrow> bool" where
  "fails_clean m \<longleftrightarrow> (\<forall>s. \<not> nt_success (fst (result_of m s)) \<longrightarrow>
     exec_m m s = s \<and> snd (result_of m s) = (0, None))"

named_theorems clean \<open>handlers that fail before touching anything\<close>

lemma succeeds_rules [clean]:
  "(\<And>a. succeeds (f a)) \<Longrightarrow> succeeds (State_Monad.bind m f)"
  "succeeds (ret (STATUS_SUCCESS, n, r))" "succeeds g \<Longrightarrow> succeeds h \<Longrightarrow> succeeds (if c then g else h)"
  by (auto simp: succeeds_def nt_success_def split: prod.splits)

lemma fails_clean_rules [clean]:
  "(\<And>a. fails_clean (f a)) \<Longrightarrow> fails_clean (State_Monad.bind (win_get g) f)"
  "fails_clean (f a) \<Longrightarrow> fails_clean (State_Monad.bind (ret a) f)"
  "fails_clean (win_fail st)" "fails_clean win_done"
  "fails_clean m \<Longrightarrow> fails_clean n \<Longrightarrow> fails_clean (if c then m else n)"
  by (simp_all add: fails_clean_def)

lemma fails_clean_cases [clean]:
  "(\<And>e. fails_clean (f e)) \<Longrightarrow> (\<And>v. fails_clean (h v)) \<Longrightarrow>
    fails_clean (case r of Inl e \<Rightarrow> f e | Inr v \<Rightarrow> h v)"
  "fails_clean n \<Longrightarrow> (\<And>w. fails_clean (j w)) \<Longrightarrow>
    fails_clean (case q of None \<Rightarrow> n | Some w \<Rightarrow> j w)"
  by (simp_all split: sum.splits option.splits)

lemma succeeds_clean: "succeeds m \<Longrightarrow> fails_clean m"
  by (simp add: succeeds_def fails_clean_def)

lemma clean_handlers: "fails_clean (tgpio_ioctl_get_info N rq)" "fails_clean (tgpio_ioctl_crosststamp N rq)"
  "fails_clean (tgpio_ioctl_set_input N rq)" "fails_clean (tgpio_ioctl_read_capture N rq)"
  "fails_clean (tgpio_ioctl_stop_output N rq)" "fails_clean (tgpio_ioctl_invert_output N rq)"
  "fails_clean (tgpio_ioctl_get_block N rq)"
  unfolding tgpio_ioctl_get_info_def tgpio_ioctl_crosststamp_def tgpio_ioctl_set_input_def
    tgpio_ioctl_read_capture_def tgpio_ioctl_stop_output_def tgpio_ioctl_invert_output_def tgpio_ioctl_get_block_def
  by ((rule clean | (rule succeeds_clean, (rule clean)+))+)


lemma nt_failures: "\<not> nt_success STATUS_INVALID_PARAMETER" "\<not> nt_success STATUS_NOT_SUPPORTED"
  "\<not> nt_success STATUS_INTEGER_OVERFLOW" "\<not> nt_success STATUS_INSUFFICIENT_RESOURCES" "nt_success STATUS_SUCCESS"
  by code_simp+

lemma clean_dispatch: "code \<noteq> TGPIO_IOCTL_START_OUTPUT \<Longrightarrow> fails_clean (tgpio_evt_ioctl N rq code)"
  unfolding tgpio_evt_ioctl_def by (simp add: clean_handlers fails_clean_rules(3))

text \<open>
  C26. A request other than a start that fails has touched nothing: the device and the hardware
  are as before, and no byte was written.
\<close>

theorem win_dispatch_fails_clean:
  assumes "code \<noteq> TGPIO_IOCTL_START_OUTPUT"
    and "run_state (tgpio_evt_ioctl N rq code) s = ((status, written, reply), t)" "\<not> nt_success status"
  shows "t = s \<and> written = 0 \<and> reply = None"
  using clean_dispatch [OF assms(1), of N rq] assms(2,3) unfolding fails_clean_def
  by (metis fst_conv snd_conv prod.inject)

lemma win_dispatch_fails_clean_witness:
  "run_state (tgpio_evt_ioctl (sim_nt 1) \<lparr>rq_input = put_u32 7, rq_output_len = 0\<rparr> TGPIO_IOCTL_STOP_OUTPUT)
     (sim_win_sys sim_win_block idle_engine []) =
   ((STATUS_INVALID_PARAMETER, 0, None), sim_win_sys sim_win_block idle_engine [])"
proof -
  let ?m = "tgpio_evt_ioctl (sim_nt 1) \<lparr>rq_input = put_u32 7, rq_output_len = 0\<rparr> TGPIO_IOCTL_STOP_OUTPUT"
  let ?s = "sim_win_sys sim_win_block idle_engine []"
  have code: "TGPIO_IOCTL_STOP_OUTPUT \<noteq> TGPIO_IOCTL_START_OUTPUT" by code_simp
  have ix: "get_u32 (put_u32 7) 0 = 7" using get_put_u32 [of 0 "[]" 7 "[]"] by simp
  have codes: "TGPIO_IOCTL_STOP_OUTPUT \<noteq> TGPIO_IOCTL_GET_INFO" "TGPIO_IOCTL_STOP_OUTPUT \<noteq> TGPIO_IOCTL_CROSSTSTAMP"
    "TGPIO_IOCTL_STOP_OUTPUT \<noteq> TGPIO_IOCTL_SET_INPUT" "TGPIO_IOCTL_STOP_OUTPUT \<noteq> TGPIO_IOCTL_READ_CAPTURE"
    by code_simp+
  have r: "fst (result_of ?m ?s) = STATUS_INVALID_PARAMETER"
    using code codes ix by (simp add: tgpio_evt_ioctl_def tgpio_ioctl_stop_output_def tgpio_read_block_index_def
      retrieve_input_def sim_nt_def nt_success_def tgpio_block_from_index_def sim_win_sys_def zero_win_device_def)
  obtain st w rep t where run: "run_state ?m ?s = ((st, w, rep), t)" by (metis surj_pair)
  with r have st: "st = STATUS_INVALID_PARAMETER" by simp
  have "\<not> nt_success st" by (simp add: st nt_failures)
  from win_dispatch_fails_clean [OF code run this] show ?thesis using run st by simp
qed

section \<open>Requests as bytes\<close>

lemma request_roundtrip:
  "get_start_output (put_start_output r) = r" "get_set_input (put_set_input q) = q"
  "get_u32 (put_u32 w) 0 = w"
proof -
  have u: "get_u32 (put_u32 w @ z) 0 = w" for w z using get_put_u32 [of 0 "[]" w z] by simp
  have u': "get_u32 (x @ put_u32 w @ z) n = w" if "n = length x" for x w z n by (rule get_put_u32 [OF that])
  have v: "get_u64 (x @ y @ put_u64 w @ z) n = w" if "n = length x + length y" for x y w z n
    using get_put_u64 [of n "x @ y" w z] that by simp
  have v2: "get_u64 (x @ y @ a @ put_u64 w @ z) n = w" if "n = length x + length y + length a" for x y a w z n
    using get_put_u64 [of n "x @ y @ a" w z] that by simp
  have v3: "get_u64 (x @ y @ a @ c @ put_u64 w) n = w" if "n = length x + length y + length a + length c" for x y a c w n
    using get_put_u64 [of n "x @ y @ a @ c" w "[]"] that by simp
  show "get_start_output (put_start_output r) = r"
    by (cases r) (simp add: get_start_output_def put_start_output_def u v v2 v3)
  have u2: "get_u32 (x @ y @ put_u32 w @ z) n = w" if "n = length x + length y" for x y w z n
    using get_put_u32 [of n "x @ y" w z] that by simp
  show "get_set_input (put_set_input q) = q"
    by (cases q) (simp add: get_set_input_def put_set_input_def u u' u2)
  show "get_u32 (put_u32 w) 0 = w" using u [of w "[]"] by simp
qed

section \<open>A refused start\<close>

text \<open>
  The structs the tool sends arrive as they were: the driver reads from the bytes what the
  tool wrote.
\<close>

theorem win_request_roundtrip:
  "get_start_output (put_start_output r) = r \<and> get_set_input (put_set_input q) = q \<and>
   get_u32 (put_u32 w) 0 = w"
  by (simp only: request_roundtrip simp_thms)

text \<open>
  C23. A start with a half period above the limit is refused before the hardware is touched, yet
  the block is marked off: a waveform that was running keeps running, and the cleanup at
  unload, which goes by the mark, unmaps the registers without stopping it.
\<close>

theorem win_refused_start_keeps_running:
  assumes "nt_success (n_input N sizeof_win_start_output 32)" "b < wd_block_count (drv s)"
    and "wb_regs (wd_block (drv s) (unat b))" "U64_MAX div 4 < high"
  shows "let rq = \<lparr>rq_input = put_start_output \<lparr>so_block = b, so_high_cycles = high, so_low_cycles = 0,
           so_first_edge_art = edge\<rparr>, rq_output_len = 0\<rparr>;
         r = run_state (tgpio_evt_ioctl N rq TGPIO_IOCTL_START_OUTPUT) s; t = snd r;
         u = exec_m (win_cleanup_block N (unat b)) t
     in fst (fst r) = STATUS_INVALID_PARAMETER \<and> kst t = kst s \<and>
        wb_mode (wd_block (drv t) (unat b)) = TGPIO_WIN_BLOCK_OFF \<and>
        wb_hw_piv (wd_block (drv t) (unat b)) = wb_hw_piv (wd_block (drv s) (unat b)) \<and>
        kst u = snd (run_state (n_unmap_io N (unat b)) (kst s))"
proof -
  let ?r = "\<lparr>so_block = b, so_high_cycles = high, so_low_cycles = 0, so_first_edge_art = edge\<rparr>"
  have len: "length (put_start_output ?r) = 32" by (simp add: put_start_output_def)
  have nz: "high \<noteq> 0" using assms(4) by auto
  have ix: "tgpio_block_from_index (drv s) b = Some (unat b)"
    using assms(2,3) by (simp add: tgpio_block_from_index_def)
  have codes: "TGPIO_IOCTL_START_OUTPUT \<noteq> TGPIO_IOCTL_GET_INFO" "TGPIO_IOCTL_START_OUTPUT \<noteq> TGPIO_IOCTL_CROSSTSTAMP"
    "TGPIO_IOCTL_START_OUTPUT \<noteq> TGPIO_IOCTL_SET_INPUT" "TGPIO_IOCTL_START_OUTPUT \<noteq> TGPIO_IOCTL_READ_CAPTURE"
    by code_simp+
  have st: "tgpio_hw_start_output N (unat b) high high edge = ret STATUS_INVALID_PARAMETER"
    unfolding tgpio_hw_start_output_def using assms(4) by (intro if_P) simp
  define t where "t = s\<lparr>drv := (drv s)\<lparr>wd_block := (wd_block (drv s))(unat b := (wd_block (drv s) (unat b))
     \<lparr>wb_mode := TGPIO_WIN_BLOCK_OFF\<rparr>)\<rparr>\<rparr>"
  have run: "run_state (tgpio_evt_ioctl N \<lparr>rq_input = put_start_output ?r, rq_output_len = 0\<rparr> TGPIO_IOCTL_START_OUTPUT) s =
      ((STATUS_INVALID_PARAMETER, 0, None), t)"
  proof -
    have "wp (tgpio_evt_ioctl N \<lparr>rq_input = put_start_output ?r, rq_output_len = 0\<rparr> TGPIO_IOCTL_START_OUTPUT)
        (\<lambda>r u. r = (STATUS_INVALID_PARAMETER, 0, None) \<and> u = t) s"
      using codes assms(1) nz ix st
      by (simp add: tgpio_evt_ioctl_def tgpio_ioctl_start_output_def retrieve_input_def len request_roundtrip
          wp_simps t_def nt_failures)
    then show ?thesis by (simp add: wp_def split_beta prod_eq_iff)
  qed
  have "kst (exec_m (win_cleanup_block N (unat b)) t) = snd (run_state (n_unmap_io N (unat b)) (kst s))"
  proof -
    have "wp (win_cleanup_block N (unat b)) (\<lambda>_ u. kst u = snd (run_state (n_unmap_io N (unat b)) (kst s))) t"
      using assms(3) by (simp add: win_cleanup_block_def wp_simps wp_liftk t_def) (simp add: wp_def split_beta)
    then show ?thesis by (simp add: wp_def split_beta)
  qed
  then show ?thesis using run by (simp add: Let_def) (simp add: t_def)
qed

lemma win_refused_start_keeps_running_witness:
  "let rq = \<lparr>rq_input = put_start_output \<lparr>so_block = 0, so_high_cycles = U64_MAX, so_low_cycles = 0,
           so_first_edge_art = 0\<rparr>, rq_output_len = 0\<rparr>;
       r = run_state (tgpio_evt_ioctl (sim_nt 1) rq TGPIO_IOCTL_START_OUTPUT)
         (sim_win_sys running_win_block running_engine []);
       u = exec_m (win_cleanup_block (sim_nt 1) 0) (snd r)
   in e_ctl (w_engine (kst u) 0) = 25 \<and> wb_mode (wd_block (drv (snd r)) 0) = TGPIO_WIN_BLOCK_OFF"
proof -
  let ?s = "sim_win_sys running_win_block running_engine []"
  have "nt_success (n_input (sim_nt 1) sizeof_win_start_output 32)" by (simp add: sim_nt_def nt_failures)
  moreover have "(0 :: u32) < wd_block_count (drv ?s)" "wb_regs (wd_block (drv ?s) (unat (0 :: u32)))"
    by (simp_all add: sim_win_sys_def running_win_block_def sim_win_block_def)
  moreover have "U64_MAX div 4 < U64_MAX" by simp
  moreover have "n_unmap_io (sim_nt 1) 0 = State_Monad.return ()" "e_ctl (w_engine (kst ?s) 0) = 25"
    by (simp_all add: sim_nt_def sim_win_sys_def sim_world_def running_engine_def)
  ultimately show ?thesis
    using win_refused_start_keeps_running [of "sim_nt 1" 0 ?s U64_MAX 0] by (simp add: Let_def)
qed

section \<open>The level mirror over whole runs\<close>

text \<open>
  C22. Over any run of requests (inversions apart) and any edges, the tracked level of a block
  stays that of the pin.
\<close>

theorem win_level_mirrored:
  assumes "win_engine N b ctl compv piv level later" "win_reachable N later s t"
    and "win_mirrored (wd_block (drv s) b) (ctl (kst s)) (compv (kst s)) (piv (kst s)) (level (kst s))"
  shows "win_mirrored (wd_block (drv t) b) (ctl (kst t)) (compv (kst t)) (piv (kst t)) (level (kst t))"
  using win_engine.reachable_good [OF assms(1,2)] assms(3)
  by (simp add: win_engine.good_def [OF assms(1)])

lemma sim_win_mirrored:
  "win_mirrored running_win_block (e_ctl running_engine) (e_compv running_engine) (e_piv running_engine) (e_level running_engine)"
  by (simp add: win_mirrored_def running_win_block_def sim_win_block_def zero_win_block_def running_engine_def)

lemma sim_win_sys_simps [simp]:
  "wd_block (drv (sim_win_sys m e es)) b = m" "w_engine (kst (sim_win_sys m e es)) b = e"
  by (simp_all add: sim_win_sys_def sim_world_def)

lemma win_level_mirrored_witness:
  "let t = exec_m (tgpio_evt_ioctl (sim_nt (2 ^ 32)) \<lparr>rq_input = put_u32 0, rq_output_len = 0\<rparr> TGPIO_IOCTL_STOP_OUTPUT)
       (sim_win_sys running_win_block running_engine [2, 1]); e = w_engine (kst t) 0
   in win_mirrored (wd_block (drv t) 0) (e_ctl e) (e_compv e) (e_piv e) (e_level e)"
proof -
  let ?s = "sim_win_sys running_win_block running_engine [2, 1]"
  let ?m = "tgpio_evt_ioctl (sim_nt (2 ^ 32)) \<lparr>rq_input = put_u32 0, rq_output_len = 0\<rparr> TGPIO_IOCTL_STOP_OUTPUT"
  have "TGPIO_IOCTL_STOP_OUTPUT \<noteq> TGPIO_IOCTL_INVERT_OUTPUT" by code_simp
  then have "win_step (sim_nt (2 ^ 32)) (w_later 0) ?s (exec_m ?m ?s)"
    by (rule win_step.request) (rule prod.collapse [symmetric])
  from win_level_mirrored [OF winsim.win_engine_axioms [of 0] win_reachable.step [OF win_reachable.start this]]
  show ?thesis using sim_win_mirrored by (simp add: Let_def)
qed


lemmas win_run_defs =
  tgpio_hw_start_output_def [THEN wp_unfold] tgpio_hw_read_ctl_def [THEN wp_unfold] win_write_ctl_def [THEN wp_unfold]
  win_hw_flop_fold_def [THEN wp_unfold] win_write_compv_def [THEN wp_unfold] win_write_piv_def [THEN wp_unfold]
  win_readl_def [THEN wp_unfold] win_writel_def [THEN wp_unfold] tgpio_art_now_def [THEN wp_unfold]
  wp_liftk wp_State

lemma sim_win_clock:
  "tgpio_muldiv 1000000000 1 1 = 1000000000" "tgpio_muldiv 2000000 38400000 1000000000 = 76800"
  by code_simp+

lemma sim_win_compare: "combine_32 0 1999999998 = 1999999998"
  by code_simp

lemma sim_win_timing:
  "wd_tsc_adjust d = 0 \<Longrightarrow> wd_tsc_art_denominator d = 1 \<Longrightarrow> wd_tsc_art_numerator d = 1 \<Longrightarrow>
    tgpio_art_from_tsc d 1000000000 = 1000000000"
  "wd_art_frequency_hz d = 38400000 \<Longrightarrow>
    win_late_push d 1000000000 38400000 (win_first_slot d False 1000000000 x y 2000000000) = Some 1999999998"
  by (simp_all add: tgpio_art_from_tsc_def win_late_push_def win_first_slot_def tgpio_art_ns_to_cycles_def
      sim_win_clock Let_def)

lemma sim_start_runs: "wp (tgpio_hw_start_output (sim_nt r) 0 19200000 19200000 2000000000)
    (\<lambda>st t. st = STATUS_SUCCESS \<and> e_compv (w_engine (kst t) 0) = 1999999998 \<and> e_ctl (w_engine (kst t) 0) = 25)
    (sim_win_sys sim_win_block idle_engine [])"
  by (simp add: win_run_defs wp_simps sim_nt_def sim_readl_def sim_writel_def pass_def engine_read_def engine_write_def
     sim_win_sys_def sim_win_block_def zero_win_block_def sim_world_def idle_engine_def zero_win_device_def
     sim_win_timing sim_win_compare cong: wp_weak_cong)


section \<open>Load and unload\<close>

text \<open>A device the dispatch can serve: every indexable block is mapped and the clock rates are known.\<close>

definition win_device_ok :: "tgpio_win_device \<Rightarrow> bool" where
  "win_device_ok d \<longleftrightarrow> wd_block_count d \<in> {1, 2} \<and> (\<forall>i < unat (wd_block_count d). wb_regs (wd_block d i)) \<and>
     wd_art_frequency_hz d \<noteq> 0 \<and> wd_tsc_art_numerator d \<noteq> 0 \<and> wd_tsc_art_denominator d \<noteq> 0"

lemma wp_any_liftk: "(\<And>a k. Q a (s\<lparr>kst := k\<rparr>)) \<Longrightarrow> wp (liftk m) Q s"
  by (simp add: wp_def run_liftk)

lemma wp_map_block:
  assumes "\<And>k. Q STATUS_SUCCESS (s\<lparr>drv := (drv s)\<lparr>wd_block := (wd_block (drv s))(b := (wd_block (drv s) b)
        \<lparr>wb_phys := a, wb_mmio_size := z, wb_regs := True, wb_mode := TGPIO_WIN_BLOCK_OFF\<rparr>)\<rparr>, kst := k\<rparr>)"
    and "\<And>t. Q STATUS_INSUFFICIENT_RESOURCES t"
  shows "wp (win_map_block N b a z) Q s"
  using assms by (simp add: win_map_block_def wp_simps wp_liftk)

lemma wp_map_blocks:
  assumes "wd_art_frequency_hz (drv s) \<noteq> 0" "wd_tsc_art_numerator (drv s) \<noteq> 0" "wd_tsc_art_denominator (drv s) \<noteq> 0"
  shows "wp (win_map_blocks N a0 a1 z second) (\<lambda>r t. nt_success r \<longrightarrow> win_device_ok (drv t)) s"
  unfolding win_map_blocks_def wp_bind
  by (rule wp_map_block)
    (use assms in \<open>auto simp: nt_failures wp_simps win_device_ok_def less_2_cases_iff
       intro!: wp_map_block\<close>)

lemma wp_read_params:
  assumes "\<And>p k f. Q p (s\<lparr>drv := (drv s)\<lparr>wd_art_frequency_hz := f\<rparr>, kst := k\<rparr>)"
  shows "wp (win_read_params N) Q s"
proof -
  have same: "Q p (s\<lparr>kst := k\<rparr>)" for p k
    using assms [of p k "wd_art_frequency_hz (drv s)"] by simp
  show ?thesis
    by (simp add: win_read_params_def tgpio_reg_read_addr_def tgpio_reg_read_ulong_def wp_simps wp_liftk same assms)
qed


lemma wp_map_blocks_Q:
  assumes "wd_art_frequency_hz (drv s) \<noteq> 0" "wd_tsc_art_numerator (drv s) \<noteq> 0" "wd_tsc_art_denominator (drv s) \<noteq> 0"
    and "\<And>r t. (nt_success r \<Longrightarrow> win_device_ok (drv t)) \<Longrightarrow> Q r t"
  shows "wp (win_map_blocks N a0 a1 z second) Q s"
  by (rule wp_mono [OF wp_map_blocks [OF assms(1-3)]]) (rule assms(4), simp)

lemma wp_art_detect:
  assumes "\<And>d. wd_tsc_art_numerator d \<noteq> 0 \<Longrightarrow> wd_tsc_art_denominator d \<noteq> 0 \<Longrightarrow> Q STATUS_SUCCESS (s\<lparr>drv := d\<rparr>)"
    and "Q STATUS_NOT_SUPPORTED s"
  shows "wp (tgpio_art_detect N) Q s"
  using assms(2) by (auto simp: tgpio_art_detect_def wp_simps split_beta intro!: assms(1))

lemma wp_device_add: "wp (tgpio_evt_device_add N) (\<lambda>r t. nt_success r \<longrightarrow> win_device_ok (drv t)) s"
proof -
  have mapped: "wp (win_map_blocks N a0 a1 z second) (\<lambda>status. wp (if \<not> nt_success status then ret status
       else do { status \<leftarrow> liftk (n_queue_create N);
                 if \<not> nt_success status then ret status else liftk (n_symlink_create N) })
       (\<lambda>r t. nt_success r \<longrightarrow> win_device_ok (drv t))) u"
    if "wd_art_frequency_hz (drv u) \<noteq> 0" "wd_tsc_art_numerator (drv u) \<noteq> 0" "wd_tsc_art_denominator (drv u) \<noteq> 0"
    for u :: "'a nt" and a0 a1 z second
    by (rule wp_map_blocks_Q [OF that]) (auto simp: wp_bind wp_return intro!: wp_any_liftk)
  show ?thesis
    unfolding tgpio_evt_device_add_def wp_bind
    by (rule wp_any_liftk)
      (auto simp: wp_bind wp_return wp_upd_drv wp_win_get nt_failures split_beta
        intro!: wp_art_detect wp_read_params wp_any_liftk mapped)
qed

text \<open>
  A load that succeeds leaves a device the dispatch can serve: one or two blocks, each of
  them mapped, and a time base whose rates are not zero.
\<close>

theorem win_device_add_ok:
  assumes "run_state (tgpio_evt_device_add N) s = (status, t)" "nt_success status"
  shows "win_device_ok (drv t)"
  using wp_run [OF wp_device_add assms(1)] assms(2) by simp

lemma win_device_add_ok_witness:
  "win_device_ok (drv (exec_m (tgpio_evt_device_add (sim_nt 1)) (sim_win_sys sim_win_block idle_engine [])))"
proof -
  let ?m = "tgpio_evt_device_add (sim_nt 1)"
  let ?s = "sim_win_sys sim_win_block idle_engine []"
  have "wp ?m (\<lambda>r t. r = STATUS_SUCCESS) ?s"
    by (simp add: tgpio_evt_device_add_def [THEN wp_unfold] tgpio_art_detect_def [THEN wp_unfold] win_read_params_def [THEN wp_unfold]
      win_map_blocks_def [THEN wp_unfold] win_map_block_def [THEN wp_unfold]
      wp_simps wp_liftk sim_nt_def nt_failures cong: wp_weak_cong)
  then have "result_of ?m ?s = STATUS_SUCCESS" by (simp add: wp_def split_beta)
  then have run: "run_state ?m ?s = (STATUS_SUCCESS, exec_m ?m ?s)" by (metis prod.collapse)
  from win_device_add_ok [OF run nt_failures(5)] show ?thesis .
qed

subsection \<open>Frames\<close>

lemma keeps_win_field: "(\<And>m. f (g m) = f m) \<Longrightarrow> keeps (\<lambda>s. f (wd_block (drv s) c)) (win_upd_blk b g)"
  by (simp add: keeps_def win_upd_blk_def)

lemma keeps_win_mmio [frame]:
  "keeps drv (win_readl N b off)" "keeps drv (win_writel N b off v)"
  "keeps drv (tgpio_hw_read_ctl N b)" "keeps drv (win_write_ctl N b v)"
  "keeps drv (win_write_compv N b w)" "keeps drv (win_write_piv N b w)"
  by (auto simp: win_access_defs intro!: frame)

lemma keeps_win_compv_loop: "keeps drv (hw_read_compv_loop n N b hi)"
  by (induction n arbitrary: hi) (auto intro!: frame)

lemma keeps_win_reads [frame]: "keeps drv (tgpio_hw_read_compv N b)" "keeps drv (tgpio_art_now N)"
  "keeps drv (tgpio_art_crosststamp N)"
  by (auto simp: tgpio_hw_read_compv_def tgpio_art_now_def tgpio_art_crosststamp_def intro!: frame keeps_win_compv_loop)

text \<open>What the hardware layer never writes: the mapping and the mode of any block.\<close>

lemma keeps_win_regs:
  "keeps (\<lambda>s. (wb_regs (wd_block (drv s) c), wb_mode (wd_block (drv s) c))) (tgpio_hw_stop_output N b)"
  "keeps (\<lambda>s. (wb_regs (wd_block (drv s) c), wb_mode (wd_block (drv s) c))) (tgpio_hw_set_input N b en bits)"
  by (auto simp: tgpio_hw_stop_output_def win_hw_flop_fold_def tgpio_hw_set_input_def
      intro!: frame keeps_win_mmio [THEN keeps_drvD] keeps_win_reads [THEN keeps_drvD] keeps_win_field)

lemma wp_cleanup_block:
  assumes "\<And>t. \<not> wb_regs (wd_block (drv t) b) \<Longrightarrow>
      (\<And>c. c \<noteq> b \<Longrightarrow> wb_regs (wd_block (drv t) c) = wb_regs (wd_block (drv s) c)) \<Longrightarrow> Q () t"
  shows "wp (win_cleanup_block N b) Q s"
proof -
  have k: "keeps (\<lambda>s c. wb_regs (wd_block (drv s) c)) m" if "\<And>c. keeps (\<lambda>s. (wb_regs (wd_block (drv s) c), wb_mode (wd_block (drv s) c))) m"
    for m :: "('a nt, unit) state"
    using that by (simp add: keeps_def fun_eq_iff)
  have last: "wp (liftk (n_unmap_io N b)) (\<lambda>_. wp (win_upd_blk b (wb_regs_update (\<lambda>_. False))) Q) t"
    if "\<And>c. wb_regs (wd_block (drv t) c) = wb_regs (wd_block (drv s) c)" for t
    by (rule wp_any_liftk) (auto simp: wp_simps that intro!: assms)
  show ?thesis
    unfolding win_cleanup_block_def wp_bind wp_win_get_blk wp_if wp_return wp_when_m
    using assms [of s] last
    by (auto intro!: wp_keeps [OF k [OF keeps_win_regs(1)]] wp_keeps [OF k [OF keeps_win_regs(2)]] simp: fun_eq_iff)
qed

text \<open>
  The cleanup leaves no block mapped, and running it again does nothing.
\<close>

theorem win_cleanup_unmaps:
  "let t = exec_m (tgpio_evt_device_cleanup N) s in
     \<not> wb_regs (wd_block (drv t) 0) \<and> \<not> wb_regs (wd_block (drv t) 1) \<and> exec_m (tgpio_evt_device_cleanup N) t = t"
proof -
  have two: "[0..<2] = [0, Suc 0]" by (simp add: upt_rec)
  have "wp (tgpio_evt_device_cleanup N) (\<lambda>_ t. \<not> wb_regs (wd_block (drv t) 0) \<and> \<not> wb_regs (wd_block (drv t) 1)) s"
    unfolding tgpio_evt_device_cleanup_def two for_each.simps wp_bind wp_return
    by (rule wp_cleanup_block, rule wp_cleanup_block) simp
  from wp_exec [OF this] have off: "\<not> wb_regs (wd_block (drv (exec_m (tgpio_evt_device_cleanup N) s)) 0)"
    "\<not> wb_regs (wd_block (drv (exec_m (tgpio_evt_device_cleanup N) s)) 1)" by simp_all
  have "wp (tgpio_evt_device_cleanup N) (\<lambda>_ u. u = t) t"
    if "\<not> wb_regs (wd_block (drv t) 0)" "\<not> wb_regs (wd_block (drv t) 1)" for t
    using that unfolding tgpio_evt_device_cleanup_def two for_each.simps
    by (simp add: wp_simps win_cleanup_block_def)
  from wp_exec [OF this [OF off]] off show ?thesis by (simp add: Let_def)
qed

end
