(* ===== verification/Win_Tool_Props.thy ===== *)
theory Win_Tool_Props
  imports Win_Tool Win_Props
begin

text \<open>Properties of the command-line tool, alone and on top of the driver.\<close>

section \<open>The tool\<close>

lemma digit_not_special: "digit_of c \<noteq> None \<Longrightarrow> \<not> is_space c \<and> c \<noteq> CHR ''-'' \<and> c \<noteq> CHR ''+''"
  by (auto simp: digit_of_def is_space_def Let_def split: if_splits)

lemma strtou_decimal:
  assumes "r = [] \<or> digit_of (hd r) = None"
  shows "strtou m (decimal n @ r) = Some (if m < n then m else n, r)"
proof -
  obtain c cs where c: "decimal n = c # cs" using decimal_head(1) [of n] by (cases "decimal n") auto
  have d: "digit_of c \<noteq> None" using decimal_head(2) [of n] c by simp
  have "dropWhile is_space (decimal n @ r) = decimal n @ r" using digit_not_special [OF d] c by simp
  moreover have "hd (decimal n @ r) = c" "decimal n @ r \<noteq> []" using c by simp_all
  ultimately show ?thesis
    using digit_not_special [OF d] d read_decimal [OF assms, of n] by (simp add: strtou_def Let_def)
qed

lemma parse_period_decimal:
  assumes "n < 2 ^ 64"
  shows "parse_period_ns (decimal n @ ''s'') = of_nat (n * 1000000000)"
    "parse_period_ns (decimal n @ ''ms'') = of_nat (n * 1000000)"
    "parse_period_ns (decimal n @ ''us'') = of_nat (n * 1000)"
    "parse_period_ns (decimal n @ ''ns'') = of_nat n" "parse_period_ns (decimal n) = of_nat n"
proof -
  have nd: "digit_of (CHR ''s'') = None" "digit_of (CHR ''m'') = None" "digit_of (CHR ''u'') = None"
    "digit_of (CHR ''n'') = None" by (simp_all add: digit_of_def)
  have n: "\<not> 2 ^ 64 - 1 < n" using assms by simp
  have p: "parse_period_ns (decimal n @ r) = (let value = of_nat n in
       if r = ''s'' then value * 1000000000 else if r = ''ms'' then value * 1000000
       else if r = ''us'' then value * 1000 else if r = ''ns'' \<or> r = [] then value else 0)"
    if "r = [] \<or> digit_of (hd r) = None" for r
    unfolding parse_period_ns_def strtou_decimal [OF that] if_not_P [OF n] by simp
  show "parse_period_ns (decimal n @ ''s'') = of_nat (n * 1000000000)"
    "parse_period_ns (decimal n @ ''ms'') = of_nat (n * 1000000)"
    "parse_period_ns (decimal n @ ''us'') = of_nat (n * 1000)"
    "parse_period_ns (decimal n @ ''ns'') = of_nat n"
    by (subst p; simp add: nd)+
  show "parse_period_ns (decimal n) = of_nat n" using p [of "[]"] by simp
qed

text \<open>
  A period on the command line is its number times its unit, modulo 2 ^ 64: seconds from
  18446744074 on wrap to a short period instead of being refused.
\<close>

theorem parse_period_exact:
  assumes "n < 2 ^ 64"
  shows "parse_period_ns (decimal n @ ''s'') = of_nat (n * 1000000000) \<and>
    parse_period_ns (decimal n @ ''ms'') = of_nat (n * 1000000) \<and>
    parse_period_ns (decimal n @ ''us'') = of_nat (n * 1000) \<and>
    parse_period_ns (decimal n @ ''ns'') = of_nat n \<and> parse_period_ns (decimal n) = of_nat n"
  by (simp only: parse_period_decimal [OF assms] simp_thms)

lemma parse_period_exact_witness: "parse_period_ns (decimal 18446744074 @ ''s'') = 290448384"
  using parse_period_exact [of 18446744074] by simp

text \<open>
  An aligned output starts on a whole second that is at least 100 ms and less than 1.1 s
  ahead.
\<close>

theorem align_target_bounds:
  assumes "uint systime < 18446744073689551616"
  shows "uint (align_target systime) mod 10000000 = 0 \<and>
    uint systime + 1000000 \<le> uint (align_target systime) \<and>
    uint (align_target systime) < uint systime + 11000000"
proof -
  let ?s = "uint systime" and ?q = "uint systime div 10000000"
  have d: "10000000 * ?q \<le> ?s" "?s < 10000000 * (?q + 1)" by simp_all
  define w where "w = (systime div HNS_PER_SEC + 1) * HNS_PER_SEC"
  have "0 \<le> ?q" by (simp add: pos_imp_zdiv_nonneg_iff)
  then have w: "uint w = 10000000 * (?q + 1)"
    using d assms by (simp add: w_def uint_mult64 uint_add64 uint_div)
  have le: "systime \<le> w" using d by (simp add: word_le_def w)
  have gap: "uint (w - systime) = 10000000 * (?q + 1) - ?s" using uint_sub64 [OF le] w by simp
  have t: "uint (align_target systime) =
      (if 10000000 * (?q + 1) - ?s < 1000000 then 10000000 * (?q + 2) else 10000000 * (?q + 1))"
  proof -
    have tenth: "HNS_PER_SEC div 10 = (1000000 :: u64)" by simp
    have "align_target systime = (if w - systime < 1000000 then w + HNS_PER_SEC else w)"
      unfolding align_target_def Let_def w_def tenth ..
    moreover have "uint (w + HNS_PER_SEC) = 10000000 * (?q + 2)"
      using d assms w by (simp add: uint_add64)
    moreover have "(w - systime < 1000000) = (10000000 * (?q + 1) - ?s < 1000000)"
      unfolding word_less_def gap by simp
    ultimately show ?thesis using w by (simp only: simp_thms split: if_splits)
  qed
  show ?thesis unfolding t using d by simp
qed

lemma align_target_bounds_witness: "uint (align_target 133444555666777888) mod 10000000 = 0"
  using align_target_bounds [of 133444555666777888] by simp

lemma keeps_win_field': "keeps drv m \<Longrightarrow> keeps (\<lambda>s. f (wd_block (drv s) c)) m"
  by (simp add: keeps_def)

text \<open>A successful start has recorded the two half periods.\<close>

lemma wp_start_cycles:
  assumes "\<And>r t. r \<in> {STATUS_SUCCESS, STATUS_INVALID_PARAMETER, STATUS_INTEGER_OVERFLOW} \<Longrightarrow>
      (r = STATUS_SUCCESS \<Longrightarrow> wb_high_cycles (wd_block (drv t) b) = high \<and> wb_low_cycles (wd_block (drv t) b) = low) \<Longrightarrow>
      Q r t"
  shows "wp (tgpio_hw_start_output N b high low edge) Q s"
proof -
  have fin: "wp (win_write_ctl N b v) (\<lambda>_ t. Q STATUS_SUCCESS t) u"
    if "wb_high_cycles (wd_block (drv u) b) = high" "wb_low_cycles (wd_block (drv u) b) = low" for v u
    by (rule wp_keeps [OF keeps_win_mmio(4)]) (use that in \<open>auto intro!: assms\<close>)
  have prog: "wp (win_write_ctl N b c1) (\<lambda>_. wp (win_write_piv N b p) (\<lambda>_. wp (win_write_compv N b cv)
      (\<lambda>_. wp (win_upd_blk b (\<lambda>m. m\<lparr>wb_high_cycles := high, wb_low_cycles := low, wb_hw_piv := p, wb_ckpt_compv := cv\<rparr>))
      (\<lambda>_. wp (win_write_ctl N b c2) (\<lambda>_. Q STATUS_SUCCESS))))) u" for c1 c2 p cv u
    by (rule wp_any, rule wp_any, rule wp_any, unfold wp_win_upd_blk, rule fin) simp_all
  show ?thesis
  proof (cases "high = 0 \<or> low = 0 \<or> U64_MAX div 4 < high \<or> U64_MAX div 4 < low")
    case True
    show ?thesis unfolding tgpio_hw_start_output_def if_P [OF True] wp_return by (rule assms) simp_all
  next
    case False
    show ?thesis
      unfolding tgpio_hw_start_output_def if_not_P [OF False] wp_bind wp_return wp_case_option
      by (rule wp_any, rule wp_any, rule wp_any, rule wp_any, rule wp_any, rule wp_any, rule wp_any, unfold wp_win_get wp_win_get_blk)
        (simp only: wp_bind wp_return split: option.split, auto intro!: assms prog)
  qed
qed


lemma wp_get_clock:
  assumes "Q None s"
    and "\<And>info xt k. wi_art_frequency_hz info = wd_art_frequency_hz (drv s) \<Longrightarrow> Q (Some (info, xt)) (s\<lparr>kst := k\<rparr>)"
    and "\<And>k. Q None (s\<lparr>kst := k\<rparr>)"
  shows "wp (get_clock N) Q s"
proof -
  have code: "TGPIO_IOCTL_CROSSTSTAMP \<noteq> TGPIO_IOCTL_GET_INFO" by code_simp
  have xt: "wp (get_crosststamp N) (\<lambda>x. Q (map_option (\<lambda>xt. (info, xt)) x)) s"
    if "wi_art_frequency_hz info = wd_art_frequency_hz (drv s)" for info
    unfolding get_crosststamp_def tgpio_ioctl_def tgpio_evt_ioctl_def tgpio_ioctl_crosststamp_def
      tgpio_art_crosststamp_def wp_bind wp_return wp_if
    using code assms that
    by (auto simp: wp_simps split: sum.split intro!: wp_any_liftk)
  show ?thesis
    unfolding get_clock_def get_info_def tgpio_ioctl_def tgpio_evt_ioctl_def tgpio_ioctl_get_info_def
    using assms(1) xt by (auto simp: wp_simps wp_return_fun nt_failures split: sum.split)
qed


text \<open>
  C27. When the output command reports success, the block it names exists, is in output mode and
  runs with equal halves of half the requested period in ART cycles.
\<close>

theorem cmd_output_starts:
  assumes "run_state (cmd_output N block arg align) s = (0, t)"
  shows "let c = muldiv_u64 (parse_period_ns arg) (wd_art_frequency_hz (drv s)) 1000000000 div 2;
      m = wd_block (drv t) (unat block) in
    block < wd_block_count (drv s) \<and> c \<noteq> 0 \<and>
    wb_mode m = TGPIO_WIN_BLOCK_OUTPUT \<and> wb_high_cycles m = c \<and> wb_low_cycles m = c"
proof -
  define p where "p = muldiv_u64 (parse_period_ns arg) (wd_art_frequency_hz (drv s)) 1000000000"
  let ?R = "\<lambda>r t. r = (0 :: int) \<longrightarrow> (let m = wd_block (drv t) (unat block) in
    block < wd_block_count (drv s) \<and> p div 2 \<noteq> 0 \<and>
    wb_mode m = TGPIO_WIN_BLOCK_OUTPUT \<and> wb_high_cycles m = p div 2 \<and> wb_low_cycles m = p div 2)"
  have start: "wp (tgpio_ioctl N TGPIO_IOCTL_START_OUTPUT (put_start_output (output_request info xt block p align)) 0)
      (\<lambda>r. wp (ret (if r = None then 1 else 0)) ?R) u"
    if p2: "2 \<le> p" and u: "wd_block_count (drv u) = wd_block_count (drv s)" for info xt u
  proof -
    have half: "p div 2 \<noteq> 0" using p2 by (simp add: word_neq_0_conv word_less_def word_le_def uint_div)
    have codes: "TGPIO_IOCTL_START_OUTPUT \<noteq> TGPIO_IOCTL_GET_INFO" "TGPIO_IOCTL_START_OUTPUT \<noteq> TGPIO_IOCTL_CROSSTSTAMP"
      "TGPIO_IOCTL_START_OUTPUT \<noteq> TGPIO_IOCTL_SET_INPUT" "TGPIO_IOCTL_START_OUTPUT \<noteq> TGPIO_IOCTL_READ_CAPTURE"
      by code_simp+
    have ix: "tgpio_block_from_index (drv u) block = Some b \<Longrightarrow> b = unat block \<and> block < wd_block_count (drv s)" for b
      using u by (auto simp: tgpio_block_from_index_def split: if_splits)
    have req: "so_block (output_request info xt block p align) = block"
      "so_high_cycles (output_request info xt block p align) = p div 2"
      "so_low_cycles (output_request info xt block p align) = p div 2"
      by (simp_all add: output_request_def)
    show ?thesis
      unfolding tgpio_ioctl_def tgpio_evt_ioctl_def
      using codes half
      by (auto simp: tgpio_ioctl_start_output_def retrieve_input_def Let_def wp_simps wp_return_fun request_roundtrip
          req nt_failures dest!: ix split: option.split intro!: wp_start_cycles)
  qed
  have "wp (cmd_output N block arg align) ?R s"
    unfolding cmd_output_def
    by (auto simp: Let_def wp_simps not_less p_def [symmetric] intro!: wp_get_clock start [unfolded Let_def])
  from wp_run [OF this assms] show ?thesis by (simp add: Let_def p_def)
qed

lemma sim_tool_values:
  "muldiv_u64 1000000000 38400000 1000000000 = 38400000"
  "tgpio_muldiv 50000000 38400000 1000000000 = 1920000"
  by code_simp+

lemma sim_period: "parse_period_ns ''1s'' = 1000000000"
proof -
  have "decimal 1 = ''1''" by (simp add: decimal.simps) code_simp
  then show ?thesis using parse_period_decimal(1) [of 1] by simp
qed

lemma sim_auto_start:
  "wd_art_frequency_hz d = 38400000 \<Longrightarrow>
    win_late_push d 1000000000 38400000 (win_first_slot d False 1000000000 x y 0) = Some 1001919998"
  by (simp add: win_late_push_def win_first_slot_def tgpio_art_ns_to_cycles_def sim_win_clock sim_tool_values Let_def)

lemma sim_start_auto: "wp (tgpio_hw_start_output (sim_nt r) 0 19200000 19200000 0)
    (\<lambda>st t. st = STATUS_SUCCESS) (sim_win_sys sim_win_block idle_engine [])"
  by (simp add: win_run_defs wp_simps sim_nt_def sim_readl_def sim_writel_def pass_def engine_read_def engine_write_def
     sim_win_sys_def sim_win_block_def zero_win_block_def sim_world_def idle_engine_def zero_win_device_def
     sim_win_timing sim_auto_start cong: wp_weak_cong)

lemma cmd_output_runs:
  "wp (cmd_output (sim_nt r) 0 ''1s'' False) (\<lambda>r _. r = 0) (sim_win_sys sim_win_block idle_engine [])"
proof -
  let ?s = "sim_win_sys sim_win_block idle_engine []"
  have codes: "TGPIO_IOCTL_START_OUTPUT \<noteq> TGPIO_IOCTL_GET_INFO" "TGPIO_IOCTL_START_OUTPUT \<noteq> TGPIO_IOCTL_CROSSTSTAMP"
    "TGPIO_IOCTL_START_OUTPUT \<noteq> TGPIO_IOCTL_SET_INPUT" "TGPIO_IOCTL_START_OUTPUT \<noteq> TGPIO_IOCTL_READ_CAPTURE"
    "TGPIO_IOCTL_CROSSTSTAMP \<noteq> TGPIO_IOCTL_GET_INFO"
    by code_simp+
  have size': "length (put_start_output q) = 32" for q by (simp add: put_start_output_def)
  have ix: "tgpio_block_from_index (drv ?s) 0 = Some 0" "wd_art_frequency_hz (drv ?s) = 38400000"
    by (simp_all add: tgpio_block_from_index_def sim_win_sys_def sim_win_block_def)
  have same: "?s\<lparr>kst := kst ?s\<rparr> = ?s" by simp
  have io: "n_input (sim_nt r) 32 32 = STATUS_SUCCESS" "n_output (sim_nt r) n n = STATUS_SUCCESS"
    "n_rdtsc (sim_nt r) = gets w_art" "n_systime (sim_nt r) = gets w_real" for n by (simp_all add: sim_nt_def)
  show ?thesis
    using sim_start_auto [of r]
    by (simp add: cmd_output_def get_clock_def get_info_def get_crosststamp_def tgpio_ioctl_def tgpio_evt_ioctl_def
      tgpio_ioctl_get_info_def tgpio_ioctl_crosststamp_def tgpio_art_crosststamp_def tgpio_ioctl_start_output_def
      retrieve_input_def retrieve_output_def sim_tool_values sim_period codes wp_simps wp_liftk wp_return_fun request_roundtrip
      output_request_def size' ix io nt_failures Let_def cong: wp_weak_cong)
     (erule wp_mono, simp add: wp_simps nt_failures)
qed

lemma cmd_output_starts_witness:
  "let t = exec_m (cmd_output (sim_nt 1) 0 ''1s'' False) (sim_win_sys sim_win_block idle_engine [])
   in wb_mode (wd_block (drv t) 0) = TGPIO_WIN_BLOCK_OUTPUT \<and> wb_high_cycles (wd_block (drv t) 0) = 19200000"
proof -
  let ?s = "sim_win_sys sim_win_block idle_engine []"
  let ?m = "cmd_output (sim_nt 1) 0 ''1s'' False"
  have freq: "wd_art_frequency_hz (drv ?s) = 38400000" by (simp add: sim_win_sys_def)
  have "result_of ?m ?s = 0" using cmd_output_runs [of 1] by (simp add: wp_def split_beta)
  then have run: "run_state ?m ?s = (0, exec_m ?m ?s)" by (metis prod.collapse)
  show ?thesis
    using cmd_output_starts [OF run] by (simp add: Let_def sim_tool_values sim_period freq)
qed

end
