(* ===== verification/Status_Props.thy ===== *)
theory Status_Props
  imports Status Mirror_Props
begin

text \<open>
  Reading the driver's files changes nothing, and the experiment record is what it claims to be:
  register values bracketed by two snapshots, in a line whose numbers read back.
\<close>

section \<open>Reading only observes\<close>

lemmas status_defs = tgpio_status_show_def status_header_def status_block_def status_output_def status_waveform_def
  tgpio_log_verbose_def tgpio_log_activity_on_def

lemmas record_defs = tgpio_qerr_snapshot_show_def snapshot_art_def

lemma keeps_status: "keeps drv (tgpio_status_show K)" "keeps drv (tgpio_qerr_snapshot_show K)"
  by (auto simp: status_defs record_defs Let_def intro!: frame)

context board
begin

lemma advances_any_read: "advances (tgpio_readl K c off)" "advances (tgpio_read_ctl K c)"
  by (simp_all add: tgpio_read_ctl_def tgpio_readl_def advances_liftk read_later)

lemma advances_any_compv: "advances (tgpio_read_compv K c)"
proof -
  have "advances (tgpio_read_compv_loop n K c hi)" for n hi
  proof (induction n arbitrary: hi)
    case 0
    show ?case by (simp add: advances_def later_refl)
  qed (auto intro!: advances_intros advances_any_read)
  then show ?thesis by (auto simp: tgpio_read_compv_def intro!: advances_intros advances_any_read)
qed

lemma advances_any_phase: "advances (tgpio_hw_periodic_phase_get K c g h)"
  by (auto simp: tgpio_hw_periodic_phase_get_def tgpio_hw_phase_refine_def
      intro!: advances_intros advances_convert advances_compare advances_delta advances_now advances_any_compv)

lemma advances_status: "advances (tgpio_status_show K)"
  by (auto simp: status_defs tgpio_phc_params_get_def tgpio_output_desired_get_def tgpio_clock_uses_model_def
      intro!: advances_intros advances_any_phase advances_liftk base_later advances_kernel advances_compare)

lemma advances_qerr: "advances (tgpio_qerr_snapshot_show K)"
  by (auto simp: record_defs intro!: advances_intros advances_any_read advances_any_compv advances_kernel)

end

section \<open>The record\<close>

text \<open>The numbers of a record: \<open>n\<close> numbers with a separator after each.\<close>

primrec read_fields :: "nat \<Rightarrow> string \<Rightarrow> int list \<times> string" where
  "read_fields 0 cs = ([], cs)"
| "read_fields (Suc n) cs = (case read_int cs of (i, r) \<Rightarrow>
     (case read_fields n (tl r) of (is, r') \<Rightarrow> (i # is, r')))"

lemma separators: "digit_of CHR '','' = None" "digit_of (CHR 10) = None"
  by (simp_all add: digit_of_def)

lemma read_fields_decimal:
  "digit_of c = None \<Longrightarrow> read_fields (Suc n) (decimal m @ c # cs) = apfst ((#) (int m)) (read_fields n cs)"
  "digit_of c = None \<Longrightarrow> read_fields (Suc n) (print_int i @ c # cs) = apfst ((#) i) (read_fields n cs)"
  by (simp_all add: read_int_decimal read_print_int apfst_def map_prod_def split: prod.split)

lemma read_qerr_line:
  "read_fields 9 (qerr_line a r q a' r' q' c p w) =
    ([uint a, sint r, uint q, uint a', sint r', uint q', uint c, uint p, uint w], [])"
proof -
  have n: "(9 :: nat) = Suc (Suc (Suc (Suc (Suc (Suc (Suc (Suc (Suc 0))))))))" by simp
  show ?thesis unfolding n qerr_line_def
    by (simp only: append_assoc append_Cons append_Nil read_fields_decimal separators read_fields.simps(1) apfst_conv)
     simp
qed

text \<open>The ART value of a snapshot: its own, or its realtime value inverted at a later time.\<close>

definition art_of :: "'k kernel \<Rightarrow> ('k \<Rightarrow> 'k \<Rightarrow> bool) \<Rightarrow> 'k \<Rightarrow> system_time_snapshot \<Rightarrow> u64 \<Rightarrow> bool" where
  "art_of K later k sn a \<longleftrightarrow> (case tgpio_snapshot_art_cycles K sn of
     Some c \<Rightarrow> a = c
   | None \<Rightarrow> (\<exists>k'. later k k' \<and> fst (run_state (k_real_to_art K (ss_real sn)) k') = Some a))"

text \<open>An engine whose interval can be read back.\<close>

locale readback = toggle_engine K b ctl compv piv level later
  for K :: "'k kernel" and b :: nat
    and ctl :: "'k \<Rightarrow> u32" and compv :: "'k \<Rightarrow> u64" and piv :: "'k \<Rightarrow> u64"
    and level :: "'k \<Rightarrow> bool" and later :: "'k \<Rightarrow> 'k \<Rightarrow> bool" +
  assumes read_piv_lo: "later k (snd (run_state (k_readl K b TGPIOPIV31_0) k)) \<and>
      fst (run_state (k_readl K b TGPIOPIV31_0) k) = lower_32_bits (piv k)"
    and read_piv_hi: "later k (snd (run_state (k_readl K b TGPIOPIV63_32) k)) \<and>
      fst (run_state (k_readl K b TGPIOPIV63_32) k) = upper_32_bits (piv k)"
begin

lemma wp_service:
  assumes "\<And>k. later k (snd (run_state m k))"
    and "\<And>k'. later (kst s) k' \<Longrightarrow> Q (fst (run_state m (kst s))) (s\<lparr>kst := k'\<rparr>)"
  shows "wp (liftk m) Q s"
  using assms(2) [OF assms(1)] by (simp add: wp_def run_liftk)

lemma wp_art_of:
  assumes "\<And>r k'. later (kst s) k' \<Longrightarrow> (\<And>a. r = Some a \<Longrightarrow> art_of K later (kst s) sn a) \<Longrightarrow> Q r (s\<lparr>kst := k'\<rparr>)"
  shows "wp (snapshot_art K sn) Q s"
proof (cases "tgpio_snapshot_art_cycles K sn")
  case None
  show ?thesis unfolding snapshot_art_def ktime_real_to_art_def None option.case
    by (rule wp_service [OF to_art_later], rule assms) (use None later_refl in \<open>auto simp: art_of_def\<close>)
next
  case (Some c)
  then show ?thesis using assms [OF later_refl, of "Some c"] by (simp add: snapshot_art_def wp_simps art_of_def)
qed

lemma art_of_mono: "later k k' \<Longrightarrow> art_of K later k' sn a \<Longrightarrow> art_of K later k sn a"
  by (auto simp: art_of_def intro: later_trans split: option.splits)

lemma wp_read_piv:
  assumes "\<And>k'. later (kst s) k' \<Longrightarrow>
    wp (f (lower_32_bits (piv (kst s))) (upper_32_bits (piv (kst s)))) Q (s\<lparr>kst := k'\<rparr>)"
  shows "wp (do { lo \<leftarrow> tgpio_readl K b TGPIOPIV31_0; hi \<leftarrow> tgpio_readl K b TGPIOPIV63_32; f lo hi }) Q s"
  unfolding tgpio_readl_def
proof (rule wp_bindI, rule wp_service, rule read_piv_lo [THEN conjunct1], rule wp_bindI, rule wp_service,
    rule read_piv_hi [THEN conjunct1])
  fix k1 k2 assume k: "later (kst s) k1" "later (kst (s\<lparr>kst := k1\<rparr>)) k2"
  then have "later (kst s) k2" by (auto intro: later_trans)
  then show "wp (f (fst (run_state (k_readl K b TGPIOPIV31_0) (kst s)))
      (fst (run_state (k_readl K b TGPIOPIV63_32) (kst (s\<lparr>kst := k1\<rparr>))))) Q (s\<lparr>kst := k1\<rparr>\<lparr>kst := k2\<rparr>)"
    using assms later_ctl_piv [OF k(1)] by (simp add: read_piv_lo read_piv_hi)
qed

text \<open>
  The record was taken from moment \<open>k\<close> to moment \<open>k'\<close>: the first snapshot at \<open>k\<close>, the
  compare at a moment after it and the second snapshot at a moment after that.
\<close>

abbreviation snap :: "'k \<Rightarrow> system_time_snapshot" where
  "snap k \<equiv> fst (run_state (k_get_snapshot K) k)"

definition recorded :: "'k \<Rightarrow> 'k \<Rightarrow> string \<Rightarrow> bool" where
  "recorded k k' line \<longleftrightarrow> (\<exists>k1 k2 a a'. later k k1 \<and> later k1 k2 \<and> later k2 k' \<and>
      art_of K later k (snap k) a \<and> art_of K later k2 (snap k2) a' \<and>
      line = qerr_line a (ss_real (snap k)) (ss_clock_was_set_seq (snap k)) a' (ss_real (snap k2))
        (ss_clock_was_set_seq (snap k2)) (compv k1) (piv k) (ctl k))"

lemma recordedI:
  assumes "later k k1" "later k1 k2" "later k2 k3" "later k3 k4" "later k4 k'"
    and "art_of K later k3 (snap k) a" "art_of K later k4 (snap k2) a'"
  shows "recorded k k' (qerr_line a (ss_real (snap k)) (ss_clock_was_set_seq (snap k)) a' (ss_real (snap k2))
    (ss_clock_was_set_seq (snap k2)) (compv k1) (piv k) (ctl k))"
proof -
  have l: "later k2 k4" "later k2 k'" "later k k3" using assms(1-5) later_trans by blast+
  show ?thesis unfolding recorded_def
    using assms(1,2) l(2) art_of_mono [OF l(3) assms(6)] art_of_mono [OF l(1) assms(7)] by blast
qed

lemma wp_arts:
  assumes "later k k1" "later k1 k2" "later k2 (kst u)"
  shows "wp (do {
      art_before \<leftarrow> snapshot_art K (snap k);
      (case art_before of None \<Rightarrow> ret (Inl e)
       | Some a \<Rightarrow> do {
           art_after \<leftarrow> snapshot_art K (snap k2);
           ret (case art_after of None \<Rightarrow> Inl e
             | Some a' \<Rightarrow> Inr (qerr_line a (ss_real (snap k)) (ss_clock_was_set_seq (snap k)) a' (ss_real (snap k2))
                 (ss_clock_was_set_seq (snap k2)) (compv k1) (piv k) (ctl k)))
         })
    }) (\<lambda>r t. \<forall>line. r = Inr line \<longrightarrow> recorded k (kst t) line) u"
proof (rule wp_bindI, rule wp_art_of)
  fix r k4 assume r: "later (kst u) k4" "\<And>a. r = Some a \<Longrightarrow> art_of K later (kst u) (snap k) a"
  show "wp (case r of None \<Rightarrow> ret (Inl e)
       | Some a \<Rightarrow> do {
           art_after \<leftarrow> snapshot_art K (snap k2);
           ret (case art_after of None \<Rightarrow> Inl e
             | Some a' \<Rightarrow> Inr (qerr_line a (ss_real (snap k)) (ss_clock_was_set_seq (snap k)) a' (ss_real (snap k2))
                 (ss_clock_was_set_seq (snap k2)) (compv k1) (piv k) (ctl k)))
         }) (\<lambda>r t. \<forall>line. r = Inr line \<longrightarrow> recorded k (kst t) line) (u\<lparr>kst := k4\<rparr>)"
  proof (cases r)
    case (Some a)
    show ?thesis unfolding Some option.case
      by (rule wp_bindI, rule wp_art_of)
        (use recordedI [OF assms r(1) _ r(2) [OF Some]] in \<open>auto simp: wp_simps split: option.splits\<close>)
  qed (simp add: wp_simps)
qed

lemma wp_qerr:
  assumes b: "b = 0"
  shows "wp (tgpio_qerr_snapshot_show K) (\<lambda>r t. \<forall>line. r = Inr line \<longrightarrow> recorded (kst s) (kst t) line) s"
proof (cases "blk_mode (blocks (drv s) 0) = TGPIO_MODE_OUTPUT")
  case True
  show ?thesis
    unfolding tgpio_qerr_snapshot_show_def wp_bind wp_get_blk tgpio_get_realtime_snapshot_def
    apply (simp only: True b not_True_eq_False if_False simp_thms)
    apply (subst b [symmetric])+
    apply (rule wp_bindI, rule wp_service [OF snapshot_later])
    apply (rule wp_bindI, rule wp_read_compv)
    apply (rule wp_read_piv)
    apply (rule wp_bindI, rule wp_read_ctl)
    apply (rule wp_bindI, rule wp_service [OF snapshot_later])
    apply (unfold machine.simps combine_split)
    subgoal premises prems for k1 m1 k2 k3 k4 k5 k6
    proof -
      have k: "later (kst s) k1" "later k1 m1" "later m1 k2" "later k2 k3" "later k3 k4" "later k4 k5" "later k5 k6"
        using prems by simp_all
      note m1 = later_trans [OF k(1,2)]
      note k2 = later_trans [OF m1 k(3)]
      note k4 = later_trans [OF k2 later_trans [OF k(4,5)]]
      note k5 = later_trans [OF k(3) later_trans [OF later_trans [OF k(4,5)] k(6)]]
      have "piv k2 = piv (kst s)" "ctl k4 = ctl (kst s)"
        using later_ctl_piv [OF k2] later_ctl_piv [OF k4] by simp_all
      then show ?thesis using wp_arts [OF m1 k5, of "s\<lparr>kst := k6\<rparr>" "- ENODEV"] k(7) by (simp cong: option.case_cong)
    qed
    done
qed (simp add: tgpio_qerr_snapshot_show_def wp_simps)

end

interpretation sim_readback: readback "sim_kernel (2 ^ 32)" b "\<lambda>w. e_ctl (w_engine w b)"
    "\<lambda>w. e_compv (w_engine w b)" "\<lambda>w. e_piv (w_engine w b)" "\<lambda>w. e_level (w_engine w b)" "w_later b"
  for b
proof (rule readback.intro [OF sim.toggle_engine_axioms], unfold_locales)
  fix k :: world
  have "e_piv (w_engine (pass k) b) = e_piv (w_engine k b)"
    using sim.later_ctl_piv [OF pass_later] by blast
  then show "w_later b k (exec_m (k_readl (sim_kernel (2 ^ 32)) b TGPIOPIV31_0) k) \<and>
      result_of (k_readl (sim_kernel (2 ^ 32)) b TGPIOPIV31_0) k = lower_32_bits (e_piv (w_engine k b))"
    "w_later b k (exec_m (k_readl (sim_kernel (2 ^ 32)) b TGPIOPIV63_32) k) \<and>
      result_of (k_readl (sim_kernel (2 ^ 32)) b TGPIOPIV63_32) k = upper_32_bits (e_piv (w_engine k b))"
    by (simp_all add: sim_kernel_def sim_readl_def Let_def pass_later engine_read_def)
qed

text \<open>
  C38. The record of \<open>qerr_snapshot\<close>: when it is printed, its nine numbers read back as a snapshot
  at the start, a second snapshot, and in between a value the compare register really held,
  with the interval and the control word of the block; the ART values are those of the
  snapshots or their own realtime values inverted.
\<close>

theorem qerr_record_brackets:
  assumes "readback K 0 ctl compv piv level later"
    and "result_of (tgpio_qerr_snapshot_show K) s = Inr line"
  shows "\<exists>k1 k2 a a'. later (kst s) k1 \<and> later k1 k2 \<and> later k2 (kst (exec_m (tgpio_qerr_snapshot_show K) s)) \<and>
    (let x = result_of (k_get_snapshot K) (kst s); y = result_of (k_get_snapshot K) k2 in
      art_of K later (kst s) x a \<and> art_of K later k2 y a' \<and>
      read_fields 9 line = ([uint a, sint (ss_real x), uint (ss_clock_was_set_seq x),
        uint a', sint (ss_real y), uint (ss_clock_was_set_seq y),
        uint (compv k1), uint (piv (kst s)), uint (ctl (kst s))], []))"
proof -
  have "readback.recorded K ctl compv piv later (kst s) (kst (exec_m (tgpio_qerr_snapshot_show K) s)) line"
    using readback.wp_qerr [OF assms(1) refl, of s] assms(2) by (simp add: wp_def split_beta)
  then obtain k1 k2 a a' where "later (kst s) k1" "later k1 k2" "later k2 (kst (exec_m (tgpio_qerr_snapshot_show K) s))"
    "art_of K later (kst s) (result_of (k_get_snapshot K) (kst s)) a" "art_of K later k2 (result_of (k_get_snapshot K) k2) a'"
    "line = qerr_line a (ss_real (result_of (k_get_snapshot K) (kst s))) (ss_clock_was_set_seq (result_of (k_get_snapshot K) (kst s)))
      a' (ss_real (result_of (k_get_snapshot K) k2)) (ss_clock_was_set_seq (result_of (k_get_snapshot K) k2))
      (compv k1) (piv (kst s)) (ctl (kst s))"
    unfolding readback.recorded_def [OF assms(1)] by blast
  then show ?thesis unfolding Let_def by (metis read_qerr_line)
qed

text \<open>In the simulated world the record is always printed.\<close>

lemma sim_snapshot_art: "tgpio_snapshot_art_cycles (sim_kernel r) (result_of (k_get_snapshot (sim_kernel r)) w) = Some (w_art w)"
  by (simp add: tgpio_snapshot_art_cycles_def sim_kernel_def sim_snapshot_def)

lemma sim_qerr: "blk_mode (blocks (drv s) 0) = TGPIO_MODE_OUTPUT \<Longrightarrow>
    \<exists>line. result_of (tgpio_qerr_snapshot_show (sim_kernel r)) s = Inr line"
proof -
  assume m: "blk_mode (blocks (drv s) 0) = TGPIO_MODE_OUTPUT"
  have snap: "wp (tgpio_get_realtime_snapshot (sim_kernel r)) Q u"
    if "\<And>sn. tgpio_snapshot_art_cycles (sim_kernel r) sn \<noteq> None \<Longrightarrow> Q sn u" for Q u
    using that [of "result_of (k_get_snapshot (sim_kernel r)) (kst u)"] sim_snapshot_art [of r "kst u"]
    by (simp add: tgpio_get_realtime_snapshot_def wp_def run_liftk sim_kernel_def sim_snapshot_def)
  have "wp (tgpio_qerr_snapshot_show (sim_kernel r)) (\<lambda>res _. \<exists>line. res = Inr line) s"
    unfolding tgpio_qerr_snapshot_show_def wp_bind wp_get_blk m
    apply (simp only: not_True_eq_False if_False simp_thms)
    by (rule wp_bindI, rule snap, rule wp_bindI, rule wp_any, rule wp_bindI, rule wp_any, rule wp_bindI, rule wp_any,
      rule wp_bindI, rule wp_any, rule wp_bindI, rule snap) (auto simp: snapshot_art_def wp_simps)
  then show ?thesis by (simp add: wp_def split_beta)
qed


lemma qerr_record_brackets_witness:
  "\<exists>line. result_of (tgpio_qerr_snapshot_show (sim_kernel (2 ^ 32))) (sim_sys running_block running_engine [3, 1, 4, 1, 5]) = Inr line \<and>
     fst (read_fields 9 line) ! 8 = 25 \<and> snd (read_fields 9 line) = []"
proof -
  let ?s = "sim_sys running_block running_engine [3, 1, 4, 1, 5]"
  obtain line where l: "result_of (tgpio_qerr_snapshot_show (sim_kernel (2 ^ 32))) ?s = Inr line"
    using sim_qerr [of ?s "2 ^ 32"] by (auto simp: running_block_def output_block_def)
  have "e_ctl (w_engine (kst ?s) 0) = 25" by (simp add: running_engine_def)
  then show ?thesis using qerr_record_brackets [OF sim_readback.readback_axioms [of 0] l] l
    by (auto simp: Let_def)
qed

text \<open>
  C39. Reading the status or the experiment record leaves the driver's memory alone and does no
  more to the hardware than let time pass.
\<close>

theorem status_files_only_observe:
  assumes "board K b ctl compv piv level later"
  shows "drv (exec_m (tgpio_status_show K) s) = drv s \<and> later (kst s) (kst (exec_m (tgpio_status_show K) s)) \<and>
    drv (exec_m (tgpio_qerr_snapshot_show K) s) = drv s \<and> later (kst s) (kst (exec_m (tgpio_qerr_snapshot_show K) s))"
proof -
  have "register_bus K b ctl compv piv level later"
    using assms by (simp add: board_def toggle_engine_def)
  then show ?thesis
    using board.advances_status [OF assms] board.advances_qerr [OF assms] keeps_status [of K]
    by (simp add: register_bus.advances_def keeps_def)
qed

lemma status_files_only_observe_witness:
  "drv (exec_m (tgpio_status_show (sim_kernel (2 ^ 32))) (sim_sys running_block running_engine [3, 1])) = sim_driver running_block \<and>
   e_ctl (w_engine (kst (exec_m (tgpio_qerr_snapshot_show (sim_kernel (2 ^ 32))) (sim_sys running_block running_engine [3, 1]))) 0) = 25"
proof -
  let ?s = "sim_sys running_block running_engine [3, 1]"
  have k: "e_ctl (w_engine (kst ?s) 0) = 25" "drv ?s = sim_driver running_block"
    by (simp_all add: running_engine_def sim_sys_def sim_world_def)
  note o = status_files_only_observe [OF sim_board.board_axioms [of 0], of ?s]
  have "drv (exec_m (tgpio_status_show (sim_kernel (2 ^ 32))) ?s) = drv ?s" using o by (rule conjunct1)
  moreover have "w_later 0 (kst ?s) (kst (exec_m (tgpio_qerr_snapshot_show (sim_kernel (2 ^ 32))) ?s))"
    using o by (elim conjE)
  from sim.later_ctl_piv [OF this]
  have "e_ctl (w_engine (kst (exec_m (tgpio_qerr_snapshot_show (sim_kernel (2 ^ 32))) ?s)) 0) = 25"
    using k(1) by (elim conjE) (erule trans)
  ultimately show ?thesis using k(2) by (metis)
qed

end
