(* ===== verification/Clock_Runs.thy ===== *)
theory Clock_Runs
  imports Output_Control
begin

text \<open>
  The clock over runs of the driver. On a machine whose ART counter does not run backwards
  (\<open>art_counter\<close>) everything the driver does while it is only tuned leaves the clock's
  parameters alone or re-anchors them at their own current reading, so the time read through the
  PTP clock never goes back.
\<close>

section \<open>The counter\<close>

text \<open>
  No kernel service and no register access lets the counter run backwards, and an ART value
  taken from a snapshot or converted from the current realtime is one of the moment.
\<close>

locale art_counter =
  fixes K :: "'k kernel" and art :: "'k \<Rightarrow> u64" and later :: "'k \<Rightarrow> 'k \<Rightarrow> bool"
  assumes later_refl: "later k k"
    and later_trans: "later k k1 \<Longrightarrow> later k1 k2 \<Longrightarrow> later k k2"
    and art_mono: "later k k' \<Longrightarrow> art k \<le> art k'"
    and read_later: "later k (exec_m (k_readl K b off) k)"
    and write_later: "later k (exec_m (k_writel K b off v) k)"
    and snapshot_later: "later k (exec_m (k_get_snapshot K) k)"
    and real_later: "later k (exec_m (k_get_real K) k)"
    and raw_later: "later k (exec_m (k_get_raw K) k)"
    and to_art_later: "later k (exec_m (k_real_to_art K t) k)"
    and base_later: "later k (exec_m (k_has_art_base K) k)"
    and crosststamp_later: "later k (exec_m (k_crosststamp K a history) k)"
    and sleep_later: "later k (exec_m (k_msleep K ms) k)"
    and adjtimex_later: "later k (exec_m (k_adjtimex K req) k)"
    and settime_later: "later k (exec_m (k_settimeofday K ts) k)"
    and snapshot_art: "tgpio_snapshot_art_cycles K (result_of (k_get_snapshot K) k) = Some a \<Longrightarrow>
      art k \<le> a \<and> a \<le> art (exec_m (k_get_snapshot K) k)"
    and real_art: "result_of (k_real_to_art K (result_of (k_get_real K) k)) (exec_m (k_get_real K) k) = Some a \<Longrightarrow>
      art k \<le> a \<and> a \<le> art (exec_m (k_real_to_art K (result_of (k_get_real K) k)) (exec_m (k_get_real K) k))"
begin

text \<open>The clock is left alone while time passes.\<close>

definition steady :: "'k sys \<Rightarrow> 'k sys \<Rightarrow> bool" where
  "steady s t \<longleftrightarrow> phc (dev (drv t)) = phc (dev (drv s)) \<and>
     clock_mode (par (drv t)) = clock_mode (par (drv s)) \<and> later (kst s) (kst t)"

lemma steady_order: "sys_order steady"
proof
  show "steady s s" for s by (simp add: steady_def later_refl)
  show "steady s t \<Longrightarrow> steady t u \<Longrightarrow> steady s u" for s t u
    by (auto simp: steady_def intro: later_trans)
qed

end

sublocale art_counter \<subseteq> steady: sys_order steady
  by (rule steady_order)

context art_counter
begin

lemma steady_liftk: "(\<And>k. later k (exec_m m k)) \<Longrightarrow> takes steady (liftk m)"
  by (simp add: takes_def steady_def run_liftk)

lemma steady_services:
  "takes steady (liftk (k_readl K b off))" "takes steady (liftk (k_writel K b off v))" "takes steady (liftk (k_get_snapshot K))"
  "takes steady (liftk (k_get_real K))" "takes steady (liftk (k_get_raw K))" "takes steady (liftk (k_real_to_art K t))"
  "takes steady (liftk (k_has_art_base K))" "takes steady (liftk (k_crosststamp K a h))" "takes steady (liftk (k_msleep K ms))"
  "takes steady (liftk (k_adjtimex K req))" "takes steady (liftk (k_settimeofday K ts))"
  by (rule steady_liftk, rule read_later write_later snapshot_later real_later raw_later to_art_later base_later
      crosststamp_later sleep_later adjtimex_later settime_later)+

lemma steady_dev: "(\<And>d. phc (f d) = phc d) \<Longrightarrow> takes steady (upd_dev f)"
  by (simp add: takes_def steady_def upd_dev_def later_refl)

lemma steady_par: "(\<And>p. clock_mode (f p) = clock_mode p) \<Longrightarrow> takes steady (upd_par f)"
  by (simp add: takes_def steady_def upd_par_def later_refl)

lemma steady_updates: "takes steady (upd_blk b f)" "takes steady (upd_cal g)" "takes steady (modify (hung_update h))"
  by (simp_all add: takes_def steady_def upd_blk_def upd_cal_def later_refl)

lemma steady_readers:
  "takes steady (gets g0)" "takes steady (param f1)" "takes steady (get_dev f2)" "takes steady (get_blk c f3)"
  "takes steady (get_cal f4)" "takes steady (tgpio_output_desired_get c)" "takes steady tgpio_clock_uses_model"
  "takes steady tgpio_phc_params_get"
  by (simp_all add: takes_def steady_def tgpio_output_desired_get_def tgpio_clock_uses_model_def tgpio_phc_params_get_def later_refl)

lemmas steady_rules = steady.constructs steady_services steady_dev steady_par steady_updates steady_readers

lemma steady_clock:
  "takes steady (ktime_get_real K)" "takes steady (ktime_get_raw_ns K)" "takes steady (ktime_real_to_art K t)"
  "takes steady (tgpio_get_realtime_snapshot K)" "takes steady (tgpio_get_current_art K)" "takes steady tgpio_output_phase_nudge_min_ns"
  "takes steady (tgpio_clock_phc_art_to_ns a)" "takes steady (tgpio_clock_delta_to_real_ns d)"
  "takes steady (tgpio_clock_phc_now_ns K)" "takes steady (tgpio_clock_now_ns K)" "takes steady (tgpio_realtime_anchor K)"
  "takes steady (tgpio_clock_ns_to_art K ns)" "takes steady (tgpio_clock_delta_to_art_cycles K d)"
  "takes steady (tgpio_clock_art_cycles_to_delta_ns K c)" "takes steady (tgpio_clock_art_to_ns K a)"
  "takes steady (tgpio_output_quantization_get K p h)" "takes steady (tgpio_clock_ns_to_compare_art K ns)"
  "takes steady (tgpio_prepare_output_timing K intv p m f)"
  by (auto simp: clock_defs tgpio_clock_ns_to_compare_art_def tgpio_prepare_output_timing_def Let_def intro!: steady_rules)

lemma steady_samples:
  "takes steady (tgpio_sample_art_raw K)" "takes steady (tgpio_sample_art_real K)" "takes steady tgpio_art_cal_realtime"
  "takes steady tgpio_log_activity_on" "takes steady tgpio_log_rounding_on"
proof -
  note r = steady_rules steady_clock
  have "takes steady (sample_art_raw_loop n K)" for n
    by (induction n) (auto simp: Let_def intro!: r)
  then show "takes steady (tgpio_sample_art_raw K)" by (simp add: tgpio_sample_art_raw_def)
  have "takes steady (sample_art_real_loop n K best w)" for n best w
    by (induction n arbitrary: best w) (auto simp: Let_def intro!: r)
  then show "takes steady (tgpio_sample_art_real K)" by (simp add: tgpio_sample_art_real_def)
qed (auto simp: tgpio_art_cal_realtime_def tgpio_log_activity_on_def tgpio_log_rounding_on_def intro!: steady_rules)

lemma steady_mmio:
  "takes steady (tgpio_readl K b off)" "takes steady (tgpio_writel K b off v)" "takes steady (tgpio_read_ctl K b)"
  "takes steady (tgpio_write_ctl K b v)" "takes steady (tgpio_write_compv K b w)" "takes steady (tgpio_write_piv K b w)"
  "takes steady (tgpio_read_compv K b)" "takes steady (tgpio_read_capture K b)" "takes steady (tgpio_hw_flop_fold K b)"
proof -
  show r: "takes steady (tgpio_readl K b off)" "takes steady (tgpio_writel K b off v)" for off v
    by (simp_all add: tgpio_readl_def tgpio_writel_def steady_services)
  have "takes steady (tgpio_read_compv_loop n K b hi)" for n hi
    by (induction n arbitrary: hi) (auto intro!: steady_rules r)
  then show c: "takes steady (tgpio_read_compv K b)"
    by (auto simp: tgpio_read_compv_def intro!: steady_rules r)
  show "takes steady (tgpio_read_ctl K b)" "takes steady (tgpio_write_ctl K b v)" "takes steady (tgpio_write_compv K b w)"
    "takes steady (tgpio_write_piv K b w)" "takes steady (tgpio_read_capture K b)" "takes steady (tgpio_hw_flop_fold K b)"
    by (auto simp: tgpio_read_ctl_def tgpio_write_ctl_def tgpio_write_compv_def tgpio_write_piv_def tgpio_read_capture_def
        tgpio_hw_flop_fold_def intro!: steady_rules r c)
qed

lemma steady_publishers:
  "takes steady (schedule_work c)" "takes steady (tgpio_disable_output c)" "takes steady (tgpio_output_publish c r m p h l f)"
  "takes steady (tgpio_output_timer c)" "takes steady tgpio_resync_outputs_after_phc_step"
  "takes steady tgpio_update_outputs_after_phc_freq"
  by (auto simp: publish_defs intro!: steady_rules)

lemmas steady_all = steady_rules steady_clock steady_samples steady_mmio steady_publishers

lemma steady_config:
  "takes steady (tgpio_config_output_values K c p d v f on)" "takes steady (tgpio_config_input c flags on)"
  "takes steady (tgpio_ptp_enable K req on)"
  by (auto simp: tgpio_config_output_values_def trace_defs tgpio_config_input_def tgpio_ptp_enable_def tgpio_config_output_def Let_def
      intro!: steady_all split: ptp_clock_request.split)

lemma steady_debugfs:
  "takes steady (tgpio_output_invert_write c parsed count)" "takes steady (tgpio_tdc_reset_write parsed count)"
  "takes steady (tgpio_oneshot_write K c pulse count)" "takes steady (tgpio_oneshot_stop_work_fn c)"
  "takes steady (tgpio_watchdog_work_fn K)" "takes steady (upd_par (tgpio_param_write q))"
  by (auto simp: tgpio_output_invert_write_def tgpio_tdc_reset_write_def tgpio_oneshot_write_def
      tgpio_oneshot_stop_work_fn_def tgpio_watchdog_work_fn_def tgpio_watchdog_block_def tgpio_param_write_def Let_def
      intro!: steady_all)

lemma steady_poll: "takes steady (tgpio_poll_work K)"
proof -
  have "takes steady (tgpio_auto_polarity_check c ns)" "takes steady (tgpio_emit_event K c i a)"
     "takes steady (tgpio_take_crosststamp K)" "takes steady (tgpio_apply_input K c d)" "takes steady (tgpio_pps_emit K c a)"
     "takes steady (tgpio_input_stats_update K c a)" "takes steady (tgpio_tdc_capture K c a ev)"
     "takes steady tgpio_poll_interval_ms" for c ns i a d ev
    by (auto simp: tgpio_auto_polarity_check_def tgpio_emit_event_def tgpio_poll_time_def count_fallback_def trace_defs
        tgpio_art_to_realtime_ns_def tgpio_take_crosststamp_def tgpio_apply_input_def tgpio_pps_emit_def
        tgpio_input_stats_update_def interval_add_def tgpio_tdc_capture_def tdc_add_def tgpio_poll_interval_ms_def Let_def
        intro!: steady_all split: polarity_verdict.split)
  note these = this
  show ?thesis
    by (auto simp: tgpio_poll_work_def tgpio_poll_block_def tgpio_poll_capture_def intro!: steady_all these)
qed

lemma steady_work: "takes steady (run_output_work K b)"
proof -
  have phase: "takes steady (tgpio_hw_periodic_phase_get K b g h)" for g h
    by (auto simp: tgpio_hw_periodic_phase_get_def tgpio_hw_phase_refine_def intro!: steady_all)
  have logs: "takes steady (tgpio_log_output_quantization K b f h)" "takes steady (tgpio_log_rounding_interval K v)" 
    "takes steady (tgpio_log_output_arm K b d)" for f h v d
    by (auto simp: tgpio_log_output_quantization_def tgpio_log_rounding_interval_def tgpio_log_output_arm_def
        intro!: steady_all phase)
  have loops: "takes steady (drain_loop n K b)" "takes steady (invert_wait_loop n K b)" for n
    by (induction n) (auto intro!: steady_all phase)
  show ?thesis
    by (auto simp: run_output_work_def tgpio_output_work_def tgpio_hw_periodic_apply_freq_def tgpio_hw_periodic_invert_def
        tgpio_hw_periodic_drain_low_def tgpio_output_work_same_gen_def tgpio_hw_duty_service_def tgpio_output_software_edge_def
        tgpio_reconcile_arm_def tgpio_arm_output_def tgpio_arm_hardware_periodic_def arm_hw_program_def output_hw_start_def
        tgpio_hw_periodic_write_compv_paused_def tgpio_disable_output_hw_def output_quiesce_def hrtimer_cancel_def
        tgpio_output_wake_at_def tgpio_program_output_edge_def
        intro!: steady_all phase logs loops)
qed

section \<open>The clock and its readers\<close>

lemma wp_art_reading:
  assumes "\<And>r t. drv t = drv s \<Longrightarrow> later (kst s) (kst t) \<Longrightarrow>
      (\<And>a. r = Inr a \<Longrightarrow> art (kst s) \<le> a \<and> a \<le> art (kst t)) \<Longrightarrow> Q r t"
  shows "wp (tgpio_get_current_art K) Q s"
proof -
  let ?k = "kst s"
  let ?k1 = "exec_m (k_get_snapshot K) ?k"
  let ?k2 = "exec_m (k_get_real K) ?k1"
  let ?k3 = "exec_m (k_real_to_art K (result_of (k_get_real K) ?k1)) ?k2"
  have l: "later ?k ?k1" "later ?k ?k3" "art ?k \<le> art ?k1"
    using snapshot_later [of ?k] later_trans [OF later_trans [OF snapshot_later real_later] to_art_later]
      art_mono [OF snapshot_later] by simp_all
  have e: "run_state (tgpio_get_current_art K) s =
      (case tgpio_snapshot_art_cycles K (result_of (k_get_snapshot K) ?k) of
         Some a \<Rightarrow> (Inr a, s\<lparr>kst := ?k1\<rparr>)
       | None \<Rightarrow> (case result_of (k_real_to_art K (result_of (k_get_real K) ?k1)) ?k2 of
           None \<Rightarrow> Inl TGPIO_E_NODEV | Some a \<Rightarrow> Inr a, s\<lparr>kst := ?k3\<rparr>))"
    by (simp add: clock_defs run_liftk split: option.split)
  show ?thesis
  proof (cases "tgpio_snapshot_art_cycles K (result_of (k_get_snapshot K) ?k)")
    case None
    show ?thesis unfolding wp_def e None option.case prod.case
      by (rule assms) (use l real_art [of ?k1] in \<open>auto split: option.splits intro: order_trans\<close>)
  next
    case (Some a)
    show ?thesis unfolding wp_def e Some option.case prod.case
      by (rule assms) (use l snapshot_art [of ?k] Some in auto)
  qed
qed

abbreviation reads :: "'k sys \<Rightarrow> u64 \<Rightarrow> s64 \<Rightarrow> bool" where
  "reads s a n \<equiv> tgpio_phc_art_to_ns (phc (dev (drv s))) a = Inr n"

lemma wp_gettime:
  assumes "clock_mode (par (drv s)) = TGPIO_CLOCK_PHC"
  shows "wp (tgpio_ptp_gettime64 K) (\<lambda>r t. drv t = drv s \<and> later (kst s) (kst t) \<and>
    (\<forall>ts. r = Inr ts \<longrightarrow> (\<exists>a n. art (kst s) \<le> a \<and> a \<le> art (kst t) \<and> reads s a n \<and> 0 \<le> sint n \<and>
       ts = ns_to_timespec64 n))) s"
  using assms
  apply (simp add: tgpio_ptp_gettime64_def tgpio_clock_uses_model_def tgpio_clock_phc_now_ns_def wp_simps)
  apply (rule wp_art_reading)
  apply (auto simp: wp_simps tgpio_clock_phc_art_to_ns_def tgpio_phc_params_get_def word_sless_alt split: sum.splits)
  done

lemma wp_adjfine_time:
  assumes "clock_mode (par (drv s)) = TGPIO_CLOCK_PHC"
  shows "wp (tgpio_ptp_adjfine K ppm) (\<lambda>r t. clock_mode (par (drv t)) = TGPIO_CLOCK_PHC \<and> later (kst s) (kst t) \<and>
    (phc (dev (drv t)) = phc (dev (drv s)) \<or>
     (\<exists>a n. art (kst s) \<le> a \<and> a \<le> art (kst t) \<and> reads s a n \<and>
        phc (dev (drv t)) = tgpio_phc_params_make a n (base_art_hz (phc (dev (drv s)))) ppm \<and>
        \<bar>sint (tgpio_scaled_ppm_to_ppb ppm)\<bar> \<le> 100000000))) s"
  using assms
  apply (simp add: tgpio_ptp_adjfine_def wp_simps Let_def word_sless_alt later_refl)
  apply (intro impI conjI)
  apply (rule wp_art_reading)
  apply (auto simp: wp_simps split: sum.splits option.splits)
  done

end

text \<open>The time a \<open>timespec64\<close> of a nonnegative count stands for.\<close>

lemma timespec_ns:
  assumes "0 \<le> sint (n :: s64)"
  shows "sint (tv_sec (ns_to_timespec64 n)) * 1000000000 + sint (tv_nsec (ns_to_timespec64 n)) = sint n"
proof -
  let ?q = "sint n div 1000000000" and ?r = "sint n mod 1000000000"
  have "?q \<le> 9223372036" "0 \<le> ?q" "0 \<le> ?r" "?r < 1000000000"
    using assms sint_lt64 [of n] by simp_all
  then have "sint (word_of_int ?q :: s64) = ?q" "sint (word_of_int ?r :: s64) = ?r" "\<not> ?r < 0"
    by (simp_all add: sint_of_int64)
  moreover have "?q * 1000000000 + ?r = sint n" by simp
  ultimately show ?thesis using assms
    by (simp add: ns_to_timespec64_def s64_div_rem_nonneg word_sless_alt Let_def)
qed

text \<open>
  A step of the loaded driver in which the clock is tuned and read, but not set or shifted; the
  refinement work is scheduled in the other clock modes only.
\<close>

inductive clock_step :: "'k kernel \<Rightarrow> ('k \<Rightarrow> 'k \<Rightarrow> bool) \<Rightarrow> 'k sys \<Rightarrow> 'k sys \<Rightarrow> bool" for K later where
  adjfine: "clock_step K later s (exec_m (tgpio_ptp_adjfine K ppm) s)"
| gettime: "clock_step K later s (exec_m (tgpio_ptp_gettime64 K) s)"
| enable: "clock_step K later s (exec_m (tgpio_ptp_enable K req on) s)"
| invert: "clock_step K later s (exec_m (tgpio_output_invert_write b parsed count) s)"
| oneshot: "clock_step K later s (exec_m (tgpio_oneshot_write K b pulse count) s)"
| oneshot_stop: "clock_step K later s (exec_m (tgpio_oneshot_stop_work_fn b) s)"
| tdc_reset: "clock_step K later s (exec_m (tgpio_tdc_reset_write parsed count) s)"
| param_write: "clock_step K later s (exec_m (upd_par (tgpio_param_write q)) s)"
| poll: "clock_step K later s (exec_m (tgpio_poll_work K) s)"
| watchdog: "clock_step K later s (exec_m (tgpio_watchdog_work_fn K) s)"
| timer: "clock_step K later s (exec_m (tgpio_output_timer b) s)"
| work: "clock_step K later s (exec_m (run_output_work K b) s)"
| time: "later (kst s) k \<Longrightarrow> clock_step K later s (s\<lparr>kst := k\<rparr>)"

context art_counter
begin

text \<open>From here on the clock never reads less than \<open>n\<close>.\<close>

definition at_least :: "s64 \<Rightarrow> 'k sys \<Rightarrow> bool" where
  "at_least n s \<longleftrightarrow> clock_mode (par (drv s)) = TGPIO_CLOCK_PHC \<and> valid_phc (phc (dev (drv s))) \<and>
    (\<forall>a m. art (kst s) \<le> a \<longrightarrow> reads s a m \<longrightarrow> sint n \<le> sint m)"

lemma at_least_steady: "steady s t \<Longrightarrow> at_least n s \<Longrightarrow> at_least n t"
  by (auto simp: at_least_def steady_def dest: art_mono intro: order_trans)

lemma at_least_adjfine:
  assumes "at_least n s"
  shows "at_least n (exec_m (tgpio_ptp_adjfine K ppm) s)"
proof -
  let ?p = "phc (dev (drv s))"
  have s: "clock_mode (par (drv s)) = TGPIO_CLOCK_PHC" "valid_phc ?p"
    "\<And>a m. art (kst s) \<le> a \<Longrightarrow> reads s a m \<Longrightarrow> sint n \<le> sint m"
    using assms by (auto simp: at_least_def)
  have "wp (tgpio_ptp_adjfine K ppm) (\<lambda>_ t. at_least n t) s"
  proof (rule wp_mono [OF wp_adjfine_time [OF s(1)]])
    fix r and t :: "'k sys"
    assume t: "clock_mode (par (drv t)) = TGPIO_CLOCK_PHC \<and> later (kst s) (kst t) \<and>
      (phc (dev (drv t)) = ?p \<or> (\<exists>a m. art (kst s) \<le> a \<and> a \<le> art (kst t) \<and> reads s a m \<and>
         phc (dev (drv t)) = tgpio_phc_params_make a m (base_art_hz ?p) ppm \<and>
         \<bar>sint (tgpio_scaled_ppm_to_ppb ppm)\<bar> \<le> 100000000))"
    show "at_least n t"
    proof (cases "phc (dev (drv t)) = ?p")
      case True
      then have "steady s t" using t s(1) by (simp add: steady_def)
      then show ?thesis using assms by (rule at_least_steady)
    next
      case False
      then obtain a m where a: "art (kst s) \<le> a" "a \<le> art (kst t)" "reads s a m"
        and p: "phc (dev (drv t)) = tgpio_phc_params_make a m (base_art_hz ?p) ppm"
        and ppb: "\<bar>sint (tgpio_scaled_ppm_to_ppb ppm)\<bar> \<le> 100000000" using t by blast
      have v: "valid_phc (phc (dev (drv t)))"
        using s(2) ppb by (simp add: p valid_phc_def phc_hz_def phc_ppb_def tgpio_phc_params_make_def)
      have "base_art_hz (phc (dev (drv t))) \<noteq> 0" using v by (auto simp: valid_phc_def phc_hz_def)
      from art_to_ns_anchor [OF this] have "reads t a m"
        by (simp add: p tgpio_phc_params_make_def)
      then have "sint n \<le> sint m'" if "art (kst t) \<le> a'" "reads t a' m'" for a' m'
        using phc_time_monotone [OF v _ that(2), of a m] s(3) [OF a(1,3)] that(1) a(2) by (meson order_trans)
      then show ?thesis using t v by (simp add: at_least_def)
    qed
  qed
  then show ?thesis by (rule wp_exec)
qed

lemma at_least_step: "clock_step K later s t \<Longrightarrow> at_least n s \<Longrightarrow> at_least n t"
proof (induction rule: clock_step.induct)
  case (gettime s)
  then have "wp (tgpio_ptp_gettime64 K) (\<lambda>_ t. steady s t) s"
    by (intro wp_mono [OF wp_gettime]) (auto simp: at_least_def steady_def)
  from at_least_steady [OF wp_exec [OF this] gettime] show ?case .
next
  case (time s k)
  have "steady s (s\<lparr>kst := k\<rparr>)" using time(1) by (simp add: steady_def)
  then show ?case using time(2) by (rule at_least_steady)
next
  case (adjfine s ppm)
  then show ?case by (rule at_least_adjfine)
qed (rule at_least_steady [OF takesD],
   rule steady_work steady_poll steady_debugfs steady_config steady_publishers, assumption)+

lemma at_least_run: "(clock_step K later)\<^sup>*\<^sup>* s t \<Longrightarrow> at_least n s \<Longrightarrow> at_least n t"
  by (induction rule: rtranclp_induct) (auto intro: at_least_step)

lemma at_least_reading:
  assumes "valid_phc (phc (dev (drv s)))" "clock_mode (par (drv s)) = TGPIO_CLOCK_PHC"
    and "reads s a n" "a \<le> art (kst s)"
  shows "at_least n s"
  using assms phc_time_monotone [OF assms(1,3)] by (auto simp: at_least_def intro: order_trans)

lemma gettime_order:
  assumes "clock_mode (par (drv s)) = TGPIO_CLOCK_PHC" "valid_phc (phc (dev (drv s)))"
    and "run_state (tgpio_ptp_gettime64 K) s = (Inr ts, s')" "(clock_step K later)\<^sup>*\<^sup>* s' t"
    and "result_of (tgpio_ptp_gettime64 K) t = Inr ts'"
  shows "\<exists>n n'. 0 \<le> sint n \<and> sint n \<le> sint n' \<and> ts = ns_to_timespec64 n \<and> ts' = ns_to_timespec64 n'"
proof -
  from wp_run [OF wp_gettime [OF assms(1)] assms(3)] obtain a n where
    s': "drv s' = drv s" and n: "a \<le> art (kst s')" "reads s a n" "0 \<le> sint n" "ts = ns_to_timespec64 n" by auto
  have "at_least n s'" by (rule at_least_reading [of _ a]) (use assms(1,2) s' n in simp_all)
  from at_least_run [OF assms(4) this] have t: "at_least n t" .
  then have "clock_mode (par (drv t)) = TGPIO_CLOCK_PHC" by (simp add: at_least_def)
  from wp_gettime [OF this] assms(5) obtain a' n' where
    "art (kst t) \<le> a'" "reads t a' n'" "0 \<le> sint n'" "ts' = ns_to_timespec64 n'"
    by (auto simp: wp_def split_beta)
  then show ?thesis using t n by (auto simp: at_least_def)
qed

end


section \<open>The simulated counter\<close>

abbreviation art_later :: "world \<Rightarrow> world \<Rightarrow> bool" where
  "art_later w w' \<equiv> w_art w \<le> w_art w'"

lemma pass_art: "w_art (pass w) = w_art w" "w_real (pass w) = w_real w"
  by (simp_all add: pass_def split: list.split)

interpretation sim_counter: art_counter "sim_kernel r" w_art art_later for r
  by unfold_locales (auto simp: sim_kernel_def sim_readl_def sim_writel_def sim_snapshot_def Let_def pass_art
      tgpio_snapshot_art_cycles_def)

text \<open>The clock is read, slowed down by ten percent, and read again a microsecond of ART later.\<close>

definition sim_slowed :: "world sys" where
  "sim_slowed = (let K = sim_kernel 3;
       t = exec_m (tgpio_ptp_adjfine K (- 6553600000)) (exec_m (tgpio_ptp_gettime64 K) (sim_mode TGPIO_CLOCK_PHC))
     in t\<lparr>kst := (kst t)\<lparr>w_art := 1000001000\<rparr>\<rparr>)"


end
