(* ===== verification/Spec2Isabelle.thy ===== *)
theory Spec2Isabelle
  imports Duty_Props Tdc_Props Config_Props Input_Props Init_Props Win_Tool_Props Status_Props Clock_Runs
begin

text \<open>
  Verification of the TGPIO drivers.

  \<^bold>\<open>The program.\<close> Two Time-Aware GPIO blocks of an Intel SoC generate and capture edges
  against ART, the always running timer. A block that generates toggles its pin whenever ART
  reaches the compare register COMPV and advances COMPV by the interval register PIV. Its level
  flop can be neither read nor written, so the driver keeps a mirror of it. The repository has a
  Linux module (\<open>src/src/tgpio-ptp-input.c\<close>), which exposes the blocks as pins of a PTP clock,
  and a Windows driver with a command-line tool (\<open>src/windows\<close>).

  \<^bold>\<open>The Linux driver.\<close> Requests come through the PTP clock (enable a pin; get, set, shift and
  tune the time), through debugfs and module parameters. A request for an output only publishes a
  configuration with a new generation and schedules \<open>output_work\<close> of the block; the work is the
  only writer of the output hardware and reconciles it with the latest configuration. A
  change of the clock bumps the generation (a step) or the frequency generation (tuning) of
  every running output. Inputs are polled by a delayed work that reports captures as PTP events.
  Delayed works refine the rate of the clock and watch for stalled outputs.

  \<^bold>\<open>How it is modelled.\<close> A function of the driver is a value of \<open>('k sys, 'a) state\<close>: it runs on
  the driver's memory \<open>drv\<close> and the world \<open>kst\<close> of an arbitrary type \<open>'k\<close>. Kernel and hardware are
  the record \<open>'k kernel\<close> of operations on the world, a parameter of every function that uses them;
  what is assumed of them is stated by locales. Machine integers are words of their width, errors
  are the values of a sum, a function that returns an errno returns an \<open>int\<close>. Sections under a
  lock are single steps, a delayed work is the option of its delay. Properties about results are
  proved with the weakest precondition \<open>wp\<close>, properties about what an operation may change with
  preorders (\<open>takes R\<close>) that are closed under the constructs of the monad.

  \<^bold>\<open>Theories, and the code they model.\<close> Names of definitions are those of the C functions.
  \<^item> \<open>Tgpio_Prelude\<close>: words, exactness of their operations, the monad, \<open>wp\<close>, frames (\<open>keeps\<close>).
  \<^item> \<open>Tgpio_Types\<close>, \<open>Clock_Math\<close>: the value layer, i.e. enums, parsers, edge and control-word helpers,
    duty times; rescaling between ART cycles and nanoseconds, the PHC model, request times.
    \<open>Clock_Spec\<close> gives each a reference function on integers and proves the 64-bit code equal to it;
    \<open>Clock_Props\<close> derives error bounds, monotonicity and round trips.
  \<^item> \<open>Driver_State\<close>, \<open>Driver_Monad\<close>: the structs, module parameters and file-scope variables; register
    access, the live read of COMPV, the fold of the level mirror.
  \<^item> \<open>Output_Desired\<close>, \<open>Kernel_Clock\<close>, \<open>Clock_Refine\<close>: publication of output configurations; reading ART and
    converting in each clock mode; clock initialisation, paired samples, the refinement work.
  \<^item> \<open>Output_Hw\<close>, \<open>Output_Work\<close>, \<open>Output_Config\<close>: programming, stopping and arming a block, the phase
    readback; the work with its frequency refresh, inversion, duty service and drain; requests,
    persistent operations, one-shot pulses, the polarity flip, the watchdog.
  \<^item> \<open>Input_Path\<close>: polling, events, statistics, automatic polarity, the time-to-digital conversion, PPS.
  \<^item> \<open>Ptp_Ops\<close>: the PTP clock operations. \<open>Setup\<close>, \<open>Module_Init\<close>: mapping, validation, registration,
    load with its error path, unload. \<open>Status\<close>: creating, removing and reading the debugfs and sysfs
    files, and the lines of the trace events (\<open>tgpio-trace.h\<close>), which \<open>Driver_State\<close> and
    \<open>Driver_Monad\<close> declare and raise.
  \<^item> \<open>Win_State\<close>, \<open>Win_Hw\<close>, \<open>Win_Ioctl\<close>: \<open>driver/tgpio.h\<close> and \<open>include/tgpio_ioctl.h\<close>; \<open>driver/hw.c\<close> and
    \<open>driver/art.c\<close>; \<open>driver/ioctl.c\<close> and \<open>driver/driver.c\<close>. \<open>Win_Tool\<close>: \<open>tools/tgpioctl/tgpioctl.c\<close>.
    \<open>Decimal\<close>: numbers as the C library prints and reads them.

  \<^bold>\<open>Interfaces.\<close> Each is interpreted on the simulated world of \<open>Sim_Hw\<close> (\<open>Win_Sim\<close>), in which edges
  fire between any two accesses following an arbitrary schedule, or on relations over the model.
  \<^item> \<open>mmio_bus\<close>, \<open>mmio_engine\<close> (\<open>Engine_Bus\<close>): register accesses of one block while time passes and edges
    fire; \<open>register_bus\<close>, \<open>toggle_engine\<close> add the Linux kernel's services, \<open>win_engine\<close> the Windows
    accesses. Untorn 64-bit reads, stopping, arming and the level mirror are proved in them for both
    drivers (interpretations \<open>sim\<close>, \<open>winsim\<close>).
  \<^item> \<open>calm_engine\<close>, \<open>board\<close>, \<open>calm_board\<close>: no edge is due for a moment; other services and the other block
    only let time pass; both, with a relation \<open>passes\<close> by which edges fire between the steps of a
    run, each after a moment or several (\<open>sim_board\<close>). \<open>readback\<close>: PIV can be read back (\<open>sim_readback\<close>).
    \<open>art_counter\<close>: ART does not run backwards (\<open>sim_counter\<close>).
  \<^item> \<open>sys_order\<close>, \<open>memory_order\<close>: a preorder an operation follows when its steps do. Instances:
    \<open>resched\<close> (outputs are left alone or their work is scheduled), \<open>served\<close> (what the work may do),
    \<open>symm\<close> and \<open>kept\<close> (symmetric waveforms, applied flips), \<open>spare\<close> (outputs are left alone), \<open>steady\<close>
    (the clock is left alone), \<open>recorded\<close> and \<open>quiet\<close> (statistics, events), \<open>unqueued\<close>
    (pending works), \<open>still\<close> (a moment without edges lasts).
  \<^item> \<open>load_order\<close>: a preorder the steps of a load follow once the blocks are mapped; instances
    \<open>watchdog\<close> (it stays scheduled) and \<open>shape\<close> (pins, channels and mapped registers stay).

  \<^bold>\<open>What is shown.\<close>
  \<^item> Level mirror (\<open>Toggle_Engine\<close>, \<open>Level_Mirror\<close>, \<open>Output_Mirror\<close>, \<open>Output_Runs\<close>, \<open>Mirror_Props\<close>): every
    operation keeps it exact under any timing of the edges, except the rewriting of a free-running
    block, which needs a moment without edges; the work is the only writer of an output; a race
    in that window loses an edge.
  \<^item> Duty cycles (\<open>Duty_Service\<close>, \<open>Duty_Props\<close>): a block whose high and low times differ gets the interval
    of the half to come from a service between two edges; served before each edge it keeps the
    waveform exactly, and an interval the service cannot write is kept for good.
  \<^item> Requests (\<open>Output_Flow\<close>, \<open>Output_Control\<close>, \<open>Config_Props\<close>, \<open>Output_Props\<close>): the loaded driver as a
    step relation refines an abstract request protocol, no request is lost, a new configuration
    is taken up or refused in one run of the work, requests are all or nothing, first edges lie
    on the grid of the request, no retry loop runs out of its bound.
  \<^item> Clock (\<open>Clock_Props\<close>, \<open>Ptp_Props\<close>, \<open>Clock_Runs\<close>): conversions are exact up to one unit and invert,
    set and get agree, tuning and refinement are continuous, and the time read never goes back
    in any run in which the clock is only tuned.
  \<^item> Inputs (\<open>Input_Props\<close>): a capture is reported once, the statistics are consistent in every run, a
    flip needs three agreeing captures. The time-to-digital converter agrees with a reference that
    pairs up the captures (\<open>Tdc_Props\<close>).
  \<^item> Load, unload and files (\<open>Init_Props\<close>, \<open>Status_Props\<close>): look-ups after a load are safe, an unload
    leaves nothing behind, reading the files changes nothing, and a \<open>qerr_snapshot\<close> record reads
    back as values bracketed by its two snapshots.
  \<^item> Windows (\<open>Win_Engine\<close>, \<open>Win_Props\<close>, \<open>Win_Tool_Props\<close>): the level mirror over runs of requests, a start
    programs what the Linux driver would, failing requests touch nothing, the tool starts the
    waveform asked for.

  Some properties state what the code does where that is not what it means to do: the error
  path of the load leaves the watchdog pending; a refused request cancels the stop of a pulse; a
  pulse 50 to 60 ms ahead never appears; halves that differ in their upper 32 bits never alternate;
  the raw refinement freezes; a refresh of a software-timed output skips an edge; a request time
  wraps in the last second; a refused Windows start marks a running block off. The lemma
  \<open>realtime_persistent_output_fails\<close> adds that a persistent output in realtime mode fails the load.

  \<^bold>\<open>Bounds.\<close> The loop that reads COMPV has no bound in the code; the model counts \<open>k_retries\<close> rounds and
  sets \<open>hung\<close> when they are used up. Each further round means that the high half has grown, so
  \<open>2 ^ 32\<close> rounds are enough and \<open>hung\<close> is never set. The other loops are bounded in the code: 8
  raw samples and 16 realtime samples at most, 30 waits of 100 ms to drain a block low, 50 waits
  of 20 ms before an inversion, rings of 8 samples.

  \<^bold>\<open>Not modelled.\<close> Log lines: they only print; the clock reads they make are kept where they take
  time. The registration of trace events with the tracing core (a trace is what an observer of all
  events sees) and that of PPS devices beyond success or failure. Spin locks, sequence locks and IRQL: the sections they protect are
  single steps, so races between sections are covered and races inside one are not. User-space
  copies and \<open>sscanf\<close> enter as parsed values. \<open>DriverEntry\<close>, the printing of the Windows tool, the
  host tests, the terminal user interface, scripts and the paper.

  \<^bold>\<open>Open.\<close> The level mirror over runs of the Linux driver is stated for symmetric hardware
  waveforms; asymmetric ones are covered by \<open>Duty_Props\<close>, for a block served at quiet moments that are
  at most one edge apart. Runs that change an output between hardware and software timing are
  covered by the request protocol only.
\<close>

end
